(* ===== verification/Fabric_Prelude.thy ===== *)
theory Fabric_Prelude
  imports Main "HOL-Library.Word" "HOL-Library.Monad_Syntax"
begin

section \<open>Prelude: shared vocabulary, simp collections and generic lemmas\<close>

text \<open>
  What every theory of the development uses: the C scalar types of an LP64 target as words,
  the named collections the component proofs pass to the simplifier, rounding up to an
  alignment (the one arithmetic operation of C's struct layout), and a few facts on words,
  association lists and optional values.
\<close>

unbundle bit_operations_syntax

subsection \<open>C scalar types\<close>

text \<open>LP64 (Linux on x86-64, the platform the repository builds for): pointers, \<open>size_t\<close> and
  \<open>uint64_t\<close> have 64 bits, \<open>int\<close> and enumeration types 32.\<close>

type_synonym u8 = "8 word"
type_synonym u16 = "16 word"
type_synonym u32 = "32 word"
type_synonym u64 = "64 word"
type_synonym ptr = "64 word"

abbreviation NULL :: ptr where "NULL \<equiv> 0"

subsection \<open>Collections\<close>

named_theorems layout_simps \<open>definitions that the evaluation of a struct layout unfolds\<close>
named_theorems structs \<open>the struct descriptors of the headers\<close>
named_theorems wrappers \<open>the definitions of the inline API wrappers\<close>
named_theorems flag_defs \<open>the constants of the headers\<close>
named_theorems machine_simps \<open>facts that run machine operations\<close>

subsection \<open>Rounding up\<close>

definition roundup :: "nat \<Rightarrow> nat \<Rightarrow> nat" where
  "roundup n a = (n + a - 1) div a * a"

lemma roundup_ge: "0 < a \<Longrightarrow> n \<le> roundup n a"
proof -
  assume a: "0 < a"
  have "n + a - 1 = (n + a - 1) div a * a + (n + a - 1) mod a" by simp
  moreover have "(n + a - 1) mod a < a" using a by simp
  ultimately show "n \<le> roundup n a" unfolding roundup_def using a by linarith
qed

lemma roundup_less: "0 < a \<Longrightarrow> roundup n a < n + a"
proof -
  assume a: "0 < a"
  have "(n + a - 1) div a * a \<le> n + a - 1" by simp
  with a show "roundup n a < n + a" unfolding roundup_def by linarith
qed

lemma dvd_roundup: "a dvd roundup n a"
  by (simp add: roundup_def)

lemma roundup_id: "0 < a \<Longrightarrow> a dvd n \<Longrightarrow> roundup n a = n"
proof -
  assume a: "0 < a" and d: "a dvd n"
  from d obtain k where k: "n = a * k" by blast
  have "(a * k + a - 1) div a = ((a - 1) + a * k) div a"
    using a by (simp add: add.commute)
  also have "\<dots> = k + (a - 1) div a" using a by (subst div_mult_self2) simp_all
  also have "\<dots> = k" using a by simp
  finally have "(a * k + a - 1) div a = k" .
  then show "roundup n a = n" by (simp add: roundup_def k mult.commute)
qed

lemma roundup_least: "0 < a \<Longrightarrow> a dvd m \<Longrightarrow> n \<le> m \<Longrightarrow> roundup n a \<le> m"
proof -
  assume a: "0 < a" and d: "a dvd m" and le: "n \<le> m"
  have "(n + a - 1) div a \<le> (m + a - 1) div a" by (rule div_le_mono) (use le in simp)
  then have "roundup n a \<le> roundup m a" by (simp add: roundup_def)
  also have "roundup m a = m" by (rule roundup_id [OF a d])
  finally show "roundup n a \<le> m" .
qed

subsection \<open>Words, association lists, options\<close>

lemma word_of_nat_eq_iff64:
  "m < 2 ^ 64 \<Longrightarrow> n < 2 ^ 64 \<Longrightarrow> ((of_nat m :: u64) = of_nat n) = (m = n)"
  by (simp add: word_of_nat_eq_iff take_bit_nat_eq_self)

lemma ptr_add_eq_iff:
  "m < 2 ^ 64 \<Longrightarrow> n < 2 ^ 64 \<Longrightarrow> (p + (of_nat m :: u64) = p + of_nat n) = (m = n)"
  by (simp add: word_of_nat_eq_iff64)

lemma word_bit_less: "x < 2 ^ n \<Longrightarrow> bit x k \<Longrightarrow> k < n" for x :: "'a::len word"
  by (metis bit_and_iff bit_mask_iff less_mask_eq)

lemma ptr_sub_add: "(p + of_nat n :: ptr) - of_nat n = p"
  by simp

lemma map_of_Some_set: "map_of xs k = Some v \<Longrightarrow> (k, v) \<in> set xs"
  by (rule map_of_SomeD)

lemma bind_Some_iff [machine_simps]:
  "(Option.bind x f = Some y) = (\<exists>v. x = Some v \<and> f v = Some y)"
  by (cases x) auto

lemma bind_not_None_iff: "(Option.bind x f \<noteq> None) = (\<exists>v. x = Some v \<and> f v \<noteq> None)"
  by (cases x) auto

end
