(* ===== verification/C_Layout.thy ===== *)
theory C_Layout
  imports Fabric_Prelude
begin

section \<open>Layout of C types on LP64\<close>

text \<open>
  The headers rest on the layout the compiler gives their structs: \<open>container_of\<close> and
  \<open>FI_CHECK_OP\<close> use \<open>offsetof\<close>, descriptors are cast to their first member, and comments ask
  that two structs have the same size. A struct is therefore modelled by its member list
  (names and types in the order of the declaration), from which size, alignment and offsets
  are computed as the System V ABI prescribes: each member at the next multiple of its
  alignment, the whole padded to the largest alignment. The lemmas show what a layout
  guarantees for every member list: members are aligned, disjoint and inside the struct.
\<close>

datatype ctype =
    U8 | U16 | U32 | U64
  | Ptr
  | Fn ctype "ctype list"
  | Arr ctype nat
  | Struct "(string \<times> ctype) list"
  | Union "(string \<times> ctype) list"

type_synonym fields = "(string \<times> ctype) list"

text \<open>The C names that appear in the headers.\<close>

abbreviation CInt :: ctype where "CInt \<equiv> U32"
abbreviation CEnum :: ctype where "CEnum \<equiv> U32"
abbreviation SizeT :: ctype where "SizeT \<equiv> U64"
abbreviation SsizeT :: ctype where "SsizeT \<equiv> U64"
abbreviation FiAddrT :: ctype where "FiAddrT \<equiv> U64"

subsection \<open>Size, alignment, offsets\<close>

primrec alignof :: "ctype \<Rightarrow> nat"
  and align_fields :: "fields \<Rightarrow> nat"
  and align_field :: "string \<times> ctype \<Rightarrow> nat" where
  "alignof U8 = 1"
| "alignof U16 = 2"
| "alignof U32 = 4"
| "alignof U64 = 8"
| "alignof Ptr = 8"
| "alignof (Fn r ps) = 8"
| "alignof (Arr t n) = alignof t"
| "alignof (Struct fs) = align_fields fs"
| "alignof (Union fs) = align_fields fs"
| "align_fields [] = 1"
| "align_fields (f # fs) = max (align_field f) (align_fields fs)"
| "align_field (n, t) = alignof t"

primrec sizeof :: "ctype \<Rightarrow> nat"
  and struct_end :: "fields \<Rightarrow> nat \<Rightarrow> nat"
  and union_end :: "fields \<Rightarrow> nat"
  and field_size :: "string \<times> ctype \<Rightarrow> nat" where
  "sizeof U8 = 1"
| "sizeof U16 = 2"
| "sizeof U32 = 4"
| "sizeof U64 = 8"
| "sizeof Ptr = 8"
| "sizeof (Fn r ps) = 8"
| "sizeof (Arr t n) = n * sizeof t"
| "sizeof (Struct fs) = roundup (struct_end fs 0) (align_fields fs)"
| "sizeof (Union fs) = roundup (union_end fs) (align_fields fs)"
| "struct_end [] off = off"
| "struct_end (f # fs) off = struct_end fs (roundup off (align_field f) + field_size f)"
| "union_end [] = 0"
| "union_end (f # fs) = max (field_size f) (union_end fs)"
| "field_size (n, t) = sizeof t"

text \<open>The members of a struct with their offsets, in declaration order.\<close>

fun layout :: "nat \<Rightarrow> fields \<Rightarrow> (string \<times> nat \<times> ctype) list" where
  "layout off [] = []"
| "layout off ((n, t) # fs) =
     (let a = roundup off (alignof t) in (n, a, t) # layout (a + sizeof t) fs)"

definition member :: "fields \<Rightarrow> string \<Rightarrow> (nat \<times> ctype) option" where
  "member fs n = map_of (layout 0 fs) n"

definition offsetof :: "fields \<Rightarrow> string \<Rightarrow> nat" where
  "offsetof fs n = (case member fs n of Some (a, t) \<Rightarrow> a | None \<Rightarrow> 0)"

text \<open>The scalars a value of a type consists of, as offset and width; a union starts out with
  the scalars of its first member (C initialises that one).\<close>

definition shift :: "nat \<Rightarrow> (nat \<times> nat) list \<Rightarrow> (nat \<times> nat) list" where
  "shift d ls = map (\<lambda>(a, n). (d + a, n)) ls"

primrec leaves :: "ctype \<Rightarrow> (nat \<times> nat) list"
  and struct_leaves :: "fields \<Rightarrow> nat \<Rightarrow> (nat \<times> nat) list"
  and union_leaves :: "fields \<Rightarrow> (nat \<times> nat) list"
  and field_leaves :: "string \<times> ctype \<Rightarrow> (nat \<times> nat) list" where
  "leaves U8 = [(0, 1)]"
| "leaves U16 = [(0, 2)]"
| "leaves U32 = [(0, 4)]"
| "leaves U64 = [(0, 8)]"
| "leaves Ptr = [(0, 8)]"
| "leaves (Fn r ps) = [(0, 8)]"
| "leaves (Arr t n) = concat (map (\<lambda>i. shift (i * sizeof t) (leaves t)) [0..<n])"
| "leaves (Struct fs) = struct_leaves fs 0"
| "leaves (Union fs) = union_leaves fs"
| "struct_leaves [] off = []"
| "struct_leaves (f # fs) off =
     (let a = roundup off (align_field f) in shift a (field_leaves f) @ struct_leaves fs (a + field_size f))"
| "union_leaves [] = []"
| "union_leaves (f # fs) = field_leaves f"
| "field_leaves (n, t) = leaves t"

lemmas layout_eval [layout_simps] = member_def offsetof_def roundup_def shift_def

subsection \<open>What every layout guarantees\<close>

lemma align_in:
  "alignof t \<in> {1, 2, 4, 8}" "align_fields fs \<in> {1, 2, 4, 8}" "align_field f \<in> {1, 2, 4, 8}"
  by (induction t and fs and f rule: alignof.induct align_fields.induct align_field.induct) auto

lemma align_pos [simp]: "0 < alignof t" "0 < align_fields fs" "0 < align_field f"
  using align_in(1) [of t] align_in(2) [of fs] align_in(3) [of f] by auto

lemma max_align_dvd:
  "a \<in> {1, 2, 4, 8 :: nat} \<Longrightarrow> b \<in> {1, 2, 4, 8} \<Longrightarrow> a dvd max a b \<and> b dvd max a b"
  by auto

lemma member_align_dvd: "(n, t) \<in> set fs \<Longrightarrow> alignof t dvd align_fields fs"
proof (induction fs)
  case Nil
  then show ?case by simp
next
  case (Cons f fs)
  have "align_field f dvd max (align_field f) (align_fields fs) \<and>
      align_fields fs dvd max (align_field f) (align_fields fs)"
    by (rule max_align_dvd) (rule align_in)+
  with Cons show ?case by (auto intro: dvd_trans)
qed

lemma align_dvd_size: "alignof t dvd sizeof t"
  by (induction t) (auto simp: dvd_roundup)

lemma struct_end_ge: "off \<le> struct_end fs off"
proof (induction fs arbitrary: off)
  case Nil
  then show ?case by simp
next
  case (Cons f fs)
  have "off \<le> roundup off (align_field f)" by (rule roundup_ge) simp
  also have "\<dots> \<le> struct_end (f # fs) off"
    using Cons.IH [of "roundup off (align_field f) + field_size f"] by simp
  finally show ?case .
qed

lemma layout_names [simp]: "map fst (layout off fs) = map fst fs"
  by (induction off fs rule: layout.induct) (auto simp: Let_def)

lemma layout_member_in: "(n, a, t) \<in> set (layout off fs) \<Longrightarrow> (n, t) \<in> set fs"
  by (induction off fs rule: layout.induct) (auto simp: Let_def)

lemma layout_aligned: "(n, a, t) \<in> set (layout off fs) \<Longrightarrow> alignof t dvd a"
  by (induction off fs rule: layout.induct) (auto simp: Let_def dvd_roundup)

lemma layout_lower: "(n, a, t) \<in> set (layout off fs) \<Longrightarrow> off \<le> a"
proof (induction off fs rule: layout.induct)
  case (1 off)
  then show ?case by simp
next
  case (2 off m u fs)
  have ge: "off \<le> roundup off (alignof u)" by (rule roundup_ge) simp
  with 2 show ?case by (fastforce simp: Let_def)
qed

lemma layout_upper: "(n, a, t) \<in> set (layout off fs) \<Longrightarrow> a + sizeof t \<le> struct_end fs off"
  by (induction off fs rule: layout.induct) (auto simp: Let_def struct_end_ge)

lemma layout_ordered:
  "sorted_wrt (\<lambda>(m, a, t) (n, b, u). a + sizeof t \<le> b) (layout off fs)"
  by (induction off fs rule: layout.induct) (auto simp: Let_def dest: layout_lower)

lemma struct_end_le_sizeof: "struct_end fs 0 \<le> sizeof (Struct fs)"
  by (simp add: roundup_ge)

lemma member_in_layout: "member fs n = Some (a, t) \<Longrightarrow> (n, a, t) \<in> set (layout 0 fs)"
  by (simp add: member_def map_of_Some_set)

lemma member_defined: "n \<in> fst ` set fs \<Longrightarrow> \<exists>a t. member fs n = Some (a, t)"
proof -
  assume "n \<in> fst ` set fs"
  moreover have "fst ` set (layout 0 fs) = fst ` set fs"
    by (metis layout_names list.set_map)
  ultimately have "map_of (layout 0 fs) n \<noteq> None" by (simp add: map_of_eq_None_iff)
  then show ?thesis by (auto simp: member_def)
qed

lemma sorted_wrt_distinct_cases:
  "sorted_wrt R xs \<Longrightarrow> x \<in> set xs \<Longrightarrow> y \<in> set xs \<Longrightarrow> x \<noteq> y \<Longrightarrow> R x y \<or> R y x"
  by (induction xs) auto

lemma members_disjoint:
  assumes "member fs m = Some (a, t)" and "member fs n = Some (b, u)" and "m \<noteq> n"
  shows "a + sizeof t \<le> b \<or> b + sizeof u \<le> a"
proof -
  have "(m, a, t) \<in> set (layout 0 fs)" "(n, b, u) \<in> set (layout 0 fs)"
    using assms(1,2) by (auto dest: member_in_layout)
  from sorted_wrt_distinct_cases [OF layout_ordered this] assms(3) show ?thesis by auto
qed

lemma member_bounds:
  assumes "member fs n = Some (a, t)"
  shows "alignof t dvd a \<and> a + sizeof t \<le> sizeof (Struct fs)"
proof -
  have "(n, a, t) \<in> set (layout 0 fs)" by (rule member_in_layout) (rule assms)
  from layout_aligned [OF this] layout_upper [OF this] struct_end_le_sizeof [of fs]
  show ?thesis by linarith
qed

subsection \<open>Scalars\<close>

fun scalar :: "ctype \<Rightarrow> bool" where
  "scalar (Arr t n) = False"
| "scalar (Struct fs) = False"
| "scalar (Union fs) = False"
| "scalar t = True"

lemma scalar_size: "scalar t \<Longrightarrow> sizeof t \<in> {1, 2, 4, 8}"
  by (cases t) auto

text \<open>The prototype of a member that is a function pointer.\<close>

definition proto :: "fields \<Rightarrow> string \<Rightarrow> (ctype \<times> ctype list) option" where
  "proto fs n = (case member fs n of Some (a, Fn r ps) \<Rightarrow> Some (r, ps) | _ \<Rightarrow> None)"

text \<open>A table of operations: the \<open>size\<close> word, then one function pointer per operation, so the
  k-th operation is at offset 8 * (k + 1) and a table of n operations has 8 * (n + 1) bytes.\<close>

fun is_fn :: "ctype \<Rightarrow> bool" where
  "is_fn (Fn r ps) = True"
| "is_fn t = False"

fun ops_table :: "fields \<Rightarrow> bool" where
  "ops_table [] = False"
| "ops_table ((n, t) # ops) \<longleftrightarrow>
     n = ''size'' \<and> t = SizeT \<and> list_all (\<lambda>(m, u). is_fn u) ops \<and> distinct (map fst ((n, t) # ops))"

lemma fn_layout:
  assumes "list_all (\<lambda>(m, u). is_fn u) ops" and "8 dvd off"
  shows "layout off ops = map (\<lambda>(k, n, t). (n, off + 8 * k, t)) (zip [0..<length ops] ops)"
  using assms
proof (induction ops arbitrary: off)
  case Nil
  then show ?case by simp
next
  case (Cons f ops)
  obtain n t where f: "f = (n, t)" by force
  with Cons.prems have fn: "alignof t = 8" "sizeof t = 8" by (cases t; simp)+
  have r: "roundup off 8 = off" using Cons.prems(2) by (simp add: roundup_id)
  have IH: "layout (off + 8) ops =
      map (\<lambda>(k, n, t). (n, off + 8 + 8 * k, t)) (zip [0..<length ops] ops)"
    using Cons.prems by (intro Cons.IH) auto
  have "zip [0..<length (f # ops)] (f # ops) =
      (0, f) # map (\<lambda>(k, x). (Suc k, x)) (zip [0..<length ops] ops)"
    by (simp add: upt_conv_Cons map_Suc_upt [symmetric] zip_map1 del: upt_Suc)
  then show ?case using IH by (simp add: f fn r Let_def case_prod_beta comp_def)
qed

lemma is_fn_size: "is_fn t \<Longrightarrow> alignof t = 8 \<and> sizeof t = 8"
  by (cases t) auto

lemma fn_align: "list_all (\<lambda>(m, u). is_fn u) ops \<Longrightarrow> max 8 (align_fields ops) = 8"
  by (induction ops) (auto dest!: is_fn_size)

lemma fn_struct_end:
  "list_all (\<lambda>(m, u). is_fn u) ops \<Longrightarrow> 8 dvd off \<Longrightarrow> struct_end ops off = off + 8 * length ops"
proof (induction ops arbitrary: off)
  case Nil
  then show ?case by simp
next
  case (Cons f ops)
  obtain n t where f: "f = (n, t)" by force
  have t: "alignof t = 8" "sizeof t = 8" using Cons.prems(1) f is_fn_size by auto
  have "roundup off 8 = off" using Cons.prems(2) by (simp add: roundup_id)
  moreover have "struct_end ops (off + 8) = off + 8 + 8 * length ops"
    using Cons.prems by (intro Cons.IH) auto
  ultimately show ?case by (simp add: f t)
qed

lemma ops_table_layout:
  assumes "ops_table ((''size'', SizeT) # ops)"
  shows "layout 0 ((''size'', SizeT) # ops) =
    (''size'', 0, SizeT) # map (\<lambda>(k, n, t). (n, 8 * (k + 1), t)) (zip [0..<length ops] ops)"
proof -
  have "roundup 0 8 = 0" by (simp add: roundup_def)
  then show ?thesis
    using assms fn_layout [of ops 8] by (simp add: Let_def)
qed

lemma ops_table_member:
  assumes "ops_table ((''size'', SizeT) # ops)" and "k < length ops" and "ops ! k = (n, Fn r ps)"
  shows "member ((''size'', SizeT) # ops) n = Some (8 * (k + 1), Fn r ps)"
proof -
  let ?l = "(''size'', 0, SizeT) # map (\<lambda>(k, n, t). (n, 8 * (k + 1), t)) (zip [0..<length ops] ops)"
  have l: "layout 0 ((''size'', SizeT) # ops) = ?l" by (rule ops_table_layout) (rule assms)
  have "distinct (map fst ?l)" unfolding l [symmetric] layout_names using assms(1) by simp
  moreover have "(n, 8 * (k + 1), Fn r ps) \<in> set ?l"
    using assms(2,3) by (auto simp: set_zip image_iff intro!: bexI [of _ "(k, n, Fn r ps)"] exI [of _ k])
  ultimately show ?thesis unfolding member_def l by (simp only: map_of_eq_Some_iff)
qed

subsection \<open>Types of members, scalars of a struct\<close>

text \<open>Only the offset of a member depends on its neighbours; its type is the declared one.\<close>

lemma member_type: "map_option snd (member fs n) = map_of fs n"
proof -
  have "map_option snd (map_of (layout off fs) n) = map_of fs n" for off
    by (induction off fs rule: layout.induct) (auto simp: Let_def)
  then show ?thesis by (simp add: member_def)
qed

lemma member_None_iff: "member fs n = None \<longleftrightarrow> map_of fs n = None"
  by (metis member_type option.map_disc_iff)

lemma proto_map_of:
  "proto fs n = (case map_of fs n of Some (Fn r ps) \<Rightarrow> Some (r, ps) | _ \<Rightarrow> None)"
  by (simp add: proto_def member_type [symmetric] split: option.split prod.split)

lemma offsetof_member: "member fs n = Some (a, t) \<Longrightarrow> offsetof fs n = a"
  by (simp add: offsetof_def)

lemma proto_member: "proto fs n = Some (r, ps) \<Longrightarrow> \<exists>a. member fs n = Some (a, Fn r ps)"
  by (auto simp: proto_def split: option.splits ctype.splits)

lemma leaves_scalar: "scalar t \<Longrightarrow> leaves t = [(0, sizeof t)]"
  by (cases t) auto

lemma member_leaf:
  assumes "member fs n = Some (a, t)" and "scalar t"
  shows "(a, sizeof t) \<in> set (leaves (Struct fs))"
proof -
  have "(n, a, t) \<in> set (layout off fs) \<Longrightarrow> (a, sizeof t) \<in> set (struct_leaves fs off)" for off
    using assms(2)
    by (induction off fs rule: layout.induct) (auto simp: Let_def leaves_scalar shift_def)
  then show ?thesis using member_in_layout [OF assms(1)] by simp
qed

text \<open>The scalars of a type lie one after the other inside it: in order, disjoint, in bounds.\<close>

definition tiled :: "nat \<Rightarrow> (nat \<times> nat) list \<Rightarrow> bool" where
  "tiled n ls \<longleftrightarrow> sorted_wrt (\<lambda>x y. fst x + snd x \<le> fst y) ls \<and>
     (\<forall>x \<in> set ls. 0 < snd x \<and> fst x + snd x \<le> n)"

lemma tiled_mono: "tiled n ls \<Longrightarrow> n \<le> m \<Longrightarrow> tiled m ls"
  by (fastforce simp: tiled_def)

lemma tiled_append_shift:
  assumes ls: "tiled n ls" and ks: "tiled m ks"
    and above: "\<forall>(a, k) \<in> set ks. d + n \<le> a" and le: "d + n \<le> m"
  shows "tiled m (shift d ls @ ks)"
proof -
  have "sorted_wrt (\<lambda>x y. fst x + snd x \<le> fst y) (shift d ls)"
    using ls by (simp add: tiled_def shift_def sorted_wrt_map case_prod_beta)
  moreover have bnd: "0 < snd x \<and> fst x + snd x \<le> d + n" if "x \<in> set (shift d ls)" for x
    using ls that unfolding tiled_def shift_def by fastforce
  moreover have "sorted_wrt (\<lambda>x y. fst x + snd x \<le> fst y) ks"
    and "\<forall>x \<in> set ks. 0 < snd x \<and> fst x + snd x \<le> m"
    using ks by (simp_all add: tiled_def case_prod_beta)
  moreover have "fst x + snd x \<le> fst y" if "x \<in> set (shift d ls)" "y \<in> set ks" for x y
    using bnd [OF that(1)] above that(2) by fastforce
  moreover have "\<forall>x \<in> set (shift d ls). 0 < snd x \<and> fst x + snd x \<le> m"
    using bnd le by fastforce
  ultimately show ?thesis by (auto simp: tiled_def sorted_wrt_append case_prod_beta)
qed

lemma struct_leaves_ge: "(a, n) \<in> set (struct_leaves fs off) \<Longrightarrow> off \<le> a"
proof (induction fs arbitrary: off)
  case Nil
  then show ?case by simp
next
  case (Cons f fs)
  have "off \<le> roundup off (align_field f)" by (rule roundup_ge) simp
  with Cons show ?case by (fastforce simp: Let_def shift_def)
qed

lemma tiled_struct:
  assumes "\<And>f. f \<in> set fs \<Longrightarrow> tiled (field_size f) (field_leaves f)"
  shows "tiled (struct_end fs off) (struct_leaves fs off)"
  using assms
proof (induction fs arbitrary: off)
  case Nil
  then show ?case by (simp add: tiled_def)
next
  case (Cons f fs)
  let ?a = "roundup off (align_field f)"
  have "tiled (field_size f) (field_leaves f)" using Cons.prems by simp
  moreover have "tiled (struct_end fs (?a + field_size f)) (struct_leaves fs (?a + field_size f))"
    using Cons by auto
  ultimately show ?case
    by (auto simp: Let_def intro!: tiled_append_shift struct_end_ge dest: struct_leaves_ge)
qed

lemma tiled_array:
  assumes "tiled (sizeof t) (leaves t)"
  shows "tiled (n * sizeof t) (leaves (Arr t n))"
proof -
  let ?s = "sizeof t" and ?f = "\<lambda>i. shift (i * sizeof t) (leaves t)"
  have lower: "\<forall>(a, j) \<in> set (concat (map ?f [k..<k + m])). k * ?s \<le> a" for k m
  proof clarify
    fix a j assume "(a, j) \<in> set (concat (map ?f [k..<k + m]))"
    then obtain i where "k \<le> i" "i * ?s \<le> a" by (auto simp: shift_def)
    then show "k * ?s \<le> a" by (meson le_trans mult_le_mono1)
  qed
  have "tiled ((k + m) * ?s) (concat (map ?f [k..<k + m]))" for k m
  proof (induction m arbitrary: k)
    case 0
    then show ?case by (simp add: tiled_def)
  next
    case (Suc m)
    have "tiled ((k + Suc m) * ?s) (concat (map ?f [Suc k..<Suc k + m]))"
      using Suc.IH [of "Suc k"] by simp
    then have "tiled ((k + Suc m) * ?s) (?f k @ concat (map ?f [Suc k..<Suc k + m]))"
      using assms lower [of "Suc k" m]
      by (intro tiled_append_shift [where n = ?s]) (auto simp: add.commute)
    moreover have "[k..<k + Suc m] = k # [Suc k..<Suc k + m]" by (simp add: upt_conv_Cons)
    ultimately show ?case by simp
  qed
  from this [of 0 n] show ?thesis by simp
qed

lemma tiled_leaves: "tiled (sizeof t) (leaves t)"
proof (induction t)
  case (Arr t n)
  then show ?case using tiled_array by simp
next
  case (Struct fs)
  have "tiled (field_size f) (field_leaves f)" if "f \<in> set fs" for f
    using Struct.IH that by (cases f) fastforce
  then have "tiled (struct_end fs 0) (struct_leaves fs 0)" by (rule tiled_struct)
  then show ?case
    using tiled_mono [OF _ struct_end_le_sizeof [of fs]] by simp
next
  case (Union fs)
  show ?case
  proof (cases fs)
    case Nil
    then show ?thesis by (simp add: tiled_def)
  next
    case (Cons f gs)
    have "tiled (field_size f) (field_leaves f)" using Union.IH Cons by (cases f) fastforce
    moreover have "field_size f \<le> sizeof (Union fs)"
    proof -
      have "field_size f \<le> union_end fs" by (simp add: Cons)
      also have "\<dots> \<le> roundup (union_end fs) (align_fields fs)" by (rule roundup_ge) simp
      finally show ?thesis by simp
    qed
    ultimately show ?thesis using Cons by (auto intro: tiled_mono)
  qed
qed (simp_all add: tiled_def)

lemma tiled_distinct: "tiled n ls \<Longrightarrow> distinct (map fst ls)"
proof -
  assume t: "tiled n ls"
  then have "sorted_wrt (\<lambda>x y. fst x < fst y) ls"
    unfolding tiled_def by (fastforce elim: sorted_wrt_mono_rel [rotated])
  then have "sorted_wrt (<) (map fst ls)" by (simp add: sorted_wrt_map)
  then show "distinct (map fst ls)" by (simp add: strict_sorted_iff)
qed

lemma leaves_distinct: "distinct (map fst (leaves t))"
  by (rule tiled_distinct) (rule tiled_leaves)

lemma leaves_bounds: "(a, n) \<in> set (leaves t) \<Longrightarrow> 0 < n \<and> a + n \<le> sizeof t"
  using tiled_leaves [of t] by (auto simp: tiled_def)

lemma leaf_width: "(a, n) \<in> set (leaves t) \<Longrightarrow> n \<in> {1, 2, 4, 8}"
proof -
  have struct: "(a, n) \<in> set (struct_leaves fs off) \<Longrightarrow>
      \<exists>f \<in> set fs. \<exists>b. (b, n) \<in> set (field_leaves f)" for fs off and a n :: nat
    by (induction fs arbitrary: off) (fastforce simp: Let_def shift_def)+
  have "\<forall>a n. (a, n) \<in> set (leaves t) \<longrightarrow> n \<in> {1, 2, 4, 8}"
  proof (induction t)
    case (Struct fs)
    then show ?case using struct by (fastforce dest!: struct)
  next
    case (Union fs)
    then show ?case by (cases fs) (fastforce simp: shift_def)+
  qed (fastforce simp: shift_def)+
  then show "(a, n) \<in> set (leaves t) \<Longrightarrow> n \<in> {1, 2, 4, 8}" by blast
qed

lemma member_struct_leaves:
  assumes "member fs n = Some (a, Struct gs)" and "(b, k) \<in> set (leaves (Struct gs))"
  shows "(a + b, k) \<in> set (leaves (Struct fs))"
proof -
  have "(n, a, Struct gs) \<in> set (layout off fs) \<Longrightarrow> (a + b, k) \<in> set (struct_leaves fs off)" for off
    using assms(2) by (induction off fs rule: layout.induct) (fastforce simp: Let_def shift_def)+
  then show ?thesis using member_in_layout [OF assms(1)] by simp
qed

end
