(* ===== verification/C_Machine.thy ===== *)
theory C_Machine
  imports C_Layout
begin

section \<open>The C machine: memory, typed access, calls through function pointers\<close>

text \<open>
  The state the inline functions run on. Memory holds one cell per scalar object, at its
  address, with the width it was declared with; a cell of a local variable that nothing has
  stored to is uninitialised. Reading an unmapped or uninitialised cell, access at another
  width, following a null pointer and calling through one are undefined behaviour in C and
  are \<open>None\<close> here; everything the code returns, error codes included, is a value.

  The code behind a function pointer is a provider of libfabric, not part of the repository:
  it is the parameter \<open>P\<close> of every wrapper, a function from the pointer, the arguments and the
  machine to the result and the machine it leaves. Its private state is the field \<open>env\<close>.
\<close>

datatype cval = V8 u8 | V16 u16 | V32 u32 | V64 u64

fun bytes :: "cval \<Rightarrow> nat" where
  "bytes (V8 w) = 1"
| "bytes (V16 w) = 2"
| "bytes (V32 w) = 4"
| "bytes (V64 w) = 8"

datatype cell = Uninit nat | Init cval

fun cell_bytes :: "cell \<Rightarrow> nat" where
  "cell_bytes (Uninit n) = n"
| "cell_bytes (Init v) = bytes v"

record 'p machine =
  mem :: "ptr \<Rightarrow> cell option"
  sp :: ptr
  env :: 'p

type_synonym 'p provider = "ptr \<Rightarrow> cval list \<Rightarrow> 'p machine \<Rightarrow> (cval \<times> 'p machine) option"

subsection \<open>Typed loads and stores\<close>

definition ld :: "'p machine \<Rightarrow> ptr \<Rightarrow> nat \<Rightarrow> cval option" where
  "ld s a n = (case mem s a of Some (Init v) \<Rightarrow> (if bytes v = n then Some v else None) | _ \<Rightarrow> None)"

definition st :: "ptr \<Rightarrow> cval \<Rightarrow> 'p machine \<Rightarrow> 'p machine option" where
  "st a v s = (case mem s a of
       Some c \<Rightarrow> (if cell_bytes c = bytes v then Some (s\<lparr>mem := (mem s)(a \<mapsto> Init v)\<rparr>) else None)
     | None \<Rightarrow> None)"

text \<open>\<open>&p->n\<close>, \<open>p->n\<close> and \<open>p->n = v\<close> for a pointer \<open>p\<close> to a struct with members \<open>fs\<close>.\<close>

definition addr_of :: "ptr \<Rightarrow> fields \<Rightarrow> string \<Rightarrow> ptr" where
  "addr_of p fs n = p + of_nat (offsetof fs n)"

definition get :: "'p machine \<Rightarrow> ptr \<Rightarrow> fields \<Rightarrow> string \<Rightarrow> cval option" where
  "get s p fs n = (case member fs n of
       Some (a, t) \<Rightarrow> (if p \<noteq> NULL \<and> scalar t then ld s (addr_of p fs n) (sizeof t) else None)
     | None \<Rightarrow> None)"

definition put :: "ptr \<Rightarrow> fields \<Rightarrow> string \<Rightarrow> cval \<Rightarrow> 'p machine \<Rightarrow> 'p machine option" where
  "put p fs n v s = (case member fs n of
       Some (a, t) \<Rightarrow>
         (if p \<noteq> NULL \<and> scalar t \<and> bytes v = sizeof t then st (addr_of p fs n) v s else None)
     | None \<Rightarrow> None)"

fun the64 :: "cval \<Rightarrow> u64 option" where
  "the64 (V64 w) = Some w"
| "the64 _ = None"

fun the32 :: "cval \<Rightarrow> u32 option" where
  "the32 (V32 w) = Some w"
| "the32 _ = None"

definition get64 :: "'p machine \<Rightarrow> ptr \<Rightarrow> fields \<Rightarrow> string \<Rightarrow> u64 option" where
  "get64 s p fs n = Option.bind (get s p fs n) the64"

definition get32 :: "'p machine \<Rightarrow> ptr \<Rightarrow> fields \<Rightarrow> string \<Rightarrow> u32 option" where
  "get32 s p fs n = Option.bind (get s p fs n) the32"

text \<open>\<open>*p\<close> and \<open>*p = v\<close> for a pointer to a pointer or another 64-bit object.\<close>

definition deref64 :: "'p machine \<Rightarrow> ptr \<Rightarrow> u64 option" where
  "deref64 s p = (if p = NULL then None else Option.bind (ld s p 8) the64)"

definition assign :: "ptr \<Rightarrow> cval \<Rightarrow> 'p machine \<Rightarrow> 'p machine option" where
  "assign p v s = (if p = NULL then None else st p v s)"

text \<open>\<open>container_of(p, type, field)\<close>.\<close>

definition container_of :: "ptr \<Rightarrow> fields \<Rightarrow> string \<Rightarrow> ptr" where
  "container_of p fs n = p - of_nat (offsetof fs n)"

subsection \<open>Calls\<close>

text \<open>A call through a function pointer of prototype \<open>(r, ps)\<close>: the argument widths must be
  those of the prototype, and so must the width of what comes back.\<close>

definition call :: "'p provider \<Rightarrow> ptr \<Rightarrow> ctype \<times> ctype list \<Rightarrow> cval list \<Rightarrow> 'p machine \<Rightarrow>
    (cval \<times> 'p machine) option" where
  "call P f pr args s =
     (if f \<noteq> NULL \<and> map bytes args = map sizeof (snd pr)
      then do { (v, s') \<leftarrow> P f args s; if bytes v = sizeof (fst pr) then Some (v, s') else None }
      else None)"

text \<open>\<open>p->tab->op(args)\<close> for a pointer \<open>p\<close> to a struct with members \<open>fs\<close> and a table of type
  \<open>tfs\<close>.\<close>

definition vcall :: "'p provider \<Rightarrow> ptr \<Rightarrow> fields \<Rightarrow> string \<Rightarrow> fields \<Rightarrow> string \<Rightarrow> cval list \<Rightarrow>
    'p machine \<Rightarrow> (cval \<times> 'p machine) option" where
  "vcall P p fs tab tfs opn args s = do {
     t \<leftarrow> get64 s p fs tab;
     f \<leftarrow> get64 s t tfs opn;
     pr \<leftarrow> proto tfs opn;
     call P f pr args s }"

subsection \<open>Local variables\<close>

text \<open>A local struct (or a local scalar: a struct of one member) occupies fresh cells at the
  stack pointer while the function runs. \<open>push\<close> is undefined when the stack has no room (or would run past the end of the
  address space).\<close>

definition frame :: "ptr \<Rightarrow> fields \<Rightarrow> (ptr \<times> cell) list" where
  "frame p fs = map (\<lambda>(a, n). (p + of_nat a, Uninit n)) (leaves (Struct fs))"

definition room :: "fields \<Rightarrow> 'p machine \<Rightarrow> bool" where
  "room fs s \<longleftrightarrow> sp s \<noteq> NULL \<and> unat (sp s) + sizeof (Struct fs) < 2 ^ 64 \<and>
     list_all (\<lambda>(a, c). mem s a = None) (frame (sp s) fs)"

definition push :: "fields \<Rightarrow> 'p machine \<Rightarrow> (ptr \<times> 'p machine) option" where
  "push fs s =
     (if room fs s
      then Some (sp s, s\<lparr>mem := mem s ++ map_of (frame (sp s) fs),
                        sp := sp s + of_nat (roundup (sizeof (Struct fs)) 16)\<rparr>)
      else None)"

definition pop :: "ptr \<Rightarrow> fields \<Rightarrow> 'p machine \<Rightarrow> 'p machine" where
  "pop p fs s = s\<lparr>mem := (\<lambda>a. if a \<in> fst ` set (frame p fs) then None else mem s a), sp := p\<rparr>"

text \<open>\<open>memset(p, 0, sizeof(struct))\<close>: every scalar of the struct becomes zero.\<close>

fun zero_cval :: "nat \<Rightarrow> cval" where
  "zero_cval n = (if n = 1 then V8 0 else if n = 2 then V16 0 else if n = 4 then V32 0 else V64 0)"

definition memset0 :: "ptr \<Rightarrow> fields \<Rightarrow> 'p machine \<Rightarrow> 'p machine option" where
  "memset0 p fs s =
     (if list_all (\<lambda>(a, n). map_option cell_bytes (mem s (p + of_nat a)) = Some n) (leaves (Struct fs))
      then Some (s\<lparr>mem := mem s ++
        map_of (map (\<lambda>(a, n). (p + of_nat a, Init (zero_cval n))) (leaves (Struct fs)))\<rparr>)
      else None)"

subsection \<open>Members of one struct\<close>

text \<open>A struct smaller than the address space has its members at different addresses.\<close>

definition small :: "fields \<Rightarrow> bool" where
  "small fs \<longleftrightarrow> sizeof (Struct fs) < 2 ^ 64"

lemma addr_of_member: "member fs n = Some (a, t) \<Longrightarrow> addr_of p fs n = p + of_nat a"
  by (simp add: addr_of_def offsetof_member)

lemma member_offset_less: "member fs n = Some (a, t) \<Longrightarrow> small fs \<Longrightarrow> a < 2 ^ 64"
  using member_bounds [of fs n a t] unfolding small_def by linarith

lemma addr_of_inj:
  assumes "member fs m = Some (a, t)" and "member fs n = Some (b, u)"
    and "0 < sizeof t" and "0 < sizeof u" and "small fs"
  shows "(addr_of p fs m = addr_of p fs n) = (m = n)"
proof
  assume "addr_of p fs m = addr_of p fs n"
  then have "p + of_nat a = p + (of_nat b :: ptr)"
    using assms by (simp add: addr_of_member)
  moreover have "a < 2 ^ 64" "b < 2 ^ 64"
    using member_offset_less [OF assms(1,5)] member_offset_less [OF assms(2,5)] by auto
  ultimately have "a = b" by (metis ptr_add_eq_iff)
  with members_disjoint [OF assms(1,2)] assms(3,4) show "m = n" by fastforce
qed simp

lemma scalar_sizeof_pos: "scalar t \<Longrightarrow> 0 < sizeof t"
  by (cases t) auto

lemma bytes_pos [simp]: "0 < bytes v"
  by (cases v) auto

lemma container_of_addr_of [simp]: "container_of (addr_of p fs n) fs n = p"
  by (simp add: container_of_def addr_of_def)

subsection \<open>A struct whose storage is mapped\<close>

definition mapped :: "'p machine \<Rightarrow> ptr \<Rightarrow> fields \<Rightarrow> bool" where
  "mapped s p fs \<longleftrightarrow> p \<noteq> NULL \<and>
     list_all (\<lambda>(a, n). map_option cell_bytes (mem s (p + of_nat a)) = Some n) (leaves (Struct fs))"

text \<open>\<open>member_ok fs n v\<close>: the value has the type of the member.\<close>

definition member_ok :: "fields \<Rightarrow> string \<Rightarrow> cval \<Rightarrow> bool" where
  "member_ok fs n v \<longleftrightarrow>
     (case map_of fs n of Some t \<Rightarrow> scalar t \<and> sizeof t = bytes v | None \<Rightarrow> False)"

lemma member_ok_member:
  "member_ok fs n v \<Longrightarrow> \<exists>a t. member fs n = Some (a, t) \<and> scalar t \<and> sizeof t = bytes v"
  by (auto simp: member_ok_def member_type [symmetric] split: option.splits)

definition upd :: "ptr \<Rightarrow> fields \<Rightarrow> string \<Rightarrow> cval \<Rightarrow> 'p machine \<Rightarrow> 'p machine" where
  "upd p fs n v s = s\<lparr>mem := (mem s)(addr_of p fs n \<mapsto> Init v)\<rparr>"

lemma upd_sp_env [simp]: "sp (upd p fs n v s) = sp s" "env (upd p fs n v s) = env s"
  by (simp_all add: upd_def)

lemma mapped_put [machine_simps]:
  assumes "mapped s p fs" and "member_ok fs n v"
  shows "put p fs n v s = Some (upd p fs n v s)"
proof -
  obtain a t where m: "member fs n = Some (a, t)" "scalar t" "sizeof t = bytes v"
    using member_ok_member [OF assms(2)] by blast
  with member_leaf [OF m(1,2)] assms(1) show ?thesis
    by (auto simp: put_def mapped_def st_def upd_def addr_of_member list_all_iff split: option.splits)
qed

lemma mapped_upd [machine_simps]:
  assumes "mapped s p fs" and "member_ok fs n v" and "small fs"
  shows "mapped (upd p fs n v s) p fs"
proof -
  obtain a t where m: "member fs n = Some (a, t)" "scalar t" "sizeof t = bytes v"
    using member_ok_member [OF assms(2)] by blast
  let ?ls = "leaves (Struct fs)"
  have leaf: "(a, sizeof t) \<in> set ?ls" by (rule member_leaf) (rule m)+
  have "k = sizeof t" if "(b, k) \<in> set ?ls" "p + of_nat b = p + (of_nat a :: ptr)" for b k
  proof -
    have "b < 2 ^ 64" "a < 2 ^ 64"
      using leaves_bounds [OF that(1)] leaves_bounds [OF leaf] assms(3) unfolding small_def by linarith+
    then have "b = a" using that(2) by (metis ptr_add_eq_iff)
    then show "k = sizeof t"
      using leaves_distinct [of "Struct fs"] that(1) leaf by (auto dest: eq_key_imp_eq_value)
  qed
  with assms(1) m show ?thesis
    by (fastforce simp: mapped_def upd_def addr_of_member list_all_iff)
qed

lemma get_upd [machine_simps]:
  assumes "p \<noteq> NULL" and "member_ok fs n v" and "small fs"
  shows "get (upd p fs n v s) p fs m = (if m = n then Some v else get s p fs m)"
proof -
  obtain a t where n: "member fs n = Some (a, t)" "scalar t" "sizeof t = bytes v"
    using member_ok_member [OF assms(2)] by blast
  show ?thesis
  proof (cases "member fs m")
    case None
    then show ?thesis using n by (auto simp: get_def)
  next
    case (Some bu)
    obtain b u where bu: "bu = (b, u)" by force
    show ?thesis
    proof (cases "scalar u")
      case True
      then have "(addr_of p fs m = addr_of p fs n) = (m = n)"
        using addr_of_inj n Some bu assms(3) scalar_sizeof_pos by metis
      then show ?thesis using n Some bu assms(1) by (auto simp: get_def upd_def ld_def)
    next
      case False
      then show ?thesis using n Some bu by (auto simp: get_def)
    qed
  qed
qed

subsection \<open>States that extend another\<close>

text \<open>\<open>extends s' s\<close>: every cell of \<open>s\<close> is unchanged in \<open>s'\<close>, which may have more (the frame of a
  function that runs). What could be read in \<open>s\<close> can be read in \<open>s'\<close>.\<close>

definition extends :: "'p machine \<Rightarrow> 'p machine \<Rightarrow> bool" where
  "extends s' s \<longleftrightarrow> mem s \<subseteq>\<^sub>m mem s'"

lemma extends_refl [simp]: "extends s s"
  by (simp add: extends_def)

lemma extends_get: "extends s' s \<Longrightarrow> get s p fs n = Some v \<Longrightarrow> get s' p fs n = Some v"
  by (auto simp: extends_def get_def ld_def map_le_def dom_def split: option.splits if_splits)

lemma extends_get64: "extends s' s \<Longrightarrow> get64 s p fs n = Some v \<Longrightarrow> get64 s' p fs n = Some v"
  by (auto simp: get64_def bind_Some_iff intro: extends_get)

subsection \<open>The function a virtual call reaches\<close>

text \<open>\<open>meth s p fs tab tfs opn\<close>: the function pointer that \<open>p->tab->opn\<close> reads.\<close>

definition meth :: "'p machine \<Rightarrow> ptr \<Rightarrow> fields \<Rightarrow> string \<Rightarrow> fields \<Rightarrow> string \<Rightarrow> ptr option" where
  "meth s p fs tab tfs opn = do { t \<leftarrow> get64 s p fs tab; get64 s t tfs opn }"

text \<open>\<open>invoke P f n args s\<close>: what the code behind \<open>f\<close> does, its result read at \<open>n\<close> bytes.\<close>

definition invoke :: "'p provider \<Rightarrow> ptr \<Rightarrow> nat \<Rightarrow> cval list \<Rightarrow> 'p machine \<Rightarrow> (cval \<times> 'p machine) option" where
  "invoke P f n args s = do { (v, s') \<leftarrow> P f args s; if bytes v = n then Some (v, s') else None }"

lemma vcall_meth:
  "vcall P p fs tab tfs opn args s = do {
     f \<leftarrow> meth s p fs tab tfs opn; pr \<leftarrow> proto tfs opn; call P f pr args s }"
  by (simp add: vcall_def meth_def)

lemma vcall_invoke:
  "meth s p fs tab tfs opn = Some f \<Longrightarrow> f \<noteq> NULL \<Longrightarrow> proto tfs opn = Some (r, ps) \<Longrightarrow>
    map bytes args = map sizeof ps \<Longrightarrow>
    vcall P p fs tab tfs opn args s = invoke P f (sizeof r) args s"
  by (simp add: vcall_meth call_def invoke_def)

lemma extends_meth:
  "extends s' s \<Longrightarrow> meth s p fs tab tfs opn = Some f \<Longrightarrow> meth s' p fs tab tfs opn = Some f"
  by (auto simp: meth_def bind_Some_iff intro: extends_get64)

subsection \<open>Running with a local variable\<close>

text \<open>\<open>framed s' s fs\<close>: \<open>s'\<close> is \<open>s\<close> with a local of type \<open>fs\<close> on top of the stack, and otherwise the
  same memory.\<close>

abbreviation frame_addrs :: "ptr \<Rightarrow> fields \<Rightarrow> ptr set" where
  "frame_addrs p fs \<equiv> fst ` set (frame p fs)"

definition framed :: "'p machine \<Rightarrow> 'p machine \<Rightarrow> fields \<Rightarrow> bool" where
  "framed s' s fs \<longleftrightarrow> mapped s' (sp s) fs \<and>
     (\<forall>a \<in> frame_addrs (sp s) fs. mem s a = None) \<and>
     (\<forall>a. a \<notin> frame_addrs (sp s) fs \<longrightarrow> mem s' a = mem s a)"

lemma frame_addrs_iff:
  "a \<in> frame_addrs p fs \<longleftrightarrow> (\<exists>b n. (b, n) \<in> set (leaves (Struct fs)) \<and> a = p + of_nat b)"
  by (force simp: frame_def)

lemma framed_extends: "framed s' s fs \<Longrightarrow> extends s' s"
  unfolding framed_def extends_def map_le_def by (metis domIff)

lemma leaf_addrs_inj:
  assumes "(a, n) \<in> set (leaves (Struct fs))" and "(b, m) \<in> set (leaves (Struct fs))" and "small fs"
  shows "(p + of_nat a = p + (of_nat b :: ptr)) = (a = b)"
proof -
  have "a < 2 ^ 64" "b < 2 ^ 64"
    using leaves_bounds [OF assms(1)] leaves_bounds [OF assms(2)] assms(3)
    unfolding small_def by linarith+
  then show ?thesis by (rule ptr_add_eq_iff)
qed

lemma map_of_leaves:
  assumes "small fs" and "(a, n) \<in> set (leaves (Struct fs))"
  shows "map_of (map (\<lambda>(a, n). (p + of_nat a :: ptr, c n)) (leaves (Struct fs))) (p + of_nat a) = Some (c n)"
proof (rule map_of_is_SomeI)
  let ?ls = "leaves (Struct fs)"
  have "inj_on (\<lambda>a. p + (of_nat a :: ptr)) (set (map fst ?ls))"
    using leaf_addrs_inj [OF _ _ assms(1)] by (auto simp: inj_on_def)
  then have "distinct (map (\<lambda>a. p + of_nat a) (map fst ?ls))"
    using leaves_distinct by (simp only: distinct_map simp_thms)
  then show "distinct (map fst (map (\<lambda>(a, n). (p + of_nat a :: ptr, c n)) ?ls))"
    by (simp add: comp_def case_prod_beta)
  show "(p + of_nat a, c n) \<in> set (map (\<lambda>(a, n). (p + of_nat a :: ptr, c n)) ?ls)"
    using assms(2) by (auto simp: image_iff intro!: bexI [of _ "(a, n)"])
qed

lemma frame_lookup:
  "small fs \<Longrightarrow> (a, n) \<in> set (leaves (Struct fs)) \<Longrightarrow>
    map_of (frame p fs) (p + of_nat a) = Some (Uninit n)"
  unfolding frame_def by (rule map_of_leaves)

lemma push_framed:
  assumes "push fs s = Some (p, s')" and "small fs"
  shows "framed s' s fs \<and> p = sp s \<and> env s' = env s"
proof -
  have r: "room fs s" and p: "p = sp s" and mem: "mem s' = mem s ++ map_of (frame p fs)"
    and e: "env s' = env s"
    using assms(1) by (auto simp: push_def split: if_splits)
  have "mapped s' p fs"
    using r frame_lookup [OF assms(2)]
    by (auto simp: mapped_def room_def p mem list_all_iff map_add_Some_iff)
  moreover have "mem s' a = mem s a" if "a \<notin> frame_addrs p fs" for a
    using that by (simp add: mem map_add_dom_app_simps(3) dom_map_of_conv_image_fst)
  ultimately show ?thesis using r p e by (auto simp: framed_def room_def list_all_iff)
qed

lemma upd_framed [machine_simps]:
  assumes "framed s' s fs" and "member_ok fs n v" and "small fs"
  shows "framed (upd (sp s) fs n v s') s fs"
proof -
  obtain a t where m: "member fs n = Some (a, t)" "scalar t" "sizeof t = bytes v"
    using member_ok_member [OF assms(2)] by blast
  have "addr_of (sp s) fs n \<in> frame_addrs (sp s) fs"
    using member_leaf [OF m(1,2)] unfolding addr_of_member [OF m(1)] frame_addrs_iff by blast
  then show ?thesis
    using assms mapped_upd [OF _ assms(2,3)] by (auto simp: framed_def upd_def)
qed

lemma memset0_framed:
  assumes "framed s' s fs" and "small fs"
  shows "\<exists>s''. memset0 (sp s) fs s' = Some s'' \<and> framed s'' s fs \<and> env s'' = env s' \<and> sp s'' = sp s' \<and>
    (\<forall>(a, n) \<in> set (leaves (Struct fs)). mem s'' (sp s + of_nat a) = Some (Init (zero_cval n)))"
proof -
  let ?z = "map (\<lambda>(a, n). (sp s + of_nat a :: ptr, Init (zero_cval n))) (leaves (Struct fs))"
  let ?s = "s'\<lparr>mem := mem s' ++ map_of ?z\<rparr>"
  have z: "mem ?s (sp s + of_nat a) = Some (Init (zero_cval n))" if "(a, n) \<in> set (leaves (Struct fs))" for a n
    using map_of_leaves [OF assms(2) that, where p = "sp s" and c = "\<lambda>n. Init (zero_cval n)"] by simp
  have width: "bytes (zero_cval n) = n" if "(a, n) \<in> set (leaves (Struct fs))" for a n
    using leaf_width [OF that] by auto
  have "memset0 (sp s) fs s' = Some ?s"
    using assms(1) by (simp add: memset0_def framed_def mapped_def)
  moreover have "mem ?s a = mem s' a" if "a \<notin> frame_addrs (sp s) fs" for a
  proof -
    have "fst ` set ?z = frame_addrs (sp s) fs" by (force simp: frame_def)
    then show ?thesis using that by (simp add: map_add_dom_app_simps(3) dom_map_of_conv_image_fst)
  qed
  moreover have "mapped ?s (sp s) fs"
    using assms(1) z width by (auto simp: framed_def mapped_def list_all_iff)
  ultimately show ?thesis using assms(1) z by (auto simp: framed_def)
qed

lemma pop_framed: "framed s' s fs \<Longrightarrow> pop (sp s) fs s' = s\<lparr>env := env s'\<rparr>"
  by (rule machine.equality) (auto simp: pop_def framed_def fun_eq_iff)

end
