(* ===== verification/C_Enum.thy ===== *)
theory C_Enum
  imports Fabric_Prelude
begin

section \<open>C enumerations\<close>

text \<open>
  A C enumeration is a datatype with the source's constants as constructors and the function
  that gives their values (32-bit words, as the compiler numbers them). What crosses a call or
  a memory cell is the number; \<open>enum_decode\<close> reads it back. The locale states what makes a
  numbering an enumeration: the list of constants is complete and no two share a number. Every
  enumeration of the headers interprets it.
\<close>

definition enum_decode :: "('e \<Rightarrow> u32) \<Rightarrow> 'e list \<Rightarrow> u32 \<Rightarrow> 'e option" where
  "enum_decode val all n = find (\<lambda>x. val x = n) all"

locale c_enum =
  fixes val :: "'e \<Rightarrow> u32"
    and all :: "'e list"
  assumes complete: "x \<in> set all"
    and distinct_values: "distinct (map val all)"
begin

lemma val_inject: "(val x = val y) = (x = y)"
  using complete distinct_values by (auto simp: distinct_map dest: inj_onD)

lemma decode_val: "enum_decode val all (val x) = Some x"
proof -
  obtain y where "find (\<lambda>y. val y = val x) all = Some y"
    using complete [of x] by (cases "find (\<lambda>y. val y = val x) all") (auto simp: find_None_iff)
  moreover from this have "val y = val x" unfolding find_Some_iff by blast
  ultimately show ?thesis by (simp add: enum_decode_def val_inject)
qed

lemma decode_Some_iff: "enum_decode val all n = Some x \<longleftrightarrow> val x = n"
  using decode_val [of x] by (auto simp: enum_decode_def find_Some_iff)

lemma decode_None_iff: "enum_decode val all n = None \<longleftrightarrow> n \<notin> range val"
  using complete by (auto simp: enum_decode_def find_None_iff)

lemma finite_all: "UNIV = set all"
  using complete by auto

end

end
