(* ===== verification/Fi_Errno.thy ===== *)
theory Fi_Errno
  imports C_Enum
begin

section \<open>fi_errno.h: error numbers\<close>

text \<open>
  The error numbers of libfabric: those it takes from \<open>errno.h\<close> with the values of Linux (the
  ones the repository comments out are not defined) and those of its own, from
  \<open>FI_ERRNO_OFFSET\<close> up. A call reports an error as the negative of its number. \<open>FI_EWOULDBLOCK\<close>
  has the value of \<open>FI_EAGAIN\<close> on Linux and is an abbreviation of it.
\<close>

datatype fi_err =
    FI_SUCCESS | FI_EPERM | FI_ENOENT | FI_EINTR | FI_EIO | FI_E2BIG | FI_EBADF | FI_EAGAIN |
    FI_ENOMEM | FI_EACCES | FI_EFAULT | FI_EBUSY | FI_ENODEV | FI_EINVAL | FI_EMFILE |
    FI_ENOSPC | FI_ENOSYS | FI_ENOMSG | FI_ENODATA | FI_EOVERFLOW | FI_EMSGSIZE |
    FI_ENOPROTOOPT | FI_EOPNOTSUPP | FI_EADDRINUSE | FI_EADDRNOTAVAIL | FI_ENETDOWN |
    FI_ENETUNREACH | FI_ECONNABORTED | FI_ECONNRESET | FI_ENOBUFS | FI_EISCONN | FI_ENOTCONN |
    FI_ESHUTDOWN | FI_ETIMEDOUT | FI_ECONNREFUSED | FI_EHOSTDOWN | FI_EHOSTUNREACH |
    FI_EALREADY | FI_EINPROGRESS | FI_EREMOTEIO | FI_ECANCELED | FI_EKEYREJECTED | FI_EOTHER |
    FI_ETOOSMALL | FI_EOPBADSTATE | FI_EAVAIL | FI_EBADFLAGS | FI_ENOEQ | FI_EDOMAIN |
    FI_ENOCQ | FI_ECRC | FI_ETRUNC | FI_ENOKEY | FI_ENOAV | FI_EOVERRUN | FI_ERRNO_MAX

abbreviation FI_EWOULDBLOCK :: fi_err where "FI_EWOULDBLOCK \<equiv> FI_EAGAIN"

definition FI_ERRNO_OFFSET :: u32 where [flag_defs]: "FI_ERRNO_OFFSET = 256"

primrec errno :: "fi_err \<Rightarrow> u32" where
  "errno FI_SUCCESS = 0"
| "errno FI_EPERM = 1"
| "errno FI_ENOENT = 2"
| "errno FI_EINTR = 4"
| "errno FI_EIO = 5"
| "errno FI_E2BIG = 7"
| "errno FI_EBADF = 9"
| "errno FI_EAGAIN = 11"
| "errno FI_ENOMEM = 12"
| "errno FI_EACCES = 13"
| "errno FI_EFAULT = 14"
| "errno FI_EBUSY = 16"
| "errno FI_ENODEV = 19"
| "errno FI_EINVAL = 22"
| "errno FI_EMFILE = 24"
| "errno FI_ENOSPC = 28"
| "errno FI_ENOSYS = 38"
| "errno FI_ENOMSG = 42"
| "errno FI_ENODATA = 61"
| "errno FI_EOVERFLOW = 75"
| "errno FI_EMSGSIZE = 90"
| "errno FI_ENOPROTOOPT = 92"
| "errno FI_EOPNOTSUPP = 95"
| "errno FI_EADDRINUSE = 98"
| "errno FI_EADDRNOTAVAIL = 99"
| "errno FI_ENETDOWN = 100"
| "errno FI_ENETUNREACH = 101"
| "errno FI_ECONNABORTED = 103"
| "errno FI_ECONNRESET = 104"
| "errno FI_ENOBUFS = 105"
| "errno FI_EISCONN = 106"
| "errno FI_ENOTCONN = 107"
| "errno FI_ESHUTDOWN = 108"
| "errno FI_ETIMEDOUT = 110"
| "errno FI_ECONNREFUSED = 111"
| "errno FI_EHOSTDOWN = 112"
| "errno FI_EHOSTUNREACH = 113"
| "errno FI_EALREADY = 114"
| "errno FI_EINPROGRESS = 115"
| "errno FI_EREMOTEIO = 121"
| "errno FI_ECANCELED = 125"
| "errno FI_EKEYREJECTED = 129"
| "errno FI_EOTHER = 256"
| "errno FI_ETOOSMALL = 257"
| "errno FI_EOPBADSTATE = 258"
| "errno FI_EAVAIL = 259"
| "errno FI_EBADFLAGS = 260"
| "errno FI_ENOEQ = 261"
| "errno FI_EDOMAIN = 262"
| "errno FI_ENOCQ = 263"
| "errno FI_ECRC = 264"
| "errno FI_ETRUNC = 265"
| "errno FI_ENOKEY = 266"
| "errno FI_ENOAV = 267"
| "errno FI_EOVERRUN = 268"
| "errno FI_ERRNO_MAX = 269"

text \<open>The numbers taken from the system, and those of the enumeration in the header.\<close>

definition system_errors :: "fi_err list" where
  "system_errors =
     [FI_SUCCESS, FI_EPERM, FI_ENOENT, FI_EINTR, FI_EIO, FI_E2BIG, FI_EBADF, FI_EAGAIN, FI_ENOMEM,
      FI_EACCES, FI_EFAULT, FI_EBUSY, FI_ENODEV, FI_EINVAL, FI_EMFILE, FI_ENOSPC, FI_ENOSYS,
      FI_ENOMSG, FI_ENODATA, FI_EOVERFLOW, FI_EMSGSIZE, FI_ENOPROTOOPT, FI_EOPNOTSUPP,
      FI_EADDRINUSE, FI_EADDRNOTAVAIL, FI_ENETDOWN, FI_ENETUNREACH, FI_ECONNABORTED,
      FI_ECONNRESET, FI_ENOBUFS, FI_EISCONN, FI_ENOTCONN, FI_ESHUTDOWN, FI_ETIMEDOUT,
      FI_ECONNREFUSED, FI_EHOSTDOWN, FI_EHOSTUNREACH, FI_EALREADY, FI_EINPROGRESS, FI_EREMOTEIO,
      FI_ECANCELED, FI_EKEYREJECTED]"

definition specific_errors :: "fi_err list" where
  "specific_errors =
     [FI_EOTHER, FI_ETOOSMALL, FI_EOPBADSTATE, FI_EAVAIL, FI_EBADFLAGS, FI_ENOEQ, FI_EDOMAIN,
      FI_ENOCQ, FI_ECRC, FI_ETRUNC, FI_ENOKEY, FI_ENOAV, FI_EOVERRUN, FI_ERRNO_MAX]"

interpretation fi_err: c_enum errno "system_errors @ specific_errors"
proof unfold_locales
  show "x \<in> set (system_errors @ specific_errors)" for x
    by (cases x) (simp_all add: system_errors_def specific_errors_def)
  show "distinct (map errno (system_errors @ specific_errors))"
    by (simp add: system_errors_def specific_errors_def)
qed

end
