(* ===== verification/Vtable.thy ===== *)
theory Vtable
  imports C_Machine Fi_Errno
begin

section \<open>Operation tables and the contracts of the calls through them\<close>

text \<open>
  Every fabric object points to tables of operations that its provider fills in. A table starts
  with its size in bytes: a provider may allocate less than the whole table (the comment on
  \<open>struct fid_ep\<close>), so an operation past the size is absent, as is a null slot. Here are the
  predicates that say what a table provides, and the contracts of the two ways the headers
  call through one: directly, and after the check \<open>FI_CHECK_OP\<close>.
\<close>

subsection \<open>FI_CHECK_OP\<close>

text \<open>\<open>(ops && (ops->size > offsetof(opstype, op)) && ops->op)\<close>, left to right.\<close>

definition FI_CHECK_OP :: "'p machine \<Rightarrow> ptr \<Rightarrow> fields \<Rightarrow> string \<Rightarrow> bool option" where
  "FI_CHECK_OP s ops opstype opn =
     (if ops = NULL then Some False
      else do {
        n \<leftarrow> get64 s ops opstype ''size'';
        if n > of_nat (offsetof opstype opn)
        then do { f \<leftarrow> get64 s ops opstype opn; Some (f \<noteq> NULL) }
        else Some False })"

subsection \<open>What a table provides\<close>

text \<open>\<open>sized_table s t tfs\<close>: \<open>t\<close> is null or a table at least as long as its size word says.\<close>

definition sized_table :: "'p machine \<Rightarrow> ptr \<Rightarrow> fields \<Rightarrow> bool" where
  "sized_table s t tfs \<longleftrightarrow> t = NULL \<or>
     (case get64 s t tfs ''size'' of
        None \<Rightarrow> False
      | Some n \<Rightarrow> list_all (\<lambda>(opn, a, u). is_fn u \<longrightarrow> a < unat n \<longrightarrow> get64 s t tfs opn \<noteq> None)
                   (layout 0 tfs))"

text \<open>\<open>provided s t tfs opn\<close>: the operation the table has, if it has one.\<close>

definition provided :: "'p machine \<Rightarrow> ptr \<Rightarrow> fields \<Rightarrow> string \<Rightarrow> ptr option" where
  "provided s t tfs opn =
     (if t = NULL then None
      else case get64 s t tfs ''size'' of
        None \<Rightarrow> None
      | Some n \<Rightarrow> (if offsetof tfs opn < unat n
                   then (case get64 s t tfs opn of
                           None \<Rightarrow> None
                         | Some f \<Rightarrow> (if f = NULL then None else Some f))
                   else None))"

text \<open>\<open>full_table s p fs tab tfs M\<close>: the table of \<open>p\<close> has every operation, the function \<open>M\<close> names.\<close>

definition full_table :: "'p machine \<Rightarrow> ptr \<Rightarrow> fields \<Rightarrow> string \<Rightarrow> fields \<Rightarrow> (string \<Rightarrow> ptr) \<Rightarrow> bool" where
  "full_table s p fs tab tfs M \<longleftrightarrow>
     list_all (\<lambda>(opn, u). is_fn u \<longrightarrow> meth s p fs tab tfs opn = Some (M opn) \<and> M opn \<noteq> NULL) tfs"

lemma full_table_meth:
  assumes "full_table s p fs tab tfs M" and "proto tfs opn = Some (r, ps)"
  shows "meth s p fs tab tfs opn = Some (M opn) \<and> M opn \<noteq> NULL"
proof -
  from assms(2) have "map_of tfs opn = Some (Fn r ps)"
    by (auto simp: proto_map_of split: option.splits ctype.splits)
  then have "(opn, Fn r ps) \<in> set tfs" by (rule map_of_SomeD)
  with assms(1) show ?thesis by (auto simp: full_table_def list_all_iff)
qed

subsection \<open>Tables: the interface of every \<open>struct fi_ops_*\<close>\<close>

locale vtable =
  fixes tfs :: fields
  assumes table: "ops_table tfs"
    and fits: "length tfs < 2 ^ 32"
begin

lemma slot_offset:
  assumes "k < length (tl tfs)" and "tl tfs ! k = (n, Fn r ps)"
  shows "member tfs n = Some (8 * (k + 1), Fn r ps)"
proof -
  from table obtain ops where tfs: "tfs = (''size'', SizeT) # ops"
    by (cases tfs rule: ops_table.cases) auto
  with table assms ops_table_member [of ops k n r ps] show ?thesis by simp
qed

lemma size_of_table: "sizeof (Struct tfs) = 8 * length tfs"
proof -
  from table obtain ops where tfs: "tfs = (''size'', SizeT) # ops" and
    fns: "list_all (\<lambda>(m, u). is_fn u) ops"
    by (cases tfs rule: ops_table.cases) auto
  have "struct_end ops 8 = 8 + 8 * length ops" using fn_struct_end [OF fns, of 8] by simp
  moreover have "roundup 0 8 = 0" by (simp add: roundup_def)
  moreover have "roundup (8 + 8 * length ops) 8 = 8 + 8 * length ops" by (rule roundup_id) auto
  ultimately show ?thesis using fn_align [OF fns] by (simp add: tfs)
qed

lemma is_small: "small tfs"
  using fits by (simp add: small_def size_of_table del: sizeof.simps)

lemma offset_of_nat:
  assumes "proto tfs opn = Some (r, ps)"
  shows "unat (of_nat (offsetof tfs opn) :: u64) = offsetof tfs opn"
proof -
  obtain a where a: "member tfs opn = Some (a, Fn r ps)" using proto_member [OF assms] by blast
  then have "a < 2 ^ 64" using is_small by (rule member_offset_less)
  then show ?thesis using a by (simp add: offsetof_member unat_of_nat take_bit_nat_eq_self)
qed

text \<open>The check is defined on every sized table, null and truncated ones included, and says
  whether the table provides the operation.\<close>

lemma check_provided:
  assumes "sized_table s t tfs" and "proto tfs opn = Some (r, ps)"
  shows "FI_CHECK_OP s t tfs opn = Some (provided s t tfs opn \<noteq> None)"
proof (cases "t = NULL")
  case True
  then show ?thesis by (simp add: FI_CHECK_OP_def provided_def)
next
  case False
  with assms(1) obtain n where n: "get64 s t tfs ''size'' = Some n" and
    mapped: "list_all (\<lambda>(opn, a, u). is_fn u \<longrightarrow> a < unat n \<longrightarrow> get64 s t tfs opn \<noteq> None) (layout 0 tfs)"
    by (auto simp: sized_table_def split: option.splits)
  obtain a where a: "member tfs opn = Some (a, Fn r ps)" using proto_member [OF assms(2)] by blast
  then have off: "offsetof tfs opn = a" by (rule offsetof_member)
  have "(opn, a, Fn r ps) \<in> set (layout 0 tfs)" using a by (rule member_in_layout)
  with mapped have slot: "a < unat n \<Longrightarrow> \<exists>f. get64 s t tfs opn = Some f"
    by (fastforce simp: list_all_iff)
  have "(of_nat a < n) = (a < unat n)"
    using offset_of_nat [OF assms(2)] off by (simp add: word_less_nat_alt)
  with False n slot off show ?thesis
    by (auto simp: FI_CHECK_OP_def provided_def)
qed

lemma provided_meth:
  assumes "get64 s p fs tab = Some t" and "provided s t tfs opn = Some f"
  shows "meth s p fs tab tfs opn = Some f \<and> f \<noteq> NULL"
  using assms by (auto simp: provided_def meth_def split: option.splits if_splits)

end

subsection \<open>Families of direct calls\<close>

text \<open>The wrappers over one table, seen as one operation on a datatype of calls: \<open>run\<close> is the
  wrapper, \<open>slot\<close> and \<open>args\<close> are the operation and the arguments the API promises for the call,
  \<open>ret\<close> is its result type. The law is that each wrapper calls that operation with those
  arguments, which are the ones its prototype in the table wants.\<close>

primrec run_all :: "('c \<Rightarrow> 'p machine \<Rightarrow> (cval \<times> 'p machine) option) \<Rightarrow> 'c list \<Rightarrow> 'p machine \<Rightarrow>
    (cval list \<times> 'p machine) option" where
  "run_all f [] s = Some ([], s)"
| "run_all f (c # cs) s = do { (v, s1) \<leftarrow> f c s; (vs, s2) \<leftarrow> run_all f cs s1; Some (v # vs, s2) }"

text \<open>\<open>stable P I\<close>: no call into the provider breaks \<open>I\<close>.\<close>

definition stable :: "'p provider \<Rightarrow> ('p machine \<Rightarrow> bool) \<Rightarrow> bool" where
  "stable P I \<longleftrightarrow> (\<forall>f args s v s'. I s \<longrightarrow> P f args s = Some (v, s') \<longrightarrow> I s')"

lemma stableD: "stable P I \<Longrightarrow> I s \<Longrightarrow> P f args s = Some (v, s') \<Longrightarrow> I s'"
  by (auto simp: stable_def)

lemma stable_invoke: "stable P I \<Longrightarrow> I s \<Longrightarrow> invoke P f n args s = Some (v, s') \<Longrightarrow> I s'"
  by (auto simp: invoke_def bind_Some_iff dest: stableD split: if_splits)

locale op_family =
  fixes run :: "'p provider \<Rightarrow> ptr \<Rightarrow> 'c \<Rightarrow> 'p machine \<Rightarrow> (cval \<times> 'p machine) option"
    and fs :: fields and tab :: string and tfs :: fields
    and slot :: "'c \<Rightarrow> string" and args :: "ptr \<Rightarrow> 'c \<Rightarrow> cval list" and ret :: "'c \<Rightarrow> ctype"
  assumes run_vcall: "run P p c s = vcall P p fs tab tfs (slot c) (args p c) s"
    and conforms: "\<exists>ps. proto tfs (slot c) = Some (ret c, ps) \<and> map bytes (args p c) = map sizeof ps"
begin

definition spec :: "'p provider \<Rightarrow> (string \<Rightarrow> ptr) \<Rightarrow> ptr \<Rightarrow> 'c \<Rightarrow> 'p machine \<Rightarrow> (cval \<times> 'p machine) option" where
  "spec P M p c s = invoke P (M (slot c)) (sizeof (ret c)) (args p c) s"

lemma dispatch:
  assumes "meth s p fs tab tfs (slot c) = Some f" and "f \<noteq> NULL"
  shows "run P p c s = invoke P f (sizeof (ret c)) (args p c) s"
proof -
  obtain ps where "proto tfs (slot c) = Some (ret c, ps)" "map bytes (args p c) = map sizeof ps"
    using conforms by blast
  with assms show ?thesis by (simp add: run_vcall vcall_invoke)
qed

lemma absent: "meth s p fs tab tfs (slot c) \<in> {None, Some NULL} \<Longrightarrow> run P p c s = None"
  using conforms [of c p] by (auto simp: run_vcall vcall_meth call_def)

lemma run_full:
  assumes "full_table s p fs tab tfs M"
  shows "run P p c s = spec P M p c s"
proof -
  obtain ps where "proto tfs (slot c) = Some (ret c, ps)" using conforms by blast
  from full_table_meth [OF assms this] show ?thesis by (simp add: dispatch spec_def)
qed

lemma session:
  assumes "stable P (\<lambda>s. full_table s p fs tab tfs M)" and "full_table s p fs tab tfs M"
  shows "run_all (run P p) cs s = run_all (spec P M p) cs s"
  using assms(2)
proof (induction cs arbitrary: s)
  case Nil
  then show ?case by simp
next
  case (Cons c cs)
  have "full_table s1 p fs tab tfs M" if "spec P M p c s = Some (v, s1)" for v s1
    using that Cons.prems stableD [OF assms(1)]
    by (auto simp: spec_def invoke_def bind_Some_iff split: if_splits)
  then show ?case
    using Cons by (cases "spec P M p c s") (auto simp: run_full)
qed

end

subsection \<open>Checked calls\<close>

text \<open>A wrapper that checks its operation with \<open>FI_CHECK_OP\<close> is defined on every sized table: it
  calls the operation when the table provides it and returns \<open>-FI_ENOSYS\<close> with the machine
  untouched when it does not.\<close>

definition enosys :: cval where
  "enosys = V32 (- errno FI_ENOSYS)"

locale guarded_op = vtable tfs
  for tfs :: fields +
  fixes wrap :: "'p provider \<Rightarrow> 'x \<Rightarrow> 'p machine \<Rightarrow> (cval \<times> 'p machine) option"
    and obj :: "'x \<Rightarrow> ptr" and fs :: fields and tab :: string
    and opn :: string and args :: "'x \<Rightarrow> cval list" and ret :: ctype
  assumes wrap_checked: "wrap P x s = do {
      ops \<leftarrow> get64 s (obj x) fs tab;
      ok \<leftarrow> FI_CHECK_OP s ops tfs opn;
      if ok then vcall P (obj x) fs tab tfs opn (args x) s
      else Some (V32 (- errno FI_ENOSYS), s) }"
    and conforms: "\<exists>ps. proto tfs opn = Some (ret, ps) \<and> map bytes (args x) = map sizeof ps"
begin

lemma guarded:
  assumes t: "get64 s (obj x) fs tab = Some t" and sized: "sized_table s t tfs"
  shows "wrap P x s = (case provided s t tfs opn of
      None \<Rightarrow> Some (enosys, s)
    | Some f \<Rightarrow> invoke P f (sizeof ret) (args x) s)"
proof -
  obtain ps where pr: "proto tfs opn = Some (ret, ps)" "map bytes (args x) = map sizeof ps"
    using conforms by blast
  show ?thesis
  proof (cases "provided s t tfs opn")
    case None
    then show ?thesis
      by (simp add: wrap_checked t check_provided [OF sized pr(1)] enosys_def)
  next
    case (Some f)
    with provided_meth [OF t Some] pr show ?thesis
      by (simp add: wrap_checked t check_provided [OF sized pr(1)] vcall_invoke)
  qed
qed

end

end
