(* ===== verification/C_Locals.thy ===== *)
theory C_Locals
  imports C_Machine
begin

section \<open>Local structs passed by address, nested structs, installed objects\<close>

text \<open>
  Several inline functions fill a struct on their stack and pass its address. \<open>puts\<close> is a run
  of member assignments; the locale \<open>local_call\<close> states the shape of such a function and shows,
  once, what the callee sees: the frame holds the values assigned and everything else is as
  the caller left it. Then the members of a struct nested in another one, and \<open>install\<close>, which
  stores a whole object and reads back what was stored.
\<close>

subsection \<open>Runs of assignments\<close>

primrec puts :: "ptr \<Rightarrow> fields \<Rightarrow> (string \<times> cval) list \<Rightarrow> 'p machine \<Rightarrow> 'p machine option" where
  "puts p fs [] s = Some s"
| "puts p fs (a # as) s = do { s1 \<leftarrow> put p fs (fst a) (snd a) s; puts p fs as s1 }"

lemma mapped_puts:
  assumes "mapped s p fs" and "small fs" and "list_all (\<lambda>(n, v). member_ok fs n v) as"
    and "distinct (map fst as)"
  shows "\<exists>s1. puts p fs as s = Some s1 \<and> mapped s1 p fs \<and> sp s1 = sp s \<and> env s1 = env s \<and>
    (\<forall>(n, v) \<in> set as. get s1 p fs n = Some v) \<and>
    (\<forall>m. m \<notin> fst ` set as \<longrightarrow> get s1 p fs m = get s p fs m)"
  using assms
proof (induction as arbitrary: s)
  case Nil
  then show ?case by simp
next
  case (Cons a as)
  obtain n v where a: "a = (n, v)" by force
  have p: "p \<noteq> NULL" using Cons.prems(1) by (simp add: mapped_def)
  have ok: "member_ok fs n v" using Cons.prems(3) a by simp
  let ?s = "upd p fs n v s"
  have "mapped ?s p fs" by (rule mapped_upd) (use Cons.prems ok in auto)
  then obtain s1 where s1: "puts p fs as ?s = Some s1" "mapped s1 p fs" "sp s1 = sp ?s" "env s1 = env ?s"
      "\<forall>(n, v) \<in> set as. get s1 p fs n = Some v"
      "\<forall>m. m \<notin> fst ` set as \<longrightarrow> get s1 p fs m = get ?s p fs m"
    using Cons.IH [of ?s] Cons.prems by auto
  have upd: "get ?s p fs m = (if m = n then Some v else get s p fs m)" for m
    by (rule get_upd [OF p ok Cons.prems(2)])
  have "n \<notin> fst ` set as" using Cons.prems(4) a by simp
  with s1(6) have "get s1 p fs n = Some v" by (simp add: upd)
  moreover have "get s1 p fs m = get s p fs m" if "m \<notin> fst ` set (a # as)" for m
    using that s1(6) a by (simp add: upd)
  ultimately show ?case
    using s1 a mapped_put [OF Cons.prems(1) ok] by auto
qed

lemma puts_framed:
  assumes "framed s1 s fs" and "small fs" and "list_all (\<lambda>(n, v). member_ok fs n v) as"
    and "puts (sp s) fs as s1 = Some s2"
  shows "framed s2 s fs"
  using assms
proof (induction as arbitrary: s1)
  case Nil
  then show ?case by simp
next
  case (Cons a as)
  obtain n v where a: "a = (n, v)" by force
  have ok: "member_ok fs n v" using Cons.prems a by simp
  have m: "mapped s1 (sp s) fs" using Cons.prems(1) by (simp add: framed_def)
  show ?case
  proof (rule Cons.IH)
    show "framed (upd (sp s) fs n v s1) s fs" using upd_framed [OF Cons.prems(1) ok Cons.prems(2)] .
    show "puts (sp s) fs as (upd (sp s) fs n v s1) = Some s2"
      using Cons.prems(4) mapped_put [OF m ok] a by simp
  qed (use Cons.prems in auto)
qed

subsection \<open>What the callee of a local struct sees\<close>

text \<open>\<open>passes s' s fs as\<close>: \<open>s'\<close> is \<open>s\<close> with a local of type \<open>fs\<close> at the old stack pointer that
  holds the assignments \<open>as\<close>.\<close>

definition passes :: "'p machine \<Rightarrow> 'p machine \<Rightarrow> fields \<Rightarrow> (string \<times> cval) list \<Rightarrow> bool" where
  "passes s' s fs as \<longleftrightarrow> framed s' s fs \<and> env s' = env s \<and>
     list_all (\<lambda>(n, v). get s' (sp s) fs n = Some v) as"

lemma passes_extends: "passes s' s fs as \<Longrightarrow> extends s' s"
  by (auto simp: passes_def intro: framed_extends)

lemma passes_get: "passes s' s fs as \<Longrightarrow> (n, v) \<in> set as \<Longrightarrow> get s' (sp s) fs n = Some v"
  by (auto simp: passes_def list_all_iff)

lemma local_struct:
  assumes "room fs s" and "small fs" and "list_all (\<lambda>(n, v). member_ok fs n v) as"
    and "distinct (map fst as)"
  shows "\<exists>s1 s2. push fs s = Some (sp s, s1) \<and> puts (sp s) fs as s1 = Some s2 \<and> passes s2 s fs as"
proof -
  obtain s1 where s1: "push fs s = Some (sp s, s1)" using assms(1) by (simp add: push_def)
  from push_framed [OF this assms(2)] have f: "framed s1 s fs" "env s1 = env s" by auto
  then have "mapped s1 (sp s) fs" by (simp add: framed_def)
  from mapped_puts [OF this assms(2-4)] obtain s2 where
    s2: "puts (sp s) fs as s1 = Some s2" "env s2 = env s1" "\<forall>(n, v) \<in> set as. get s2 (sp s) fs n = Some v"
    by blast
  have "framed s2 s fs" by (rule puts_framed [OF f(1) assms(2,3) s2(1)])
  then show ?thesis using s1 s2 f by (auto simp: passes_def list_all_iff)
qed

lemma pop_outside: "a \<notin> fst ` set (frame p fs) \<Longrightarrow> mem (pop p fs s) a = mem s a"
  by (simp add: pop_def)

lemma pop_sp [simp]: "sp (pop p fs s) = p" "env (pop p fs s) = env s"
  by (simp_all add: pop_def)

text \<open>A function that declares a local struct, assigns members of it, makes one call with its
  address and returns what the call returned.\<close>

locale local_call =
  fixes wrap :: "'p provider \<Rightarrow> 'x \<Rightarrow> 'p machine \<Rightarrow> (cval \<times> 'p machine) option"
    and loc :: fields
    and vals :: "'x \<Rightarrow> (string \<times> cval) list"
    and body :: "'p provider \<Rightarrow> 'x \<Rightarrow> ptr \<Rightarrow> 'p machine \<Rightarrow> (cval \<times> 'p machine) option"
  assumes wrap_body: "wrap P x s = do {
      (a, s1) \<leftarrow> push loc s;
      s2 \<leftarrow> puts a loc (vals x) s1;
      (v, s3) \<leftarrow> body P x a s2;
      Some (v, pop a loc s3) }"
    and loc_small: "small loc"
    and vals_ok: "list_all (\<lambda>(n, v). member_ok loc n v) (vals x)"
    and vals_distinct: "distinct (map fst (vals x))"
begin

lemma callee_sees:
  assumes "room loc s"
  shows "\<exists>s'. passes s' s loc (vals x) \<and>
    wrap P x s = do { (v, s3) \<leftarrow> body P x (sp s) s'; Some (v, pop (sp s) loc s3) }"
  using local_struct [OF assms loc_small vals_ok [of x] vals_distinct [of x]]
  by (auto simp: wrap_body)

lemma no_room: "\<not> room loc s \<Longrightarrow> wrap P x s = None"
  by (simp add: wrap_body push_def)

lemma stack_restored: "wrap P x s = Some (v, s') \<Longrightarrow> sp s' = sp s"
  by (auto simp: wrap_body push_def bind_Some_iff split: if_splits)

text \<open>A callee that only touches its own state leaves the machine as it was, its state apart.\<close>

lemma private_callee:
  assumes "room loc s" and "wrap P x s = Some (v, s')"
    and "\<And>s1 s2. body P x (sp s) s1 = Some (v, s2) \<Longrightarrow> mem s2 = mem s1"
  shows "s' = s\<lparr>env := env s'\<rparr>"
proof -
  obtain s1 where s1: "passes s1 s loc (vals x)"
      "wrap P x s = do { (v, s3) \<leftarrow> body P x (sp s) s1; Some (v, pop (sp s) loc s3) }"
    using callee_sees [OF assms(1)] by blast
  with assms(2) obtain s3 where s3: "body P x (sp s) s1 = Some (v, s3)" "s' = pop (sp s) loc s3"
    by (auto simp: bind_Some_iff)
  have "framed s3 s loc" using s1(1) assms(3) [OF s3(1)] by (auto simp: passes_def framed_def mapped_def)
  with pop_framed [OF this] s3(2) show ?thesis by simp
qed

end

subsection \<open>Structs nested in structs\<close>

lemma nested_addr:
  "member fs n = Some (a, Struct gs) \<Longrightarrow> member gs m = Some (b, t) \<Longrightarrow>
    addr_of (addr_of p fs n) gs m = p + of_nat (a + b)"
  by (simp add: addr_of_member)

lemma room_nested_NULL:
  assumes "room fs s" and "member fs n = Some (a, t)"
  shows "addr_of (sp s) fs n \<noteq> NULL"
proof
  assume z: "addr_of (sp s) fs n = NULL"
  have a: "a \<le> sizeof (Struct fs)" using member_bounds [OF assms(2)] by linarith
  have r: "unat (sp s) + sizeof (Struct fs) < 2 ^ 64" "sp s \<noteq> NULL"
    using assms(1) unfolding room_def by blast+
  have "a < 2 ^ 64" using a r(1) by linarith
  then have off: "unat (of_nat a :: ptr) = a" by (simp add: unat_of_nat take_bit_nat_eq_self)
  have "unat (sp s + of_nat a) = unat (sp s) + a"
    using r(1) a by (subst unat_word_ariths) (simp add: off)
  with z r(2) show False by (simp add: addr_of_member [OF assms(2)] unat_eq_0)
qed

lemma mapped_nested:
  assumes "mapped s p fs" and "member fs n = Some (a, Struct gs)" and "addr_of p fs n \<noteq> NULL"
  shows "mapped s (addr_of p fs n) gs"
proof -
  have "map_option cell_bytes (mem s (p + of_nat a + of_nat b)) = Some k" if "(b, k) \<in> set (leaves (Struct gs))" for b k
    using member_struct_leaves [OF assms(2) that] assms(1) by (fastforce simp: mapped_def list_all_iff add.assoc)
  then show ?thesis using assms(3) by (auto simp: mapped_def list_all_iff addr_of_member [OF assms(2)])
qed

lemma small_nested:
  "member fs n = Some (a, Struct gs) \<Longrightarrow> small fs \<Longrightarrow> small gs"
  using member_bounds [of fs n a "Struct gs"] unfolding small_def by linarith

lemma nested_disjoint:
  assumes n: "member fs n = Some (a, Struct gs)" and m: "member gs m = Some (b, t)"
    and k: "member fs k = Some (c, u)" and "k \<noteq> n" and "scalar t" and "scalar u" and small: "small fs"
  shows "addr_of (addr_of p fs n) gs m \<noteq> addr_of p fs k"
proof
  assume eq: "addr_of (addr_of p fs n) gs m = addr_of p fs k"
  have ab: "a + b + sizeof t \<le> a + sizeof (Struct gs)" using member_bounds [OF m] by linarith
  have "a + sizeof (Struct gs) < 2 ^ 64" "c < 2 ^ 64"
    using member_bounds [OF n] member_offset_less [OF k small] small unfolding small_def by linarith+
  then have "a + b < 2 ^ 64" "c < 2 ^ 64" using ab by linarith+
  moreover have "p + of_nat (a + b) = p + (of_nat c :: ptr)"
    using eq unfolding nested_addr [OF n m] addr_of_member [OF k] .
  ultimately have "a + b = c" by (metis ptr_add_eq_iff)
  moreover have "a + sizeof (Struct gs) \<le> c \<or> c + sizeof u \<le> a"
    using members_disjoint [OF n k] assms(4) by auto
  ultimately show False using ab scalar_sizeof_pos [OF assms(5)] scalar_sizeof_pos [OF assms(6)] by linarith
qed

lemma get_upd_nested:
  assumes "member fs n = Some (a, Struct gs)" and "member_ok gs m v" and "k \<noteq> n" and "small fs"
  shows "get (upd (addr_of p fs n) gs m v s) p fs k = get s p fs k"
proof -
  obtain b t where m: "member gs m = Some (b, t)" "scalar t" using member_ok_member [OF assms(2)] by blast
  show ?thesis
  proof (cases "\<exists>c u. member fs k = Some (c, u) \<and> scalar u")
    case True
    then obtain c u where k: "member fs k = Some (c, u)" "scalar u" by blast
    have "addr_of (addr_of p fs n) gs m \<noteq> addr_of p fs k"
      by (rule nested_disjoint) (fact assms m k)+
    then show ?thesis by (simp add: get_def ld_def upd_def k)
  qed (auto simp: get_def split: option.split prod.split)
qed

lemma get_nested_upd:
  assumes "member fs n = Some (a, Struct gs)" and "member_ok fs k v" and "k \<noteq> n" and "small fs"
  shows "get (upd p fs k v s) (addr_of p fs n) gs m = get s (addr_of p fs n) gs m"
proof -
  obtain c u where k: "member fs k = Some (c, u)" "scalar u" using member_ok_member [OF assms(2)] by blast
  show ?thesis
  proof (cases "\<exists>b t. member gs m = Some (b, t) \<and> scalar t")
    case True
    then obtain b t where m: "member gs m = Some (b, t)" "scalar t" by blast
    have "addr_of (addr_of p fs n) gs m \<noteq> addr_of p fs k"
      by (rule nested_disjoint) (fact assms m k)+
    then show ?thesis by (simp add: get_def ld_def upd_def m)
  qed (auto simp: get_def split: option.split prod.split)
qed

lemma upd_nested_framed:
  assumes "framed s1 s fs" and "member fs n = Some (a, Struct gs)" and "member_ok gs m v" and "small fs"
  shows "framed (upd (addr_of (sp s) fs n) gs m v s1) s fs"
proof -
  obtain b t where m: "member gs m = Some (b, t)" "scalar t" "sizeof t = bytes v"
    using member_ok_member [OF assms(3)] by blast
  let ?ls = "leaves (Struct fs)" and ?p = "sp s"
  have leaf: "(a + b, sizeof t) \<in> set ?ls"
    by (rule member_struct_leaves [OF assms(2)]) (rule member_leaf [OF m(1,2)])
  have "j = sizeof t" if "(c, j) \<in> set ?ls" "?p + of_nat c = ?p + (of_nat (a + b) :: ptr)" for c j
  proof -
    have "c = a + b" using leaf_addrs_inj [OF that(1) leaf assms(4)] that(2) by blast
    then show "j = sizeof t"
      using leaves_distinct [of "Struct fs"] that(1) leaf by (auto dest: eq_key_imp_eq_value)
  qed
  then have "mapped (upd (addr_of ?p fs n) gs m v s1) ?p fs"
    using assms(1) m(3) unfolding framed_def mapped_def list_all_iff upd_def nested_addr [OF assms(2) m(1)]
    by fastforce
  moreover have "addr_of (addr_of ?p fs n) gs m \<in> frame_addrs ?p fs"
    using leaf unfolding nested_addr [OF assms(2) m(1)] frame_addrs_iff by blast
  ultimately show ?thesis using assms(1) by (auto simp: framed_def upd_def)
qed

text \<open>After \<open>memset\<close> every scalar member is zero, in nested structs too.\<close>

definition zeroed :: "'p machine \<Rightarrow> ptr \<Rightarrow> fields \<Rightarrow> bool" where
  "zeroed s p fs \<longleftrightarrow> p \<noteq> NULL \<and>
     list_all (\<lambda>(a, n). mem s (p + of_nat a) = Some (Init (zero_cval n))) (leaves (Struct fs))"

lemma zeroed_get:
  assumes "zeroed s p fs" and "member fs n = Some (a, t)" and "scalar t"
  shows "get s p fs n = Some (zero_cval (sizeof t))"
proof -
  have "mem s (p + of_nat a) = Some (Init (zero_cval (sizeof t)))"
    using assms(1) member_leaf [OF assms(2,3)] by (auto simp: zeroed_def list_all_iff)
  moreover have "bytes (zero_cval (sizeof t)) = sizeof t" using scalar_size [OF assms(3)] by auto
  ultimately show ?thesis using assms by (simp add: get_def ld_def addr_of_member zeroed_def)
qed

lemma zeroed_nested:
  assumes "zeroed s p fs" and "member fs n = Some (a, Struct gs)" and "addr_of p fs n \<noteq> NULL"
  shows "zeroed s (addr_of p fs n) gs"
proof -
  have "mem s (p + of_nat a + of_nat b) = Some (Init (zero_cval k))"
    if "(b, k) \<in> set (leaves (Struct gs))" for b k
    using member_struct_leaves [OF assms(2) that] assms(1)
    by (fastforce simp: zeroed_def list_all_iff add.assoc)
  then show ?thesis using assms(3) by (auto simp: zeroed_def list_all_iff addr_of_member [OF assms(2)])
qed

lemma push_memset0:
  assumes "room fs s" and "small fs"
  shows "\<exists>s1 s2. push fs s = Some (sp s, s1) \<and> memset0 (sp s) fs s1 = Some s2 \<and>
    framed s2 s fs \<and> env s2 = env s \<and> zeroed s2 (sp s) fs"
proof -
  obtain s1 where s1: "push fs s = Some (sp s, s1)" using assms(1) by (simp add: push_def)
  have f: "framed s1 s fs" "env s1 = env s" using push_framed [OF s1 assms(2)] by auto
  from memset0_framed [OF f(1) assms(2)] obtain s2 where
    "memset0 (sp s) fs s1 = Some s2" "framed s2 s fs" "env s2 = env s1"
    "\<forall>(a, n) \<in> set (leaves (Struct fs)). mem s2 (sp s + of_nat a) = Some (Init (zero_cval n))" by blast
  then show ?thesis using s1 f by (auto simp: zeroed_def list_all_iff framed_def mapped_def)
qed

end
