(* ===== verification/C_Link.thy ===== *)
theory C_Link
  imports C_Locals
begin

section \<open>External symbols and traces of calls\<close>

text \<open>
  Functions and variables defined outside the repository (libfabric itself, the test library
  whose prototypes are in \<open>shared.h\<close>, \<open>getopt\<close>, \<open>fprintf\<close>) are symbols the linker resolves: a
  linkage maps each to its address. A call of an external function is a call into the provider
  parameter at that address; the address of an external variable is where its cells are.

  To say which calls a function makes, and in which order, the provider is taken to keep a log:
  \<open>logged P log\<close> says that \<open>log\<close>, read off the provider's private state, grows by the address
  called at every call. Any provider becomes one by adding the log to its state.
\<close>

type_synonym linkage = "string \<Rightarrow> ptr"

text \<open>A call whose result, if it has one, is discarded.\<close>

definition invoke_void :: "'p provider \<Rightarrow> ptr \<Rightarrow> cval list \<Rightarrow> 'p machine \<Rightarrow> 'p machine option" where
  "invoke_void P f args s = do { (v, s') \<leftarrow> P f args s; Some s' }"

definition logged :: "'p provider \<Rightarrow> ('p \<Rightarrow> ptr list) \<Rightarrow> bool" where
  "logged P log \<longleftrightarrow> (\<forall>f args s v s'. P f args s = Some (v, s') \<longrightarrow> log (env s') = log (env s) @ [f])"

lemma logged_call:
  "logged P log \<Longrightarrow> P f args s = Some (v, s') \<Longrightarrow> log (env s') = log (env s) @ [f]"
  by (simp add: logged_def)

lemma logged_invoke:
  "logged P log \<Longrightarrow> invoke P f n args s = Some (v, s') \<Longrightarrow> log (env s') = log (env s) @ [f]"
  by (auto simp: invoke_def bind_Some_iff logged_def split: if_splits)

lemma logged_invoke_void:
  "logged P log \<Longrightarrow> invoke_void P f args s = Some s' \<Longrightarrow> log (env s') = log (env s) @ [f]"
  by (auto simp: invoke_void_def bind_Some_iff logged_def)

lemma invoke_bytes: "invoke P f n args s = Some (v, s') \<Longrightarrow> bytes v = n"
  by (auto simp: invoke_def bind_Some_iff split: if_splits)

lemma bytes4_V32: "bytes v = 4 \<Longrightarrow> \<exists>w. v = V32 w"
  by (cases v) auto

lemma bytes8_V64: "bytes v = 8 \<Longrightarrow> \<exists>w. v = V64 w"
  by (cases v) auto

text \<open>A provider that only works on its private state: the memory of its callers is not its own.\<close>

definition quiet :: "'p provider \<Rightarrow> bool" where
  "quiet P \<longleftrightarrow> (\<forall>f args s v s'. P f args s = Some (v, s') \<longrightarrow> mem s' = mem s \<and> sp s' = sp s)"

lemma quiet_call: "quiet P \<Longrightarrow> P f args s = Some (v, s') \<Longrightarrow> mem s' = mem s \<and> sp s' = sp s"
  by (simp add: quiet_def)

lemma quiet_invoke: "quiet P \<Longrightarrow> invoke P f n args s = Some (v, s') \<Longrightarrow> mem s' = mem s \<and> sp s' = sp s"
  by (auto simp: invoke_def bind_Some_iff quiet_def split: if_splits)

text \<open>Reading depends on the memory only.\<close>

lemma ld_mem_cong: "mem s' = mem s \<Longrightarrow> ld s' a n = ld s a n"
  by (simp add: ld_def)

lemma get_mem_cong:
  assumes "mem s' = mem s"
  shows "get s' p fs n = get s p fs n"
  unfolding get_def ld_mem_cong [OF assms] ..

lemma get64_mem_cong:
  assumes "mem s' = mem s"
  shows "get64 s' p fs n = get64 s p fs n"
  unfolding get64_def get_mem_cong [OF assms] ..

lemma meth_mem_cong:
  assumes "mem s' = mem s"
  shows "meth s' p fs tab tfs opn = meth s p fs tab tfs opn"
  unfolding meth_def get64_mem_cong [OF assms] ..

lemma deref64_mem_cong:
  assumes "mem s' = mem s"
  shows "deref64 s' p = deref64 s p"
  unfolding deref64_def ld_mem_cong [OF assms] ..

subsection \<open>Concrete machines\<close>

text \<open>\<open>boot cells p e\<close>: the machine whose memory holds the listed values, with its stack at \<open>p\<close>;
  \<open>object p fs vs\<close>: the cells of a struct whose members have the listed values.\<close>

definition boot :: "(ptr \<times> cval) list \<Rightarrow> ptr \<Rightarrow> 'p \<Rightarrow> 'p machine" where
  "boot cells p e = \<lparr>mem = (\<lambda>a. map_option Init (map_of cells a)), sp = p, env = e\<rparr>"

definition object :: "ptr \<Rightarrow> fields \<Rightarrow> (string \<times> cval) list \<Rightarrow> (ptr \<times> cval) list" where
  "object p fs vs = map (\<lambda>(n, v). (addr_of p fs n, v)) vs"

text \<open>A table of operations whose every slot holds the address after that of the slot.\<close>

definition table_object :: "ptr \<Rightarrow> fields \<Rightarrow> (ptr \<times> cval) list" where
  "table_object p fs = (p, V64 (of_nat (8 * length fs))) #
     map (\<lambda>(n, t). (addr_of p fs n, V64 (addr_of p fs n + 1))) (tl fs)"

end
