(* ===== verification/Fabric.thy ===== *)
theory Fabric
  imports Vtable C_Link
begin

section \<open>fabric.h: descriptors, attributes and the calls on every object\<close>

text \<open>
  The root header: API version, capability and mode bits, the enumerations and attribute structs
  that describe a fabric, the descriptor \<open>struct fid\<close> every object starts with, and the calls
  every object answers (\<open>fi_close\<close>, \<open>fi_control\<close>, \<open>fi_alias\<close>, \<open>fi_open_ops\<close>, \<open>fi_set_ops\<close>). A
  \<open>#define\<close> is a word of the width its literal has, an \<open>enum\<close> a datatype with its numbering, a
  struct the list of its members.
\<close>

named_theorems upcast_simps \<open>the address of the base descriptor of an object is the object's\<close>

subsection \<open>Version\<close>

definition FI_MAJOR_VERSION :: u32 where [flag_defs]: "FI_MAJOR_VERSION = 1"
definition FI_MINOR_VERSION :: u32 where [flag_defs]: "FI_MINOR_VERSION = 11"
definition FI_REVISION_VERSION :: u32 where [flag_defs]: "FI_REVISION_VERSION = 0"

text \<open>The anonymous enumeration of lengths: two of its constants are equal, so they are numbers.\<close>

definition FI_PATH_MAX :: nat where [flag_defs]: "FI_PATH_MAX = 256"
definition FI_NAME_MAX :: nat where [flag_defs]: "FI_NAME_MAX = 64"
definition FI_VERSION_MAX :: nat where [flag_defs]: "FI_VERSION_MAX = 64"

text \<open>The version macros on \<open>uint32_t\<close> values (that is what \<open>fi_version\<close> and \<open>fi_getinfo\<close> pass).\<close>

definition FI_VERSION :: "u32 \<Rightarrow> u32 \<Rightarrow> u32" where
  "FI_VERSION major minor = push_bit 16 major OR minor"

definition FI_MAJOR :: "u32 \<Rightarrow> u32" where
  "FI_MAJOR version = drop_bit 16 version"

definition FI_MINOR :: "u32 \<Rightarrow> u32" where
  "FI_MINOR version = version AND 0xFFFF"

definition FI_VERSION_GE :: "u32 \<Rightarrow> u32 \<Rightarrow> bool" where
  "FI_VERSION_GE v1 v2 \<longleftrightarrow>
     FI_MAJOR v1 > FI_MAJOR v2 \<or>
     FI_MAJOR v1 = FI_MAJOR v2 \<and> FI_MINOR v1 = FI_MINOR v2 \<or>
     FI_MAJOR v1 = FI_MAJOR v2 \<and> FI_MINOR v1 > FI_MINOR v2"

definition FI_VERSION_LT :: "u32 \<Rightarrow> u32 \<Rightarrow> bool" where
  "FI_VERSION_LT v1 v2 \<longleftrightarrow>
     FI_MAJOR v1 < FI_MAJOR v2 \<or>
     FI_MAJOR v1 = FI_MAJOR v2 \<and> FI_MINOR v1 < FI_MINOR v2"

lemma FI_MINOR_take_bit: "FI_MINOR v = take_bit 16 v"
proof -
  have "(0xFFFF :: u32) = mask 16" by (simp add: mask_eq_exp_minus_1)
  then show ?thesis by (simp only: FI_MINOR_def take_bit_eq_mask)
qed

lemma minor_mod: "unat (FI_MINOR v) = unat v mod 2 ^ 16"
  by (simp add: FI_MINOR_take_bit take_bit_eq_mod unat_mod)

lemma version_nat: "unat v = unat (FI_MAJOR v) * 2 ^ 16 + unat (FI_MINOR v)"
proof -
  have "unat (FI_MAJOR v) = unat v div 2 ^ 16" by (simp add: FI_MAJOR_def drop_bit_eq_div unat_div)
  then show ?thesis unfolding minor_mod by presburger
qed

lemma minor_less: "unat (FI_MINOR v) < 2 ^ 16"
  by (simp add: minor_mod)

text \<open>Comparing major numbers, then minor numbers, is comparing the packed words.\<close>

lemma lex_less_iff:
  fixes a b c d :: nat
  assumes "b < n" and "d < n"
  shows "a * n + b < c * n + d \<longleftrightarrow> a < c \<or> a = c \<and> b < d"
proof -
  have "a * n + b < c * n + d" if "a < c"
  proof -
    have "a * n + b < (a + 1) * n" using assms(1) by simp
    also have "\<dots> \<le> c * n" using that by (intro mult_right_mono) auto
    finally show ?thesis by simp
  qed
  moreover have "c * n + d < a * n + b" if "c < a"
  proof -
    have "c * n + d < (c + 1) * n" using assms(2) by simp
    also have "\<dots> \<le> a * n" using that by (intro mult_right_mono) auto
    finally show ?thesis by simp
  qed
  ultimately show ?thesis by (metis add_less_cancel_left less_asym linorder_less_linear)
qed

lemma FI_VERSION_LT_iff: "FI_VERSION_LT v w \<longleftrightarrow> v < w"
proof -
  have "v < w \<longleftrightarrow> unat (FI_MAJOR v) * 2 ^ 16 + unat (FI_MINOR v) < unat (FI_MAJOR w) * 2 ^ 16 + unat (FI_MINOR w)"
    by (simp only: word_less_nat_alt version_nat [symmetric])
  also have "\<dots> \<longleftrightarrow> FI_VERSION_LT v w"
    unfolding FI_VERSION_LT_def lex_less_iff [OF minor_less minor_less]
    by (auto simp: word_less_nat_alt word_unat_eq_iff)
  finally show ?thesis by simp
qed

lemma FI_VERSION_GE_not_LT: "FI_VERSION_GE v w \<longleftrightarrow> \<not> FI_VERSION_LT v w"
  unfolding FI_VERSION_GE_def FI_VERSION_LT_def by auto

text \<open>Versions as a type of its own, ordered by the two macros: the instance is the proof that
  they are one linear order.\<close>

datatype api_version = Api_version (packed: u32)

instantiation api_version :: linorder
begin

definition less_eq_api_version :: "api_version \<Rightarrow> api_version \<Rightarrow> bool" where
  "v \<le> w \<longleftrightarrow> FI_VERSION_GE (packed w) (packed v)"

definition less_api_version :: "api_version \<Rightarrow> api_version \<Rightarrow> bool" where
  "v < w \<longleftrightarrow> FI_VERSION_LT (packed v) (packed w)"

instance
  by standard
    (auto simp: less_eq_api_version_def less_api_version_def FI_VERSION_GE_not_LT FI_VERSION_LT_iff
      api_version.expand)

end

lemma version_packed:
  assumes "major < 2 ^ 16" and "minor < 2 ^ 16"
  shows "FI_MAJOR (FI_VERSION major minor) = major \<and> FI_MINOR (FI_VERSION major minor) = minor"
proof
  note bits = word_bit_less [OF assms(1)] word_bit_less [OF assms(2)]
  show "FI_MAJOR (FI_VERSION major minor) = major"
    by (rule bit_word_eqI) (auto simp: FI_MAJOR_def FI_VERSION_def bit_simps dest: bits)
  show "FI_MINOR (FI_VERSION major minor) = minor"
    by (rule bit_word_eqI) (auto simp: FI_MINOR_take_bit FI_VERSION_def bit_simps dest: bits)
qed

subsection \<open>Flag bits\<close>

definition FI_PROV_SPECIFIC :: u32 where [flag_defs]: "FI_PROV_SPECIFIC = push_bit 31 1"
definition FI_MSG :: u64 where [flag_defs]: "FI_MSG = push_bit 1 1"
definition FI_RMA :: u64 where [flag_defs]: "FI_RMA = push_bit 2 1"
definition FI_TAGGED :: u64 where [flag_defs]: "FI_TAGGED = push_bit 3 1"
definition FI_ATOMIC :: u64 where [flag_defs]: "FI_ATOMIC = push_bit 4 1"
definition FI_MULTICAST :: u64 where [flag_defs]: "FI_MULTICAST = push_bit 5 1"
definition FI_COLLECTIVE :: u64 where [flag_defs]: "FI_COLLECTIVE = push_bit 6 1"
definition FI_READ :: u64 where [flag_defs]: "FI_READ = push_bit 8 1"
definition FI_WRITE :: u64 where [flag_defs]: "FI_WRITE = push_bit 9 1"
definition FI_RECV :: u64 where [flag_defs]: "FI_RECV = push_bit 10 1"
definition FI_SEND :: u64 where [flag_defs]: "FI_SEND = push_bit 11 1"
definition FI_REMOTE_READ :: u64 where [flag_defs]: "FI_REMOTE_READ = push_bit 12 1"
definition FI_REMOTE_WRITE :: u64 where [flag_defs]: "FI_REMOTE_WRITE = push_bit 13 1"
definition FI_MULTI_RECV :: u64 where [flag_defs]: "FI_MULTI_RECV = push_bit 16 1"
definition FI_REMOTE_CQ_DATA :: u64 where [flag_defs]: "FI_REMOTE_CQ_DATA = push_bit 17 1"
definition FI_MORE :: u64 where [flag_defs]: "FI_MORE = push_bit 18 1"
definition FI_PEEK :: u64 where [flag_defs]: "FI_PEEK = push_bit 19 1"
definition FI_TRIGGER :: u64 where [flag_defs]: "FI_TRIGGER = push_bit 20 1"
definition FI_FENCE :: u64 where [flag_defs]: "FI_FENCE = push_bit 21 1"
definition FI_PRIORITY :: u64 where [flag_defs]: "FI_PRIORITY = push_bit 22 1"
definition FI_COMPLETION :: u64 where [flag_defs]: "FI_COMPLETION = push_bit 24 1"
definition FI_INJECT :: u64 where [flag_defs]: "FI_INJECT = push_bit 25 1"
definition FI_INJECT_COMPLETE :: u64 where [flag_defs]: "FI_INJECT_COMPLETE = push_bit 26 1"
definition FI_TRANSMIT_COMPLETE :: u64 where [flag_defs]: "FI_TRANSMIT_COMPLETE = push_bit 27 1"
definition FI_DELIVERY_COMPLETE :: u64 where [flag_defs]: "FI_DELIVERY_COMPLETE = push_bit 28 1"
definition FI_AFFINITY :: u64 where [flag_defs]: "FI_AFFINITY = push_bit 29 1"
definition FI_COMMIT_COMPLETE :: u64 where [flag_defs]: "FI_COMMIT_COMPLETE = push_bit 30 1"
definition FI_MATCH_COMPLETE :: u64 where [flag_defs]: "FI_MATCH_COMPLETE = push_bit 31 1"
definition FI_HMEM :: u64 where [flag_defs]: "FI_HMEM = push_bit 47 1"
definition FI_VARIABLE_MSG :: u64 where [flag_defs]: "FI_VARIABLE_MSG = push_bit 48 1"
definition FI_RMA_PMEM :: u64 where [flag_defs]: "FI_RMA_PMEM = push_bit 49 1"
definition FI_SOURCE_ERR :: u64 where [flag_defs]: "FI_SOURCE_ERR = push_bit 50 1"
definition FI_LOCAL_COMM :: u64 where [flag_defs]: "FI_LOCAL_COMM = push_bit 51 1"
definition FI_REMOTE_COMM :: u64 where [flag_defs]: "FI_REMOTE_COMM = push_bit 52 1"
definition FI_SHARED_AV :: u64 where [flag_defs]: "FI_SHARED_AV = push_bit 53 1"
definition FI_PROV_ATTR_ONLY :: u64 where [flag_defs]: "FI_PROV_ATTR_ONLY = push_bit 54 1"
definition FI_NUMERICHOST :: u64 where [flag_defs]: "FI_NUMERICHOST = push_bit 55 1"
definition FI_RMA_EVENT :: u64 where [flag_defs]: "FI_RMA_EVENT = push_bit 56 1"
definition FI_SOURCE :: u64 where [flag_defs]: "FI_SOURCE = push_bit 57 1"
definition FI_NAMED_RX_CTX :: u64 where [flag_defs]: "FI_NAMED_RX_CTX = push_bit 58 1"
definition FI_DIRECTED_RECV :: u64 where [flag_defs]: "FI_DIRECTED_RECV = push_bit 59 1"
definition FI_CLAIM :: u64 where [flag_defs]: "FI_CLAIM = push_bit 59 1"
definition FI_DISCARD :: u64 where [flag_defs]: "FI_DISCARD = push_bit 58 1"
definition FI_MR_LOCAL :: u32 where [flag_defs]: "FI_MR_LOCAL = push_bit 2 1"
definition FI_MR_RAW :: u32 where [flag_defs]: "FI_MR_RAW = push_bit 3 1"
definition FI_MR_VIRT_ADDR :: u32 where [flag_defs]: "FI_MR_VIRT_ADDR = push_bit 4 1"
definition FI_MR_ALLOCATED :: u32 where [flag_defs]: "FI_MR_ALLOCATED = push_bit 5 1"
definition FI_MR_PROV_KEY :: u32 where [flag_defs]: "FI_MR_PROV_KEY = push_bit 6 1"
definition FI_MR_MMU_NOTIFY :: u32 where [flag_defs]: "FI_MR_MMU_NOTIFY = push_bit 7 1"
definition FI_MR_RMA_EVENT :: u32 where [flag_defs]: "FI_MR_RMA_EVENT = push_bit 8 1"
definition FI_MR_ENDPOINT :: u32 where [flag_defs]: "FI_MR_ENDPOINT = push_bit 9 1"
definition FI_MR_HMEM :: u32 where [flag_defs]: "FI_MR_HMEM = push_bit 10 1"
definition FI_ORDER_RAR :: u64 where [flag_defs]: "FI_ORDER_RAR = push_bit 0 1"
definition FI_ORDER_RAW :: u64 where [flag_defs]: "FI_ORDER_RAW = push_bit 1 1"
definition FI_ORDER_RAS :: u64 where [flag_defs]: "FI_ORDER_RAS = push_bit 2 1"
definition FI_ORDER_WAR :: u64 where [flag_defs]: "FI_ORDER_WAR = push_bit 3 1"
definition FI_ORDER_WAW :: u64 where [flag_defs]: "FI_ORDER_WAW = push_bit 4 1"
definition FI_ORDER_WAS :: u64 where [flag_defs]: "FI_ORDER_WAS = push_bit 5 1"
definition FI_ORDER_SAR :: u64 where [flag_defs]: "FI_ORDER_SAR = push_bit 6 1"
definition FI_ORDER_SAW :: u64 where [flag_defs]: "FI_ORDER_SAW = push_bit 7 1"
definition FI_ORDER_SAS :: u64 where [flag_defs]: "FI_ORDER_SAS = push_bit 8 1"
definition FI_ORDER_RMA_RAR :: u64 where [flag_defs]: "FI_ORDER_RMA_RAR = push_bit 32 1"
definition FI_ORDER_RMA_RAW :: u64 where [flag_defs]: "FI_ORDER_RMA_RAW = push_bit 33 1"
definition FI_ORDER_RMA_WAR :: u64 where [flag_defs]: "FI_ORDER_RMA_WAR = push_bit 34 1"
definition FI_ORDER_RMA_WAW :: u64 where [flag_defs]: "FI_ORDER_RMA_WAW = push_bit 35 1"
definition FI_ORDER_ATOMIC_RAR :: u64 where [flag_defs]: "FI_ORDER_ATOMIC_RAR = push_bit 36 1"
definition FI_ORDER_ATOMIC_RAW :: u64 where [flag_defs]: "FI_ORDER_ATOMIC_RAW = push_bit 37 1"
definition FI_ORDER_ATOMIC_WAR :: u64 where [flag_defs]: "FI_ORDER_ATOMIC_WAR = push_bit 38 1"
definition FI_ORDER_ATOMIC_WAW :: u64 where [flag_defs]: "FI_ORDER_ATOMIC_WAW = push_bit 39 1"
definition FI_ORDER_DATA :: u64 where [flag_defs]: "FI_ORDER_DATA = push_bit 16 1"
definition FI_CONTEXT :: u64 where [flag_defs]: "FI_CONTEXT = push_bit 59 1"
definition FI_MSG_PREFIX :: u64 where [flag_defs]: "FI_MSG_PREFIX = push_bit 58 1"
definition FI_ASYNC_IOV :: u64 where [flag_defs]: "FI_ASYNC_IOV = push_bit 57 1"
definition FI_RX_CQ_DATA :: u64 where [flag_defs]: "FI_RX_CQ_DATA = push_bit 56 1"
definition FI_LOCAL_MR :: u64 where [flag_defs]: "FI_LOCAL_MR = push_bit 55 1"
definition FI_NOTIFY_FLAGS_ONLY :: u64 where [flag_defs]: "FI_NOTIFY_FLAGS_ONLY = push_bit 54 1"
definition FI_RESTRICTED_COMP :: u64 where [flag_defs]: "FI_RESTRICTED_COMP = push_bit 53 1"
definition FI_CONTEXT2 :: u64 where [flag_defs]: "FI_CONTEXT2 = push_bit 52 1"
definition FI_BUFFERED_RECV :: u64 where [flag_defs]: "FI_BUFFERED_RECV = push_bit 51 1"
definition FI_SELECTIVE_COMPLETION :: u64 where [flag_defs]: "FI_SELECTIVE_COMPLETION = push_bit 59 1"

abbreviation FI_ATOMICS :: u64 where "FI_ATOMICS \<equiv> FI_ATOMIC"
abbreviation FI_TRANSMIT :: u64 where "FI_TRANSMIT \<equiv> FI_SEND"
abbreviation FI_EVENT :: u64 where "FI_EVENT \<equiv> FI_COMPLETION"

definition FI_ADDR_UNSPEC :: u64 where [flag_defs]: "FI_ADDR_UNSPEC = - 1"
definition FI_ADDR_NOTAVAIL :: u64 where [flag_defs]: "FI_ADDR_NOTAVAIL = - 1"
definition FI_KEY_NOTAVAIL :: u64 where [flag_defs]: "FI_KEY_NOTAVAIL = - 1"
definition FI_SHARED_CONTEXT :: u64 where [flag_defs]: "FI_SHARED_CONTEXT = - 1"

definition FI_ORDER_NONE :: u64 where [flag_defs]: "FI_ORDER_NONE = 0"
definition FI_ORDER_STRICT :: u64 where [flag_defs]: "FI_ORDER_STRICT = 0x1FF"

subsection \<open>Enumerations\<close>

datatype fi_addr_format =
    FI_FORMAT_UNSPEC | FI_SOCKADDR | FI_SOCKADDR_IN | FI_SOCKADDR_IN6 | FI_SOCKADDR_IB |
    FI_ADDR_PSMX | FI_ADDR_GNI | FI_ADDR_BGQ | FI_ADDR_MLX | FI_ADDR_STR | FI_ADDR_PSMX2 |
    FI_ADDR_IB_UD | FI_ADDR_EFA

primrec fi_addr_format_val :: "fi_addr_format \<Rightarrow> u32" where
  "fi_addr_format_val FI_FORMAT_UNSPEC = 0"
| "fi_addr_format_val FI_SOCKADDR = 1"
| "fi_addr_format_val FI_SOCKADDR_IN = 2"
| "fi_addr_format_val FI_SOCKADDR_IN6 = 3"
| "fi_addr_format_val FI_SOCKADDR_IB = 4"
| "fi_addr_format_val FI_ADDR_PSMX = 5"
| "fi_addr_format_val FI_ADDR_GNI = 6"
| "fi_addr_format_val FI_ADDR_BGQ = 7"
| "fi_addr_format_val FI_ADDR_MLX = 8"
| "fi_addr_format_val FI_ADDR_STR = 9"
| "fi_addr_format_val FI_ADDR_PSMX2 = 10"
| "fi_addr_format_val FI_ADDR_IB_UD = 11"
| "fi_addr_format_val FI_ADDR_EFA = 12"

definition fi_addr_format_all :: "fi_addr_format list" where
  "fi_addr_format_all =
     [FI_FORMAT_UNSPEC, FI_SOCKADDR, FI_SOCKADDR_IN, FI_SOCKADDR_IN6, FI_SOCKADDR_IB, FI_ADDR_PSMX,
      FI_ADDR_GNI, FI_ADDR_BGQ, FI_ADDR_MLX, FI_ADDR_STR, FI_ADDR_PSMX2, FI_ADDR_IB_UD,
      FI_ADDR_EFA]"

interpretation fi_addr_format: c_enum fi_addr_format_val fi_addr_format_all
proof unfold_locales
  show "x \<in> set fi_addr_format_all" for x
    by (cases x) (simp_all add: fi_addr_format_all_def)
  show "distinct (map fi_addr_format_val fi_addr_format_all)"
    by (simp add: fi_addr_format_all_def)
qed

datatype fi_av_type =
    FI_AV_UNSPEC | FI_AV_MAP | FI_AV_TABLE

primrec fi_av_type_val :: "fi_av_type \<Rightarrow> u32" where
  "fi_av_type_val FI_AV_UNSPEC = 0"
| "fi_av_type_val FI_AV_MAP = 1"
| "fi_av_type_val FI_AV_TABLE = 2"

definition fi_av_type_all :: "fi_av_type list" where
  "fi_av_type_all =
     [FI_AV_UNSPEC, FI_AV_MAP, FI_AV_TABLE]"

interpretation fi_av_type: c_enum fi_av_type_val fi_av_type_all
proof unfold_locales
  show "x \<in> set fi_av_type_all" for x
    by (cases x) (simp_all add: fi_av_type_all_def)
  show "distinct (map fi_av_type_val fi_av_type_all)"
    by (simp add: fi_av_type_all_def)
qed

datatype fi_mr_mode =
    FI_MR_UNSPEC | FI_MR_BASIC | FI_MR_SCALABLE

primrec fi_mr_mode_val :: "fi_mr_mode \<Rightarrow> u32" where
  "fi_mr_mode_val FI_MR_UNSPEC = 0"
| "fi_mr_mode_val FI_MR_BASIC = 1"
| "fi_mr_mode_val FI_MR_SCALABLE = 2"

definition fi_mr_mode_all :: "fi_mr_mode list" where
  "fi_mr_mode_all =
     [FI_MR_UNSPEC, FI_MR_BASIC, FI_MR_SCALABLE]"

interpretation fi_mr_mode: c_enum fi_mr_mode_val fi_mr_mode_all
proof unfold_locales
  show "x \<in> set fi_mr_mode_all" for x
    by (cases x) (simp_all add: fi_mr_mode_all_def)
  show "distinct (map fi_mr_mode_val fi_mr_mode_all)"
    by (simp add: fi_mr_mode_all_def)
qed

datatype fi_progress =
    FI_PROGRESS_UNSPEC | FI_PROGRESS_AUTO | FI_PROGRESS_MANUAL

primrec fi_progress_val :: "fi_progress \<Rightarrow> u32" where
  "fi_progress_val FI_PROGRESS_UNSPEC = 0"
| "fi_progress_val FI_PROGRESS_AUTO = 1"
| "fi_progress_val FI_PROGRESS_MANUAL = 2"

definition fi_progress_all :: "fi_progress list" where
  "fi_progress_all =
     [FI_PROGRESS_UNSPEC, FI_PROGRESS_AUTO, FI_PROGRESS_MANUAL]"

interpretation fi_progress: c_enum fi_progress_val fi_progress_all
proof unfold_locales
  show "x \<in> set fi_progress_all" for x
    by (cases x) (simp_all add: fi_progress_all_def)
  show "distinct (map fi_progress_val fi_progress_all)"
    by (simp add: fi_progress_all_def)
qed

datatype fi_threading =
    FI_THREAD_UNSPEC | FI_THREAD_SAFE | FI_THREAD_FID | FI_THREAD_DOMAIN | FI_THREAD_COMPLETION |
    FI_THREAD_ENDPOINT

primrec fi_threading_val :: "fi_threading \<Rightarrow> u32" where
  "fi_threading_val FI_THREAD_UNSPEC = 0"
| "fi_threading_val FI_THREAD_SAFE = 1"
| "fi_threading_val FI_THREAD_FID = 2"
| "fi_threading_val FI_THREAD_DOMAIN = 3"
| "fi_threading_val FI_THREAD_COMPLETION = 4"
| "fi_threading_val FI_THREAD_ENDPOINT = 5"

definition fi_threading_all :: "fi_threading list" where
  "fi_threading_all =
     [FI_THREAD_UNSPEC, FI_THREAD_SAFE, FI_THREAD_FID, FI_THREAD_DOMAIN, FI_THREAD_COMPLETION,
      FI_THREAD_ENDPOINT]"

interpretation fi_threading: c_enum fi_threading_val fi_threading_all
proof unfold_locales
  show "x \<in> set fi_threading_all" for x
    by (cases x) (simp_all add: fi_threading_all_def)
  show "distinct (map fi_threading_val fi_threading_all)"
    by (simp add: fi_threading_all_def)
qed

datatype fi_resource_mgmt =
    FI_RM_UNSPEC | FI_RM_DISABLED | FI_RM_ENABLED

primrec fi_resource_mgmt_val :: "fi_resource_mgmt \<Rightarrow> u32" where
  "fi_resource_mgmt_val FI_RM_UNSPEC = 0"
| "fi_resource_mgmt_val FI_RM_DISABLED = 1"
| "fi_resource_mgmt_val FI_RM_ENABLED = 2"

definition fi_resource_mgmt_all :: "fi_resource_mgmt list" where
  "fi_resource_mgmt_all =
     [FI_RM_UNSPEC, FI_RM_DISABLED, FI_RM_ENABLED]"

interpretation fi_resource_mgmt: c_enum fi_resource_mgmt_val fi_resource_mgmt_all
proof unfold_locales
  show "x \<in> set fi_resource_mgmt_all" for x
    by (cases x) (simp_all add: fi_resource_mgmt_all_def)
  show "distinct (map fi_resource_mgmt_val fi_resource_mgmt_all)"
    by (simp add: fi_resource_mgmt_all_def)
qed

datatype fi_ep_type =
    FI_EP_UNSPEC | FI_EP_MSG | FI_EP_DGRAM | FI_EP_RDM | FI_EP_SOCK_STREAM | FI_EP_SOCK_DGRAM

primrec fi_ep_type_val :: "fi_ep_type \<Rightarrow> u32" where
  "fi_ep_type_val FI_EP_UNSPEC = 0"
| "fi_ep_type_val FI_EP_MSG = 1"
| "fi_ep_type_val FI_EP_DGRAM = 2"
| "fi_ep_type_val FI_EP_RDM = 3"
| "fi_ep_type_val FI_EP_SOCK_STREAM = 4"
| "fi_ep_type_val FI_EP_SOCK_DGRAM = 5"

definition fi_ep_type_all :: "fi_ep_type list" where
  "fi_ep_type_all =
     [FI_EP_UNSPEC, FI_EP_MSG, FI_EP_DGRAM, FI_EP_RDM, FI_EP_SOCK_STREAM, FI_EP_SOCK_DGRAM]"

interpretation fi_ep_type: c_enum fi_ep_type_val fi_ep_type_all
proof unfold_locales
  show "x \<in> set fi_ep_type_all" for x
    by (cases x) (simp_all add: fi_ep_type_all_def)
  show "distinct (map fi_ep_type_val fi_ep_type_all)"
    by (simp add: fi_ep_type_all_def)
qed

datatype fi_proto =
    FI_PROTO_UNSPEC | FI_PROTO_RDMA_CM_IB_RC | FI_PROTO_IWARP | FI_PROTO_IB_UD | FI_PROTO_PSMX |
    FI_PROTO_UDP | FI_PROTO_SOCK_TCP | FI_PROTO_MXM | FI_PROTO_IWARP_RDM | FI_PROTO_IB_RDM |
    FI_PROTO_GNI | FI_PROTO_RXM | FI_PROTO_RXD | FI_PROTO_MLX | FI_PROTO_NETWORKDIRECT |
    FI_PROTO_PSMX2 | FI_PROTO_SHM | FI_PROTO_MRAIL | FI_PROTO_RSTREAM |
    FI_PROTO_RDMA_CM_IB_XRC | FI_PROTO_EFA

primrec fi_proto_val :: "fi_proto \<Rightarrow> u32" where
  "fi_proto_val FI_PROTO_UNSPEC = 0"
| "fi_proto_val FI_PROTO_RDMA_CM_IB_RC = 1"
| "fi_proto_val FI_PROTO_IWARP = 2"
| "fi_proto_val FI_PROTO_IB_UD = 3"
| "fi_proto_val FI_PROTO_PSMX = 4"
| "fi_proto_val FI_PROTO_UDP = 5"
| "fi_proto_val FI_PROTO_SOCK_TCP = 6"
| "fi_proto_val FI_PROTO_MXM = 7"
| "fi_proto_val FI_PROTO_IWARP_RDM = 8"
| "fi_proto_val FI_PROTO_IB_RDM = 9"
| "fi_proto_val FI_PROTO_GNI = 10"
| "fi_proto_val FI_PROTO_RXM = 11"
| "fi_proto_val FI_PROTO_RXD = 12"
| "fi_proto_val FI_PROTO_MLX = 13"
| "fi_proto_val FI_PROTO_NETWORKDIRECT = 14"
| "fi_proto_val FI_PROTO_PSMX2 = 15"
| "fi_proto_val FI_PROTO_SHM = 16"
| "fi_proto_val FI_PROTO_MRAIL = 17"
| "fi_proto_val FI_PROTO_RSTREAM = 18"
| "fi_proto_val FI_PROTO_RDMA_CM_IB_XRC = 19"
| "fi_proto_val FI_PROTO_EFA = 20"

definition fi_proto_all :: "fi_proto list" where
  "fi_proto_all =
     [FI_PROTO_UNSPEC, FI_PROTO_RDMA_CM_IB_RC, FI_PROTO_IWARP, FI_PROTO_IB_UD, FI_PROTO_PSMX,
      FI_PROTO_UDP, FI_PROTO_SOCK_TCP, FI_PROTO_MXM, FI_PROTO_IWARP_RDM, FI_PROTO_IB_RDM,
      FI_PROTO_GNI, FI_PROTO_RXM, FI_PROTO_RXD, FI_PROTO_MLX, FI_PROTO_NETWORKDIRECT,
      FI_PROTO_PSMX2, FI_PROTO_SHM, FI_PROTO_MRAIL, FI_PROTO_RSTREAM, FI_PROTO_RDMA_CM_IB_XRC,
      FI_PROTO_EFA]"

interpretation fi_proto: c_enum fi_proto_val fi_proto_all
proof unfold_locales
  show "x \<in> set fi_proto_all" for x
    by (cases x) (simp_all add: fi_proto_all_def)
  show "distinct (map fi_proto_val fi_proto_all)"
    by (simp add: fi_proto_all_def)
qed

datatype fi_tclass =
    FI_TC_UNSPEC | FI_TC_DSCP | FI_TC_LABEL | FI_TC_LOW_LATENCY | FI_TC_DEDICATED_ACCESS |
    FI_TC_BULK_DATA | FI_TC_SCAVENGER | FI_TC_NETWORK_CTRL

abbreviation FI_TC_BEST_EFFORT :: fi_tclass where "FI_TC_BEST_EFFORT \<equiv> FI_TC_LABEL"

primrec fi_tclass_val :: "fi_tclass \<Rightarrow> u32" where
  "fi_tclass_val FI_TC_UNSPEC = 0"
| "fi_tclass_val FI_TC_DSCP = 256"
| "fi_tclass_val FI_TC_LABEL = 512"
| "fi_tclass_val FI_TC_LOW_LATENCY = 513"
| "fi_tclass_val FI_TC_DEDICATED_ACCESS = 514"
| "fi_tclass_val FI_TC_BULK_DATA = 515"
| "fi_tclass_val FI_TC_SCAVENGER = 516"
| "fi_tclass_val FI_TC_NETWORK_CTRL = 517"

definition fi_tclass_all :: "fi_tclass list" where
  "fi_tclass_all =
     [FI_TC_UNSPEC, FI_TC_DSCP, FI_TC_LABEL, FI_TC_LOW_LATENCY, FI_TC_DEDICATED_ACCESS,
      FI_TC_BULK_DATA, FI_TC_SCAVENGER, FI_TC_NETWORK_CTRL]"

interpretation fi_tclass: c_enum fi_tclass_val fi_tclass_all
proof unfold_locales
  show "x \<in> set fi_tclass_all" for x
    by (cases x) (simp_all add: fi_tclass_all_def)
  show "distinct (map fi_tclass_val fi_tclass_all)"
    by (simp add: fi_tclass_all_def)
qed

datatype fi_bus_type =
    FI_BUS_UNSPEC | FI_BUS_PCI

abbreviation FI_BUS_UNKNOWN :: fi_bus_type where "FI_BUS_UNKNOWN \<equiv> FI_BUS_UNSPEC"

primrec fi_bus_type_val :: "fi_bus_type \<Rightarrow> u32" where
  "fi_bus_type_val FI_BUS_UNSPEC = 0"
| "fi_bus_type_val FI_BUS_PCI = 1"

definition fi_bus_type_all :: "fi_bus_type list" where
  "fi_bus_type_all =
     [FI_BUS_UNSPEC, FI_BUS_PCI]"

interpretation fi_bus_type: c_enum fi_bus_type_val fi_bus_type_all
proof unfold_locales
  show "x \<in> set fi_bus_type_all" for x
    by (cases x) (simp_all add: fi_bus_type_all_def)
  show "distinct (map fi_bus_type_val fi_bus_type_all)"
    by (simp add: fi_bus_type_all_def)
qed

datatype fi_link_state =
    FI_LINK_UNKNOWN | FI_LINK_DOWN | FI_LINK_UP

primrec fi_link_state_val :: "fi_link_state \<Rightarrow> u32" where
  "fi_link_state_val FI_LINK_UNKNOWN = 0"
| "fi_link_state_val FI_LINK_DOWN = 1"
| "fi_link_state_val FI_LINK_UP = 2"

definition fi_link_state_all :: "fi_link_state list" where
  "fi_link_state_all =
     [FI_LINK_UNKNOWN, FI_LINK_DOWN, FI_LINK_UP]"

interpretation fi_link_state: c_enum fi_link_state_val fi_link_state_all
proof unfold_locales
  show "x \<in> set fi_link_state_all" for x
    by (cases x) (simp_all add: fi_link_state_all_def)
  show "distinct (map fi_link_state_val fi_link_state_all)"
    by (simp add: fi_link_state_all_def)
qed

datatype fi_class =
    FI_CLASS_UNSPEC | FI_CLASS_FABRIC | FI_CLASS_DOMAIN | FI_CLASS_EP | FI_CLASS_SEP |
    FI_CLASS_RX_CTX | FI_CLASS_SRX_CTX | FI_CLASS_TX_CTX | FI_CLASS_STX_CTX | FI_CLASS_PEP |
    FI_CLASS_INTERFACE | FI_CLASS_AV | FI_CLASS_MR | FI_CLASS_EQ | FI_CLASS_CQ | FI_CLASS_CNTR |
    FI_CLASS_WAIT | FI_CLASS_POLL | FI_CLASS_CONNREQ | FI_CLASS_MC | FI_CLASS_NIC |
    FI_CLASS_AV_SET

primrec fi_class_val :: "fi_class \<Rightarrow> u32" where
  "fi_class_val FI_CLASS_UNSPEC = 0"
| "fi_class_val FI_CLASS_FABRIC = 1"
| "fi_class_val FI_CLASS_DOMAIN = 2"
| "fi_class_val FI_CLASS_EP = 3"
| "fi_class_val FI_CLASS_SEP = 4"
| "fi_class_val FI_CLASS_RX_CTX = 5"
| "fi_class_val FI_CLASS_SRX_CTX = 6"
| "fi_class_val FI_CLASS_TX_CTX = 7"
| "fi_class_val FI_CLASS_STX_CTX = 8"
| "fi_class_val FI_CLASS_PEP = 9"
| "fi_class_val FI_CLASS_INTERFACE = 10"
| "fi_class_val FI_CLASS_AV = 11"
| "fi_class_val FI_CLASS_MR = 12"
| "fi_class_val FI_CLASS_EQ = 13"
| "fi_class_val FI_CLASS_CQ = 14"
| "fi_class_val FI_CLASS_CNTR = 15"
| "fi_class_val FI_CLASS_WAIT = 16"
| "fi_class_val FI_CLASS_POLL = 17"
| "fi_class_val FI_CLASS_CONNREQ = 18"
| "fi_class_val FI_CLASS_MC = 19"
| "fi_class_val FI_CLASS_NIC = 20"
| "fi_class_val FI_CLASS_AV_SET = 21"

definition fi_class_all :: "fi_class list" where
  "fi_class_all =
     [FI_CLASS_UNSPEC, FI_CLASS_FABRIC, FI_CLASS_DOMAIN, FI_CLASS_EP, FI_CLASS_SEP, FI_CLASS_RX_CTX,
      FI_CLASS_SRX_CTX, FI_CLASS_TX_CTX, FI_CLASS_STX_CTX, FI_CLASS_PEP, FI_CLASS_INTERFACE,
      FI_CLASS_AV, FI_CLASS_MR, FI_CLASS_EQ, FI_CLASS_CQ, FI_CLASS_CNTR, FI_CLASS_WAIT,
      FI_CLASS_POLL, FI_CLASS_CONNREQ, FI_CLASS_MC, FI_CLASS_NIC, FI_CLASS_AV_SET]"

interpretation fi_class: c_enum fi_class_val fi_class_all
proof unfold_locales
  show "x \<in> set fi_class_all" for x
    by (cases x) (simp_all add: fi_class_all_def)
  show "distinct (map fi_class_val fi_class_all)"
    by (simp add: fi_class_all_def)
qed

datatype fi_command =
    FI_GETFIDFLAG | FI_SETFIDFLAG | FI_GETOPSFLAG | FI_SETOPSFLAG | FI_ALIAS | FI_GETWAIT |
    FI_ENABLE | FI_BACKLOG | FI_GET_RAW_MR | FI_MAP_RAW_MR | FI_UNMAP_KEY | FI_QUEUE_WORK |
    FI_CANCEL_WORK | FI_FLUSH_WORK | FI_REFRESH | FI_DUP | FI_GETWAITOBJ

primrec fi_command_val :: "fi_command \<Rightarrow> u32" where
  "fi_command_val FI_GETFIDFLAG = 0"
| "fi_command_val FI_SETFIDFLAG = 1"
| "fi_command_val FI_GETOPSFLAG = 2"
| "fi_command_val FI_SETOPSFLAG = 3"
| "fi_command_val FI_ALIAS = 4"
| "fi_command_val FI_GETWAIT = 5"
| "fi_command_val FI_ENABLE = 6"
| "fi_command_val FI_BACKLOG = 7"
| "fi_command_val FI_GET_RAW_MR = 8"
| "fi_command_val FI_MAP_RAW_MR = 9"
| "fi_command_val FI_UNMAP_KEY = 10"
| "fi_command_val FI_QUEUE_WORK = 11"
| "fi_command_val FI_CANCEL_WORK = 12"
| "fi_command_val FI_FLUSH_WORK = 13"
| "fi_command_val FI_REFRESH = 14"
| "fi_command_val FI_DUP = 15"
| "fi_command_val FI_GETWAITOBJ = 16"

definition fi_command_all :: "fi_command list" where
  "fi_command_all =
     [FI_GETFIDFLAG, FI_SETFIDFLAG, FI_GETOPSFLAG, FI_SETOPSFLAG, FI_ALIAS, FI_GETWAIT, FI_ENABLE,
      FI_BACKLOG, FI_GET_RAW_MR, FI_MAP_RAW_MR, FI_UNMAP_KEY, FI_QUEUE_WORK, FI_CANCEL_WORK,
      FI_FLUSH_WORK, FI_REFRESH, FI_DUP, FI_GETWAITOBJ]"

interpretation fi_command: c_enum fi_command_val fi_command_all
proof unfold_locales
  show "x \<in> set fi_command_all" for x
    by (cases x) (simp_all add: fi_command_all_def)
  show "distinct (map fi_command_val fi_command_all)"
    by (simp add: fi_command_all_def)
qed

datatype fi_type =
    FI_TYPE_INFO | FI_TYPE_EP_TYPE | FI_TYPE_CAPS | FI_TYPE_OP_FLAGS | FI_TYPE_ADDR_FORMAT |
    FI_TYPE_TX_ATTR | FI_TYPE_RX_ATTR | FI_TYPE_EP_ATTR | FI_TYPE_DOMAIN_ATTR |
    FI_TYPE_FABRIC_ATTR | FI_TYPE_THREADING | FI_TYPE_PROGRESS | FI_TYPE_PROTOCOL |
    FI_TYPE_MSG_ORDER | FI_TYPE_MODE | FI_TYPE_AV_TYPE | FI_TYPE_ATOMIC_TYPE |
    FI_TYPE_ATOMIC_OP | FI_TYPE_VERSION | FI_TYPE_EQ_EVENT | FI_TYPE_CQ_EVENT_FLAGS |
    FI_TYPE_MR_MODE | FI_TYPE_OP_TYPE | FI_TYPE_FID | FI_TYPE_COLLECTIVE_OP | FI_TYPE_HMEM_IFACE

primrec fi_type_val :: "fi_type \<Rightarrow> u32" where
  "fi_type_val FI_TYPE_INFO = 0"
| "fi_type_val FI_TYPE_EP_TYPE = 1"
| "fi_type_val FI_TYPE_CAPS = 2"
| "fi_type_val FI_TYPE_OP_FLAGS = 3"
| "fi_type_val FI_TYPE_ADDR_FORMAT = 4"
| "fi_type_val FI_TYPE_TX_ATTR = 5"
| "fi_type_val FI_TYPE_RX_ATTR = 6"
| "fi_type_val FI_TYPE_EP_ATTR = 7"
| "fi_type_val FI_TYPE_DOMAIN_ATTR = 8"
| "fi_type_val FI_TYPE_FABRIC_ATTR = 9"
| "fi_type_val FI_TYPE_THREADING = 10"
| "fi_type_val FI_TYPE_PROGRESS = 11"
| "fi_type_val FI_TYPE_PROTOCOL = 12"
| "fi_type_val FI_TYPE_MSG_ORDER = 13"
| "fi_type_val FI_TYPE_MODE = 14"
| "fi_type_val FI_TYPE_AV_TYPE = 15"
| "fi_type_val FI_TYPE_ATOMIC_TYPE = 16"
| "fi_type_val FI_TYPE_ATOMIC_OP = 17"
| "fi_type_val FI_TYPE_VERSION = 18"
| "fi_type_val FI_TYPE_EQ_EVENT = 19"
| "fi_type_val FI_TYPE_CQ_EVENT_FLAGS = 20"
| "fi_type_val FI_TYPE_MR_MODE = 21"
| "fi_type_val FI_TYPE_OP_TYPE = 22"
| "fi_type_val FI_TYPE_FID = 23"
| "fi_type_val FI_TYPE_COLLECTIVE_OP = 24"
| "fi_type_val FI_TYPE_HMEM_IFACE = 25"

definition fi_type_all :: "fi_type list" where
  "fi_type_all =
     [FI_TYPE_INFO, FI_TYPE_EP_TYPE, FI_TYPE_CAPS, FI_TYPE_OP_FLAGS, FI_TYPE_ADDR_FORMAT,
      FI_TYPE_TX_ATTR, FI_TYPE_RX_ATTR, FI_TYPE_EP_ATTR, FI_TYPE_DOMAIN_ATTR,
      FI_TYPE_FABRIC_ATTR, FI_TYPE_THREADING, FI_TYPE_PROGRESS, FI_TYPE_PROTOCOL,
      FI_TYPE_MSG_ORDER, FI_TYPE_MODE, FI_TYPE_AV_TYPE, FI_TYPE_ATOMIC_TYPE, FI_TYPE_ATOMIC_OP,
      FI_TYPE_VERSION, FI_TYPE_EQ_EVENT, FI_TYPE_CQ_EVENT_FLAGS, FI_TYPE_MR_MODE,
      FI_TYPE_OP_TYPE, FI_TYPE_FID, FI_TYPE_COLLECTIVE_OP, FI_TYPE_HMEM_IFACE]"

interpretation fi_type: c_enum fi_type_val fi_type_all
proof unfold_locales
  show "x \<in> set fi_type_all" for x
    by (cases x) (simp_all add: fi_type_all_def)
  show "distinct (map fi_type_val fi_type_all)"
    by (simp add: fi_type_all_def)
qed

datatype fi_param_type =
    FI_PARAM_STRING | FI_PARAM_INT | FI_PARAM_BOOL | FI_PARAM_SIZE_T

primrec fi_param_type_val :: "fi_param_type \<Rightarrow> u32" where
  "fi_param_type_val FI_PARAM_STRING = 0"
| "fi_param_type_val FI_PARAM_INT = 1"
| "fi_param_type_val FI_PARAM_BOOL = 2"
| "fi_param_type_val FI_PARAM_SIZE_T = 3"

definition fi_param_type_all :: "fi_param_type list" where
  "fi_param_type_all =
     [FI_PARAM_STRING, FI_PARAM_INT, FI_PARAM_BOOL, FI_PARAM_SIZE_T]"

interpretation fi_param_type: c_enum fi_param_type_val fi_param_type_all
proof unfold_locales
  show "x \<in> set fi_param_type_all" for x
    by (cases x) (simp_all add: fi_param_type_all_def)
  show "distinct (map fi_param_type_val fi_param_type_all)"
    by (simp add: fi_param_type_all_def)
qed

subsection \<open>Traffic classes\<close>

definition fi_tc_dscp_set :: "u8 \<Rightarrow> u32" where
  "fi_tc_dscp_set dscp = ucast dscp OR fi_tclass_val FI_TC_DSCP"

definition fi_tc_dscp_get :: "u32 \<Rightarrow> u8" where
  "fi_tc_dscp_get tclass = (if tclass AND fi_tclass_val FI_TC_DSCP \<noteq> 0 then ucast tclass else 0)"

lemma dscp_flag: "bit (tclass :: u32) 8 \<longleftrightarrow> tclass AND 0x100 \<noteq> 0"
proof -
  have "push_bit 8 1 = (0x100 :: u32)" by (simp add: push_bit_eq_mult)
  then show ?thesis by (simp only: bit_iff_and_push_bit_not_eq_0)
qed

lemma fi_tc_dscp_get_bits:
  "fi_tc_dscp_get tclass = (if bit tclass 8 then ucast tclass else 0)"
  by (simp add: fi_tc_dscp_get_def dscp_flag)

subsection \<open>Structs\<close>

definition struct_fi_ioc :: fields where [structs]:
  "struct_fi_ioc = [
     (''addr'', Ptr), (''count'', SizeT)]"

definition struct_fi_tx_attr :: fields where [structs]:
  "struct_fi_tx_attr = [
     (''caps'', U64), (''mode'', U64), (''op_flags'', U64), (''msg_order'', U64),
     (''comp_order'', U64), (''inject_size'', SizeT), (''size'', SizeT), (''iov_limit'', SizeT),
     (''rma_iov_limit'', SizeT), (''tclass'', U32)]"

definition struct_fi_rx_attr :: fields where [structs]:
  "struct_fi_rx_attr = [
     (''caps'', U64), (''mode'', U64), (''op_flags'', U64), (''msg_order'', U64),
     (''comp_order'', U64), (''total_buffered_recv'', SizeT), (''size'', SizeT),
     (''iov_limit'', SizeT)]"

definition struct_fi_ep_attr :: fields where [structs]:
  "struct_fi_ep_attr = [
     (''type'', CEnum), (''protocol'', U32), (''protocol_version'', U32), (''max_msg_size'', SizeT),
     (''msg_prefix_size'', SizeT), (''max_order_raw_size'', SizeT),
     (''max_order_war_size'', SizeT), (''max_order_waw_size'', SizeT),
     (''mem_tag_format'', U64), (''tx_ctx_cnt'', SizeT), (''rx_ctx_cnt'', SizeT),
     (''auth_key_size'', SizeT), (''auth_key'', Ptr)]"

definition struct_fi_domain_attr :: fields where [structs]:
  "struct_fi_domain_attr = [
     (''domain'', Ptr), (''name'', Ptr), (''threading'', CEnum), (''control_progress'', CEnum),
     (''data_progress'', CEnum), (''resource_mgmt'', CEnum), (''av_type'', CEnum),
     (''mr_mode'', CInt), (''mr_key_size'', SizeT), (''cq_data_size'', SizeT),
     (''cq_cnt'', SizeT), (''ep_cnt'', SizeT), (''tx_ctx_cnt'', SizeT), (''rx_ctx_cnt'', SizeT),
     (''max_ep_tx_ctx'', SizeT), (''max_ep_rx_ctx'', SizeT), (''max_ep_stx_ctx'', SizeT),
     (''max_ep_srx_ctx'', SizeT), (''cntr_cnt'', SizeT), (''mr_iov_limit'', SizeT),
     (''caps'', U64), (''mode'', U64), (''auth_key'', Ptr), (''auth_key_size'', SizeT),
     (''max_err_data'', SizeT), (''mr_cnt'', SizeT), (''tclass'', U32)]"

definition struct_fi_fabric_attr :: fields where [structs]:
  "struct_fi_fabric_attr = [
     (''fabric'', Ptr), (''name'', Ptr), (''prov_name'', Ptr), (''prov_version'', U32),
     (''api_version'', U32)]"

definition struct_fi_info :: fields where [structs]:
  "struct_fi_info = [
     (''next'', Ptr), (''caps'', U64), (''mode'', U64), (''addr_format'', U32),
     (''src_addrlen'', SizeT), (''dest_addrlen'', SizeT), (''src_addr'', Ptr),
     (''dest_addr'', Ptr), (''handle'', Ptr), (''tx_attr'', Ptr), (''rx_attr'', Ptr),
     (''ep_attr'', Ptr), (''domain_attr'', Ptr), (''fabric_attr'', Ptr), (''nic'', Ptr)]"

definition struct_fi_device_attr :: fields where [structs]:
  "struct_fi_device_attr = [
     (''name'', Ptr), (''device_id'', Ptr), (''device_version'', Ptr), (''vendor_id'', Ptr),
     (''driver'', Ptr), (''firmware'', Ptr)]"

definition struct_fi_pci_attr :: fields where [structs]:
  "struct_fi_pci_attr = [
     (''domain_id'', U16), (''bus_id'', U8), (''device_id'', U8), (''function_id'', U8)]"

definition struct_fi_bus_attr :: fields where [structs]:
  "struct_fi_bus_attr = [
     (''bus_type'', CEnum), (''attr'', Union [(''pci'', Struct struct_fi_pci_attr)])]"

definition struct_fi_link_attr :: fields where [structs]:
  "struct_fi_link_attr = [
     (''address'', Ptr), (''mtu'', SizeT), (''speed'', SizeT), (''state'', CEnum),
     (''network_type'', Ptr)]"

definition struct_fi_ops :: fields where [structs]:
  "struct_fi_ops = [
     (''size'', SizeT), (''close'', Fn CInt [Ptr]), (''bind'', Fn CInt [Ptr, Ptr, U64]),
     (''control'', Fn CInt [Ptr, CInt, Ptr]), (''ops_open'', Fn CInt [Ptr, Ptr, U64, Ptr, Ptr]),
     (''tostr'', Fn CInt [Ptr, Ptr, SizeT]), (''ops_set'', Fn CInt [Ptr, Ptr, U64, Ptr, Ptr])]"

definition struct_fid :: fields where [structs]:
  "struct_fid = [
     (''fclass'', SizeT), (''context'', Ptr), (''ops'', Ptr)]"

definition struct_fi_ops_fabric :: fields where [structs]:
  "struct_fi_ops_fabric = [
     (''size'', SizeT), (''domain'', Fn CInt [Ptr, Ptr, Ptr, Ptr]),
     (''passive_ep'', Fn CInt [Ptr, Ptr, Ptr, Ptr]),
     (''eq_open'', Fn CInt [Ptr, Ptr, Ptr, Ptr]), (''wait_open'', Fn CInt [Ptr, Ptr, Ptr]),
     (''trywait'', Fn CInt [Ptr, Ptr, CInt])]"

definition struct_fid_fabric :: fields where [structs]:
  "struct_fid_fabric = [
     (''fid'', Struct struct_fid), (''ops'', Ptr), (''api_version'', U32)]"

definition struct_fid_nic :: fields where [structs]:
  "struct_fid_nic = [
     (''fid'', Struct struct_fid), (''device_attr'', Ptr), (''bus_attr'', Ptr), (''link_attr'', Ptr),
     (''prov_attr'', Ptr)]"

definition struct_fi_alias :: fields where [structs]:
  "struct_fi_alias = [
     (''fid'', Ptr), (''flags'', U64)]"

definition struct_fi_mr_raw_attr :: fields where [structs]:
  "struct_fi_mr_raw_attr = [
     (''flags'', U64), (''base_addr'', Ptr), (''raw_key'', Ptr), (''key_size'', Ptr)]"

definition struct_fi_mr_map_raw :: fields where [structs]:
  "struct_fi_mr_map_raw = [
     (''flags'', U64), (''base_addr'', U64), (''raw_key'', Ptr), (''key_size'', SizeT),
     (''key'', Ptr)]"

definition struct_fi_param :: fields where [structs]:
  "struct_fi_param = [
     (''name'', Ptr), (''type'', CEnum), (''help_string'', Ptr), (''value'', Ptr)]"

definition struct_fi_context :: fields where [structs]:
  "struct_fi_context = [
     (''internal'', Arr Ptr 4)]"

definition struct_fi_context2 :: fields where [structs]:
  "struct_fi_context2 = [
     (''internal'', Arr Ptr 8)]"

definition struct_fi_recv_context :: fields where [structs]:
  "struct_fi_recv_context = [
     (''ep'', Ptr), (''context'', Ptr)]"

interpretation ops: vtable struct_fi_ops
  by unfold_locales (simp_all add: structs)

interpretation ops_fabric: vtable struct_fi_ops_fabric
  by unfold_locales (simp_all add: structs)

subsection \<open>Descriptors\<close>

text \<open>
  ``All fabric interface descriptors must start with this structure'': what the headers rely on
  when they pass \<open>&ep->fid\<close>, or cast a \<open>fid_t\<close> to a descriptor with \<open>container_of\<close>.
\<close>

locale fid_class =
  fixes fs :: fields
  assumes first: "\<exists>rest. fs = (''fid'', Struct struct_fid) # rest"
begin

lemma fid_member: "member fs ''fid'' = Some (0, Struct struct_fid)"
  using first by (auto simp: member_def roundup_def Let_def)

lemma upcast [upcast_simps]: "addr_of p fs ''fid'' = p"
  by (simp add: addr_of_member [OF fid_member])

lemma downcast [upcast_simps]: "container_of p fs ''fid'' = p"
  by (simp add: container_of_def offsetof_member [OF fid_member])

lemma mapped_fid: "mapped s p fs \<Longrightarrow> mapped s p struct_fid"
  using mapped_nested [OF _ fid_member] by (fastforce simp: upcast mapped_def)

end

interpretation fid_fabric: fid_class struct_fid_fabric
  by unfold_locales (simp add: structs)

interpretation fid_nic: fid_class struct_fid_nic
  by unfold_locales (simp add: structs)

subsection \<open>Calls every descriptor answers\<close>

text \<open>\<open>fi_dupinfo\<close> is a function of the library the program links to.\<close>

definition fi_allocinfo :: "'p provider \<Rightarrow> linkage \<Rightarrow> 'p machine \<Rightarrow> (cval \<times> 'p machine) option" where
  "fi_allocinfo P L s = invoke P (L ''fi_dupinfo'') 8 [V64 NULL] s"

definition fi_close :: "'p provider \<Rightarrow> ptr \<Rightarrow> 'p machine \<Rightarrow>
    (cval \<times> 'p machine) option" where [wrappers]:
  "fi_close P fid s =
     vcall P fid struct_fid ''ops'' struct_fi_ops ''close''
       [V64 fid] s"

definition fi_control :: "'p provider \<Rightarrow> ptr \<Rightarrow> u32 \<Rightarrow>
    ptr \<Rightarrow> 'p machine \<Rightarrow> (cval \<times> 'p machine) option" where [wrappers]:
  "fi_control P fid command arg s =
     vcall P fid struct_fid ''ops'' struct_fi_ops ''control''
       [V64 fid, V32 command, V64 arg] s"

definition fi_open_ops :: "'p provider \<Rightarrow> ptr \<Rightarrow> ptr \<Rightarrow>
    u64 \<Rightarrow> ptr \<Rightarrow> ptr \<Rightarrow> 'p machine \<Rightarrow>
    (cval \<times> 'p machine) option" where [wrappers]:
  "fi_open_ops P fid name flags opsp context s =
     vcall P fid struct_fid ''ops'' struct_fi_ops ''ops_open''
       [V64 fid, V64 name, V64 flags, V64 opsp, V64 context] s"

definition fi_set_ops :: "'p provider \<Rightarrow> ptr \<Rightarrow> ptr \<Rightarrow>
    u64 \<Rightarrow> ptr \<Rightarrow> ptr \<Rightarrow> 'p machine \<Rightarrow>
    (cval \<times> 'p machine) option" where [wrappers]:
  "fi_set_ops P fid name flags opsp context s =
     do {
       ops \<leftarrow> get64 s fid struct_fid ''ops'';
       ok \<leftarrow> FI_CHECK_OP s ops struct_fi_ops ''ops_set'';
       if ok
       then vcall P fid struct_fid ''ops'' struct_fi_ops ''ops_set''
         [V64 fid, V64 name, V64 flags, V64 opsp, V64 context] s
       else Some (V32 (- errno FI_ENOSYS), s) }"

interpretation fi_set_ops: guarded_op struct_fi_ops
    "\<lambda>P (fid, name, flags, opsp, context). fi_set_ops P fid name flags opsp context" "\<lambda>(fid, name, flags, opsp, context). fid" struct_fid "''ops''" "''ops_set''"
    "\<lambda>(fid, name, flags, opsp, context).
      [V64 fid, V64 name, V64 flags, V64 opsp, V64 context]" CInt
proof unfold_locales
  show "\<exists>ps. proto struct_fi_ops ''ops_set'' = Some (CInt, ps) \<and>
      map bytes (case x of (fid, name, flags, opsp, context) \<Rightarrow>
      [V64 fid, V64 name, V64 flags, V64 opsp, V64 context]) = map sizeof ps" for x
    by (cases x) (simp add: proto_map_of structs)
qed (simp_all add: wrappers split: prod.split)

definition fi_alias :: "'p provider \<Rightarrow> ptr \<Rightarrow> ptr \<Rightarrow> u64 \<Rightarrow> 'p machine \<Rightarrow>
    (cval \<times> 'p machine) option" where
  "fi_alias P fid alias_fid flags s = do {
     (alias, s1) \<leftarrow> push struct_fi_alias s;
     s2 \<leftarrow> put alias struct_fi_alias ''fid'' (V64 alias_fid) s1;
     s3 \<leftarrow> put alias struct_fi_alias ''flags'' (V64 flags) s2;
     (ret, s4) \<leftarrow> fi_control P fid (fi_command_val FI_ALIAS) alias s3;
     Some (ret, pop alias struct_fi_alias s4) }"

interpretation fi_alias: local_call
    "\<lambda>P (fid, alias_fid, flags). fi_alias P fid alias_fid flags" struct_fi_alias
    "\<lambda>(fid, alias_fid, flags). [(''fid'', V64 alias_fid), (''flags'', V64 flags)]"
    "\<lambda>P (fid, alias_fid, flags) alias. fi_control P fid (fi_command_val FI_ALIAS) alias"
  by (unfold_locales, (auto simp: fi_alias_def)[1])
    (auto simp: small_def member_ok_def structs layout_simps)

end
