(* ===== verification/Fi_Eq.thy ===== *)
theory Fi_Eq
  imports Fabric
begin

section \<open>fi_eq.h: wait sets, event and completion queues, counters\<close>

text \<open>
  Wait sets, poll sets, event queues, completion queues and counters: their attributes, the
  entries a read of a queue returns, their tables and the calls on them.
\<close>

subsection \<open>Enumerations\<close>

datatype fi_wait_obj =
    FI_WAIT_NONE | FI_WAIT_UNSPEC | FI_WAIT_SET | FI_WAIT_FD | FI_WAIT_MUTEX_COND | FI_WAIT_YIELD |
    FI_WAIT_POLLFD

primrec fi_wait_obj_val :: "fi_wait_obj \<Rightarrow> u32" where
  "fi_wait_obj_val FI_WAIT_NONE = 0"
| "fi_wait_obj_val FI_WAIT_UNSPEC = 1"
| "fi_wait_obj_val FI_WAIT_SET = 2"
| "fi_wait_obj_val FI_WAIT_FD = 3"
| "fi_wait_obj_val FI_WAIT_MUTEX_COND = 4"
| "fi_wait_obj_val FI_WAIT_YIELD = 5"
| "fi_wait_obj_val FI_WAIT_POLLFD = 6"

definition fi_wait_obj_all :: "fi_wait_obj list" where
  "fi_wait_obj_all =
     [FI_WAIT_NONE, FI_WAIT_UNSPEC, FI_WAIT_SET, FI_WAIT_FD, FI_WAIT_MUTEX_COND, FI_WAIT_YIELD,
      FI_WAIT_POLLFD]"

interpretation fi_wait_obj: c_enum fi_wait_obj_val fi_wait_obj_all
proof unfold_locales
  show "x \<in> set fi_wait_obj_all" for x
    by (cases x) (simp_all add: fi_wait_obj_all_def)
  show "distinct (map fi_wait_obj_val fi_wait_obj_all)"
    by (simp add: fi_wait_obj_all_def)
qed

datatype fi_eq_event =
    FI_NOTIFY | FI_CONNREQ | FI_CONNECTED | FI_SHUTDOWN | FI_MR_COMPLETE | FI_AV_COMPLETE |
    FI_JOIN_COMPLETE

primrec fi_eq_event_val :: "fi_eq_event \<Rightarrow> u32" where
  "fi_eq_event_val FI_NOTIFY = 0"
| "fi_eq_event_val FI_CONNREQ = 1"
| "fi_eq_event_val FI_CONNECTED = 2"
| "fi_eq_event_val FI_SHUTDOWN = 3"
| "fi_eq_event_val FI_MR_COMPLETE = 4"
| "fi_eq_event_val FI_AV_COMPLETE = 5"
| "fi_eq_event_val FI_JOIN_COMPLETE = 6"

definition fi_eq_event_all :: "fi_eq_event list" where
  "fi_eq_event_all =
     [FI_NOTIFY, FI_CONNREQ, FI_CONNECTED, FI_SHUTDOWN, FI_MR_COMPLETE, FI_AV_COMPLETE,
      FI_JOIN_COMPLETE]"

interpretation fi_eq_event: c_enum fi_eq_event_val fi_eq_event_all
proof unfold_locales
  show "x \<in> set fi_eq_event_all" for x
    by (cases x) (simp_all add: fi_eq_event_all_def)
  show "distinct (map fi_eq_event_val fi_eq_event_all)"
    by (simp add: fi_eq_event_all_def)
qed

datatype fi_cq_format =
    FI_CQ_FORMAT_UNSPEC | FI_CQ_FORMAT_CONTEXT | FI_CQ_FORMAT_MSG | FI_CQ_FORMAT_DATA |
    FI_CQ_FORMAT_TAGGED

primrec fi_cq_format_val :: "fi_cq_format \<Rightarrow> u32" where
  "fi_cq_format_val FI_CQ_FORMAT_UNSPEC = 0"
| "fi_cq_format_val FI_CQ_FORMAT_CONTEXT = 1"
| "fi_cq_format_val FI_CQ_FORMAT_MSG = 2"
| "fi_cq_format_val FI_CQ_FORMAT_DATA = 3"
| "fi_cq_format_val FI_CQ_FORMAT_TAGGED = 4"

definition fi_cq_format_all :: "fi_cq_format list" where
  "fi_cq_format_all =
     [FI_CQ_FORMAT_UNSPEC, FI_CQ_FORMAT_CONTEXT, FI_CQ_FORMAT_MSG, FI_CQ_FORMAT_DATA,
      FI_CQ_FORMAT_TAGGED]"

interpretation fi_cq_format: c_enum fi_cq_format_val fi_cq_format_all
proof unfold_locales
  show "x \<in> set fi_cq_format_all" for x
    by (cases x) (simp_all add: fi_cq_format_all_def)
  show "distinct (map fi_cq_format_val fi_cq_format_all)"
    by (simp add: fi_cq_format_all_def)
qed

datatype fi_cq_wait_cond =
    FI_CQ_COND_NONE | FI_CQ_COND_THRESHOLD

primrec fi_cq_wait_cond_val :: "fi_cq_wait_cond \<Rightarrow> u32" where
  "fi_cq_wait_cond_val FI_CQ_COND_NONE = 0"
| "fi_cq_wait_cond_val FI_CQ_COND_THRESHOLD = 1"

definition fi_cq_wait_cond_all :: "fi_cq_wait_cond list" where
  "fi_cq_wait_cond_all =
     [FI_CQ_COND_NONE, FI_CQ_COND_THRESHOLD]"

interpretation fi_cq_wait_cond: c_enum fi_cq_wait_cond_val fi_cq_wait_cond_all
proof unfold_locales
  show "x \<in> set fi_cq_wait_cond_all" for x
    by (cases x) (simp_all add: fi_cq_wait_cond_all_def)
  show "distinct (map fi_cq_wait_cond_val fi_cq_wait_cond_all)"
    by (simp add: fi_cq_wait_cond_all_def)
qed

datatype fi_cntr_events =
    FI_CNTR_EVENTS_COMP

primrec fi_cntr_events_val :: "fi_cntr_events \<Rightarrow> u32" where
  "fi_cntr_events_val FI_CNTR_EVENTS_COMP = 0"

definition fi_cntr_events_all :: "fi_cntr_events list" where
  "fi_cntr_events_all =
     [FI_CNTR_EVENTS_COMP]"

interpretation fi_cntr_events: c_enum fi_cntr_events_val fi_cntr_events_all
proof unfold_locales
  show "x \<in> set fi_cntr_events_all" for x
    by (cases x) (simp_all add: fi_cntr_events_all_def)
  show "distinct (map fi_cntr_events_val fi_cntr_events_all)"
    by (simp add: fi_cntr_events_all_def)
qed

subsection \<open>Structs\<close>

definition struct_fi_wait_attr :: fields where [structs]:
  "struct_fi_wait_attr = [
     (''wait_obj'', CEnum), (''flags'', U64)]"

definition struct_fi_ops_wait :: fields where [structs]:
  "struct_fi_ops_wait = [
     (''size'', SizeT), (''wait'', Fn CInt [Ptr, CInt])]"

definition struct_fid_wait :: fields where [structs]:
  "struct_fid_wait = [
     (''fid'', Struct struct_fid), (''ops'', Ptr)]"

definition struct_fi_mutex_cond :: fields where [structs]:
  "struct_fi_mutex_cond = [
     (''mutex'', Ptr), (''cond'', Ptr)]"

definition struct_fi_wait_pollfd :: fields where [structs]:
  "struct_fi_wait_pollfd = [
     (''change_index'', U64), (''nfds'', SizeT), (''fd'', Ptr)]"

definition struct_fi_poll_attr :: fields where [structs]:
  "struct_fi_poll_attr = [
     (''flags'', U64)]"

definition struct_fi_ops_poll :: fields where [structs]:
  "struct_fi_ops_poll = [
     (''size'', SizeT), (''poll'', Fn CInt [Ptr, Ptr, CInt]),
     (''poll_add'', Fn CInt [Ptr, Ptr, U64]), (''poll_del'', Fn CInt [Ptr, Ptr, U64])]"

definition struct_fid_poll :: fields where [structs]:
  "struct_fid_poll = [
     (''fid'', Struct struct_fid), (''ops'', Ptr)]"

definition struct_fi_eq_attr :: fields where [structs]:
  "struct_fi_eq_attr = [
     (''size'', SizeT), (''flags'', U64), (''wait_obj'', CEnum), (''signaling_vector'', CInt),
     (''wait_set'', Ptr)]"

definition struct_fi_eq_entry :: fields where [structs]:
  "struct_fi_eq_entry = [
     (''fid'', Ptr), (''context'', Ptr), (''data'', U64)]"

definition struct_fi_eq_err_entry :: fields where [structs]:
  "struct_fi_eq_err_entry = [
     (''fid'', Ptr), (''context'', Ptr), (''data'', U64), (''err'', CInt), (''prov_errno'', CInt),
     (''err_data'', Ptr), (''err_data_size'', SizeT)]"

definition struct_fi_eq_cm_entry :: fields where [structs]:
  "struct_fi_eq_cm_entry = [
     (''fid'', Ptr), (''info'', Ptr), (''data'', Arr U8 0)]"

definition struct_fi_ops_eq :: fields where [structs]:
  "struct_fi_ops_eq = [
     (''size'', SizeT), (''read'', Fn SsizeT [Ptr, Ptr, Ptr, SizeT, U64]),
     (''readerr'', Fn SsizeT [Ptr, Ptr, U64]),
     (''write'', Fn SsizeT [Ptr, U32, Ptr, SizeT, U64]),
     (''sread'', Fn SsizeT [Ptr, Ptr, Ptr, SizeT, CInt, U64]),
     (''strerror'', Fn Ptr [Ptr, CInt, Ptr, Ptr, SizeT])]"

definition struct_fid_eq :: fields where [structs]:
  "struct_fid_eq = [
     (''fid'', Struct struct_fid), (''ops'', Ptr)]"

definition struct_fi_cq_entry :: fields where [structs]:
  "struct_fi_cq_entry = [
     (''op_context'', Ptr)]"

definition struct_fi_cq_msg_entry :: fields where [structs]:
  "struct_fi_cq_msg_entry = [
     (''op_context'', Ptr), (''flags'', U64), (''len'', SizeT)]"

definition struct_fi_cq_data_entry :: fields where [structs]:
  "struct_fi_cq_data_entry = [
     (''op_context'', Ptr), (''flags'', U64), (''len'', SizeT), (''buf'', Ptr), (''data'', U64)]"

definition struct_fi_cq_tagged_entry :: fields where [structs]:
  "struct_fi_cq_tagged_entry = [
     (''op_context'', Ptr), (''flags'', U64), (''len'', SizeT), (''buf'', Ptr), (''data'', U64),
     (''tag'', U64)]"

definition struct_fi_cq_err_entry :: fields where [structs]:
  "struct_fi_cq_err_entry = [
     (''op_context'', Ptr), (''flags'', U64), (''len'', SizeT), (''buf'', Ptr), (''data'', U64),
     (''tag'', U64), (''olen'', SizeT), (''err'', CInt), (''prov_errno'', CInt),
     (''err_data'', Ptr), (''err_data_size'', SizeT)]"

definition struct_fi_cq_attr :: fields where [structs]:
  "struct_fi_cq_attr = [
     (''size'', SizeT), (''flags'', U64), (''format'', CEnum), (''wait_obj'', CEnum),
     (''signaling_vector'', CInt), (''wait_cond'', CEnum), (''wait_set'', Ptr)]"

definition struct_fi_ops_cq :: fields where [structs]:
  "struct_fi_ops_cq = [
     (''size'', SizeT), (''read'', Fn SsizeT [Ptr, Ptr, SizeT]),
     (''readfrom'', Fn SsizeT [Ptr, Ptr, SizeT, Ptr]), (''readerr'', Fn SsizeT [Ptr, Ptr, U64]),
     (''sread'', Fn SsizeT [Ptr, Ptr, SizeT, Ptr, CInt]),
     (''sreadfrom'', Fn SsizeT [Ptr, Ptr, SizeT, Ptr, Ptr, CInt]), (''signal'', Fn CInt [Ptr]),
     (''strerror'', Fn Ptr [Ptr, CInt, Ptr, Ptr, SizeT])]"

definition struct_fid_cq :: fields where [structs]:
  "struct_fid_cq = [
     (''fid'', Struct struct_fid), (''ops'', Ptr)]"

definition struct_fi_cntr_attr :: fields where [structs]:
  "struct_fi_cntr_attr = [
     (''events'', CEnum), (''wait_obj'', CEnum), (''wait_set'', Ptr), (''flags'', U64)]"

definition struct_fi_ops_cntr :: fields where [structs]:
  "struct_fi_ops_cntr = [
     (''size'', SizeT), (''read'', Fn U64 [Ptr]), (''readerr'', Fn U64 [Ptr]),
     (''add'', Fn CInt [Ptr, U64]), (''set'', Fn CInt [Ptr, U64]),
     (''wait'', Fn CInt [Ptr, U64, CInt]), (''adderr'', Fn CInt [Ptr, U64]),
     (''seterr'', Fn CInt [Ptr, U64])]"

definition struct_fid_cntr :: fields where [structs]:
  "struct_fid_cntr = [
     (''fid'', Struct struct_fid), (''ops'', Ptr)]"

interpretation ops_wait: vtable struct_fi_ops_wait
  by unfold_locales (simp_all add: structs)

interpretation ops_poll: vtable struct_fi_ops_poll
  by unfold_locales (simp_all add: structs)

interpretation ops_eq: vtable struct_fi_ops_eq
  by unfold_locales (simp_all add: structs)

interpretation ops_cq: vtable struct_fi_ops_cq
  by unfold_locales (simp_all add: structs)

interpretation ops_cntr: vtable struct_fi_ops_cntr
  by unfold_locales (simp_all add: structs)

interpretation fid_wait: fid_class struct_fid_wait
  by unfold_locales (simp add: structs)

interpretation fid_poll: fid_class struct_fid_poll
  by unfold_locales (simp add: structs)

interpretation fid_eq: fid_class struct_fid_eq
  by unfold_locales (simp add: structs)

interpretation fid_cq: fid_class struct_fid_cq
  by unfold_locales (simp add: structs)

interpretation fid_cntr: fid_class struct_fid_cntr
  by unfold_locales (simp add: structs)

subsection \<open>Wait and poll sets\<close>

definition fi_trywait :: "'p provider \<Rightarrow> ptr \<Rightarrow> ptr \<Rightarrow>
    u32 \<Rightarrow> 'p machine \<Rightarrow> (cval \<times> 'p machine) option" where [wrappers]:
  "fi_trywait P fabric fids count s =
     vcall P fabric struct_fid_fabric ''ops'' struct_fi_ops_fabric ''trywait''
       [V64 fabric, V64 fids, V32 count] s"

definition fi_wait :: "'p provider \<Rightarrow> ptr \<Rightarrow> u32 \<Rightarrow>
    'p machine \<Rightarrow> (cval \<times> 'p machine) option" where [wrappers]:
  "fi_wait P waitset timeout s =
     vcall P waitset struct_fid_wait ''ops'' struct_fi_ops_wait ''wait''
       [V64 waitset, V32 timeout] s"

definition fi_poll :: "'p provider \<Rightarrow> ptr \<Rightarrow> ptr \<Rightarrow>
    u32 \<Rightarrow> 'p machine \<Rightarrow> (cval \<times> 'p machine) option" where [wrappers]:
  "fi_poll P pollset context count s =
     vcall P pollset struct_fid_poll ''ops'' struct_fi_ops_poll ''poll''
       [V64 pollset, V64 context, V32 count] s"

definition fi_poll_add :: "'p provider \<Rightarrow> ptr \<Rightarrow> ptr \<Rightarrow>
    u64 \<Rightarrow> 'p machine \<Rightarrow> (cval \<times> 'p machine) option" where [wrappers]:
  "fi_poll_add P pollset event_fid flags s =
     vcall P pollset struct_fid_poll ''ops'' struct_fi_ops_poll ''poll_add''
       [V64 pollset, V64 event_fid, V64 flags] s"

definition fi_poll_del :: "'p provider \<Rightarrow> ptr \<Rightarrow> ptr \<Rightarrow>
    u64 \<Rightarrow> 'p machine \<Rightarrow> (cval \<times> 'p machine) option" where [wrappers]:
  "fi_poll_del P pollset event_fid flags s =
     vcall P pollset struct_fid_poll ''ops'' struct_fi_ops_poll ''poll_del''
       [V64 pollset, V64 event_fid, V64 flags] s"

datatype poll_call =
    Fi_poll ptr u32
  | Fi_poll_add ptr u64
  | Fi_poll_del ptr u64

fun poll_run :: "'p provider \<Rightarrow> ptr \<Rightarrow> poll_call \<Rightarrow> 'p machine \<Rightarrow>
    (cval \<times> 'p machine) option" where
  "poll_run P p (Fi_poll context count) s = fi_poll P p context count s"
| "poll_run P p (Fi_poll_add event_fid flags) s = fi_poll_add P p event_fid flags s"
| "poll_run P p (Fi_poll_del event_fid flags) s = fi_poll_del P p event_fid flags s"

fun poll_slot :: "poll_call \<Rightarrow> string" where
  "poll_slot (Fi_poll _ _) = ''poll''"
| "poll_slot (Fi_poll_add _ _) = ''poll_add''"
| "poll_slot (Fi_poll_del _ _) = ''poll_del''"

fun poll_args :: "ptr \<Rightarrow> poll_call \<Rightarrow> cval list" where
  "poll_args p (Fi_poll context count) =
     [V64 p, V64 context, V32 count]"
| "poll_args p (Fi_poll_add event_fid flags) =
     [V64 p, V64 event_fid, V64 flags]"
| "poll_args p (Fi_poll_del event_fid flags) =
     [V64 p, V64 event_fid, V64 flags]"

fun poll_ret :: "poll_call \<Rightarrow> ctype" where
  "poll_ret c = CInt"

interpretation poll: op_family poll_run struct_fid_poll "''ops''" struct_fi_ops_poll poll_slot poll_args poll_ret
proof unfold_locales
  show "poll_run P p c s =
      vcall P p struct_fid_poll ''ops'' struct_fi_ops_poll (poll_slot c) (poll_args p c) s" for P p c s
    by (cases c) (simp_all add: wrappers upcast_simps)
  show "\<exists>ps. proto struct_fi_ops_poll (poll_slot c) = Some (poll_ret c, ps) \<and>
      map bytes (poll_args p c) = map sizeof ps" for p c
    by (cases c) (simp_all add: proto_map_of structs)
qed

subsection \<open>Event queues\<close>

definition fi_eq_open :: "'p provider \<Rightarrow> ptr \<Rightarrow> ptr \<Rightarrow>
    ptr \<Rightarrow> ptr \<Rightarrow> 'p machine \<Rightarrow>
    (cval \<times> 'p machine) option" where [wrappers]:
  "fi_eq_open P fabric attr eqp context s =
     vcall P fabric struct_fid_fabric ''ops'' struct_fi_ops_fabric ''eq_open''
       [V64 fabric, V64 attr, V64 eqp, V64 context] s"

definition fi_eq_read :: "'p provider \<Rightarrow> ptr \<Rightarrow> ptr \<Rightarrow>
    ptr \<Rightarrow> u64 \<Rightarrow> u64 \<Rightarrow> 'p machine \<Rightarrow>
    (cval \<times> 'p machine) option" where [wrappers]:
  "fi_eq_read P eqp event buf len flags s =
     vcall P eqp struct_fid_eq ''ops'' struct_fi_ops_eq ''read''
       [V64 eqp, V64 event, V64 buf, V64 len, V64 flags] s"

definition fi_eq_readerr :: "'p provider \<Rightarrow> ptr \<Rightarrow> ptr \<Rightarrow>
    u64 \<Rightarrow> 'p machine \<Rightarrow> (cval \<times> 'p machine) option" where [wrappers]:
  "fi_eq_readerr P eqp buf flags s =
     vcall P eqp struct_fid_eq ''ops'' struct_fi_ops_eq ''readerr''
       [V64 eqp, V64 buf, V64 flags] s"

definition fi_eq_write :: "'p provider \<Rightarrow> ptr \<Rightarrow> u32 \<Rightarrow>
    ptr \<Rightarrow> u64 \<Rightarrow> u64 \<Rightarrow> 'p machine \<Rightarrow>
    (cval \<times> 'p machine) option" where [wrappers]:
  "fi_eq_write P eqp event buf len flags s =
     vcall P eqp struct_fid_eq ''ops'' struct_fi_ops_eq ''write''
       [V64 eqp, V32 event, V64 buf, V64 len, V64 flags] s"

definition fi_eq_sread :: "'p provider \<Rightarrow> ptr \<Rightarrow> ptr \<Rightarrow>
    ptr \<Rightarrow> u64 \<Rightarrow> u32 \<Rightarrow> u64 \<Rightarrow>
    'p machine \<Rightarrow> (cval \<times> 'p machine) option" where [wrappers]:
  "fi_eq_sread P eqp event buf len timeout flags s =
     vcall P eqp struct_fid_eq ''ops'' struct_fi_ops_eq ''sread''
       [V64 eqp, V64 event, V64 buf, V64 len, V32 timeout, V64 flags] s"

definition fi_eq_strerror :: "'p provider \<Rightarrow> ptr \<Rightarrow> u32 \<Rightarrow>
    ptr \<Rightarrow> ptr \<Rightarrow> u64 \<Rightarrow> 'p machine \<Rightarrow>
    (cval \<times> 'p machine) option" where [wrappers]:
  "fi_eq_strerror P eqp prov_errno err_data buf len s =
     vcall P eqp struct_fid_eq ''ops'' struct_fi_ops_eq ''strerror''
       [V64 eqp, V32 prov_errno, V64 err_data, V64 buf, V64 len] s"

datatype eq_call =
    Fi_eq_read ptr ptr u64 u64
  | Fi_eq_readerr ptr u64
  | Fi_eq_write u32 ptr u64 u64
  | Fi_eq_sread ptr ptr u64 u32 u64
  | Fi_eq_strerror u32 ptr ptr u64

fun eq_run :: "'p provider \<Rightarrow> ptr \<Rightarrow> eq_call \<Rightarrow> 'p machine \<Rightarrow>
    (cval \<times> 'p machine) option" where
  "eq_run P p (Fi_eq_read event buf len flags) s = fi_eq_read P p event buf len flags s"
| "eq_run P p (Fi_eq_readerr buf flags) s = fi_eq_readerr P p buf flags s"
| "eq_run P p (Fi_eq_write event buf len flags) s = fi_eq_write P p event buf len flags s"
| "eq_run P p (Fi_eq_sread event buf len timeout flags) s =
     fi_eq_sread P p event buf len timeout flags s"
| "eq_run P p (Fi_eq_strerror prov_errno err_data buf len) s =
     fi_eq_strerror P p prov_errno err_data buf len s"

fun eq_slot :: "eq_call \<Rightarrow> string" where
  "eq_slot (Fi_eq_read _ _ _ _) = ''read''"
| "eq_slot (Fi_eq_readerr _ _) = ''readerr''"
| "eq_slot (Fi_eq_write _ _ _ _) = ''write''"
| "eq_slot (Fi_eq_sread _ _ _ _ _) = ''sread''"
| "eq_slot (Fi_eq_strerror _ _ _ _) = ''strerror''"

fun eq_args :: "ptr \<Rightarrow> eq_call \<Rightarrow> cval list" where
  "eq_args p (Fi_eq_read event buf len flags) =
     [V64 p, V64 event, V64 buf, V64 len, V64 flags]"
| "eq_args p (Fi_eq_readerr buf flags) =
     [V64 p, V64 buf, V64 flags]"
| "eq_args p (Fi_eq_write event buf len flags) =
     [V64 p, V32 event, V64 buf, V64 len, V64 flags]"
| "eq_args p (Fi_eq_sread event buf len timeout flags) =
     [V64 p, V64 event, V64 buf, V64 len, V32 timeout, V64 flags]"
| "eq_args p (Fi_eq_strerror prov_errno err_data buf len) =
     [V64 p, V32 prov_errno, V64 err_data, V64 buf, V64 len]"

fun eq_ret :: "eq_call \<Rightarrow> ctype" where
  "eq_ret (Fi_eq_read _ _ _ _) = SsizeT"
| "eq_ret (Fi_eq_readerr _ _) = SsizeT"
| "eq_ret (Fi_eq_write _ _ _ _) = SsizeT"
| "eq_ret (Fi_eq_sread _ _ _ _ _) = SsizeT"
| "eq_ret (Fi_eq_strerror _ _ _ _) = Ptr"

interpretation eq: op_family eq_run struct_fid_eq "''ops''" struct_fi_ops_eq eq_slot eq_args eq_ret
proof unfold_locales
  show "eq_run P p c s =
      vcall P p struct_fid_eq ''ops'' struct_fi_ops_eq (eq_slot c) (eq_args p c) s" for P p c s
    by (cases c) (simp_all add: wrappers upcast_simps)
  show "\<exists>ps. proto struct_fi_ops_eq (eq_slot c) = Some (eq_ret c, ps) \<and>
      map bytes (eq_args p c) = map sizeof ps" for p c
    by (cases c) (simp_all add: proto_map_of structs)
qed

subsection \<open>Completion queues\<close>

definition fi_cq_read :: "'p provider \<Rightarrow> ptr \<Rightarrow> ptr \<Rightarrow>
    u64 \<Rightarrow> 'p machine \<Rightarrow> (cval \<times> 'p machine) option" where [wrappers]:
  "fi_cq_read P cq buf count s =
     vcall P cq struct_fid_cq ''ops'' struct_fi_ops_cq ''read''
       [V64 cq, V64 buf, V64 count] s"

definition fi_cq_readfrom :: "'p provider \<Rightarrow> ptr \<Rightarrow> ptr \<Rightarrow>
    u64 \<Rightarrow> ptr \<Rightarrow> 'p machine \<Rightarrow>
    (cval \<times> 'p machine) option" where [wrappers]:
  "fi_cq_readfrom P cq buf count src_addr s =
     vcall P cq struct_fid_cq ''ops'' struct_fi_ops_cq ''readfrom''
       [V64 cq, V64 buf, V64 count, V64 src_addr] s"

definition fi_cq_readerr :: "'p provider \<Rightarrow> ptr \<Rightarrow> ptr \<Rightarrow>
    u64 \<Rightarrow> 'p machine \<Rightarrow> (cval \<times> 'p machine) option" where [wrappers]:
  "fi_cq_readerr P cq buf flags s =
     vcall P cq struct_fid_cq ''ops'' struct_fi_ops_cq ''readerr''
       [V64 cq, V64 buf, V64 flags] s"

definition fi_cq_sread :: "'p provider \<Rightarrow> ptr \<Rightarrow> ptr \<Rightarrow>
    u64 \<Rightarrow> ptr \<Rightarrow> u32 \<Rightarrow> 'p machine \<Rightarrow>
    (cval \<times> 'p machine) option" where [wrappers]:
  "fi_cq_sread P cq buf count cond timeout s =
     vcall P cq struct_fid_cq ''ops'' struct_fi_ops_cq ''sread''
       [V64 cq, V64 buf, V64 count, V64 cond, V32 timeout] s"

definition fi_cq_sreadfrom :: "'p provider \<Rightarrow> ptr \<Rightarrow> ptr \<Rightarrow>
    u64 \<Rightarrow> ptr \<Rightarrow> ptr \<Rightarrow> u32 \<Rightarrow>
    'p machine \<Rightarrow> (cval \<times> 'p machine) option" where [wrappers]:
  "fi_cq_sreadfrom P cq buf count src_addr cond timeout s =
     vcall P cq struct_fid_cq ''ops'' struct_fi_ops_cq ''sreadfrom''
       [V64 cq, V64 buf, V64 count, V64 src_addr, V64 cond, V32 timeout] s"

definition fi_cq_signal :: "'p provider \<Rightarrow> ptr \<Rightarrow> 'p machine \<Rightarrow>
    (cval \<times> 'p machine) option" where [wrappers]:
  "fi_cq_signal P cq s =
     vcall P cq struct_fid_cq ''ops'' struct_fi_ops_cq ''signal''
       [V64 cq] s"

definition fi_cq_strerror :: "'p provider \<Rightarrow> ptr \<Rightarrow> u32 \<Rightarrow>
    ptr \<Rightarrow> ptr \<Rightarrow> u64 \<Rightarrow> 'p machine \<Rightarrow>
    (cval \<times> 'p machine) option" where [wrappers]:
  "fi_cq_strerror P cq prov_errno err_data buf len s =
     vcall P cq struct_fid_cq ''ops'' struct_fi_ops_cq ''strerror''
       [V64 cq, V32 prov_errno, V64 err_data, V64 buf, V64 len] s"

datatype cq_call =
    Fi_cq_read ptr u64
  | Fi_cq_readfrom ptr u64 ptr
  | Fi_cq_readerr ptr u64
  | Fi_cq_sread ptr u64 ptr u32
  | Fi_cq_sreadfrom ptr u64 ptr ptr u32
  | Fi_cq_signal
  | Fi_cq_strerror u32 ptr ptr u64

fun cq_run :: "'p provider \<Rightarrow> ptr \<Rightarrow> cq_call \<Rightarrow> 'p machine \<Rightarrow>
    (cval \<times> 'p machine) option" where
  "cq_run P p (Fi_cq_read buf count) s = fi_cq_read P p buf count s"
| "cq_run P p (Fi_cq_readfrom buf count src_addr) s = fi_cq_readfrom P p buf count src_addr s"
| "cq_run P p (Fi_cq_readerr buf flags) s = fi_cq_readerr P p buf flags s"
| "cq_run P p (Fi_cq_sread buf count cond timeout) s = fi_cq_sread P p buf count cond timeout s"
| "cq_run P p (Fi_cq_sreadfrom buf count src_addr cond timeout) s =
     fi_cq_sreadfrom P p buf count src_addr cond timeout s"
| "cq_run P p Fi_cq_signal s = fi_cq_signal P p s"
| "cq_run P p (Fi_cq_strerror prov_errno err_data buf len) s =
     fi_cq_strerror P p prov_errno err_data buf len s"

fun cq_slot :: "cq_call \<Rightarrow> string" where
  "cq_slot (Fi_cq_read _ _) = ''read''"
| "cq_slot (Fi_cq_readfrom _ _ _) = ''readfrom''"
| "cq_slot (Fi_cq_readerr _ _) = ''readerr''"
| "cq_slot (Fi_cq_sread _ _ _ _) = ''sread''"
| "cq_slot (Fi_cq_sreadfrom _ _ _ _ _) = ''sreadfrom''"
| "cq_slot Fi_cq_signal = ''signal''"
| "cq_slot (Fi_cq_strerror _ _ _ _) = ''strerror''"

fun cq_args :: "ptr \<Rightarrow> cq_call \<Rightarrow> cval list" where
  "cq_args p (Fi_cq_read buf count) =
     [V64 p, V64 buf, V64 count]"
| "cq_args p (Fi_cq_readfrom buf count src_addr) =
     [V64 p, V64 buf, V64 count, V64 src_addr]"
| "cq_args p (Fi_cq_readerr buf flags) =
     [V64 p, V64 buf, V64 flags]"
| "cq_args p (Fi_cq_sread buf count cond timeout) =
     [V64 p, V64 buf, V64 count, V64 cond, V32 timeout]"
| "cq_args p (Fi_cq_sreadfrom buf count src_addr cond timeout) =
     [V64 p, V64 buf, V64 count, V64 src_addr, V64 cond, V32 timeout]"
| "cq_args p Fi_cq_signal =
     [V64 p]"
| "cq_args p (Fi_cq_strerror prov_errno err_data buf len) =
     [V64 p, V32 prov_errno, V64 err_data, V64 buf, V64 len]"

fun cq_ret :: "cq_call \<Rightarrow> ctype" where
  "cq_ret (Fi_cq_read _ _) = SsizeT"
| "cq_ret (Fi_cq_readfrom _ _ _) = SsizeT"
| "cq_ret (Fi_cq_readerr _ _) = SsizeT"
| "cq_ret (Fi_cq_sread _ _ _ _) = SsizeT"
| "cq_ret (Fi_cq_sreadfrom _ _ _ _ _) = SsizeT"
| "cq_ret Fi_cq_signal = CInt"
| "cq_ret (Fi_cq_strerror _ _ _ _) = Ptr"

interpretation cq: op_family cq_run struct_fid_cq "''ops''" struct_fi_ops_cq cq_slot cq_args cq_ret
proof unfold_locales
  show "cq_run P p c s =
      vcall P p struct_fid_cq ''ops'' struct_fi_ops_cq (cq_slot c) (cq_args p c) s" for P p c s
    by (cases c) (simp_all add: wrappers upcast_simps)
  show "\<exists>ps. proto struct_fi_ops_cq (cq_slot c) = Some (cq_ret c, ps) \<and>
      map bytes (cq_args p c) = map sizeof ps" for p c
    by (cases c) (simp_all add: proto_map_of structs)
qed

subsection \<open>Counters\<close>

definition fi_cntr_read :: "'p provider \<Rightarrow> ptr \<Rightarrow> 'p machine \<Rightarrow>
    (cval \<times> 'p machine) option" where [wrappers]:
  "fi_cntr_read P cntr s =
     vcall P cntr struct_fid_cntr ''ops'' struct_fi_ops_cntr ''read''
       [V64 cntr] s"

definition fi_cntr_readerr :: "'p provider \<Rightarrow> ptr \<Rightarrow>
    'p machine \<Rightarrow> (cval \<times> 'p machine) option" where [wrappers]:
  "fi_cntr_readerr P cntr s =
     vcall P cntr struct_fid_cntr ''ops'' struct_fi_ops_cntr ''readerr''
       [V64 cntr] s"

definition fi_cntr_add :: "'p provider \<Rightarrow> ptr \<Rightarrow> u64 \<Rightarrow>
    'p machine \<Rightarrow> (cval \<times> 'p machine) option" where [wrappers]:
  "fi_cntr_add P cntr value s =
     vcall P cntr struct_fid_cntr ''ops'' struct_fi_ops_cntr ''add''
       [V64 cntr, V64 value] s"

definition fi_cntr_adderr :: "'p provider \<Rightarrow> ptr \<Rightarrow> u64 \<Rightarrow>
    'p machine \<Rightarrow> (cval \<times> 'p machine) option" where [wrappers]:
  "fi_cntr_adderr P cntr value s =
     do {
       ops \<leftarrow> get64 s cntr struct_fid_cntr ''ops'';
       ok \<leftarrow> FI_CHECK_OP s ops struct_fi_ops_cntr ''adderr'';
       if ok
       then vcall P cntr struct_fid_cntr ''ops'' struct_fi_ops_cntr ''adderr''
         [V64 cntr, V64 value] s
       else Some (V32 (- errno FI_ENOSYS), s) }"

definition fi_cntr_set :: "'p provider \<Rightarrow> ptr \<Rightarrow> u64 \<Rightarrow>
    'p machine \<Rightarrow> (cval \<times> 'p machine) option" where [wrappers]:
  "fi_cntr_set P cntr value s =
     vcall P cntr struct_fid_cntr ''ops'' struct_fi_ops_cntr ''set''
       [V64 cntr, V64 value] s"

definition fi_cntr_seterr :: "'p provider \<Rightarrow> ptr \<Rightarrow> u64 \<Rightarrow>
    'p machine \<Rightarrow> (cval \<times> 'p machine) option" where [wrappers]:
  "fi_cntr_seterr P cntr value s =
     do {
       ops \<leftarrow> get64 s cntr struct_fid_cntr ''ops'';
       ok \<leftarrow> FI_CHECK_OP s ops struct_fi_ops_cntr ''seterr'';
       if ok
       then vcall P cntr struct_fid_cntr ''ops'' struct_fi_ops_cntr ''seterr''
         [V64 cntr, V64 value] s
       else Some (V32 (- errno FI_ENOSYS), s) }"

definition fi_cntr_wait :: "'p provider \<Rightarrow> ptr \<Rightarrow> u64 \<Rightarrow>
    u32 \<Rightarrow> 'p machine \<Rightarrow> (cval \<times> 'p machine) option" where [wrappers]:
  "fi_cntr_wait P cntr threshold timeout s =
     vcall P cntr struct_fid_cntr ''ops'' struct_fi_ops_cntr ''wait''
       [V64 cntr, V64 threshold, V32 timeout] s"

datatype cntr_call =
    Fi_cntr_read
  | Fi_cntr_readerr
  | Fi_cntr_add u64
  | Fi_cntr_set u64
  | Fi_cntr_wait u64 u32

fun cntr_run :: "'p provider \<Rightarrow> ptr \<Rightarrow> cntr_call \<Rightarrow> 'p machine \<Rightarrow>
    (cval \<times> 'p machine) option" where
  "cntr_run P p Fi_cntr_read s = fi_cntr_read P p s"
| "cntr_run P p Fi_cntr_readerr s = fi_cntr_readerr P p s"
| "cntr_run P p (Fi_cntr_add value) s = fi_cntr_add P p value s"
| "cntr_run P p (Fi_cntr_set value) s = fi_cntr_set P p value s"
| "cntr_run P p (Fi_cntr_wait threshold timeout) s = fi_cntr_wait P p threshold timeout s"

fun cntr_slot :: "cntr_call \<Rightarrow> string" where
  "cntr_slot Fi_cntr_read = ''read''"
| "cntr_slot Fi_cntr_readerr = ''readerr''"
| "cntr_slot (Fi_cntr_add _) = ''add''"
| "cntr_slot (Fi_cntr_set _) = ''set''"
| "cntr_slot (Fi_cntr_wait _ _) = ''wait''"

fun cntr_args :: "ptr \<Rightarrow> cntr_call \<Rightarrow> cval list" where
  "cntr_args p Fi_cntr_read =
     [V64 p]"
| "cntr_args p Fi_cntr_readerr =
     [V64 p]"
| "cntr_args p (Fi_cntr_add value) =
     [V64 p, V64 value]"
| "cntr_args p (Fi_cntr_set value) =
     [V64 p, V64 value]"
| "cntr_args p (Fi_cntr_wait threshold timeout) =
     [V64 p, V64 threshold, V32 timeout]"

fun cntr_ret :: "cntr_call \<Rightarrow> ctype" where
  "cntr_ret Fi_cntr_read = U64"
| "cntr_ret Fi_cntr_readerr = U64"
| "cntr_ret (Fi_cntr_add _) = CInt"
| "cntr_ret (Fi_cntr_set _) = CInt"
| "cntr_ret (Fi_cntr_wait _ _) = CInt"

interpretation cntr: op_family cntr_run struct_fid_cntr "''ops''" struct_fi_ops_cntr cntr_slot cntr_args cntr_ret
proof unfold_locales
  show "cntr_run P p c s =
      vcall P p struct_fid_cntr ''ops'' struct_fi_ops_cntr (cntr_slot c) (cntr_args p c) s" for P p c s
    by (cases c) (simp_all add: wrappers upcast_simps)
  show "\<exists>ps. proto struct_fi_ops_cntr (cntr_slot c) = Some (cntr_ret c, ps) \<and>
      map bytes (cntr_args p c) = map sizeof ps" for p c
    by (cases c) (simp_all add: proto_map_of structs)
qed

interpretation fi_cntr_adderr: guarded_op struct_fi_ops_cntr
    "\<lambda>P (cntr, value). fi_cntr_adderr P cntr value" "\<lambda>(cntr, value). cntr" struct_fid_cntr "''ops''" "''adderr''"
    "\<lambda>(cntr, value).
      [V64 cntr, V64 value]" CInt
proof unfold_locales
  show "\<exists>ps. proto struct_fi_ops_cntr ''adderr'' = Some (CInt, ps) \<and>
      map bytes (case x of (cntr, value) \<Rightarrow>
      [V64 cntr, V64 value]) = map sizeof ps" for x
    by (cases x) (simp add: proto_map_of structs)
qed (simp_all add: wrappers split: prod.split)

interpretation fi_cntr_seterr: guarded_op struct_fi_ops_cntr
    "\<lambda>P (cntr, value). fi_cntr_seterr P cntr value" "\<lambda>(cntr, value). cntr" struct_fid_cntr "''ops''" "''seterr''"
    "\<lambda>(cntr, value).
      [V64 cntr, V64 value]" CInt
proof unfold_locales
  show "\<exists>ps. proto struct_fi_ops_cntr ''seterr'' = Some (CInt, ps) \<and>
      map bytes (case x of (cntr, value) \<Rightarrow>
      [V64 cntr, V64 value]) = map sizeof ps" for x
    by (cases x) (simp add: proto_map_of structs)
qed (simp_all add: wrappers split: prod.split)

end
