(* ===== verification/Fi_Domain.thy ===== *)
theory Fi_Domain
  imports Fi_Eq
begin

section \<open>fi_domain.h: domains, memory regions, address vectors\<close>

text \<open>
  Domains, memory regions and address vectors. The calls on a memory region that pass a struct
  on the stack (\<open>fi_mr_raw_attr\<close>, \<open>fi_mr_map_raw\<close>, \<open>fi_mr_unmap_key\<close>, \<open>fi_mr_refresh\<close>) store its
  members one by one before the call, as the source does.
\<close>

subsection \<open>Flags\<close>

definition FI_SYMMETRIC :: u64 where [flag_defs]: "FI_SYMMETRIC = push_bit 59 1"
definition FI_SYNC_ERR :: u64 where [flag_defs]: "FI_SYNC_ERR = push_bit 58 1"
definition FI_UNIVERSE :: u64 where [flag_defs]: "FI_UNIVERSE = push_bit 57 1"
definition FI_REG_MR :: u64 where [flag_defs]: "FI_REG_MR = push_bit 59 1"

definition FI_COLLECTIVE_OFFSET :: u32 where [flag_defs]: "FI_COLLECTIVE_OFFSET = 256"

subsection \<open>Enumerations\<close>

datatype fi_hmem_iface =
    FI_HMEM_SYSTEM | FI_HMEM_CUDA | FI_HMEM_ROCR | FI_HMEM_ZE

primrec fi_hmem_iface_val :: "fi_hmem_iface \<Rightarrow> u32" where
  "fi_hmem_iface_val FI_HMEM_SYSTEM = 0"
| "fi_hmem_iface_val FI_HMEM_CUDA = 1"
| "fi_hmem_iface_val FI_HMEM_ROCR = 2"
| "fi_hmem_iface_val FI_HMEM_ZE = 3"

definition fi_hmem_iface_all :: "fi_hmem_iface list" where
  "fi_hmem_iface_all =
     [FI_HMEM_SYSTEM, FI_HMEM_CUDA, FI_HMEM_ROCR, FI_HMEM_ZE]"

interpretation fi_hmem_iface: c_enum fi_hmem_iface_val fi_hmem_iface_all
proof unfold_locales
  show "x \<in> set fi_hmem_iface_all" for x
    by (cases x) (simp_all add: fi_hmem_iface_all_def)
  show "distinct (map fi_hmem_iface_val fi_hmem_iface_all)"
    by (simp add: fi_hmem_iface_all_def)
qed

datatype fi_datatype =
    FI_INT8 | FI_UINT8 | FI_INT16 | FI_UINT16 | FI_INT32 | FI_UINT32 | FI_INT64 | FI_UINT64 |
    FI_FLOAT | FI_DOUBLE | FI_FLOAT_COMPLEX | FI_DOUBLE_COMPLEX | FI_LONG_DOUBLE |
    FI_LONG_DOUBLE_COMPLEX | FI_DATATYPE_LAST | FI_VOID

primrec fi_datatype_val :: "fi_datatype \<Rightarrow> u32" where
  "fi_datatype_val FI_INT8 = 0"
| "fi_datatype_val FI_UINT8 = 1"
| "fi_datatype_val FI_INT16 = 2"
| "fi_datatype_val FI_UINT16 = 3"
| "fi_datatype_val FI_INT32 = 4"
| "fi_datatype_val FI_UINT32 = 5"
| "fi_datatype_val FI_INT64 = 6"
| "fi_datatype_val FI_UINT64 = 7"
| "fi_datatype_val FI_FLOAT = 8"
| "fi_datatype_val FI_DOUBLE = 9"
| "fi_datatype_val FI_FLOAT_COMPLEX = 10"
| "fi_datatype_val FI_DOUBLE_COMPLEX = 11"
| "fi_datatype_val FI_LONG_DOUBLE = 12"
| "fi_datatype_val FI_LONG_DOUBLE_COMPLEX = 13"
| "fi_datatype_val FI_DATATYPE_LAST = 14"
| "fi_datatype_val FI_VOID = 256"

definition fi_datatype_all :: "fi_datatype list" where
  "fi_datatype_all =
     [FI_INT8, FI_UINT8, FI_INT16, FI_UINT16, FI_INT32, FI_UINT32, FI_INT64, FI_UINT64, FI_FLOAT,
      FI_DOUBLE, FI_FLOAT_COMPLEX, FI_DOUBLE_COMPLEX, FI_LONG_DOUBLE, FI_LONG_DOUBLE_COMPLEX,
      FI_DATATYPE_LAST, FI_VOID]"

interpretation fi_datatype: c_enum fi_datatype_val fi_datatype_all
proof unfold_locales
  show "x \<in> set fi_datatype_all" for x
    by (cases x) (simp_all add: fi_datatype_all_def)
  show "distinct (map fi_datatype_val fi_datatype_all)"
    by (simp add: fi_datatype_all_def)
qed

datatype fi_op =
    FI_MIN | FI_MAX | FI_SUM | FI_PROD | FI_LOR | FI_LAND | FI_BOR | FI_BAND | FI_LXOR | FI_BXOR |
    FI_ATOMIC_READ | FI_ATOMIC_WRITE | FI_CSWAP | FI_CSWAP_NE | FI_CSWAP_LE | FI_CSWAP_LT |
    FI_CSWAP_GE | FI_CSWAP_GT | FI_MSWAP | FI_ATOMIC_OP_LAST | FI_NOOP

primrec fi_op_val :: "fi_op \<Rightarrow> u32" where
  "fi_op_val FI_MIN = 0"
| "fi_op_val FI_MAX = 1"
| "fi_op_val FI_SUM = 2"
| "fi_op_val FI_PROD = 3"
| "fi_op_val FI_LOR = 4"
| "fi_op_val FI_LAND = 5"
| "fi_op_val FI_BOR = 6"
| "fi_op_val FI_BAND = 7"
| "fi_op_val FI_LXOR = 8"
| "fi_op_val FI_BXOR = 9"
| "fi_op_val FI_ATOMIC_READ = 10"
| "fi_op_val FI_ATOMIC_WRITE = 11"
| "fi_op_val FI_CSWAP = 12"
| "fi_op_val FI_CSWAP_NE = 13"
| "fi_op_val FI_CSWAP_LE = 14"
| "fi_op_val FI_CSWAP_LT = 15"
| "fi_op_val FI_CSWAP_GE = 16"
| "fi_op_val FI_CSWAP_GT = 17"
| "fi_op_val FI_MSWAP = 18"
| "fi_op_val FI_ATOMIC_OP_LAST = 19"
| "fi_op_val FI_NOOP = 256"

definition fi_op_all :: "fi_op list" where
  "fi_op_all =
     [FI_MIN, FI_MAX, FI_SUM, FI_PROD, FI_LOR, FI_LAND, FI_BOR, FI_BAND, FI_LXOR, FI_BXOR,
      FI_ATOMIC_READ, FI_ATOMIC_WRITE, FI_CSWAP, FI_CSWAP_NE, FI_CSWAP_LE, FI_CSWAP_LT,
      FI_CSWAP_GE, FI_CSWAP_GT, FI_MSWAP, FI_ATOMIC_OP_LAST, FI_NOOP]"

interpretation fi_op: c_enum fi_op_val fi_op_all
proof unfold_locales
  show "x \<in> set fi_op_all" for x
    by (cases x) (simp_all add: fi_op_all_def)
  show "distinct (map fi_op_val fi_op_all)"
    by (simp add: fi_op_all_def)
qed

datatype fi_collective_op =
    FI_BARRIER | FI_BROADCAST | FI_ALLTOALL | FI_ALLREDUCE | FI_ALLGATHER | FI_REDUCE_SCATTER |
    FI_REDUCE | FI_SCATTER | FI_GATHER

primrec fi_collective_op_val :: "fi_collective_op \<Rightarrow> u32" where
  "fi_collective_op_val FI_BARRIER = 0"
| "fi_collective_op_val FI_BROADCAST = 1"
| "fi_collective_op_val FI_ALLTOALL = 2"
| "fi_collective_op_val FI_ALLREDUCE = 3"
| "fi_collective_op_val FI_ALLGATHER = 4"
| "fi_collective_op_val FI_REDUCE_SCATTER = 5"
| "fi_collective_op_val FI_REDUCE = 6"
| "fi_collective_op_val FI_SCATTER = 7"
| "fi_collective_op_val FI_GATHER = 8"

definition fi_collective_op_all :: "fi_collective_op list" where
  "fi_collective_op_all =
     [FI_BARRIER, FI_BROADCAST, FI_ALLTOALL, FI_ALLREDUCE, FI_ALLGATHER, FI_REDUCE_SCATTER,
      FI_REDUCE, FI_SCATTER, FI_GATHER]"

interpretation fi_collective_op: c_enum fi_collective_op_val fi_collective_op_all
proof unfold_locales
  show "x \<in> set fi_collective_op_all" for x
    by (cases x) (simp_all add: fi_collective_op_all_def)
  show "distinct (map fi_collective_op_val fi_collective_op_all)"
    by (simp add: fi_collective_op_all_def)
qed

subsection \<open>Structs\<close>

definition struct_fi_av_attr :: fields where [structs]:
  "struct_fi_av_attr = [
     (''type'', CEnum), (''rx_ctx_bits'', CInt), (''count'', SizeT), (''ep_per_node'', SizeT),
     (''name'', Ptr), (''map_addr'', Ptr), (''flags'', U64)]"

definition struct_fi_av_set_attr :: fields where [structs]:
  "struct_fi_av_set_attr = [
     (''count'', SizeT), (''start_addr'', FiAddrT), (''end_addr'', FiAddrT), (''stride'', U64),
     (''comm_key_size'', SizeT), (''comm_key'', Ptr), (''flags'', U64)]"

definition struct_fi_ops_av :: fields where [structs]:
  "struct_fi_ops_av = [
     (''size'', SizeT), (''insert'', Fn CInt [Ptr, Ptr, SizeT, Ptr, U64, Ptr]),
     (''insertsvc'', Fn CInt [Ptr, Ptr, Ptr, Ptr, U64, Ptr]),
     (''insertsym'', Fn CInt [Ptr, Ptr, SizeT, Ptr, SizeT, Ptr, U64, Ptr]),
     (''remove'', Fn CInt [Ptr, Ptr, SizeT, U64]),
     (''lookup'', Fn CInt [Ptr, FiAddrT, Ptr, Ptr]), (''straddr'', Fn Ptr [Ptr, Ptr, Ptr, Ptr]),
     (''av_set'', Fn CInt [Ptr, Ptr, Ptr, Ptr])]"

definition struct_fid_av :: fields where [structs]:
  "struct_fid_av = [
     (''fid'', Struct struct_fid), (''ops'', Ptr)]"

definition struct_fid_mr :: fields where [structs]:
  "struct_fid_mr = [
     (''fid'', Struct struct_fid), (''mem_desc'', Ptr), (''key'', U64)]"

definition struct_fi_mr_attr :: fields where [structs]:
  "struct_fi_mr_attr = [
     (''mr_iov'', Ptr), (''iov_count'', SizeT), (''access'', U64), (''offset'', U64),
     (''requested_key'', U64), (''context'', Ptr), (''auth_key_size'', SizeT),
     (''auth_key'', Ptr), (''iface'', CEnum),
     (''device'', Union [(''reserved'', U64), (''cuda'', CInt), (''ze'', CInt)])]"

definition struct_fi_mr_modify :: fields where [structs]:
  "struct_fi_mr_modify = [
     (''flags'', U64), (''attr'', Struct struct_fi_mr_attr)]"

definition struct_fi_hmem_override_ops :: fields where [structs]:
  "struct_fi_hmem_override_ops = [
     (''size'', SizeT),
     (''copy_from_hmem_iov'', Fn SsizeT [Ptr, SizeT, CEnum, U64, Ptr, SizeT, U64]),
     (''copy_to_hmem_iov'', Fn SsizeT [CEnum, U64, Ptr, SizeT, U64, Ptr, SizeT])]"

definition struct_fi_ops_domain :: fields where [structs]:
  "struct_fi_ops_domain = [
     (''size'', SizeT), (''av_open'', Fn CInt [Ptr, Ptr, Ptr, Ptr]),
     (''cq_open'', Fn CInt [Ptr, Ptr, Ptr, Ptr]), (''endpoint'', Fn CInt [Ptr, Ptr, Ptr, Ptr]),
     (''scalable_ep'', Fn CInt [Ptr, Ptr, Ptr, Ptr]),
     (''cntr_open'', Fn CInt [Ptr, Ptr, Ptr, Ptr]), (''poll_open'', Fn CInt [Ptr, Ptr, Ptr]),
     (''stx_ctx'', Fn CInt [Ptr, Ptr, Ptr, Ptr]), (''srx_ctx'', Fn CInt [Ptr, Ptr, Ptr, Ptr]),
     (''query_atomic'', Fn CInt [Ptr, CEnum, CEnum, Ptr, U64]),
     (''query_collective'', Fn CInt [Ptr, CEnum, Ptr, U64])]"

definition struct_fi_ops_mr :: fields where [structs]:
  "struct_fi_ops_mr = [
     (''size'', SizeT), (''reg'', Fn CInt [Ptr, Ptr, SizeT, U64, U64, U64, U64, Ptr, Ptr]),
     (''regv'', Fn CInt [Ptr, Ptr, SizeT, U64, U64, U64, U64, Ptr, Ptr]),
     (''regattr'', Fn CInt [Ptr, Ptr, U64, Ptr])]"

definition struct_fid_domain :: fields where [structs]:
  "struct_fid_domain = [
     (''fid'', Struct struct_fid), (''ops'', Ptr), (''mr'', Ptr)]"

interpretation ops_av: vtable struct_fi_ops_av
  by unfold_locales (simp_all add: structs)

interpretation ops_domain: vtable struct_fi_ops_domain
  by unfold_locales (simp_all add: structs)

interpretation ops_mr: vtable struct_fi_ops_mr
  by unfold_locales (simp_all add: structs)

interpretation fid_av: fid_class struct_fid_av
  by unfold_locales (simp add: structs)

interpretation fid_mr: fid_class struct_fid_mr
  by unfold_locales (simp add: structs)

interpretation fid_domain: fid_class struct_fid_domain
  by unfold_locales (simp add: structs)

subsection \<open>Domains\<close>

definition fi_domain :: "'p provider \<Rightarrow> ptr \<Rightarrow> ptr \<Rightarrow>
    ptr \<Rightarrow> ptr \<Rightarrow> 'p machine \<Rightarrow>
    (cval \<times> 'p machine) option" where [wrappers]:
  "fi_domain P fabric info domain context s =
     vcall P fabric struct_fid_fabric ''ops'' struct_fi_ops_fabric ''domain''
       [V64 fabric, V64 info, V64 domain, V64 context] s"

definition fi_domain_bind :: "'p provider \<Rightarrow> ptr \<Rightarrow> ptr \<Rightarrow>
    u64 \<Rightarrow> 'p machine \<Rightarrow> (cval \<times> 'p machine) option" where [wrappers]:
  "fi_domain_bind P domain fid flags s =
     vcall P (addr_of domain struct_fid_domain ''fid'') struct_fid ''ops'' struct_fi_ops ''bind''
       [V64 (addr_of domain struct_fid_domain ''fid''), V64 fid, V64 flags] s"

definition fi_cq_open :: "'p provider \<Rightarrow> ptr \<Rightarrow> ptr \<Rightarrow>
    ptr \<Rightarrow> ptr \<Rightarrow> 'p machine \<Rightarrow>
    (cval \<times> 'p machine) option" where [wrappers]:
  "fi_cq_open P domain attr cq context s =
     vcall P domain struct_fid_domain ''ops'' struct_fi_ops_domain ''cq_open''
       [V64 domain, V64 attr, V64 cq, V64 context] s"

definition fi_cntr_open :: "'p provider \<Rightarrow> ptr \<Rightarrow> ptr \<Rightarrow>
    ptr \<Rightarrow> ptr \<Rightarrow> 'p machine \<Rightarrow>
    (cval \<times> 'p machine) option" where [wrappers]:
  "fi_cntr_open P domain attr cntr context s =
     vcall P domain struct_fid_domain ''ops'' struct_fi_ops_domain ''cntr_open''
       [V64 domain, V64 attr, V64 cntr, V64 context] s"

definition fi_wait_open :: "'p provider \<Rightarrow> ptr \<Rightarrow> ptr \<Rightarrow>
    ptr \<Rightarrow> 'p machine \<Rightarrow> (cval \<times> 'p machine) option" where [wrappers]:
  "fi_wait_open P fabric attr waitset s =
     vcall P fabric struct_fid_fabric ''ops'' struct_fi_ops_fabric ''wait_open''
       [V64 fabric, V64 attr, V64 waitset] s"

definition fi_poll_open :: "'p provider \<Rightarrow> ptr \<Rightarrow> ptr \<Rightarrow>
    ptr \<Rightarrow> 'p machine \<Rightarrow> (cval \<times> 'p machine) option" where [wrappers]:
  "fi_poll_open P domain attr pollset s =
     vcall P domain struct_fid_domain ''ops'' struct_fi_ops_domain ''poll_open''
       [V64 domain, V64 attr, V64 pollset] s"

subsection \<open>Memory regions\<close>

definition fi_mr_reg :: "'p provider \<Rightarrow> ptr \<Rightarrow> ptr \<Rightarrow>
    u64 \<Rightarrow> u64 \<Rightarrow> u64 \<Rightarrow> u64 \<Rightarrow> u64 \<Rightarrow>
    ptr \<Rightarrow> ptr \<Rightarrow> 'p machine \<Rightarrow>
    (cval \<times> 'p machine) option" where [wrappers]:
  "fi_mr_reg P domain buf len acs offset requested_key flags mr context s =
     vcall P domain struct_fid_domain ''mr'' struct_fi_ops_mr ''reg''
       [V64 (addr_of domain struct_fid_domain ''fid''), V64 buf, V64 len, V64 acs, V64 offset,
        V64 requested_key, V64 flags, V64 mr, V64 context] s"

definition fi_mr_regv :: "'p provider \<Rightarrow> ptr \<Rightarrow> ptr \<Rightarrow>
    u64 \<Rightarrow> u64 \<Rightarrow> u64 \<Rightarrow> u64 \<Rightarrow> u64 \<Rightarrow>
    ptr \<Rightarrow> ptr \<Rightarrow> 'p machine \<Rightarrow>
    (cval \<times> 'p machine) option" where [wrappers]:
  "fi_mr_regv P domain iov count acs offset requested_key flags mr context s =
     vcall P domain struct_fid_domain ''mr'' struct_fi_ops_mr ''regv''
       [V64 (addr_of domain struct_fid_domain ''fid''), V64 iov, V64 count, V64 acs, V64 offset,
        V64 requested_key, V64 flags, V64 mr, V64 context] s"

definition fi_mr_regattr :: "'p provider \<Rightarrow> ptr \<Rightarrow> ptr \<Rightarrow>
    u64 \<Rightarrow> ptr \<Rightarrow> 'p machine \<Rightarrow>
    (cval \<times> 'p machine) option" where [wrappers]:
  "fi_mr_regattr P domain attr flags mr s =
     vcall P domain struct_fid_domain ''mr'' struct_fi_ops_mr ''regattr''
       [V64 (addr_of domain struct_fid_domain ''fid''), V64 attr, V64 flags, V64 mr] s"

definition fi_mr_bind :: "'p provider \<Rightarrow> ptr \<Rightarrow> ptr \<Rightarrow>
    u64 \<Rightarrow> 'p machine \<Rightarrow> (cval \<times> 'p machine) option" where [wrappers]:
  "fi_mr_bind P mr bfid flags s =
     vcall P (addr_of mr struct_fid_mr ''fid'') struct_fid ''ops'' struct_fi_ops ''bind''
       [V64 (addr_of mr struct_fid_mr ''fid''), V64 bfid, V64 flags] s"

definition fi_mr_enable :: "'p provider \<Rightarrow> ptr \<Rightarrow> 'p machine \<Rightarrow>
    (cval \<times> 'p machine) option" where [wrappers]:
  "fi_mr_enable P mr s =
     vcall P (addr_of mr struct_fid_mr ''fid'') struct_fid ''ops'' struct_fi_ops ''control''
       [V64 (addr_of mr struct_fid_mr ''fid''), V32 (fi_command_val FI_ENABLE), V64 NULL] s"

datatype mr_call =
    Fi_mr_reg ptr u64 u64 u64 u64 u64 ptr ptr
  | Fi_mr_regv ptr u64 u64 u64 u64 u64 ptr ptr
  | Fi_mr_regattr ptr u64 ptr

fun mr_run :: "'p provider \<Rightarrow> ptr \<Rightarrow> mr_call \<Rightarrow> 'p machine \<Rightarrow>
    (cval \<times> 'p machine) option" where
  "mr_run P p (Fi_mr_reg buf len acs offset requested_key flags mr context) s =
     fi_mr_reg P p buf len acs offset requested_key flags mr context s"
| "mr_run P p (Fi_mr_regv iov count acs offset requested_key flags mr context) s =
     fi_mr_regv P p iov count acs offset requested_key flags mr context s"
| "mr_run P p (Fi_mr_regattr attr flags mr) s = fi_mr_regattr P p attr flags mr s"

fun mr_slot :: "mr_call \<Rightarrow> string" where
  "mr_slot (Fi_mr_reg _ _ _ _ _ _ _ _) = ''reg''"
| "mr_slot (Fi_mr_regv _ _ _ _ _ _ _ _) = ''regv''"
| "mr_slot (Fi_mr_regattr _ _ _) = ''regattr''"

fun mr_args :: "ptr \<Rightarrow> mr_call \<Rightarrow> cval list" where
  "mr_args p (Fi_mr_reg buf len acs offset requested_key flags mr context) =
     [V64 p, V64 buf, V64 len, V64 acs, V64 offset, V64 requested_key, V64 flags, V64 mr,
      V64 context]"
| "mr_args p (Fi_mr_regv iov count acs offset requested_key flags mr context) =
     [V64 p, V64 iov, V64 count, V64 acs, V64 offset, V64 requested_key, V64 flags, V64 mr,
      V64 context]"
| "mr_args p (Fi_mr_regattr attr flags mr) =
     [V64 p, V64 attr, V64 flags, V64 mr]"

fun mr_ret :: "mr_call \<Rightarrow> ctype" where
  "mr_ret c = CInt"

interpretation mr: op_family mr_run struct_fid_domain "''mr''" struct_fi_ops_mr mr_slot mr_args mr_ret
proof unfold_locales
  show "mr_run P p c s =
      vcall P p struct_fid_domain ''mr'' struct_fi_ops_mr (mr_slot c) (mr_args p c) s" for P p c s
    by (cases c) (simp_all add: wrappers upcast_simps)
  show "\<exists>ps. proto struct_fi_ops_mr (mr_slot c) = Some (mr_ret c, ps) \<and>
      map bytes (mr_args p c) = map sizeof ps" for p c
    by (cases c) (simp_all add: proto_map_of structs)
qed

definition fi_mr_desc :: "ptr \<Rightarrow> 'p machine \<Rightarrow> (cval \<times> 'p machine) option" where
  "fi_mr_desc mr s = do { v \<leftarrow> get s mr struct_fid_mr ''mem_desc''; Some (v, s) }"

definition fi_mr_key :: "ptr \<Rightarrow> 'p machine \<Rightarrow> (cval \<times> 'p machine) option" where
  "fi_mr_key mr s = do { v \<leftarrow> get s mr struct_fid_mr ''key''; Some (v, s) }"

definition fi_mr_raw_attr :: "'p provider \<Rightarrow> ptr \<Rightarrow> ptr \<Rightarrow> ptr \<Rightarrow> ptr \<Rightarrow> u64 \<Rightarrow> 'p machine \<Rightarrow>
    (cval \<times> 'p machine) option" where
  "fi_mr_raw_attr P mr base_addr raw_key key_size flags s = do {
     (attr, s1) \<leftarrow> push struct_fi_mr_raw_attr s;
     s2 \<leftarrow> put attr struct_fi_mr_raw_attr ''flags'' (V64 flags) s1;
     s3 \<leftarrow> put attr struct_fi_mr_raw_attr ''base_addr'' (V64 base_addr) s2;
     s4 \<leftarrow> put attr struct_fi_mr_raw_attr ''raw_key'' (V64 raw_key) s3;
     s5 \<leftarrow> put attr struct_fi_mr_raw_attr ''key_size'' (V64 key_size) s4;
     (ret, s6) \<leftarrow> vcall P (addr_of mr struct_fid_mr ''fid'') struct_fid ''ops'' struct_fi_ops ''control''
       [V64 (addr_of mr struct_fid_mr ''fid''), V32 (fi_command_val FI_GET_RAW_MR), V64 attr] s5;
     Some (ret, pop attr struct_fi_mr_raw_attr s6) }"

interpretation fi_mr_raw_attr: local_call
    "\<lambda>P (mr, base_addr, raw_key, key_size, flags). fi_mr_raw_attr P mr base_addr raw_key key_size flags"
    struct_fi_mr_raw_attr
    "\<lambda>(mr, base_addr, raw_key, key_size, flags). [(''flags'', V64 flags), (''base_addr'', V64 base_addr),
      (''raw_key'', V64 raw_key), (''key_size'', V64 key_size)]"
    "\<lambda>P x attr. vcall P (fst x) struct_fid ''ops'' struct_fi_ops ''control''
      [V64 (fst x), V32 (fi_command_val FI_GET_RAW_MR), V64 attr]"
  by (unfold_locales, (auto simp: fi_mr_raw_attr_def fid_mr.upcast)[1])
    (auto simp: small_def member_ok_def structs layout_simps)

definition fi_mr_map_raw :: "'p provider \<Rightarrow> ptr \<Rightarrow> u64 \<Rightarrow> ptr \<Rightarrow> u64 \<Rightarrow> ptr \<Rightarrow> u64 \<Rightarrow> 'p machine \<Rightarrow>
    (cval \<times> 'p machine) option" where
  "fi_mr_map_raw P domain base_addr raw_key key_size key flags s = do {
     (m, s1) \<leftarrow> push struct_fi_mr_map_raw s;
     s2 \<leftarrow> put m struct_fi_mr_map_raw ''flags'' (V64 flags) s1;
     s3 \<leftarrow> put m struct_fi_mr_map_raw ''base_addr'' (V64 base_addr) s2;
     s4 \<leftarrow> put m struct_fi_mr_map_raw ''raw_key'' (V64 raw_key) s3;
     s5 \<leftarrow> put m struct_fi_mr_map_raw ''key_size'' (V64 key_size) s4;
     s6 \<leftarrow> put m struct_fi_mr_map_raw ''key'' (V64 key) s5;
     (ret, s7) \<leftarrow> vcall P (addr_of domain struct_fid_domain ''fid'') struct_fid ''ops'' struct_fi_ops ''control''
       [V64 (addr_of domain struct_fid_domain ''fid''), V32 (fi_command_val FI_MAP_RAW_MR), V64 m] s6;
     Some (ret, pop m struct_fi_mr_map_raw s7) }"

interpretation fi_mr_map_raw: local_call
    "\<lambda>P (domain, base_addr, raw_key, key_size, key, flags). fi_mr_map_raw P domain base_addr raw_key key_size key flags"
    struct_fi_mr_map_raw
    "\<lambda>(domain, base_addr, raw_key, key_size, key, flags). [(''flags'', V64 flags), (''base_addr'', V64 base_addr),
      (''raw_key'', V64 raw_key), (''key_size'', V64 key_size), (''key'', V64 key)]"
    "\<lambda>P x m. vcall P (fst x) struct_fid ''ops'' struct_fi_ops ''control''
      [V64 (fst x), V32 (fi_command_val FI_MAP_RAW_MR), V64 m]"
  by (unfold_locales, (auto simp: fi_mr_map_raw_def fid_domain.upcast)[1])
    (auto simp: small_def member_ok_def structs layout_simps)

text \<open>\<open>&key\<close> is the address of a parameter: the parameter lives in the frame of the call.\<close>

definition key_param :: fields where
  "key_param = [(''key'', U64)]"

lemma key_param_addr: "addr_of p key_param ''key'' = p"
  by (simp add: addr_of_def key_param_def layout_simps)

definition fi_mr_unmap_key :: "'p provider \<Rightarrow> ptr \<Rightarrow> u64 \<Rightarrow> 'p machine \<Rightarrow> (cval \<times> 'p machine) option" where
  "fi_mr_unmap_key P domain key s = do {
     (k, s1) \<leftarrow> push key_param s;
     s2 \<leftarrow> put k key_param ''key'' (V64 key) s1;
     (ret, s3) \<leftarrow> vcall P (addr_of domain struct_fid_domain ''fid'') struct_fid ''ops'' struct_fi_ops ''control''
       [V64 (addr_of domain struct_fid_domain ''fid''), V32 (fi_command_val FI_UNMAP_KEY),
        V64 (addr_of k key_param ''key'')] s2;
     Some (ret, pop k key_param s3) }"

interpretation fi_mr_unmap_key: local_call
    "\<lambda>P (domain, key). fi_mr_unmap_key P domain key" key_param "\<lambda>(domain, key). [(''key'', V64 key)]"
    "\<lambda>P x k. vcall P (fst x) struct_fid ''ops'' struct_fi_ops ''control''
      [V64 (fst x), V32 (fi_command_val FI_UNMAP_KEY), V64 k]"
  by (unfold_locales, (auto simp: fi_mr_unmap_key_def fid_domain.upcast key_param_addr)[1])
    (auto simp: small_def member_ok_def key_param_def layout_simps)

definition fi_mr_refresh :: "'p provider \<Rightarrow> ptr \<Rightarrow> ptr \<Rightarrow> u64 \<Rightarrow> u64 \<Rightarrow> 'p machine \<Rightarrow>
    (cval \<times> 'p machine) option" where
  "fi_mr_refresh P mr iov cnt flags s = do {
     (modify, s1) \<leftarrow> push struct_fi_mr_modify s;
     s2 \<leftarrow> memset0 modify struct_fi_mr_modify s1;
     s3 \<leftarrow> put modify struct_fi_mr_modify ''flags'' (V64 flags) s2;
     s4 \<leftarrow> put (addr_of modify struct_fi_mr_modify ''attr'') struct_fi_mr_attr ''mr_iov'' (V64 iov) s3;
     s5 \<leftarrow> put (addr_of modify struct_fi_mr_modify ''attr'') struct_fi_mr_attr ''iov_count'' (V64 cnt) s4;
     (ret, s6) \<leftarrow> vcall P (addr_of mr struct_fid_mr ''fid'') struct_fid ''ops'' struct_fi_ops ''control''
       [V64 (addr_of mr struct_fid_mr ''fid''), V32 (fi_command_val FI_REFRESH), V64 modify] s5;
     Some (ret, pop modify struct_fi_mr_modify s6) }"

text \<open>
  \<open>fi_rx_addr\<close>: the index of a receive context in the high bits of an address. The shift of a
  64-bit value is by \<open>64 - rx_ctx_bits\<close>: outside \<open>0 < rx_ctx_bits \<le> 64\<close> it is undefined.
\<close>

definition fi_rx_addr :: "u64 \<Rightarrow> u32 \<Rightarrow> u32 \<Rightarrow> u64 option" where
  "fi_rx_addr fi_addr rx_index rx_ctx_bits =
     (let k = 64 - sint rx_ctx_bits
      in if 0 \<le> k \<and> k < 64 then Some (push_bit (nat k) (scast rx_index) OR fi_addr) else None)"

subsection \<open>Address vectors\<close>

definition fi_av_open :: "'p provider \<Rightarrow> ptr \<Rightarrow> ptr \<Rightarrow>
    ptr \<Rightarrow> ptr \<Rightarrow> 'p machine \<Rightarrow>
    (cval \<times> 'p machine) option" where [wrappers]:
  "fi_av_open P domain attr av context s =
     vcall P domain struct_fid_domain ''ops'' struct_fi_ops_domain ''av_open''
       [V64 domain, V64 attr, V64 av, V64 context] s"

definition fi_av_bind :: "'p provider \<Rightarrow> ptr \<Rightarrow> ptr \<Rightarrow>
    u64 \<Rightarrow> 'p machine \<Rightarrow> (cval \<times> 'p machine) option" where [wrappers]:
  "fi_av_bind P av fid flags s =
     vcall P (addr_of av struct_fid_av ''fid'') struct_fid ''ops'' struct_fi_ops ''bind''
       [V64 (addr_of av struct_fid_av ''fid''), V64 fid, V64 flags] s"

definition fi_av_insert :: "'p provider \<Rightarrow> ptr \<Rightarrow> ptr \<Rightarrow>
    u64 \<Rightarrow> ptr \<Rightarrow> u64 \<Rightarrow> ptr \<Rightarrow>
    'p machine \<Rightarrow> (cval \<times> 'p machine) option" where [wrappers]:
  "fi_av_insert P av addr count fi_addr flags context s =
     vcall P av struct_fid_av ''ops'' struct_fi_ops_av ''insert''
       [V64 av, V64 addr, V64 count, V64 fi_addr, V64 flags, V64 context] s"

definition fi_av_insertsvc :: "'p provider \<Rightarrow> ptr \<Rightarrow> ptr \<Rightarrow>
    ptr \<Rightarrow> ptr \<Rightarrow> u64 \<Rightarrow> ptr \<Rightarrow>
    'p machine \<Rightarrow> (cval \<times> 'p machine) option" where [wrappers]:
  "fi_av_insertsvc P av node service fi_addr flags context s =
     vcall P av struct_fid_av ''ops'' struct_fi_ops_av ''insertsvc''
       [V64 av, V64 node, V64 service, V64 fi_addr, V64 flags, V64 context] s"

definition fi_av_insertsym :: "'p provider \<Rightarrow> ptr \<Rightarrow> ptr \<Rightarrow>
    u64 \<Rightarrow> ptr \<Rightarrow> u64 \<Rightarrow> ptr \<Rightarrow> u64 \<Rightarrow>
    ptr \<Rightarrow> 'p machine \<Rightarrow> (cval \<times> 'p machine) option" where [wrappers]:
  "fi_av_insertsym P av node nodecnt service svccnt fi_addr flags context s =
     vcall P av struct_fid_av ''ops'' struct_fi_ops_av ''insertsym''
       [V64 av, V64 node, V64 nodecnt, V64 service, V64 svccnt, V64 fi_addr, V64 flags, V64 context] s"

definition fi_av_remove :: "'p provider \<Rightarrow> ptr \<Rightarrow> ptr \<Rightarrow>
    u64 \<Rightarrow> u64 \<Rightarrow> 'p machine \<Rightarrow>
    (cval \<times> 'p machine) option" where [wrappers]:
  "fi_av_remove P av fi_addr count flags s =
     vcall P av struct_fid_av ''ops'' struct_fi_ops_av ''remove''
       [V64 av, V64 fi_addr, V64 count, V64 flags] s"

definition fi_av_lookup :: "'p provider \<Rightarrow> ptr \<Rightarrow> u64 \<Rightarrow>
    ptr \<Rightarrow> ptr \<Rightarrow> 'p machine \<Rightarrow>
    (cval \<times> 'p machine) option" where [wrappers]:
  "fi_av_lookup P av fi_addr addr addrlen s =
     vcall P av struct_fid_av ''ops'' struct_fi_ops_av ''lookup''
       [V64 av, V64 fi_addr, V64 addr, V64 addrlen] s"

definition fi_av_straddr :: "'p provider \<Rightarrow> ptr \<Rightarrow> ptr \<Rightarrow>
    ptr \<Rightarrow> ptr \<Rightarrow> 'p machine \<Rightarrow>
    (cval \<times> 'p machine) option" where [wrappers]:
  "fi_av_straddr P av addr buf len s =
     vcall P av struct_fid_av ''ops'' struct_fi_ops_av ''straddr''
       [V64 av, V64 addr, V64 buf, V64 len] s"

datatype av_call =
    Fi_av_insert ptr u64 ptr u64 ptr
  | Fi_av_insertsvc ptr ptr ptr u64 ptr
  | Fi_av_insertsym ptr u64 ptr u64 ptr u64 ptr
  | Fi_av_remove ptr u64 u64
  | Fi_av_lookup u64 ptr ptr
  | Fi_av_straddr ptr ptr ptr

fun av_run :: "'p provider \<Rightarrow> ptr \<Rightarrow> av_call \<Rightarrow> 'p machine \<Rightarrow>
    (cval \<times> 'p machine) option" where
  "av_run P p (Fi_av_insert addr count fi_addr flags context) s =
     fi_av_insert P p addr count fi_addr flags context s"
| "av_run P p (Fi_av_insertsvc node service fi_addr flags context) s =
     fi_av_insertsvc P p node service fi_addr flags context s"
| "av_run P p (Fi_av_insertsym node nodecnt service svccnt fi_addr flags context) s =
     fi_av_insertsym P p node nodecnt service svccnt fi_addr flags context s"
| "av_run P p (Fi_av_remove fi_addr count flags) s = fi_av_remove P p fi_addr count flags s"
| "av_run P p (Fi_av_lookup fi_addr addr addrlen) s = fi_av_lookup P p fi_addr addr addrlen s"
| "av_run P p (Fi_av_straddr addr buf len) s = fi_av_straddr P p addr buf len s"

fun av_slot :: "av_call \<Rightarrow> string" where
  "av_slot (Fi_av_insert _ _ _ _ _) = ''insert''"
| "av_slot (Fi_av_insertsvc _ _ _ _ _) = ''insertsvc''"
| "av_slot (Fi_av_insertsym _ _ _ _ _ _ _) = ''insertsym''"
| "av_slot (Fi_av_remove _ _ _) = ''remove''"
| "av_slot (Fi_av_lookup _ _ _) = ''lookup''"
| "av_slot (Fi_av_straddr _ _ _) = ''straddr''"

fun av_args :: "ptr \<Rightarrow> av_call \<Rightarrow> cval list" where
  "av_args p (Fi_av_insert addr count fi_addr flags context) =
     [V64 p, V64 addr, V64 count, V64 fi_addr, V64 flags, V64 context]"
| "av_args p (Fi_av_insertsvc node service fi_addr flags context) =
     [V64 p, V64 node, V64 service, V64 fi_addr, V64 flags, V64 context]"
| "av_args p (Fi_av_insertsym node nodecnt service svccnt fi_addr flags context) =
     [V64 p, V64 node, V64 nodecnt, V64 service, V64 svccnt, V64 fi_addr, V64 flags, V64 context]"
| "av_args p (Fi_av_remove fi_addr count flags) =
     [V64 p, V64 fi_addr, V64 count, V64 flags]"
| "av_args p (Fi_av_lookup fi_addr addr addrlen) =
     [V64 p, V64 fi_addr, V64 addr, V64 addrlen]"
| "av_args p (Fi_av_straddr addr buf len) =
     [V64 p, V64 addr, V64 buf, V64 len]"

fun av_ret :: "av_call \<Rightarrow> ctype" where
  "av_ret (Fi_av_insert _ _ _ _ _) = CInt"
| "av_ret (Fi_av_insertsvc _ _ _ _ _) = CInt"
| "av_ret (Fi_av_insertsym _ _ _ _ _ _ _) = CInt"
| "av_ret (Fi_av_remove _ _ _) = CInt"
| "av_ret (Fi_av_lookup _ _ _) = CInt"
| "av_ret (Fi_av_straddr _ _ _) = Ptr"

interpretation av: op_family av_run struct_fid_av "''ops''" struct_fi_ops_av av_slot av_args av_ret
proof unfold_locales
  show "av_run P p c s =
      vcall P p struct_fid_av ''ops'' struct_fi_ops_av (av_slot c) (av_args p c) s" for P p c s
    by (cases c) (simp_all add: wrappers upcast_simps)
  show "\<exists>ps. proto struct_fi_ops_av (av_slot c) = Some (av_ret c, ps) \<and>
      map bytes (av_args p c) = map sizeof ps" for p c
    by (cases c) (simp_all add: proto_map_of structs)
qed

end
