(* ===== verification/Fi_Endpoint.thy ===== *)
theory Fi_Endpoint
  imports Fi_Domain
begin

section \<open>fi_endpoint.h: endpoints and message transfer\<close>

text \<open>
  Active, passive and scalable endpoints, their options, and message transfer. \<open>fi_cancel\<close>,
  \<open>fi_setopt\<close> and \<open>fi_getopt\<close> take a \<open>fid_t\<close> and reach the endpoint with \<open>container_of\<close>.
\<close>

subsection \<open>Enumerations\<close>

datatype fi_opt_level =
    FI_OPT_ENDPOINT

primrec fi_opt_level_val :: "fi_opt_level \<Rightarrow> u32" where
  "fi_opt_level_val FI_OPT_ENDPOINT = 0"

definition fi_opt_level_all :: "fi_opt_level list" where
  "fi_opt_level_all =
     [FI_OPT_ENDPOINT]"

interpretation fi_opt_level: c_enum fi_opt_level_val fi_opt_level_all
proof unfold_locales
  show "x \<in> set fi_opt_level_all" for x
    by (cases x) (simp_all add: fi_opt_level_all_def)
  show "distinct (map fi_opt_level_val fi_opt_level_all)"
    by (simp add: fi_opt_level_all_def)
qed

datatype fi_opt_name =
    FI_OPT_MIN_MULTI_RECV | FI_OPT_CM_DATA_SIZE | FI_OPT_BUFFERED_MIN | FI_OPT_BUFFERED_LIMIT |
    FI_OPT_SEND_BUF_SIZE | FI_OPT_RECV_BUF_SIZE | FI_OPT_TX_SIZE | FI_OPT_RX_SIZE

primrec fi_opt_name_val :: "fi_opt_name \<Rightarrow> u32" where
  "fi_opt_name_val FI_OPT_MIN_MULTI_RECV = 0"
| "fi_opt_name_val FI_OPT_CM_DATA_SIZE = 1"
| "fi_opt_name_val FI_OPT_BUFFERED_MIN = 2"
| "fi_opt_name_val FI_OPT_BUFFERED_LIMIT = 3"
| "fi_opt_name_val FI_OPT_SEND_BUF_SIZE = 4"
| "fi_opt_name_val FI_OPT_RECV_BUF_SIZE = 5"
| "fi_opt_name_val FI_OPT_TX_SIZE = 6"
| "fi_opt_name_val FI_OPT_RX_SIZE = 7"

definition fi_opt_name_all :: "fi_opt_name list" where
  "fi_opt_name_all =
     [FI_OPT_MIN_MULTI_RECV, FI_OPT_CM_DATA_SIZE, FI_OPT_BUFFERED_MIN, FI_OPT_BUFFERED_LIMIT,
      FI_OPT_SEND_BUF_SIZE, FI_OPT_RECV_BUF_SIZE, FI_OPT_TX_SIZE, FI_OPT_RX_SIZE]"

interpretation fi_opt_name: c_enum fi_opt_name_val fi_opt_name_all
proof unfold_locales
  show "x \<in> set fi_opt_name_all" for x
    by (cases x) (simp_all add: fi_opt_name_all_def)
  show "distinct (map fi_opt_name_val fi_opt_name_all)"
    by (simp add: fi_opt_name_all_def)
qed

subsection \<open>Structs\<close>

definition struct_fi_msg :: fields where [structs]:
  "struct_fi_msg = [
     (''msg_iov'', Ptr), (''desc'', Ptr), (''iov_count'', SizeT), (''addr'', FiAddrT),
     (''context'', Ptr), (''data'', U64)]"

definition struct_fi_ops_ep :: fields where [structs]:
  "struct_fi_ops_ep = [
     (''size'', SizeT), (''cancel'', Fn SsizeT [Ptr, Ptr]),
     (''getopt'', Fn CInt [Ptr, CInt, CInt, Ptr, Ptr]),
     (''setopt'', Fn CInt [Ptr, CInt, CInt, Ptr, SizeT]),
     (''tx_ctx'', Fn CInt [Ptr, CInt, Ptr, Ptr, Ptr]),
     (''rx_ctx'', Fn CInt [Ptr, CInt, Ptr, Ptr, Ptr]), (''rx_size_left'', Fn SsizeT [Ptr]),
     (''tx_size_left'', Fn SsizeT [Ptr])]"

definition struct_fi_ops_msg :: fields where [structs]:
  "struct_fi_ops_msg = [
     (''size'', SizeT), (''recv'', Fn SsizeT [Ptr, Ptr, SizeT, Ptr, FiAddrT, Ptr]),
     (''recvv'', Fn SsizeT [Ptr, Ptr, Ptr, SizeT, FiAddrT, Ptr]),
     (''recvmsg'', Fn SsizeT [Ptr, Ptr, U64]),
     (''send'', Fn SsizeT [Ptr, Ptr, SizeT, Ptr, FiAddrT, Ptr]),
     (''sendv'', Fn SsizeT [Ptr, Ptr, Ptr, SizeT, FiAddrT, Ptr]),
     (''sendmsg'', Fn SsizeT [Ptr, Ptr, U64]),
     (''inject'', Fn SsizeT [Ptr, Ptr, SizeT, FiAddrT]),
     (''senddata'', Fn SsizeT [Ptr, Ptr, SizeT, Ptr, U64, FiAddrT, Ptr]),
     (''injectdata'', Fn SsizeT [Ptr, Ptr, SizeT, U64, FiAddrT])]"

definition struct_fid_ep :: fields where [structs]:
  "struct_fid_ep = [
     (''fid'', Struct struct_fid), (''ops'', Ptr), (''cm'', Ptr), (''msg'', Ptr), (''rma'', Ptr),
     (''tagged'', Ptr), (''atomic'', Ptr), (''collective'', Ptr)]"

definition struct_fid_pep :: fields where [structs]:
  "struct_fid_pep = [
     (''fid'', Struct struct_fid), (''ops'', Ptr), (''cm'', Ptr)]"

definition struct_fid_stx :: fields where [structs]:
  "struct_fid_stx = [
     (''fid'', Struct struct_fid), (''ops'', Ptr)]"

interpretation ops_ep: vtable struct_fi_ops_ep
  by unfold_locales (simp_all add: structs)

interpretation ops_msg: vtable struct_fi_ops_msg
  by unfold_locales (simp_all add: structs)

interpretation fid_ep: fid_class struct_fid_ep
  by unfold_locales (simp add: structs)

interpretation fid_pep: fid_class struct_fid_pep
  by unfold_locales (simp add: structs)

interpretation fid_stx: fid_class struct_fid_stx
  by unfold_locales (simp add: structs)

subsection \<open>Opening, binding, enabling\<close>

definition fi_passive_ep :: "'p provider \<Rightarrow> ptr \<Rightarrow> ptr \<Rightarrow>
    ptr \<Rightarrow> ptr \<Rightarrow> 'p machine \<Rightarrow>
    (cval \<times> 'p machine) option" where [wrappers]:
  "fi_passive_ep P fabric info pep context s =
     vcall P fabric struct_fid_fabric ''ops'' struct_fi_ops_fabric ''passive_ep''
       [V64 fabric, V64 info, V64 pep, V64 context] s"

definition fi_endpoint :: "'p provider \<Rightarrow> ptr \<Rightarrow> ptr \<Rightarrow>
    ptr \<Rightarrow> ptr \<Rightarrow> 'p machine \<Rightarrow>
    (cval \<times> 'p machine) option" where [wrappers]:
  "fi_endpoint P domain info ep context s =
     vcall P domain struct_fid_domain ''ops'' struct_fi_ops_domain ''endpoint''
       [V64 domain, V64 info, V64 ep, V64 context] s"

definition fi_scalable_ep :: "'p provider \<Rightarrow> ptr \<Rightarrow> ptr \<Rightarrow>
    ptr \<Rightarrow> ptr \<Rightarrow> 'p machine \<Rightarrow>
    (cval \<times> 'p machine) option" where [wrappers]:
  "fi_scalable_ep P domain info sep context s =
     vcall P domain struct_fid_domain ''ops'' struct_fi_ops_domain ''scalable_ep''
       [V64 domain, V64 info, V64 sep, V64 context] s"

definition fi_ep_bind :: "'p provider \<Rightarrow> ptr \<Rightarrow> ptr \<Rightarrow>
    u64 \<Rightarrow> 'p machine \<Rightarrow> (cval \<times> 'p machine) option" where [wrappers]:
  "fi_ep_bind P ep bfid flags s =
     vcall P (addr_of ep struct_fid_ep ''fid'') struct_fid ''ops'' struct_fi_ops ''bind''
       [V64 (addr_of ep struct_fid_ep ''fid''), V64 bfid, V64 flags] s"

definition fi_pep_bind :: "'p provider \<Rightarrow> ptr \<Rightarrow> ptr \<Rightarrow>
    u64 \<Rightarrow> 'p machine \<Rightarrow> (cval \<times> 'p machine) option" where [wrappers]:
  "fi_pep_bind P pep bfid flags s =
     vcall P (addr_of pep struct_fid_pep ''fid'') struct_fid ''ops'' struct_fi_ops ''bind''
       [V64 (addr_of pep struct_fid_pep ''fid''), V64 bfid, V64 flags] s"

definition fi_scalable_ep_bind :: "'p provider \<Rightarrow> ptr \<Rightarrow> ptr \<Rightarrow>
    u64 \<Rightarrow> 'p machine \<Rightarrow> (cval \<times> 'p machine) option" where [wrappers]:
  "fi_scalable_ep_bind P sep bfid flags s =
     vcall P (addr_of sep struct_fid_ep ''fid'') struct_fid ''ops'' struct_fi_ops ''bind''
       [V64 (addr_of sep struct_fid_ep ''fid''), V64 bfid, V64 flags] s"

definition fi_enable :: "'p provider \<Rightarrow> ptr \<Rightarrow> 'p machine \<Rightarrow>
    (cval \<times> 'p machine) option" where [wrappers]:
  "fi_enable P ep s =
     vcall P (addr_of ep struct_fid_ep ''fid'') struct_fid ''ops'' struct_fi_ops ''control''
       [V64 (addr_of ep struct_fid_ep ''fid''), V32 (fi_command_val FI_ENABLE), V64 NULL] s"

definition fi_stx_context :: "'p provider \<Rightarrow> ptr \<Rightarrow> ptr \<Rightarrow>
    ptr \<Rightarrow> ptr \<Rightarrow> 'p machine \<Rightarrow>
    (cval \<times> 'p machine) option" where [wrappers]:
  "fi_stx_context P domain attr stx context s =
     vcall P domain struct_fid_domain ''ops'' struct_fi_ops_domain ''stx_ctx''
       [V64 domain, V64 attr, V64 stx, V64 context] s"

definition fi_srx_context :: "'p provider \<Rightarrow> ptr \<Rightarrow> ptr \<Rightarrow>
    ptr \<Rightarrow> ptr \<Rightarrow> 'p machine \<Rightarrow>
    (cval \<times> 'p machine) option" where [wrappers]:
  "fi_srx_context P domain attr rx_ep context s =
     vcall P domain struct_fid_domain ''ops'' struct_fi_ops_domain ''srx_ctx''
       [V64 domain, V64 attr, V64 rx_ep, V64 context] s"

text \<open>The local \<open>struct fid *fid\<close> of \<open>fi_ep_alias\<close>, whose address goes to the provider.\<close>

definition fid_local :: fields where
  "fid_local = [(''fid'', Ptr)]"

definition fi_ep_alias :: "'p provider \<Rightarrow> ptr \<Rightarrow> ptr \<Rightarrow> u64 \<Rightarrow> 'p machine \<Rightarrow>
    (cval \<times> 'p machine) option" where
  "fi_ep_alias P ep alias_ep flags s = do {
     (fid, s1) \<leftarrow> push fid_local s;
     (ret, s2) \<leftarrow> fi_alias P (addr_of ep struct_fid_ep ''fid'') fid flags s1;
     s3 \<leftarrow> (if ret = V32 0
           then do {
             f \<leftarrow> deref64 s2 fid;
             assign alias_ep (V64 (container_of f struct_fid_ep ''fid'')) s2 }
           else Some s2);
     Some (ret, pop fid fid_local s3) }"

subsection \<open>Options, contexts, queue space\<close>

definition fi_cancel :: "'p provider \<Rightarrow> ptr \<Rightarrow> ptr \<Rightarrow>
    'p machine \<Rightarrow> (cval \<times> 'p machine) option" where [wrappers]:
  "fi_cancel P fid context s =
     vcall P (container_of fid struct_fid_ep ''fid'') struct_fid_ep ''ops'' struct_fi_ops_ep ''cancel''
       [V64 fid, V64 context] s"

definition fi_setopt :: "'p provider \<Rightarrow> ptr \<Rightarrow> u32 \<Rightarrow>
    u32 \<Rightarrow> ptr \<Rightarrow> u64 \<Rightarrow> 'p machine \<Rightarrow>
    (cval \<times> 'p machine) option" where [wrappers]:
  "fi_setopt P fid level optname optval optlen s =
     vcall P (container_of fid struct_fid_ep ''fid'') struct_fid_ep ''ops'' struct_fi_ops_ep ''setopt''
       [V64 fid, V32 level, V32 optname, V64 optval, V64 optlen] s"

definition fi_getopt :: "'p provider \<Rightarrow> ptr \<Rightarrow> u32 \<Rightarrow>
    u32 \<Rightarrow> ptr \<Rightarrow> ptr \<Rightarrow> 'p machine \<Rightarrow>
    (cval \<times> 'p machine) option" where [wrappers]:
  "fi_getopt P fid level optname optval optlen s =
     vcall P (container_of fid struct_fid_ep ''fid'') struct_fid_ep ''ops'' struct_fi_ops_ep ''getopt''
       [V64 fid, V32 level, V32 optname, V64 optval, V64 optlen] s"

definition fi_tx_context :: "'p provider \<Rightarrow> ptr \<Rightarrow> u32 \<Rightarrow>
    ptr \<Rightarrow> ptr \<Rightarrow> ptr \<Rightarrow> 'p machine \<Rightarrow>
    (cval \<times> 'p machine) option" where [wrappers]:
  "fi_tx_context P ep idx attr tx_ep context s =
     vcall P ep struct_fid_ep ''ops'' struct_fi_ops_ep ''tx_ctx''
       [V64 ep, V32 idx, V64 attr, V64 tx_ep, V64 context] s"

definition fi_rx_context :: "'p provider \<Rightarrow> ptr \<Rightarrow> u32 \<Rightarrow>
    ptr \<Rightarrow> ptr \<Rightarrow> ptr \<Rightarrow> 'p machine \<Rightarrow>
    (cval \<times> 'p machine) option" where [wrappers]:
  "fi_rx_context P ep idx attr rx_ep context s =
     vcall P ep struct_fid_ep ''ops'' struct_fi_ops_ep ''rx_ctx''
       [V64 ep, V32 idx, V64 attr, V64 rx_ep, V64 context] s"

definition fi_rx_size_left :: "'p provider \<Rightarrow> ptr \<Rightarrow>
    'p machine \<Rightarrow> (cval \<times> 'p machine) option" where [wrappers]:
  "fi_rx_size_left P ep s =
     vcall P ep struct_fid_ep ''ops'' struct_fi_ops_ep ''rx_size_left''
       [V64 ep] s"

definition fi_tx_size_left :: "'p provider \<Rightarrow> ptr \<Rightarrow>
    'p machine \<Rightarrow> (cval \<times> 'p machine) option" where [wrappers]:
  "fi_tx_size_left P ep s =
     vcall P ep struct_fid_ep ''ops'' struct_fi_ops_ep ''tx_size_left''
       [V64 ep] s"

datatype ep_call =
    Fi_cancel ptr
  | Fi_setopt u32 u32 ptr u64
  | Fi_getopt u32 u32 ptr ptr
  | Fi_tx_context u32 ptr ptr ptr
  | Fi_rx_context u32 ptr ptr ptr
  | Fi_rx_size_left
  | Fi_tx_size_left

fun ep_run :: "'p provider \<Rightarrow> ptr \<Rightarrow> ep_call \<Rightarrow> 'p machine \<Rightarrow>
    (cval \<times> 'p machine) option" where
  "ep_run P p (Fi_cancel context) s = fi_cancel P p context s"
| "ep_run P p (Fi_setopt level optname optval optlen) s =
     fi_setopt P p level optname optval optlen s"
| "ep_run P p (Fi_getopt level optname optval optlen) s =
     fi_getopt P p level optname optval optlen s"
| "ep_run P p (Fi_tx_context idx attr tx_ep context) s =
     fi_tx_context P p idx attr tx_ep context s"
| "ep_run P p (Fi_rx_context idx attr rx_ep context) s =
     fi_rx_context P p idx attr rx_ep context s"
| "ep_run P p Fi_rx_size_left s = fi_rx_size_left P p s"
| "ep_run P p Fi_tx_size_left s = fi_tx_size_left P p s"

fun ep_slot :: "ep_call \<Rightarrow> string" where
  "ep_slot (Fi_cancel _) = ''cancel''"
| "ep_slot (Fi_setopt _ _ _ _) = ''setopt''"
| "ep_slot (Fi_getopt _ _ _ _) = ''getopt''"
| "ep_slot (Fi_tx_context _ _ _ _) = ''tx_ctx''"
| "ep_slot (Fi_rx_context _ _ _ _) = ''rx_ctx''"
| "ep_slot Fi_rx_size_left = ''rx_size_left''"
| "ep_slot Fi_tx_size_left = ''tx_size_left''"

fun ep_args :: "ptr \<Rightarrow> ep_call \<Rightarrow> cval list" where
  "ep_args p (Fi_cancel context) =
     [V64 p, V64 context]"
| "ep_args p (Fi_setopt level optname optval optlen) =
     [V64 p, V32 level, V32 optname, V64 optval, V64 optlen]"
| "ep_args p (Fi_getopt level optname optval optlen) =
     [V64 p, V32 level, V32 optname, V64 optval, V64 optlen]"
| "ep_args p (Fi_tx_context idx attr tx_ep context) =
     [V64 p, V32 idx, V64 attr, V64 tx_ep, V64 context]"
| "ep_args p (Fi_rx_context idx attr rx_ep context) =
     [V64 p, V32 idx, V64 attr, V64 rx_ep, V64 context]"
| "ep_args p Fi_rx_size_left =
     [V64 p]"
| "ep_args p Fi_tx_size_left =
     [V64 p]"

fun ep_ret :: "ep_call \<Rightarrow> ctype" where
  "ep_ret (Fi_cancel _) = SsizeT"
| "ep_ret (Fi_setopt _ _ _ _) = CInt"
| "ep_ret (Fi_getopt _ _ _ _) = CInt"
| "ep_ret (Fi_tx_context _ _ _ _) = CInt"
| "ep_ret (Fi_rx_context _ _ _ _) = CInt"
| "ep_ret Fi_rx_size_left = SsizeT"
| "ep_ret Fi_tx_size_left = SsizeT"

interpretation ep: op_family ep_run struct_fid_ep "''ops''" struct_fi_ops_ep ep_slot ep_args ep_ret
proof unfold_locales
  show "ep_run P p c s =
      vcall P p struct_fid_ep ''ops'' struct_fi_ops_ep (ep_slot c) (ep_args p c) s" for P p c s
    by (cases c) (simp_all add: wrappers upcast_simps)
  show "\<exists>ps. proto struct_fi_ops_ep (ep_slot c) = Some (ep_ret c, ps) \<and>
      map bytes (ep_args p c) = map sizeof ps" for p c
    by (cases c) (simp_all add: proto_map_of structs)
qed

subsection \<open>Messages\<close>

definition fi_recv :: "'p provider \<Rightarrow> ptr \<Rightarrow> ptr \<Rightarrow>
    u64 \<Rightarrow> ptr \<Rightarrow> u64 \<Rightarrow> ptr \<Rightarrow>
    'p machine \<Rightarrow> (cval \<times> 'p machine) option" where [wrappers]:
  "fi_recv P ep buf len desc src_addr context s =
     vcall P ep struct_fid_ep ''msg'' struct_fi_ops_msg ''recv''
       [V64 ep, V64 buf, V64 len, V64 desc, V64 src_addr, V64 context] s"

definition fi_recvv :: "'p provider \<Rightarrow> ptr \<Rightarrow> ptr \<Rightarrow>
    ptr \<Rightarrow> u64 \<Rightarrow> u64 \<Rightarrow> ptr \<Rightarrow>
    'p machine \<Rightarrow> (cval \<times> 'p machine) option" where [wrappers]:
  "fi_recvv P ep iov desc count src_addr context s =
     vcall P ep struct_fid_ep ''msg'' struct_fi_ops_msg ''recvv''
       [V64 ep, V64 iov, V64 desc, V64 count, V64 src_addr, V64 context] s"

definition fi_recvmsg :: "'p provider \<Rightarrow> ptr \<Rightarrow> ptr \<Rightarrow>
    u64 \<Rightarrow> 'p machine \<Rightarrow> (cval \<times> 'p machine) option" where [wrappers]:
  "fi_recvmsg P ep msg flags s =
     vcall P ep struct_fid_ep ''msg'' struct_fi_ops_msg ''recvmsg''
       [V64 ep, V64 msg, V64 flags] s"

definition fi_send :: "'p provider \<Rightarrow> ptr \<Rightarrow> ptr \<Rightarrow>
    u64 \<Rightarrow> ptr \<Rightarrow> u64 \<Rightarrow> ptr \<Rightarrow>
    'p machine \<Rightarrow> (cval \<times> 'p machine) option" where [wrappers]:
  "fi_send P ep buf len desc dest_addr context s =
     vcall P ep struct_fid_ep ''msg'' struct_fi_ops_msg ''send''
       [V64 ep, V64 buf, V64 len, V64 desc, V64 dest_addr, V64 context] s"

definition fi_sendv :: "'p provider \<Rightarrow> ptr \<Rightarrow> ptr \<Rightarrow>
    ptr \<Rightarrow> u64 \<Rightarrow> u64 \<Rightarrow> ptr \<Rightarrow>
    'p machine \<Rightarrow> (cval \<times> 'p machine) option" where [wrappers]:
  "fi_sendv P ep iov desc count dest_addr context s =
     vcall P ep struct_fid_ep ''msg'' struct_fi_ops_msg ''sendv''
       [V64 ep, V64 iov, V64 desc, V64 count, V64 dest_addr, V64 context] s"

definition fi_sendmsg :: "'p provider \<Rightarrow> ptr \<Rightarrow> ptr \<Rightarrow>
    u64 \<Rightarrow> 'p machine \<Rightarrow> (cval \<times> 'p machine) option" where [wrappers]:
  "fi_sendmsg P ep msg flags s =
     vcall P ep struct_fid_ep ''msg'' struct_fi_ops_msg ''sendmsg''
       [V64 ep, V64 msg, V64 flags] s"

definition fi_inject :: "'p provider \<Rightarrow> ptr \<Rightarrow> ptr \<Rightarrow>
    u64 \<Rightarrow> u64 \<Rightarrow> 'p machine \<Rightarrow>
    (cval \<times> 'p machine) option" where [wrappers]:
  "fi_inject P ep buf len dest_addr s =
     vcall P ep struct_fid_ep ''msg'' struct_fi_ops_msg ''inject''
       [V64 ep, V64 buf, V64 len, V64 dest_addr] s"

definition fi_senddata :: "'p provider \<Rightarrow> ptr \<Rightarrow> ptr \<Rightarrow>
    u64 \<Rightarrow> ptr \<Rightarrow> u64 \<Rightarrow> u64 \<Rightarrow> ptr \<Rightarrow>
    'p machine \<Rightarrow> (cval \<times> 'p machine) option" where [wrappers]:
  "fi_senddata P ep buf len desc data dest_addr context s =
     vcall P ep struct_fid_ep ''msg'' struct_fi_ops_msg ''senddata''
       [V64 ep, V64 buf, V64 len, V64 desc, V64 data, V64 dest_addr, V64 context] s"

definition fi_injectdata :: "'p provider \<Rightarrow> ptr \<Rightarrow> ptr \<Rightarrow>
    u64 \<Rightarrow> u64 \<Rightarrow> u64 \<Rightarrow> 'p machine \<Rightarrow>
    (cval \<times> 'p machine) option" where [wrappers]:
  "fi_injectdata P ep buf len data dest_addr s =
     vcall P ep struct_fid_ep ''msg'' struct_fi_ops_msg ''injectdata''
       [V64 ep, V64 buf, V64 len, V64 data, V64 dest_addr] s"

datatype msg_call =
    Fi_recv ptr u64 ptr u64 ptr
  | Fi_recvv ptr ptr u64 u64 ptr
  | Fi_recvmsg ptr u64
  | Fi_send ptr u64 ptr u64 ptr
  | Fi_sendv ptr ptr u64 u64 ptr
  | Fi_sendmsg ptr u64
  | Fi_inject ptr u64 u64
  | Fi_senddata ptr u64 ptr u64 u64 ptr
  | Fi_injectdata ptr u64 u64 u64

fun msg_run :: "'p provider \<Rightarrow> ptr \<Rightarrow> msg_call \<Rightarrow> 'p machine \<Rightarrow>
    (cval \<times> 'p machine) option" where
  "msg_run P p (Fi_recv buf len desc src_addr context) s =
     fi_recv P p buf len desc src_addr context s"
| "msg_run P p (Fi_recvv iov desc count src_addr context) s =
     fi_recvv P p iov desc count src_addr context s"
| "msg_run P p (Fi_recvmsg msg flags) s = fi_recvmsg P p msg flags s"
| "msg_run P p (Fi_send buf len desc dest_addr context) s =
     fi_send P p buf len desc dest_addr context s"
| "msg_run P p (Fi_sendv iov desc count dest_addr context) s =
     fi_sendv P p iov desc count dest_addr context s"
| "msg_run P p (Fi_sendmsg msg flags) s = fi_sendmsg P p msg flags s"
| "msg_run P p (Fi_inject buf len dest_addr) s = fi_inject P p buf len dest_addr s"
| "msg_run P p (Fi_senddata buf len desc data dest_addr context) s =
     fi_senddata P p buf len desc data dest_addr context s"
| "msg_run P p (Fi_injectdata buf len data dest_addr) s =
     fi_injectdata P p buf len data dest_addr s"

fun msg_slot :: "msg_call \<Rightarrow> string" where
  "msg_slot (Fi_recv _ _ _ _ _) = ''recv''"
| "msg_slot (Fi_recvv _ _ _ _ _) = ''recvv''"
| "msg_slot (Fi_recvmsg _ _) = ''recvmsg''"
| "msg_slot (Fi_send _ _ _ _ _) = ''send''"
| "msg_slot (Fi_sendv _ _ _ _ _) = ''sendv''"
| "msg_slot (Fi_sendmsg _ _) = ''sendmsg''"
| "msg_slot (Fi_inject _ _ _) = ''inject''"
| "msg_slot (Fi_senddata _ _ _ _ _ _) = ''senddata''"
| "msg_slot (Fi_injectdata _ _ _ _) = ''injectdata''"

fun msg_args :: "ptr \<Rightarrow> msg_call \<Rightarrow> cval list" where
  "msg_args p (Fi_recv buf len desc src_addr context) =
     [V64 p, V64 buf, V64 len, V64 desc, V64 src_addr, V64 context]"
| "msg_args p (Fi_recvv iov desc count src_addr context) =
     [V64 p, V64 iov, V64 desc, V64 count, V64 src_addr, V64 context]"
| "msg_args p (Fi_recvmsg msg flags) =
     [V64 p, V64 msg, V64 flags]"
| "msg_args p (Fi_send buf len desc dest_addr context) =
     [V64 p, V64 buf, V64 len, V64 desc, V64 dest_addr, V64 context]"
| "msg_args p (Fi_sendv iov desc count dest_addr context) =
     [V64 p, V64 iov, V64 desc, V64 count, V64 dest_addr, V64 context]"
| "msg_args p (Fi_sendmsg msg flags) =
     [V64 p, V64 msg, V64 flags]"
| "msg_args p (Fi_inject buf len dest_addr) =
     [V64 p, V64 buf, V64 len, V64 dest_addr]"
| "msg_args p (Fi_senddata buf len desc data dest_addr context) =
     [V64 p, V64 buf, V64 len, V64 desc, V64 data, V64 dest_addr, V64 context]"
| "msg_args p (Fi_injectdata buf len data dest_addr) =
     [V64 p, V64 buf, V64 len, V64 data, V64 dest_addr]"

fun msg_ret :: "msg_call \<Rightarrow> ctype" where
  "msg_ret c = SsizeT"

interpretation msg: op_family msg_run struct_fid_ep "''msg''" struct_fi_ops_msg msg_slot msg_args msg_ret
proof unfold_locales
  show "msg_run P p c s =
      vcall P p struct_fid_ep ''msg'' struct_fi_ops_msg (msg_slot c) (msg_args p c) s" for P p c s
    by (cases c) (simp_all add: wrappers upcast_simps)
  show "\<exists>ps. proto struct_fi_ops_msg (msg_slot c) = Some (msg_ret c, ps) \<and>
      map bytes (msg_args p c) = map sizeof ps" for p c
    by (cases c) (simp_all add: proto_map_of structs)
qed

end
