(* ===== verification/Fi_Rma.thy ===== *)
theory Fi_Rma
  imports Fi_Endpoint
begin

section \<open>fi_rma.h: remote memory access\<close>

text \<open>
  Reads and writes of remote memory.
\<close>

subsection \<open>Structs\<close>

definition struct_fi_rma_iov :: fields where [structs]:
  "struct_fi_rma_iov = [
     (''addr'', U64), (''len'', SizeT), (''key'', U64)]"

definition struct_fi_rma_ioc :: fields where [structs]:
  "struct_fi_rma_ioc = [
     (''addr'', U64), (''count'', SizeT), (''key'', U64)]"

definition struct_fi_msg_rma :: fields where [structs]:
  "struct_fi_msg_rma = [
     (''msg_iov'', Ptr), (''desc'', Ptr), (''iov_count'', SizeT), (''addr'', FiAddrT),
     (''rma_iov'', Ptr), (''rma_iov_count'', SizeT), (''context'', Ptr), (''data'', U64)]"

definition struct_fi_ops_rma :: fields where [structs]:
  "struct_fi_ops_rma = [
     (''size'', SizeT), (''read'', Fn SsizeT [Ptr, Ptr, SizeT, Ptr, FiAddrT, U64, U64, Ptr]),
     (''readv'', Fn SsizeT [Ptr, Ptr, Ptr, SizeT, FiAddrT, U64, U64, Ptr]),
     (''readmsg'', Fn SsizeT [Ptr, Ptr, U64]),
     (''write'', Fn SsizeT [Ptr, Ptr, SizeT, Ptr, FiAddrT, U64, U64, Ptr]),
     (''writev'', Fn SsizeT [Ptr, Ptr, Ptr, SizeT, FiAddrT, U64, U64, Ptr]),
     (''writemsg'', Fn SsizeT [Ptr, Ptr, U64]),
     (''inject'', Fn SsizeT [Ptr, Ptr, SizeT, FiAddrT, U64, U64]),
     (''writedata'', Fn SsizeT [Ptr, Ptr, SizeT, Ptr, U64, FiAddrT, U64, U64, Ptr]),
     (''injectdata'', Fn SsizeT [Ptr, Ptr, SizeT, U64, FiAddrT, U64, U64])]"

interpretation ops_rma: vtable struct_fi_ops_rma
  by unfold_locales (simp_all add: structs)

subsection \<open>Calls\<close>

definition fi_read :: "'p provider \<Rightarrow> ptr \<Rightarrow> ptr \<Rightarrow>
    u64 \<Rightarrow> ptr \<Rightarrow> u64 \<Rightarrow> u64 \<Rightarrow> u64 \<Rightarrow>
    ptr \<Rightarrow> 'p machine \<Rightarrow> (cval \<times> 'p machine) option" where [wrappers]:
  "fi_read P ep buf len desc src_addr addr key context s =
     vcall P ep struct_fid_ep ''rma'' struct_fi_ops_rma ''read''
       [V64 ep, V64 buf, V64 len, V64 desc, V64 src_addr, V64 addr, V64 key, V64 context] s"

definition fi_readv :: "'p provider \<Rightarrow> ptr \<Rightarrow> ptr \<Rightarrow>
    ptr \<Rightarrow> u64 \<Rightarrow> u64 \<Rightarrow> u64 \<Rightarrow> u64 \<Rightarrow>
    ptr \<Rightarrow> 'p machine \<Rightarrow> (cval \<times> 'p machine) option" where [wrappers]:
  "fi_readv P ep iov desc count src_addr addr key context s =
     vcall P ep struct_fid_ep ''rma'' struct_fi_ops_rma ''readv''
       [V64 ep, V64 iov, V64 desc, V64 count, V64 src_addr, V64 addr, V64 key, V64 context] s"

definition fi_readmsg :: "'p provider \<Rightarrow> ptr \<Rightarrow> ptr \<Rightarrow>
    u64 \<Rightarrow> 'p machine \<Rightarrow> (cval \<times> 'p machine) option" where [wrappers]:
  "fi_readmsg P ep msg flags s =
     vcall P ep struct_fid_ep ''rma'' struct_fi_ops_rma ''readmsg''
       [V64 ep, V64 msg, V64 flags] s"

definition fi_write :: "'p provider \<Rightarrow> ptr \<Rightarrow> ptr \<Rightarrow>
    u64 \<Rightarrow> ptr \<Rightarrow> u64 \<Rightarrow> u64 \<Rightarrow> u64 \<Rightarrow>
    ptr \<Rightarrow> 'p machine \<Rightarrow> (cval \<times> 'p machine) option" where [wrappers]:
  "fi_write P ep buf len desc dest_addr addr key context s =
     vcall P ep struct_fid_ep ''rma'' struct_fi_ops_rma ''write''
       [V64 ep, V64 buf, V64 len, V64 desc, V64 dest_addr, V64 addr, V64 key, V64 context] s"

definition fi_writev :: "'p provider \<Rightarrow> ptr \<Rightarrow> ptr \<Rightarrow>
    ptr \<Rightarrow> u64 \<Rightarrow> u64 \<Rightarrow> u64 \<Rightarrow> u64 \<Rightarrow>
    ptr \<Rightarrow> 'p machine \<Rightarrow> (cval \<times> 'p machine) option" where [wrappers]:
  "fi_writev P ep iov desc count dest_addr addr key context s =
     vcall P ep struct_fid_ep ''rma'' struct_fi_ops_rma ''writev''
       [V64 ep, V64 iov, V64 desc, V64 count, V64 dest_addr, V64 addr, V64 key, V64 context] s"

definition fi_writemsg :: "'p provider \<Rightarrow> ptr \<Rightarrow> ptr \<Rightarrow>
    u64 \<Rightarrow> 'p machine \<Rightarrow> (cval \<times> 'p machine) option" where [wrappers]:
  "fi_writemsg P ep msg flags s =
     vcall P ep struct_fid_ep ''rma'' struct_fi_ops_rma ''writemsg''
       [V64 ep, V64 msg, V64 flags] s"

definition fi_inject_write :: "'p provider \<Rightarrow> ptr \<Rightarrow> ptr \<Rightarrow>
    u64 \<Rightarrow> u64 \<Rightarrow> u64 \<Rightarrow> u64 \<Rightarrow>
    'p machine \<Rightarrow> (cval \<times> 'p machine) option" where [wrappers]:
  "fi_inject_write P ep buf len dest_addr addr key s =
     vcall P ep struct_fid_ep ''rma'' struct_fi_ops_rma ''inject''
       [V64 ep, V64 buf, V64 len, V64 dest_addr, V64 addr, V64 key] s"

definition fi_writedata :: "'p provider \<Rightarrow> ptr \<Rightarrow> ptr \<Rightarrow>
    u64 \<Rightarrow> ptr \<Rightarrow> u64 \<Rightarrow> u64 \<Rightarrow> u64 \<Rightarrow>
    u64 \<Rightarrow> ptr \<Rightarrow> 'p machine \<Rightarrow>
    (cval \<times> 'p machine) option" where [wrappers]:
  "fi_writedata P ep buf len desc data dest_addr addr key context s =
     vcall P ep struct_fid_ep ''rma'' struct_fi_ops_rma ''writedata''
       [V64 ep, V64 buf, V64 len, V64 desc, V64 data, V64 dest_addr, V64 addr, V64 key, V64 context] s"

definition fi_inject_writedata :: "'p provider \<Rightarrow> ptr \<Rightarrow> ptr \<Rightarrow>
    u64 \<Rightarrow> u64 \<Rightarrow> u64 \<Rightarrow> u64 \<Rightarrow> u64 \<Rightarrow>
    'p machine \<Rightarrow> (cval \<times> 'p machine) option" where [wrappers]:
  "fi_inject_writedata P ep buf len data dest_addr addr key s =
     vcall P ep struct_fid_ep ''rma'' struct_fi_ops_rma ''injectdata''
       [V64 ep, V64 buf, V64 len, V64 data, V64 dest_addr, V64 addr, V64 key] s"

datatype rma_call =
    Fi_read ptr u64 ptr u64 u64 u64 ptr
  | Fi_readv ptr ptr u64 u64 u64 u64 ptr
  | Fi_readmsg ptr u64
  | Fi_write ptr u64 ptr u64 u64 u64 ptr
  | Fi_writev ptr ptr u64 u64 u64 u64 ptr
  | Fi_writemsg ptr u64
  | Fi_inject_write ptr u64 u64 u64 u64
  | Fi_writedata ptr u64 ptr u64 u64 u64 u64 ptr
  | Fi_inject_writedata ptr u64 u64 u64 u64 u64

fun rma_run :: "'p provider \<Rightarrow> ptr \<Rightarrow> rma_call \<Rightarrow> 'p machine \<Rightarrow>
    (cval \<times> 'p machine) option" where
  "rma_run P p (Fi_read buf len desc src_addr addr key context) s =
     fi_read P p buf len desc src_addr addr key context s"
| "rma_run P p (Fi_readv iov desc count src_addr addr key context) s =
     fi_readv P p iov desc count src_addr addr key context s"
| "rma_run P p (Fi_readmsg msg flags) s = fi_readmsg P p msg flags s"
| "rma_run P p (Fi_write buf len desc dest_addr addr key context) s =
     fi_write P p buf len desc dest_addr addr key context s"
| "rma_run P p (Fi_writev iov desc count dest_addr addr key context) s =
     fi_writev P p iov desc count dest_addr addr key context s"
| "rma_run P p (Fi_writemsg msg flags) s = fi_writemsg P p msg flags s"
| "rma_run P p (Fi_inject_write buf len dest_addr addr key) s =
     fi_inject_write P p buf len dest_addr addr key s"
| "rma_run P p (Fi_writedata buf len desc data dest_addr addr key context) s =
     fi_writedata P p buf len desc data dest_addr addr key context s"
| "rma_run P p (Fi_inject_writedata buf len data dest_addr addr key) s =
     fi_inject_writedata P p buf len data dest_addr addr key s"

fun rma_slot :: "rma_call \<Rightarrow> string" where
  "rma_slot (Fi_read _ _ _ _ _ _ _) = ''read''"
| "rma_slot (Fi_readv _ _ _ _ _ _ _) = ''readv''"
| "rma_slot (Fi_readmsg _ _) = ''readmsg''"
| "rma_slot (Fi_write _ _ _ _ _ _ _) = ''write''"
| "rma_slot (Fi_writev _ _ _ _ _ _ _) = ''writev''"
| "rma_slot (Fi_writemsg _ _) = ''writemsg''"
| "rma_slot (Fi_inject_write _ _ _ _ _) = ''inject''"
| "rma_slot (Fi_writedata _ _ _ _ _ _ _ _) = ''writedata''"
| "rma_slot (Fi_inject_writedata _ _ _ _ _ _) = ''injectdata''"

fun rma_args :: "ptr \<Rightarrow> rma_call \<Rightarrow> cval list" where
  "rma_args p (Fi_read buf len desc src_addr addr key context) =
     [V64 p, V64 buf, V64 len, V64 desc, V64 src_addr, V64 addr, V64 key, V64 context]"
| "rma_args p (Fi_readv iov desc count src_addr addr key context) =
     [V64 p, V64 iov, V64 desc, V64 count, V64 src_addr, V64 addr, V64 key, V64 context]"
| "rma_args p (Fi_readmsg msg flags) =
     [V64 p, V64 msg, V64 flags]"
| "rma_args p (Fi_write buf len desc dest_addr addr key context) =
     [V64 p, V64 buf, V64 len, V64 desc, V64 dest_addr, V64 addr, V64 key, V64 context]"
| "rma_args p (Fi_writev iov desc count dest_addr addr key context) =
     [V64 p, V64 iov, V64 desc, V64 count, V64 dest_addr, V64 addr, V64 key, V64 context]"
| "rma_args p (Fi_writemsg msg flags) =
     [V64 p, V64 msg, V64 flags]"
| "rma_args p (Fi_inject_write buf len dest_addr addr key) =
     [V64 p, V64 buf, V64 len, V64 dest_addr, V64 addr, V64 key]"
| "rma_args p (Fi_writedata buf len desc data dest_addr addr key context) =
     [V64 p, V64 buf, V64 len, V64 desc, V64 data, V64 dest_addr, V64 addr, V64 key, V64 context]"
| "rma_args p (Fi_inject_writedata buf len data dest_addr addr key) =
     [V64 p, V64 buf, V64 len, V64 data, V64 dest_addr, V64 addr, V64 key]"

fun rma_ret :: "rma_call \<Rightarrow> ctype" where
  "rma_ret c = SsizeT"

interpretation rma: op_family rma_run struct_fid_ep "''rma''" struct_fi_ops_rma rma_slot rma_args rma_ret
proof unfold_locales
  show "rma_run P p c s =
      vcall P p struct_fid_ep ''rma'' struct_fi_ops_rma (rma_slot c) (rma_args p c) s" for P p c s
    by (cases c) (simp_all add: wrappers upcast_simps)
  show "\<exists>ps. proto struct_fi_ops_rma (rma_slot c) = Some (rma_ret c, ps) \<and>
      map bytes (rma_args p c) = map sizeof ps" for p c
    by (cases c) (simp_all add: proto_map_of structs)
qed

end
