(* ===== verification/Fi_Atomic.thy ===== *)
theory Fi_Atomic
  imports Fi_Rma
begin

section \<open>fi_atomic.h: atomic operations\<close>

text \<open>
  Atomic operations on remote memory: base, fetching and comparing ones, each with a call that asks
  whether the provider supports an operation on a datatype.
\<close>

subsection \<open>Flags\<close>

definition FI_FETCH_ATOMIC :: u64 where [flag_defs]: "FI_FETCH_ATOMIC = push_bit 58 1"
definition FI_COMPARE_ATOMIC :: u64 where [flag_defs]: "FI_COMPARE_ATOMIC = push_bit 59 1"

subsection \<open>Structs\<close>

definition struct_fi_atomic_attr :: fields where [structs]:
  "struct_fi_atomic_attr = [
     (''count'', SizeT), (''size'', SizeT)]"

definition struct_fi_msg_atomic :: fields where [structs]:
  "struct_fi_msg_atomic = [
     (''msg_iov'', Ptr), (''desc'', Ptr), (''iov_count'', SizeT), (''addr'', FiAddrT),
     (''rma_iov'', Ptr), (''rma_iov_count'', SizeT), (''datatype'', CEnum), (''op'', CEnum),
     (''context'', Ptr), (''data'', U64)]"

definition struct_fi_msg_fetch :: fields where [structs]:
  "struct_fi_msg_fetch = [
     (''msg_iov'', Ptr), (''desc'', Ptr), (''iov_count'', SizeT)]"

definition struct_fi_msg_compare :: fields where [structs]:
  "struct_fi_msg_compare = [
     (''msg_iov'', Ptr), (''desc'', Ptr), (''iov_count'', SizeT)]"

definition struct_fi_ops_atomic :: fields where [structs]:
  "struct_fi_ops_atomic = [
     (''size'', SizeT),
     (''write'', Fn SsizeT [Ptr, Ptr, SizeT, Ptr, FiAddrT, U64, U64, CEnum, CEnum, Ptr]),
     (''writev'', Fn SsizeT [Ptr, Ptr, Ptr, SizeT, FiAddrT, U64, U64, CEnum, CEnum, Ptr]),
     (''writemsg'', Fn SsizeT [Ptr, Ptr, U64]),
     (''inject'', Fn SsizeT [Ptr, Ptr, SizeT, FiAddrT, U64, U64, CEnum, CEnum]),
     (''readwrite'', Fn SsizeT [Ptr, Ptr, SizeT, Ptr, Ptr, Ptr, FiAddrT, U64, U64, CEnum, CEnum, Ptr]),
     (''readwritev'', Fn SsizeT [Ptr, Ptr, Ptr, SizeT, Ptr, Ptr, SizeT, FiAddrT, U64, U64, CEnum, CEnum, Ptr]),
     (''readwritemsg'', Fn SsizeT [Ptr, Ptr, Ptr, Ptr, SizeT, U64]),
     (''compwrite'', Fn SsizeT [Ptr, Ptr, SizeT, Ptr, Ptr, Ptr, Ptr, Ptr, FiAddrT, U64, U64, CEnum, CEnum, Ptr]),
     (''compwritev'', Fn SsizeT [Ptr, Ptr, Ptr, SizeT, Ptr, Ptr, SizeT, Ptr, Ptr, SizeT, FiAddrT, U64, U64, CEnum, CEnum, Ptr]),
     (''compwritemsg'', Fn SsizeT [Ptr, Ptr, Ptr, Ptr, SizeT, Ptr, Ptr, SizeT, U64]),
     (''writevalid'', Fn CInt [Ptr, CEnum, CEnum, Ptr]),
     (''readwritevalid'', Fn CInt [Ptr, CEnum, CEnum, Ptr]),
     (''compwritevalid'', Fn CInt [Ptr, CEnum, CEnum, Ptr])]"

interpretation ops_atomic: vtable struct_fi_ops_atomic
  by unfold_locales (simp_all add: structs)

subsection \<open>Calls\<close>

definition fi_atomic :: "'p provider \<Rightarrow> ptr \<Rightarrow> ptr \<Rightarrow>
    u64 \<Rightarrow> ptr \<Rightarrow> u64 \<Rightarrow> u64 \<Rightarrow> u64 \<Rightarrow>
    u32 \<Rightarrow> u32 \<Rightarrow> ptr \<Rightarrow> 'p machine \<Rightarrow>
    (cval \<times> 'p machine) option" where [wrappers]:
  "fi_atomic P ep buf count desc dest_addr addr key datatype opr context s =
     vcall P ep struct_fid_ep ''atomic'' struct_fi_ops_atomic ''write''
       [V64 ep, V64 buf, V64 count, V64 desc, V64 dest_addr, V64 addr, V64 key, V32 datatype,
        V32 opr, V64 context] s"

definition fi_atomicv :: "'p provider \<Rightarrow> ptr \<Rightarrow> ptr \<Rightarrow>
    ptr \<Rightarrow> u64 \<Rightarrow> u64 \<Rightarrow> u64 \<Rightarrow> u64 \<Rightarrow>
    u32 \<Rightarrow> u32 \<Rightarrow> ptr \<Rightarrow> 'p machine \<Rightarrow>
    (cval \<times> 'p machine) option" where [wrappers]:
  "fi_atomicv P ep iov desc count dest_addr addr key datatype opr context s =
     vcall P ep struct_fid_ep ''atomic'' struct_fi_ops_atomic ''writev''
       [V64 ep, V64 iov, V64 desc, V64 count, V64 dest_addr, V64 addr, V64 key, V32 datatype,
        V32 opr, V64 context] s"

definition fi_atomicmsg :: "'p provider \<Rightarrow> ptr \<Rightarrow> ptr \<Rightarrow>
    u64 \<Rightarrow> 'p machine \<Rightarrow> (cval \<times> 'p machine) option" where [wrappers]:
  "fi_atomicmsg P ep msg flags s =
     vcall P ep struct_fid_ep ''atomic'' struct_fi_ops_atomic ''writemsg''
       [V64 ep, V64 msg, V64 flags] s"

definition fi_inject_atomic :: "'p provider \<Rightarrow> ptr \<Rightarrow> ptr \<Rightarrow>
    u64 \<Rightarrow> u64 \<Rightarrow> u64 \<Rightarrow> u64 \<Rightarrow> u32 \<Rightarrow>
    u32 \<Rightarrow> 'p machine \<Rightarrow> (cval \<times> 'p machine) option" where [wrappers]:
  "fi_inject_atomic P ep buf count dest_addr addr key datatype opr s =
     vcall P ep struct_fid_ep ''atomic'' struct_fi_ops_atomic ''inject''
       [V64 ep, V64 buf, V64 count, V64 dest_addr, V64 addr, V64 key, V32 datatype, V32 opr] s"

definition fi_fetch_atomic :: "'p provider \<Rightarrow> ptr \<Rightarrow> ptr \<Rightarrow>
    u64 \<Rightarrow> ptr \<Rightarrow> ptr \<Rightarrow> ptr \<Rightarrow> u64 \<Rightarrow>
    u64 \<Rightarrow> u64 \<Rightarrow> u32 \<Rightarrow> u32 \<Rightarrow> ptr \<Rightarrow>
    'p machine \<Rightarrow> (cval \<times> 'p machine) option" where [wrappers]:
  "fi_fetch_atomic P ep buf count desc result result_desc dest_addr addr key datatype opr context s =
     vcall P ep struct_fid_ep ''atomic'' struct_fi_ops_atomic ''readwrite''
       [V64 ep, V64 buf, V64 count, V64 desc, V64 result, V64 result_desc, V64 dest_addr, V64 addr,
        V64 key, V32 datatype, V32 opr, V64 context] s"

definition fi_fetch_atomicv :: "'p provider \<Rightarrow> ptr \<Rightarrow> ptr \<Rightarrow>
    ptr \<Rightarrow> u64 \<Rightarrow> ptr \<Rightarrow> ptr \<Rightarrow> u64 \<Rightarrow>
    u64 \<Rightarrow> u64 \<Rightarrow> u64 \<Rightarrow> u32 \<Rightarrow> u32 \<Rightarrow>
    ptr \<Rightarrow> 'p machine \<Rightarrow> (cval \<times> 'p machine) option" where [wrappers]:
  "fi_fetch_atomicv P ep iov desc count resultv result_desc result_count dest_addr addr key datatype opr context s =
     vcall P ep struct_fid_ep ''atomic'' struct_fi_ops_atomic ''readwritev''
       [V64 ep, V64 iov, V64 desc, V64 count, V64 resultv, V64 result_desc, V64 result_count,
        V64 dest_addr, V64 addr, V64 key, V32 datatype, V32 opr, V64 context] s"

definition fi_fetch_atomicmsg :: "'p provider \<Rightarrow> ptr \<Rightarrow> ptr \<Rightarrow>
    ptr \<Rightarrow> ptr \<Rightarrow> u64 \<Rightarrow> u64 \<Rightarrow>
    'p machine \<Rightarrow> (cval \<times> 'p machine) option" where [wrappers]:
  "fi_fetch_atomicmsg P ep msg resultv result_desc result_count flags s =
     vcall P ep struct_fid_ep ''atomic'' struct_fi_ops_atomic ''readwritemsg''
       [V64 ep, V64 msg, V64 resultv, V64 result_desc, V64 result_count, V64 flags] s"

definition fi_compare_atomic :: "'p provider \<Rightarrow> ptr \<Rightarrow> ptr \<Rightarrow>
    u64 \<Rightarrow> ptr \<Rightarrow> ptr \<Rightarrow> ptr \<Rightarrow> ptr \<Rightarrow>
    ptr \<Rightarrow> u64 \<Rightarrow> u64 \<Rightarrow> u64 \<Rightarrow> u32 \<Rightarrow>
    u32 \<Rightarrow> ptr \<Rightarrow> 'p machine \<Rightarrow>
    (cval \<times> 'p machine) option" where [wrappers]:
  "fi_compare_atomic P ep buf count desc compare compare_desc result result_desc dest_addr addr key datatype opr context s =
     vcall P ep struct_fid_ep ''atomic'' struct_fi_ops_atomic ''compwrite''
       [V64 ep, V64 buf, V64 count, V64 desc, V64 compare, V64 compare_desc, V64 result,
        V64 result_desc, V64 dest_addr, V64 addr, V64 key, V32 datatype, V32 opr,
        V64 context] s"

definition fi_compare_atomicv :: "'p provider \<Rightarrow> ptr \<Rightarrow> ptr \<Rightarrow>
    ptr \<Rightarrow> u64 \<Rightarrow> ptr \<Rightarrow> ptr \<Rightarrow> u64 \<Rightarrow>
    ptr \<Rightarrow> ptr \<Rightarrow> u64 \<Rightarrow> u64 \<Rightarrow> u64 \<Rightarrow>
    u64 \<Rightarrow> u32 \<Rightarrow> u32 \<Rightarrow> ptr \<Rightarrow>
    'p machine \<Rightarrow> (cval \<times> 'p machine) option" where [wrappers]:
  "fi_compare_atomicv P ep iov desc count comparev compare_desc compare_count resultv result_desc result_count dest_addr addr key datatype opr context s =
     vcall P ep struct_fid_ep ''atomic'' struct_fi_ops_atomic ''compwritev''
       [V64 ep, V64 iov, V64 desc, V64 count, V64 comparev, V64 compare_desc, V64 compare_count,
        V64 resultv, V64 result_desc, V64 result_count, V64 dest_addr, V64 addr, V64 key,
        V32 datatype, V32 opr, V64 context] s"

definition fi_compare_atomicmsg :: "'p provider \<Rightarrow> ptr \<Rightarrow> ptr \<Rightarrow>
    ptr \<Rightarrow> ptr \<Rightarrow> u64 \<Rightarrow> ptr \<Rightarrow> ptr \<Rightarrow>
    u64 \<Rightarrow> u64 \<Rightarrow> 'p machine \<Rightarrow>
    (cval \<times> 'p machine) option" where [wrappers]:
  "fi_compare_atomicmsg P ep msg comparev compare_desc compare_count resultv result_desc result_count flags s =
     vcall P ep struct_fid_ep ''atomic'' struct_fi_ops_atomic ''compwritemsg''
       [V64 ep, V64 msg, V64 comparev, V64 compare_desc, V64 compare_count, V64 resultv,
        V64 result_desc, V64 result_count, V64 flags] s"

definition fi_atomicvalid :: "'p provider \<Rightarrow> ptr \<Rightarrow> u32 \<Rightarrow>
    u32 \<Rightarrow> ptr \<Rightarrow> 'p machine \<Rightarrow>
    (cval \<times> 'p machine) option" where [wrappers]:
  "fi_atomicvalid P ep datatype opr count s =
     vcall P ep struct_fid_ep ''atomic'' struct_fi_ops_atomic ''writevalid''
       [V64 ep, V32 datatype, V32 opr, V64 count] s"

definition fi_fetch_atomicvalid :: "'p provider \<Rightarrow> ptr \<Rightarrow> u32 \<Rightarrow>
    u32 \<Rightarrow> ptr \<Rightarrow> 'p machine \<Rightarrow>
    (cval \<times> 'p machine) option" where [wrappers]:
  "fi_fetch_atomicvalid P ep datatype opr count s =
     vcall P ep struct_fid_ep ''atomic'' struct_fi_ops_atomic ''readwritevalid''
       [V64 ep, V32 datatype, V32 opr, V64 count] s"

definition fi_compare_atomicvalid :: "'p provider \<Rightarrow> ptr \<Rightarrow>
    u32 \<Rightarrow> u32 \<Rightarrow> ptr \<Rightarrow> 'p machine \<Rightarrow>
    (cval \<times> 'p machine) option" where [wrappers]:
  "fi_compare_atomicvalid P ep datatype opr count s =
     vcall P ep struct_fid_ep ''atomic'' struct_fi_ops_atomic ''compwritevalid''
       [V64 ep, V32 datatype, V32 opr, V64 count] s"

definition fi_query_atomic :: "'p provider \<Rightarrow> ptr \<Rightarrow> u32 \<Rightarrow>
    u32 \<Rightarrow> ptr \<Rightarrow> u64 \<Rightarrow> 'p machine \<Rightarrow>
    (cval \<times> 'p machine) option" where [wrappers]:
  "fi_query_atomic P domain datatype opr attr flags s =
     do {
       ops \<leftarrow> get64 s domain struct_fid_domain ''ops'';
       ok \<leftarrow> FI_CHECK_OP s ops struct_fi_ops_domain ''query_atomic'';
       if ok
       then vcall P domain struct_fid_domain ''ops'' struct_fi_ops_domain ''query_atomic''
         [V64 domain, V32 datatype, V32 opr, V64 attr, V64 flags] s
       else Some (V32 (- errno FI_ENOSYS), s) }"

datatype atomic_call =
    Fi_atomic ptr u64 ptr u64 u64 u64 u32 u32 ptr
  | Fi_atomicv ptr ptr u64 u64 u64 u64 u32 u32 ptr
  | Fi_atomicmsg ptr u64
  | Fi_inject_atomic ptr u64 u64 u64 u64 u32 u32
  | Fi_fetch_atomic ptr u64 ptr ptr ptr u64 u64 u64 u32 u32 ptr
  | Fi_fetch_atomicv ptr ptr u64 ptr ptr u64 u64 u64 u64 u32 u32 ptr
  | Fi_fetch_atomicmsg ptr ptr ptr u64 u64
  | Fi_compare_atomic ptr u64 ptr ptr ptr ptr ptr u64 u64 u64 u32 u32 ptr
  | Fi_compare_atomicv ptr ptr u64 ptr ptr u64 ptr ptr u64 u64 u64 u64 u32 u32 ptr
  | Fi_compare_atomicmsg ptr ptr ptr u64 ptr ptr u64 u64
  | Fi_atomicvalid u32 u32 ptr
  | Fi_fetch_atomicvalid u32 u32 ptr
  | Fi_compare_atomicvalid u32 u32 ptr

fun atomic_run :: "'p provider \<Rightarrow> ptr \<Rightarrow> atomic_call \<Rightarrow> 'p machine \<Rightarrow>
    (cval \<times> 'p machine) option" where
  "atomic_run P p (Fi_atomic buf count desc dest_addr addr key datatype opr context) s =
     fi_atomic P p buf count desc dest_addr addr key datatype opr context s"
| "atomic_run P p (Fi_atomicv iov desc count dest_addr addr key datatype opr context) s =
     fi_atomicv P p iov desc count dest_addr addr key datatype opr context s"
| "atomic_run P p (Fi_atomicmsg msg flags) s = fi_atomicmsg P p msg flags s"
| "atomic_run P p (Fi_inject_atomic buf count dest_addr addr key datatype opr) s =
     fi_inject_atomic P p buf count dest_addr addr key datatype opr s"
| "atomic_run P p (Fi_fetch_atomic buf count desc result result_desc dest_addr addr key datatype opr context) s =
     fi_fetch_atomic P p buf count desc result result_desc dest_addr addr key datatype opr context s"
| "atomic_run P p (Fi_fetch_atomicv iov desc count resultv result_desc result_count dest_addr addr key datatype opr context) s =
     fi_fetch_atomicv P p iov desc count resultv result_desc result_count dest_addr addr key datatype opr context s"
| "atomic_run P p (Fi_fetch_atomicmsg msg resultv result_desc result_count flags) s =
     fi_fetch_atomicmsg P p msg resultv result_desc result_count flags s"
| "atomic_run P p (Fi_compare_atomic buf count desc compare compare_desc result result_desc dest_addr addr key datatype opr context) s =
     fi_compare_atomic P p buf count desc compare compare_desc result result_desc dest_addr addr key datatype opr context s"
| "atomic_run P p (Fi_compare_atomicv iov desc count comparev compare_desc compare_count resultv result_desc result_count dest_addr addr key datatype opr context) s =
     fi_compare_atomicv P p iov desc count comparev compare_desc compare_count resultv result_desc result_count dest_addr addr key datatype opr context s"
| "atomic_run P p (Fi_compare_atomicmsg msg comparev compare_desc compare_count resultv result_desc result_count flags) s =
     fi_compare_atomicmsg P p msg comparev compare_desc compare_count resultv result_desc result_count flags s"
| "atomic_run P p (Fi_atomicvalid datatype opr count) s = fi_atomicvalid P p datatype opr count s"
| "atomic_run P p (Fi_fetch_atomicvalid datatype opr count) s =
     fi_fetch_atomicvalid P p datatype opr count s"
| "atomic_run P p (Fi_compare_atomicvalid datatype opr count) s =
     fi_compare_atomicvalid P p datatype opr count s"

fun atomic_slot :: "atomic_call \<Rightarrow> string" where
  "atomic_slot (Fi_atomic _ _ _ _ _ _ _ _ _) = ''write''"
| "atomic_slot (Fi_atomicv _ _ _ _ _ _ _ _ _) = ''writev''"
| "atomic_slot (Fi_atomicmsg _ _) = ''writemsg''"
| "atomic_slot (Fi_inject_atomic _ _ _ _ _ _ _) = ''inject''"
| "atomic_slot (Fi_fetch_atomic _ _ _ _ _ _ _ _ _ _ _) = ''readwrite''"
| "atomic_slot (Fi_fetch_atomicv _ _ _ _ _ _ _ _ _ _ _ _) = ''readwritev''"
| "atomic_slot (Fi_fetch_atomicmsg _ _ _ _ _) = ''readwritemsg''"
| "atomic_slot (Fi_compare_atomic _ _ _ _ _ _ _ _ _ _ _ _ _) = ''compwrite''"
| "atomic_slot (Fi_compare_atomicv _ _ _ _ _ _ _ _ _ _ _ _ _ _ _) = ''compwritev''"
| "atomic_slot (Fi_compare_atomicmsg _ _ _ _ _ _ _ _) = ''compwritemsg''"
| "atomic_slot (Fi_atomicvalid _ _ _) = ''writevalid''"
| "atomic_slot (Fi_fetch_atomicvalid _ _ _) = ''readwritevalid''"
| "atomic_slot (Fi_compare_atomicvalid _ _ _) = ''compwritevalid''"

fun atomic_args :: "ptr \<Rightarrow> atomic_call \<Rightarrow> cval list" where
  "atomic_args p (Fi_atomic buf count desc dest_addr addr key datatype opr context) =
     [V64 p, V64 buf, V64 count, V64 desc, V64 dest_addr, V64 addr, V64 key, V32 datatype,
      V32 opr, V64 context]"
| "atomic_args p (Fi_atomicv iov desc count dest_addr addr key datatype opr context) =
     [V64 p, V64 iov, V64 desc, V64 count, V64 dest_addr, V64 addr, V64 key, V32 datatype,
      V32 opr, V64 context]"
| "atomic_args p (Fi_atomicmsg msg flags) =
     [V64 p, V64 msg, V64 flags]"
| "atomic_args p (Fi_inject_atomic buf count dest_addr addr key datatype opr) =
     [V64 p, V64 buf, V64 count, V64 dest_addr, V64 addr, V64 key, V32 datatype, V32 opr]"
| "atomic_args p (Fi_fetch_atomic buf count desc result result_desc dest_addr addr key datatype opr context) =
     [V64 p, V64 buf, V64 count, V64 desc, V64 result, V64 result_desc, V64 dest_addr, V64 addr,
      V64 key, V32 datatype, V32 opr, V64 context]"
| "atomic_args p (Fi_fetch_atomicv iov desc count resultv result_desc result_count dest_addr addr key datatype opr context) =
     [V64 p, V64 iov, V64 desc, V64 count, V64 resultv, V64 result_desc, V64 result_count,
      V64 dest_addr, V64 addr, V64 key, V32 datatype, V32 opr, V64 context]"
| "atomic_args p (Fi_fetch_atomicmsg msg resultv result_desc result_count flags) =
     [V64 p, V64 msg, V64 resultv, V64 result_desc, V64 result_count, V64 flags]"
| "atomic_args p (Fi_compare_atomic buf count desc compare compare_desc result result_desc dest_addr addr key datatype opr context) =
     [V64 p, V64 buf, V64 count, V64 desc, V64 compare, V64 compare_desc, V64 result,
      V64 result_desc, V64 dest_addr, V64 addr, V64 key, V32 datatype, V32 opr, V64 context]"
| "atomic_args p (Fi_compare_atomicv iov desc count comparev compare_desc compare_count resultv result_desc result_count dest_addr addr key datatype opr context) =
     [V64 p, V64 iov, V64 desc, V64 count, V64 comparev, V64 compare_desc, V64 compare_count,
      V64 resultv, V64 result_desc, V64 result_count, V64 dest_addr, V64 addr, V64 key,
      V32 datatype, V32 opr, V64 context]"
| "atomic_args p (Fi_compare_atomicmsg msg comparev compare_desc compare_count resultv result_desc result_count flags) =
     [V64 p, V64 msg, V64 comparev, V64 compare_desc, V64 compare_count, V64 resultv,
      V64 result_desc, V64 result_count, V64 flags]"
| "atomic_args p (Fi_atomicvalid datatype opr count) =
     [V64 p, V32 datatype, V32 opr, V64 count]"
| "atomic_args p (Fi_fetch_atomicvalid datatype opr count) =
     [V64 p, V32 datatype, V32 opr, V64 count]"
| "atomic_args p (Fi_compare_atomicvalid datatype opr count) =
     [V64 p, V32 datatype, V32 opr, V64 count]"

fun atomic_ret :: "atomic_call \<Rightarrow> ctype" where
  "atomic_ret (Fi_atomic _ _ _ _ _ _ _ _ _) = SsizeT"
| "atomic_ret (Fi_atomicv _ _ _ _ _ _ _ _ _) = SsizeT"
| "atomic_ret (Fi_atomicmsg _ _) = SsizeT"
| "atomic_ret (Fi_inject_atomic _ _ _ _ _ _ _) = SsizeT"
| "atomic_ret (Fi_fetch_atomic _ _ _ _ _ _ _ _ _ _ _) = SsizeT"
| "atomic_ret (Fi_fetch_atomicv _ _ _ _ _ _ _ _ _ _ _ _) = SsizeT"
| "atomic_ret (Fi_fetch_atomicmsg _ _ _ _ _) = SsizeT"
| "atomic_ret (Fi_compare_atomic _ _ _ _ _ _ _ _ _ _ _ _ _) = SsizeT"
| "atomic_ret (Fi_compare_atomicv _ _ _ _ _ _ _ _ _ _ _ _ _ _ _) = SsizeT"
| "atomic_ret (Fi_compare_atomicmsg _ _ _ _ _ _ _ _) = SsizeT"
| "atomic_ret (Fi_atomicvalid _ _ _) = CInt"
| "atomic_ret (Fi_fetch_atomicvalid _ _ _) = CInt"
| "atomic_ret (Fi_compare_atomicvalid _ _ _) = CInt"

interpretation atomic: op_family atomic_run struct_fid_ep "''atomic''" struct_fi_ops_atomic atomic_slot atomic_args atomic_ret
proof unfold_locales
  show "atomic_run P p c s =
      vcall P p struct_fid_ep ''atomic'' struct_fi_ops_atomic (atomic_slot c) (atomic_args p c) s" for P p c s
    by (cases c) (simp_all add: wrappers upcast_simps)
  show "\<exists>ps. proto struct_fi_ops_atomic (atomic_slot c) = Some (atomic_ret c, ps) \<and>
      map bytes (atomic_args p c) = map sizeof ps" for p c
    by (cases c) (simp_all add: proto_map_of structs)
qed

interpretation fi_query_atomic: guarded_op struct_fi_ops_domain
    "\<lambda>P (domain, datatype, opr, attr, flags). fi_query_atomic P domain datatype opr attr flags" "\<lambda>(domain, datatype, opr, attr, flags). domain" struct_fid_domain "''ops''" "''query_atomic''"
    "\<lambda>(domain, datatype, opr, attr, flags).
      [V64 domain, V32 datatype, V32 opr, V64 attr, V64 flags]" CInt
proof unfold_locales
  show "\<exists>ps. proto struct_fi_ops_domain ''query_atomic'' = Some (CInt, ps) \<and>
      map bytes (case x of (domain, datatype, opr, attr, flags) \<Rightarrow>
      [V64 domain, V32 datatype, V32 opr, V64 attr, V64 flags]) = map sizeof ps" for x
    by (cases x) (simp add: proto_map_of structs)
qed (simp_all add: wrappers split: prod.split)

end
