(* ===== verification/Fi_Cm.thy ===== *)
theory Fi_Cm
  imports Fi_Endpoint
begin

section \<open>fi_cm.h: connection management\<close>

text \<open>
  Connection management. \<open>fi_setname\<close> and \<open>fi_getname\<close> take the \<open>fid_t\<close> of an active or a passive
  endpoint and read the table of either as that of a \<open>struct fid_ep\<close>.
\<close>

subsection \<open>Structs\<close>

definition struct_fid_mc :: fields where [structs]:
  "struct_fid_mc = [
     (''fid'', Struct struct_fid), (''fi_addr'', FiAddrT)]"

definition struct_fi_ops_cm :: fields where [structs]:
  "struct_fi_ops_cm = [
     (''size'', SizeT), (''setname'', Fn CInt [Ptr, Ptr, SizeT]),
     (''getname'', Fn CInt [Ptr, Ptr, Ptr]), (''getpeer'', Fn CInt [Ptr, Ptr, Ptr]),
     (''connect'', Fn CInt [Ptr, Ptr, Ptr, SizeT]), (''listen'', Fn CInt [Ptr]),
     (''accept'', Fn CInt [Ptr, Ptr, SizeT]), (''reject'', Fn CInt [Ptr, Ptr, Ptr, SizeT]),
     (''shutdown'', Fn CInt [Ptr, U64]), (''join'', Fn CInt [Ptr, Ptr, U64, Ptr, Ptr])]"

interpretation ops_cm: vtable struct_fi_ops_cm
  by unfold_locales (simp_all add: structs)

interpretation fid_mc: fid_class struct_fid_mc
  by unfold_locales (simp add: structs)

subsection \<open>Calls\<close>

definition fi_setname :: "'p provider \<Rightarrow> ptr \<Rightarrow> ptr \<Rightarrow>
    u64 \<Rightarrow> 'p machine \<Rightarrow> (cval \<times> 'p machine) option" where [wrappers]:
  "fi_setname P fid addr addrlen s =
     vcall P (container_of fid struct_fid_ep ''fid'') struct_fid_ep ''cm'' struct_fi_ops_cm ''setname''
       [V64 fid, V64 addr, V64 addrlen] s"

definition fi_getname :: "'p provider \<Rightarrow> ptr \<Rightarrow> ptr \<Rightarrow>
    ptr \<Rightarrow> 'p machine \<Rightarrow> (cval \<times> 'p machine) option" where [wrappers]:
  "fi_getname P fid addr addrlen s =
     vcall P (container_of fid struct_fid_ep ''fid'') struct_fid_ep ''cm'' struct_fi_ops_cm ''getname''
       [V64 fid, V64 addr, V64 addrlen] s"

definition fi_getpeer :: "'p provider \<Rightarrow> ptr \<Rightarrow> ptr \<Rightarrow>
    ptr \<Rightarrow> 'p machine \<Rightarrow> (cval \<times> 'p machine) option" where [wrappers]:
  "fi_getpeer P ep addr addrlen s =
     vcall P ep struct_fid_ep ''cm'' struct_fi_ops_cm ''getpeer''
       [V64 ep, V64 addr, V64 addrlen] s"

definition fi_listen :: "'p provider \<Rightarrow> ptr \<Rightarrow> 'p machine \<Rightarrow>
    (cval \<times> 'p machine) option" where [wrappers]:
  "fi_listen P pep s =
     vcall P pep struct_fid_pep ''cm'' struct_fi_ops_cm ''listen''
       [V64 pep] s"

definition fi_connect :: "'p provider \<Rightarrow> ptr \<Rightarrow> ptr \<Rightarrow>
    ptr \<Rightarrow> u64 \<Rightarrow> 'p machine \<Rightarrow>
    (cval \<times> 'p machine) option" where [wrappers]:
  "fi_connect P ep addr param paramlen s =
     vcall P ep struct_fid_ep ''cm'' struct_fi_ops_cm ''connect''
       [V64 ep, V64 addr, V64 param, V64 paramlen] s"

definition fi_accept :: "'p provider \<Rightarrow> ptr \<Rightarrow> ptr \<Rightarrow>
    u64 \<Rightarrow> 'p machine \<Rightarrow> (cval \<times> 'p machine) option" where [wrappers]:
  "fi_accept P ep param paramlen s =
     vcall P ep struct_fid_ep ''cm'' struct_fi_ops_cm ''accept''
       [V64 ep, V64 param, V64 paramlen] s"

definition fi_reject :: "'p provider \<Rightarrow> ptr \<Rightarrow> ptr \<Rightarrow>
    ptr \<Rightarrow> u64 \<Rightarrow> 'p machine \<Rightarrow>
    (cval \<times> 'p machine) option" where [wrappers]:
  "fi_reject P pep handle param paramlen s =
     vcall P pep struct_fid_pep ''cm'' struct_fi_ops_cm ''reject''
       [V64 pep, V64 handle, V64 param, V64 paramlen] s"

definition fi_shutdown :: "'p provider \<Rightarrow> ptr \<Rightarrow> u64 \<Rightarrow>
    'p machine \<Rightarrow> (cval \<times> 'p machine) option" where [wrappers]:
  "fi_shutdown P ep flags s =
     vcall P ep struct_fid_ep ''cm'' struct_fi_ops_cm ''shutdown''
       [V64 ep, V64 flags] s"

definition fi_join :: "'p provider \<Rightarrow> ptr \<Rightarrow> ptr \<Rightarrow>
    u64 \<Rightarrow> ptr \<Rightarrow> ptr \<Rightarrow> 'p machine \<Rightarrow>
    (cval \<times> 'p machine) option" where [wrappers]:
  "fi_join P ep addr flags mc context s =
     do {
       ops \<leftarrow> get64 s ep struct_fid_ep ''cm'';
       ok \<leftarrow> FI_CHECK_OP s ops struct_fi_ops_cm ''join'';
       if ok
       then vcall P ep struct_fid_ep ''cm'' struct_fi_ops_cm ''join''
         [V64 ep, V64 addr, V64 flags, V64 mc, V64 context] s
       else Some (V32 (- errno FI_ENOSYS), s) }"

datatype cm_call =
    Fi_setname ptr u64
  | Fi_getname ptr ptr
  | Fi_getpeer ptr ptr
  | Fi_connect ptr ptr u64
  | Fi_accept ptr u64
  | Fi_shutdown u64

fun cm_run :: "'p provider \<Rightarrow> ptr \<Rightarrow> cm_call \<Rightarrow> 'p machine \<Rightarrow>
    (cval \<times> 'p machine) option" where
  "cm_run P p (Fi_setname addr addrlen) s = fi_setname P p addr addrlen s"
| "cm_run P p (Fi_getname addr addrlen) s = fi_getname P p addr addrlen s"
| "cm_run P p (Fi_getpeer addr addrlen) s = fi_getpeer P p addr addrlen s"
| "cm_run P p (Fi_connect addr param paramlen) s = fi_connect P p addr param paramlen s"
| "cm_run P p (Fi_accept param paramlen) s = fi_accept P p param paramlen s"
| "cm_run P p (Fi_shutdown flags) s = fi_shutdown P p flags s"

fun cm_slot :: "cm_call \<Rightarrow> string" where
  "cm_slot (Fi_setname _ _) = ''setname''"
| "cm_slot (Fi_getname _ _) = ''getname''"
| "cm_slot (Fi_getpeer _ _) = ''getpeer''"
| "cm_slot (Fi_connect _ _ _) = ''connect''"
| "cm_slot (Fi_accept _ _) = ''accept''"
| "cm_slot (Fi_shutdown _) = ''shutdown''"

fun cm_args :: "ptr \<Rightarrow> cm_call \<Rightarrow> cval list" where
  "cm_args p (Fi_setname addr addrlen) =
     [V64 p, V64 addr, V64 addrlen]"
| "cm_args p (Fi_getname addr addrlen) =
     [V64 p, V64 addr, V64 addrlen]"
| "cm_args p (Fi_getpeer addr addrlen) =
     [V64 p, V64 addr, V64 addrlen]"
| "cm_args p (Fi_connect addr param paramlen) =
     [V64 p, V64 addr, V64 param, V64 paramlen]"
| "cm_args p (Fi_accept param paramlen) =
     [V64 p, V64 param, V64 paramlen]"
| "cm_args p (Fi_shutdown flags) =
     [V64 p, V64 flags]"

fun cm_ret :: "cm_call \<Rightarrow> ctype" where
  "cm_ret c = CInt"

interpretation cm: op_family cm_run struct_fid_ep "''cm''" struct_fi_ops_cm cm_slot cm_args cm_ret
proof unfold_locales
  show "cm_run P p c s =
      vcall P p struct_fid_ep ''cm'' struct_fi_ops_cm (cm_slot c) (cm_args p c) s" for P p c s
    by (cases c) (simp_all add: wrappers upcast_simps)
  show "\<exists>ps. proto struct_fi_ops_cm (cm_slot c) = Some (cm_ret c, ps) \<and>
      map bytes (cm_args p c) = map sizeof ps" for p c
    by (cases c) (simp_all add: proto_map_of structs)
qed

datatype pcm_call =
    Fi_listen
  | Fi_reject ptr ptr u64

fun pcm_run :: "'p provider \<Rightarrow> ptr \<Rightarrow> pcm_call \<Rightarrow> 'p machine \<Rightarrow>
    (cval \<times> 'p machine) option" where
  "pcm_run P p Fi_listen s = fi_listen P p s"
| "pcm_run P p (Fi_reject handle param paramlen) s = fi_reject P p handle param paramlen s"

fun pcm_slot :: "pcm_call \<Rightarrow> string" where
  "pcm_slot Fi_listen = ''listen''"
| "pcm_slot (Fi_reject _ _ _) = ''reject''"

fun pcm_args :: "ptr \<Rightarrow> pcm_call \<Rightarrow> cval list" where
  "pcm_args p Fi_listen =
     [V64 p]"
| "pcm_args p (Fi_reject handle param paramlen) =
     [V64 p, V64 handle, V64 param, V64 paramlen]"

fun pcm_ret :: "pcm_call \<Rightarrow> ctype" where
  "pcm_ret c = CInt"

interpretation pcm: op_family pcm_run struct_fid_pep "''cm''" struct_fi_ops_cm pcm_slot pcm_args pcm_ret
proof unfold_locales
  show "pcm_run P p c s =
      vcall P p struct_fid_pep ''cm'' struct_fi_ops_cm (pcm_slot c) (pcm_args p c) s" for P p c s
    by (cases c) (simp_all add: wrappers upcast_simps)
  show "\<exists>ps. proto struct_fi_ops_cm (pcm_slot c) = Some (pcm_ret c, ps) \<and>
      map bytes (pcm_args p c) = map sizeof ps" for p c
    by (cases c) (simp_all add: proto_map_of structs)
qed

interpretation fi_join: guarded_op struct_fi_ops_cm
    "\<lambda>P (ep, addr, flags, mc, context). fi_join P ep addr flags mc context" "\<lambda>(ep, addr, flags, mc, context). ep" struct_fid_ep "''cm''" "''join''"
    "\<lambda>(ep, addr, flags, mc, context).
      [V64 ep, V64 addr, V64 flags, V64 mc, V64 context]" CInt
proof unfold_locales
  show "\<exists>ps. proto struct_fi_ops_cm ''join'' = Some (CInt, ps) \<and>
      map bytes (case x of (ep, addr, flags, mc, context) \<Rightarrow>
      [V64 ep, V64 addr, V64 flags, V64 mc, V64 context]) = map sizeof ps" for x
    by (cases x) (simp add: proto_map_of structs)
qed (simp_all add: wrappers split: prod.split)

definition fi_mc_addr :: "ptr \<Rightarrow> 'p machine \<Rightarrow> (cval \<times> 'p machine) option" where
  "fi_mc_addr mc s = do { v \<leftarrow> get s mc struct_fid_mc ''fi_addr''; Some (v, s) }"

end
