(* ===== verification/Fi_Collective.thy ===== *)
theory Fi_Collective
  imports Fi_Atomic Fi_Cm
begin

section \<open>fi_collective.h: sets of peers and collective operations\<close>

text \<open>
  Sets of peers (\<open>fid_av_set\<close>), the collective calls of an endpoint and \<open>fi_join_collective\<close>, which
  joins the group of a set with a struct on the stack.
\<close>

subsection \<open>Structs\<close>

definition struct_fi_ops_av_set :: fields where [structs]:
  "struct_fi_ops_av_set = [
     (''size'', SizeT), (''set_union'', Fn CInt [Ptr, Ptr]), (''intersect'', Fn CInt [Ptr, Ptr]),
     (''diff'', Fn CInt [Ptr, Ptr]), (''insert'', Fn CInt [Ptr, FiAddrT]),
     (''remove'', Fn CInt [Ptr, FiAddrT]), (''addr'', Fn CInt [Ptr, Ptr])]"

definition struct_fid_av_set :: fields where [structs]:
  "struct_fid_av_set = [
     (''fid'', Struct struct_fid), (''ops'', Ptr)]"

definition struct_fi_collective_attr :: fields where [structs]:
  "struct_fi_collective_attr = [
     (''op'', CEnum), (''datatype'', CEnum), (''datatype_attr'', Struct struct_fi_atomic_attr),
     (''max_members'', SizeT), (''mode'', U64)]"

definition struct_fi_collective_addr :: fields where [structs]:
  "struct_fi_collective_addr = [
     (''set'', Ptr), (''coll_addr'', FiAddrT)]"

definition struct_fi_msg_collective :: fields where [structs]:
  "struct_fi_msg_collective = [
     (''msg_iov'', Ptr), (''desc'', Ptr), (''iov_count'', SizeT), (''coll_addr'', FiAddrT),
     (''root_addr'', FiAddrT), (''coll'', CEnum), (''datatype'', CEnum), (''op'', CEnum),
     (''context'', Ptr)]"

definition struct_fi_ops_collective :: fields where [structs]:
  "struct_fi_ops_collective = [
     (''size'', SizeT), (''barrier'', Fn SsizeT [Ptr, FiAddrT, Ptr]),
     (''broadcast'', Fn SsizeT [Ptr, Ptr, SizeT, Ptr, FiAddrT, FiAddrT, CEnum, U64, Ptr]),
     (''alltoall'', Fn SsizeT [Ptr, Ptr, SizeT, Ptr, Ptr, Ptr, FiAddrT, CEnum, U64, Ptr]),
     (''allreduce'', Fn SsizeT [Ptr, Ptr, SizeT, Ptr, Ptr, Ptr, FiAddrT, CEnum, CEnum, U64, Ptr]),
     (''allgather'', Fn SsizeT [Ptr, Ptr, SizeT, Ptr, Ptr, Ptr, FiAddrT, CEnum, U64, Ptr]),
     (''reduce_scatter'', Fn SsizeT [Ptr, Ptr, SizeT, Ptr, Ptr, Ptr, FiAddrT, CEnum, CEnum, U64, Ptr]),
     (''reduce'', Fn SsizeT [Ptr, Ptr, SizeT, Ptr, Ptr, Ptr, FiAddrT, FiAddrT, CEnum, CEnum, U64, Ptr]),
     (''scatter'', Fn SsizeT [Ptr, Ptr, SizeT, Ptr, Ptr, Ptr, FiAddrT, FiAddrT, CEnum, U64, Ptr]),
     (''gather'', Fn SsizeT [Ptr, Ptr, SizeT, Ptr, Ptr, Ptr, FiAddrT, FiAddrT, CEnum, U64, Ptr]),
     (''msg'', Fn SsizeT [Ptr, Ptr, Ptr, Ptr, SizeT, U64])]"

interpretation ops_av_set: vtable struct_fi_ops_av_set
  by unfold_locales (simp_all add: structs)

interpretation ops_collective: vtable struct_fi_ops_collective
  by unfold_locales (simp_all add: structs)

interpretation fid_av_set: fid_class struct_fid_av_set
  by unfold_locales (simp add: structs)

subsection \<open>Sets of peers\<close>

definition fi_av_set :: "'p provider \<Rightarrow> ptr \<Rightarrow> ptr \<Rightarrow>
    ptr \<Rightarrow> ptr \<Rightarrow> 'p machine \<Rightarrow>
    (cval \<times> 'p machine) option" where [wrappers]:
  "fi_av_set P av attr av_set context s =
     do {
       ops \<leftarrow> get64 s av struct_fid_av ''ops'';
       ok \<leftarrow> FI_CHECK_OP s ops struct_fi_ops_av ''av_set'';
       if ok
       then vcall P av struct_fid_av ''ops'' struct_fi_ops_av ''av_set''
         [V64 av, V64 attr, V64 av_set, V64 context] s
       else Some (V32 (- errno FI_ENOSYS), s) }"

definition fi_av_set_union :: "'p provider \<Rightarrow> ptr \<Rightarrow> ptr \<Rightarrow>
    'p machine \<Rightarrow> (cval \<times> 'p machine) option" where [wrappers]:
  "fi_av_set_union P dst src s =
     vcall P dst struct_fid_av_set ''ops'' struct_fi_ops_av_set ''set_union''
       [V64 dst, V64 src] s"

definition fi_av_set_intersect :: "'p provider \<Rightarrow> ptr \<Rightarrow> ptr \<Rightarrow>
    'p machine \<Rightarrow> (cval \<times> 'p machine) option" where [wrappers]:
  "fi_av_set_intersect P dst src s =
     vcall P dst struct_fid_av_set ''ops'' struct_fi_ops_av_set ''intersect''
       [V64 dst, V64 src] s"

definition fi_av_set_diff :: "'p provider \<Rightarrow> ptr \<Rightarrow> ptr \<Rightarrow>
    'p machine \<Rightarrow> (cval \<times> 'p machine) option" where [wrappers]:
  "fi_av_set_diff P dst src s =
     vcall P dst struct_fid_av_set ''ops'' struct_fi_ops_av_set ''diff''
       [V64 dst, V64 src] s"

definition fi_av_set_insert :: "'p provider \<Rightarrow> ptr \<Rightarrow> u64 \<Rightarrow>
    'p machine \<Rightarrow> (cval \<times> 'p machine) option" where [wrappers]:
  "fi_av_set_insert P av_set addr s =
     vcall P av_set struct_fid_av_set ''ops'' struct_fi_ops_av_set ''insert''
       [V64 av_set, V64 addr] s"

definition fi_av_set_remove :: "'p provider \<Rightarrow> ptr \<Rightarrow> u64 \<Rightarrow>
    'p machine \<Rightarrow> (cval \<times> 'p machine) option" where [wrappers]:
  "fi_av_set_remove P av_set addr s =
     vcall P av_set struct_fid_av_set ''ops'' struct_fi_ops_av_set ''remove''
       [V64 av_set, V64 addr] s"

definition fi_av_set_addr :: "'p provider \<Rightarrow> ptr \<Rightarrow> ptr \<Rightarrow>
    'p machine \<Rightarrow> (cval \<times> 'p machine) option" where [wrappers]:
  "fi_av_set_addr P av_set coll_addr s =
     vcall P av_set struct_fid_av_set ''ops'' struct_fi_ops_av_set ''addr''
       [V64 av_set, V64 coll_addr] s"

interpretation fi_av_set: guarded_op struct_fi_ops_av
    "\<lambda>P (av, attr, av_set, context). fi_av_set P av attr av_set context" "\<lambda>(av, attr, av_set, context). av" struct_fid_av "''ops''" "''av_set''"
    "\<lambda>(av, attr, av_set, context).
      [V64 av, V64 attr, V64 av_set, V64 context]" CInt
proof unfold_locales
  show "\<exists>ps. proto struct_fi_ops_av ''av_set'' = Some (CInt, ps) \<and>
      map bytes (case x of (av, attr, av_set, context) \<Rightarrow>
      [V64 av, V64 attr, V64 av_set, V64 context]) = map sizeof ps" for x
    by (cases x) (simp add: proto_map_of structs)
qed (simp_all add: wrappers split: prod.split)

datatype av_set_call =
    Fi_av_set_union ptr
  | Fi_av_set_intersect ptr
  | Fi_av_set_diff ptr
  | Fi_av_set_insert u64
  | Fi_av_set_remove u64
  | Fi_av_set_addr ptr

fun av_set_run :: "'p provider \<Rightarrow> ptr \<Rightarrow> av_set_call \<Rightarrow> 'p machine \<Rightarrow>
    (cval \<times> 'p machine) option" where
  "av_set_run P p (Fi_av_set_union src) s = fi_av_set_union P p src s"
| "av_set_run P p (Fi_av_set_intersect src) s = fi_av_set_intersect P p src s"
| "av_set_run P p (Fi_av_set_diff src) s = fi_av_set_diff P p src s"
| "av_set_run P p (Fi_av_set_insert addr) s = fi_av_set_insert P p addr s"
| "av_set_run P p (Fi_av_set_remove addr) s = fi_av_set_remove P p addr s"
| "av_set_run P p (Fi_av_set_addr coll_addr) s = fi_av_set_addr P p coll_addr s"

fun av_set_slot :: "av_set_call \<Rightarrow> string" where
  "av_set_slot (Fi_av_set_union _) = ''set_union''"
| "av_set_slot (Fi_av_set_intersect _) = ''intersect''"
| "av_set_slot (Fi_av_set_diff _) = ''diff''"
| "av_set_slot (Fi_av_set_insert _) = ''insert''"
| "av_set_slot (Fi_av_set_remove _) = ''remove''"
| "av_set_slot (Fi_av_set_addr _) = ''addr''"

fun av_set_args :: "ptr \<Rightarrow> av_set_call \<Rightarrow> cval list" where
  "av_set_args p (Fi_av_set_union src) =
     [V64 p, V64 src]"
| "av_set_args p (Fi_av_set_intersect src) =
     [V64 p, V64 src]"
| "av_set_args p (Fi_av_set_diff src) =
     [V64 p, V64 src]"
| "av_set_args p (Fi_av_set_insert addr) =
     [V64 p, V64 addr]"
| "av_set_args p (Fi_av_set_remove addr) =
     [V64 p, V64 addr]"
| "av_set_args p (Fi_av_set_addr coll_addr) =
     [V64 p, V64 coll_addr]"

fun av_set_ret :: "av_set_call \<Rightarrow> ctype" where
  "av_set_ret c = CInt"

interpretation av_set: op_family av_set_run struct_fid_av_set "''ops''" struct_fi_ops_av_set av_set_slot av_set_args av_set_ret
proof unfold_locales
  show "av_set_run P p c s =
      vcall P p struct_fid_av_set ''ops'' struct_fi_ops_av_set (av_set_slot c) (av_set_args p c) s" for P p c s
    by (cases c) (simp_all add: wrappers upcast_simps)
  show "\<exists>ps. proto struct_fi_ops_av_set (av_set_slot c) = Some (av_set_ret c, ps) \<and>
      map bytes (av_set_args p c) = map sizeof ps" for p c
    by (cases c) (simp_all add: proto_map_of structs)
qed

subsection \<open>Collective calls\<close>

definition fi_join_collective :: "'p provider \<Rightarrow> ptr \<Rightarrow> u64 \<Rightarrow> ptr \<Rightarrow> u64 \<Rightarrow> ptr \<Rightarrow> ptr \<Rightarrow> 'p machine \<Rightarrow>
    (cval \<times> 'p machine) option" where
  "fi_join_collective P ep coll_addr av_set flags mc context s = do {
     (addr, s1) \<leftarrow> push struct_fi_collective_addr s;
     s2 \<leftarrow> put addr struct_fi_collective_addr ''set'' (V64 av_set) s1;
     s3 \<leftarrow> put addr struct_fi_collective_addr ''coll_addr'' (V64 coll_addr) s2;
     (ret, s4) \<leftarrow> fi_join P ep addr (flags OR FI_COLLECTIVE) mc context s3;
     Some (ret, pop addr struct_fi_collective_addr s4) }"

interpretation fi_join_collective: local_call
    "\<lambda>P (ep, coll_addr, av_set, flags, mc, context). fi_join_collective P ep coll_addr av_set flags mc context"
    struct_fi_collective_addr
    "\<lambda>(ep, coll_addr, av_set, flags, mc, context). [(''set'', V64 av_set), (''coll_addr'', V64 coll_addr)]"
    "\<lambda>P (ep, coll_addr, av_set, flags, mc, context) addr. fi_join P ep addr (flags OR FI_COLLECTIVE) mc context"
  by (unfold_locales, (auto simp: fi_join_collective_def)[1])
    (auto simp: small_def member_ok_def structs layout_simps)

definition fi_barrier :: "'p provider \<Rightarrow> ptr \<Rightarrow> u64 \<Rightarrow>
    ptr \<Rightarrow> 'p machine \<Rightarrow> (cval \<times> 'p machine) option" where [wrappers]:
  "fi_barrier P ep coll_addr context s =
     vcall P ep struct_fid_ep ''collective'' struct_fi_ops_collective ''barrier''
       [V64 ep, V64 coll_addr, V64 context] s"

definition fi_broadcast :: "'p provider \<Rightarrow> ptr \<Rightarrow> ptr \<Rightarrow>
    u64 \<Rightarrow> ptr \<Rightarrow> u64 \<Rightarrow> u64 \<Rightarrow> u32 \<Rightarrow>
    u64 \<Rightarrow> ptr \<Rightarrow> 'p machine \<Rightarrow>
    (cval \<times> 'p machine) option" where [wrappers]:
  "fi_broadcast P ep buf count desc coll_addr root_addr datatype flags context s =
     vcall P ep struct_fid_ep ''collective'' struct_fi_ops_collective ''broadcast''
       [V64 ep, V64 buf, V64 count, V64 desc, V64 coll_addr, V64 root_addr, V32 datatype,
        V64 flags, V64 context] s"

definition fi_alltoall :: "'p provider \<Rightarrow> ptr \<Rightarrow> ptr \<Rightarrow>
    u64 \<Rightarrow> ptr \<Rightarrow> ptr \<Rightarrow> ptr \<Rightarrow> u64 \<Rightarrow>
    u32 \<Rightarrow> u64 \<Rightarrow> ptr \<Rightarrow> 'p machine \<Rightarrow>
    (cval \<times> 'p machine) option" where [wrappers]:
  "fi_alltoall P ep buf count desc result result_desc coll_addr datatype flags context s =
     vcall P ep struct_fid_ep ''collective'' struct_fi_ops_collective ''alltoall''
       [V64 ep, V64 buf, V64 count, V64 desc, V64 result, V64 result_desc, V64 coll_addr,
        V32 datatype, V64 flags, V64 context] s"

definition fi_allreduce :: "'p provider \<Rightarrow> ptr \<Rightarrow> ptr \<Rightarrow>
    u64 \<Rightarrow> ptr \<Rightarrow> ptr \<Rightarrow> ptr \<Rightarrow> u64 \<Rightarrow>
    u32 \<Rightarrow> u32 \<Rightarrow> u64 \<Rightarrow> ptr \<Rightarrow>
    'p machine \<Rightarrow> (cval \<times> 'p machine) option" where [wrappers]:
  "fi_allreduce P ep buf count desc result result_desc coll_addr datatype opr flags context s =
     vcall P ep struct_fid_ep ''collective'' struct_fi_ops_collective ''allreduce''
       [V64 ep, V64 buf, V64 count, V64 desc, V64 result, V64 result_desc, V64 coll_addr,
        V32 datatype, V32 opr, V64 flags, V64 context] s"

definition fi_allgather :: "'p provider \<Rightarrow> ptr \<Rightarrow> ptr \<Rightarrow>
    u64 \<Rightarrow> ptr \<Rightarrow> ptr \<Rightarrow> ptr \<Rightarrow> u64 \<Rightarrow>
    u32 \<Rightarrow> u64 \<Rightarrow> ptr \<Rightarrow> 'p machine \<Rightarrow>
    (cval \<times> 'p machine) option" where [wrappers]:
  "fi_allgather P ep buf count desc result result_desc coll_addr datatype flags context s =
     vcall P ep struct_fid_ep ''collective'' struct_fi_ops_collective ''allgather''
       [V64 ep, V64 buf, V64 count, V64 desc, V64 result, V64 result_desc, V64 coll_addr,
        V32 datatype, V64 flags, V64 context] s"

definition fi_reduce_scatter :: "'p provider \<Rightarrow> ptr \<Rightarrow> ptr \<Rightarrow>
    u64 \<Rightarrow> ptr \<Rightarrow> ptr \<Rightarrow> ptr \<Rightarrow> u64 \<Rightarrow>
    u32 \<Rightarrow> u32 \<Rightarrow> u64 \<Rightarrow> ptr \<Rightarrow>
    'p machine \<Rightarrow> (cval \<times> 'p machine) option" where [wrappers]:
  "fi_reduce_scatter P ep buf count desc result result_desc coll_addr datatype opr flags context s =
     vcall P ep struct_fid_ep ''collective'' struct_fi_ops_collective ''reduce_scatter''
       [V64 ep, V64 buf, V64 count, V64 desc, V64 result, V64 result_desc, V64 coll_addr,
        V32 datatype, V32 opr, V64 flags, V64 context] s"

definition fi_reduce :: "'p provider \<Rightarrow> ptr \<Rightarrow> ptr \<Rightarrow>
    u64 \<Rightarrow> ptr \<Rightarrow> ptr \<Rightarrow> ptr \<Rightarrow> u64 \<Rightarrow>
    u64 \<Rightarrow> u32 \<Rightarrow> u32 \<Rightarrow> u64 \<Rightarrow> ptr \<Rightarrow>
    'p machine \<Rightarrow> (cval \<times> 'p machine) option" where [wrappers]:
  "fi_reduce P ep buf count desc result result_desc coll_addr root_addr datatype opr flags context s =
     vcall P ep struct_fid_ep ''collective'' struct_fi_ops_collective ''reduce''
       [V64 ep, V64 buf, V64 count, V64 desc, V64 result, V64 result_desc, V64 coll_addr,
        V64 root_addr, V32 datatype, V32 opr, V64 flags, V64 context] s"

definition fi_scatter :: "'p provider \<Rightarrow> ptr \<Rightarrow> ptr \<Rightarrow>
    u64 \<Rightarrow> ptr \<Rightarrow> ptr \<Rightarrow> ptr \<Rightarrow> u64 \<Rightarrow>
    u64 \<Rightarrow> u32 \<Rightarrow> u64 \<Rightarrow> ptr \<Rightarrow>
    'p machine \<Rightarrow> (cval \<times> 'p machine) option" where [wrappers]:
  "fi_scatter P ep buf count desc result result_desc coll_addr root_addr datatype flags context s =
     vcall P ep struct_fid_ep ''collective'' struct_fi_ops_collective ''scatter''
       [V64 ep, V64 buf, V64 count, V64 desc, V64 result, V64 result_desc, V64 coll_addr,
        V64 root_addr, V32 datatype, V64 flags, V64 context] s"

definition fi_gather :: "'p provider \<Rightarrow> ptr \<Rightarrow> ptr \<Rightarrow>
    u64 \<Rightarrow> ptr \<Rightarrow> ptr \<Rightarrow> ptr \<Rightarrow> u64 \<Rightarrow>
    u64 \<Rightarrow> u32 \<Rightarrow> u64 \<Rightarrow> ptr \<Rightarrow>
    'p machine \<Rightarrow> (cval \<times> 'p machine) option" where [wrappers]:
  "fi_gather P ep buf count desc result result_desc coll_addr root_addr datatype flags context s =
     vcall P ep struct_fid_ep ''collective'' struct_fi_ops_collective ''gather''
       [V64 ep, V64 buf, V64 count, V64 desc, V64 result, V64 result_desc, V64 coll_addr,
        V64 root_addr, V32 datatype, V64 flags, V64 context] s"

datatype collective_call =
    Fi_barrier u64 ptr
  | Fi_broadcast ptr u64 ptr u64 u64 u32 u64 ptr
  | Fi_alltoall ptr u64 ptr ptr ptr u64 u32 u64 ptr
  | Fi_allreduce ptr u64 ptr ptr ptr u64 u32 u32 u64 ptr
  | Fi_allgather ptr u64 ptr ptr ptr u64 u32 u64 ptr
  | Fi_reduce_scatter ptr u64 ptr ptr ptr u64 u32 u32 u64 ptr
  | Fi_reduce ptr u64 ptr ptr ptr u64 u64 u32 u32 u64 ptr
  | Fi_scatter ptr u64 ptr ptr ptr u64 u64 u32 u64 ptr
  | Fi_gather ptr u64 ptr ptr ptr u64 u64 u32 u64 ptr

fun collective_run :: "'p provider \<Rightarrow> ptr \<Rightarrow> collective_call \<Rightarrow> 'p machine \<Rightarrow>
    (cval \<times> 'p machine) option" where
  "collective_run P p (Fi_barrier coll_addr context) s = fi_barrier P p coll_addr context s"
| "collective_run P p (Fi_broadcast buf count desc coll_addr root_addr datatype flags context) s =
     fi_broadcast P p buf count desc coll_addr root_addr datatype flags context s"
| "collective_run P p (Fi_alltoall buf count desc result result_desc coll_addr datatype flags context) s =
     fi_alltoall P p buf count desc result result_desc coll_addr datatype flags context s"
| "collective_run P p (Fi_allreduce buf count desc result result_desc coll_addr datatype opr flags context) s =
     fi_allreduce P p buf count desc result result_desc coll_addr datatype opr flags context s"
| "collective_run P p (Fi_allgather buf count desc result result_desc coll_addr datatype flags context) s =
     fi_allgather P p buf count desc result result_desc coll_addr datatype flags context s"
| "collective_run P p (Fi_reduce_scatter buf count desc result result_desc coll_addr datatype opr flags context) s =
     fi_reduce_scatter P p buf count desc result result_desc coll_addr datatype opr flags context s"
| "collective_run P p (Fi_reduce buf count desc result result_desc coll_addr root_addr datatype opr flags context) s =
     fi_reduce P p buf count desc result result_desc coll_addr root_addr datatype opr flags context s"
| "collective_run P p (Fi_scatter buf count desc result result_desc coll_addr root_addr datatype flags context) s =
     fi_scatter P p buf count desc result result_desc coll_addr root_addr datatype flags context s"
| "collective_run P p (Fi_gather buf count desc result result_desc coll_addr root_addr datatype flags context) s =
     fi_gather P p buf count desc result result_desc coll_addr root_addr datatype flags context s"

fun collective_slot :: "collective_call \<Rightarrow> string" where
  "collective_slot (Fi_barrier _ _) = ''barrier''"
| "collective_slot (Fi_broadcast _ _ _ _ _ _ _ _) = ''broadcast''"
| "collective_slot (Fi_alltoall _ _ _ _ _ _ _ _ _) = ''alltoall''"
| "collective_slot (Fi_allreduce _ _ _ _ _ _ _ _ _ _) = ''allreduce''"
| "collective_slot (Fi_allgather _ _ _ _ _ _ _ _ _) = ''allgather''"
| "collective_slot (Fi_reduce_scatter _ _ _ _ _ _ _ _ _ _) = ''reduce_scatter''"
| "collective_slot (Fi_reduce _ _ _ _ _ _ _ _ _ _ _) = ''reduce''"
| "collective_slot (Fi_scatter _ _ _ _ _ _ _ _ _ _) = ''scatter''"
| "collective_slot (Fi_gather _ _ _ _ _ _ _ _ _ _) = ''gather''"

fun collective_args :: "ptr \<Rightarrow> collective_call \<Rightarrow> cval list" where
  "collective_args p (Fi_barrier coll_addr context) =
     [V64 p, V64 coll_addr, V64 context]"
| "collective_args p (Fi_broadcast buf count desc coll_addr root_addr datatype flags context) =
     [V64 p, V64 buf, V64 count, V64 desc, V64 coll_addr, V64 root_addr, V32 datatype, V64 flags,
      V64 context]"
| "collective_args p (Fi_alltoall buf count desc result result_desc coll_addr datatype flags context) =
     [V64 p, V64 buf, V64 count, V64 desc, V64 result, V64 result_desc, V64 coll_addr,
      V32 datatype, V64 flags, V64 context]"
| "collective_args p (Fi_allreduce buf count desc result result_desc coll_addr datatype opr flags context) =
     [V64 p, V64 buf, V64 count, V64 desc, V64 result, V64 result_desc, V64 coll_addr,
      V32 datatype, V32 opr, V64 flags, V64 context]"
| "collective_args p (Fi_allgather buf count desc result result_desc coll_addr datatype flags context) =
     [V64 p, V64 buf, V64 count, V64 desc, V64 result, V64 result_desc, V64 coll_addr,
      V32 datatype, V64 flags, V64 context]"
| "collective_args p (Fi_reduce_scatter buf count desc result result_desc coll_addr datatype opr flags context) =
     [V64 p, V64 buf, V64 count, V64 desc, V64 result, V64 result_desc, V64 coll_addr,
      V32 datatype, V32 opr, V64 flags, V64 context]"
| "collective_args p (Fi_reduce buf count desc result result_desc coll_addr root_addr datatype opr flags context) =
     [V64 p, V64 buf, V64 count, V64 desc, V64 result, V64 result_desc, V64 coll_addr,
      V64 root_addr, V32 datatype, V32 opr, V64 flags, V64 context]"
| "collective_args p (Fi_scatter buf count desc result result_desc coll_addr root_addr datatype flags context) =
     [V64 p, V64 buf, V64 count, V64 desc, V64 result, V64 result_desc, V64 coll_addr,
      V64 root_addr, V32 datatype, V64 flags, V64 context]"
| "collective_args p (Fi_gather buf count desc result result_desc coll_addr root_addr datatype flags context) =
     [V64 p, V64 buf, V64 count, V64 desc, V64 result, V64 result_desc, V64 coll_addr,
      V64 root_addr, V32 datatype, V64 flags, V64 context]"

fun collective_ret :: "collective_call \<Rightarrow> ctype" where
  "collective_ret c = SsizeT"

interpretation collective: op_family collective_run struct_fid_ep "''collective''" struct_fi_ops_collective collective_slot collective_args collective_ret
proof unfold_locales
  show "collective_run P p c s =
      vcall P p struct_fid_ep ''collective'' struct_fi_ops_collective (collective_slot c) (collective_args p c) s" for P p c s
    by (cases c) (simp_all add: wrappers upcast_simps)
  show "\<exists>ps. proto struct_fi_ops_collective (collective_slot c) = Some (collective_ret c, ps) \<and>
      map bytes (collective_args p c) = map sizeof ps" for p c
    by (cases c) (simp_all add: proto_map_of structs)
qed

definition fi_query_collective :: "'p provider \<Rightarrow> ptr \<Rightarrow> u32 \<Rightarrow>
    ptr \<Rightarrow> u64 \<Rightarrow> 'p machine \<Rightarrow>
    (cval \<times> 'p machine) option" where [wrappers]:
  "fi_query_collective P domain coll attr flags s =
     do {
       ops \<leftarrow> get64 s domain struct_fid_domain ''ops'';
       ok \<leftarrow> FI_CHECK_OP s ops struct_fi_ops_domain ''query_collective'';
       if ok
       then vcall P domain struct_fid_domain ''ops'' struct_fi_ops_domain ''query_collective''
         [V64 domain, V32 coll, V64 attr, V64 flags] s
       else Some (V32 (- errno FI_ENOSYS), s) }"

interpretation fi_query_collective: guarded_op struct_fi_ops_domain
    "\<lambda>P (domain, coll, attr, flags). fi_query_collective P domain coll attr flags" "\<lambda>(domain, coll, attr, flags). domain" struct_fid_domain "''ops''" "''query_collective''"
    "\<lambda>(domain, coll, attr, flags).
      [V64 domain, V32 coll, V64 attr, V64 flags]" CInt
proof unfold_locales
  show "\<exists>ps. proto struct_fi_ops_domain ''query_collective'' = Some (CInt, ps) \<and>
      map bytes (case x of (domain, coll, attr, flags) \<Rightarrow>
      [V64 domain, V32 coll, V64 attr, V64 flags]) = map sizeof ps" for x
    by (cases x) (simp add: proto_map_of structs)
qed (simp_all add: wrappers split: prod.split)

end
