(* ===== verification/Fi_Tagged.thy ===== *)
theory Fi_Tagged
  imports Fi_Endpoint
begin

section \<open>fi_tagged.h: tagged messages\<close>

text \<open>
  Tagged messages: the calls of message transfer with a 64-bit tag, and for receives a mask of tag bits to ignore.
\<close>

subsection \<open>Structs\<close>

definition struct_fi_msg_tagged :: fields where [structs]:
  "struct_fi_msg_tagged = [
     (''msg_iov'', Ptr), (''desc'', Ptr), (''iov_count'', SizeT), (''addr'', FiAddrT),
     (''tag'', U64), (''ignore'', U64), (''context'', Ptr), (''data'', U64)]"

definition struct_fi_ops_tagged :: fields where [structs]:
  "struct_fi_ops_tagged = [
     (''size'', SizeT), (''recv'', Fn SsizeT [Ptr, Ptr, SizeT, Ptr, FiAddrT, U64, U64, Ptr]),
     (''recvv'', Fn SsizeT [Ptr, Ptr, Ptr, SizeT, FiAddrT, U64, U64, Ptr]),
     (''recvmsg'', Fn SsizeT [Ptr, Ptr, U64]),
     (''send'', Fn SsizeT [Ptr, Ptr, SizeT, Ptr, FiAddrT, U64, Ptr]),
     (''sendv'', Fn SsizeT [Ptr, Ptr, Ptr, SizeT, FiAddrT, U64, Ptr]),
     (''sendmsg'', Fn SsizeT [Ptr, Ptr, U64]),
     (''inject'', Fn SsizeT [Ptr, Ptr, SizeT, FiAddrT, U64]),
     (''senddata'', Fn SsizeT [Ptr, Ptr, SizeT, Ptr, U64, FiAddrT, U64, Ptr]),
     (''injectdata'', Fn SsizeT [Ptr, Ptr, SizeT, U64, FiAddrT, U64])]"

interpretation ops_tagged: vtable struct_fi_ops_tagged
  by unfold_locales (simp_all add: structs)

subsection \<open>Calls\<close>

definition fi_trecv :: "'p provider \<Rightarrow> ptr \<Rightarrow> ptr \<Rightarrow>
    u64 \<Rightarrow> ptr \<Rightarrow> u64 \<Rightarrow> u64 \<Rightarrow> u64 \<Rightarrow>
    ptr \<Rightarrow> 'p machine \<Rightarrow> (cval \<times> 'p machine) option" where [wrappers]:
  "fi_trecv P ep buf len desc src_addr tag ignore context s =
     vcall P ep struct_fid_ep ''tagged'' struct_fi_ops_tagged ''recv''
       [V64 ep, V64 buf, V64 len, V64 desc, V64 src_addr, V64 tag, V64 ignore, V64 context] s"

definition fi_trecvv :: "'p provider \<Rightarrow> ptr \<Rightarrow> ptr \<Rightarrow>
    ptr \<Rightarrow> u64 \<Rightarrow> u64 \<Rightarrow> u64 \<Rightarrow> u64 \<Rightarrow>
    ptr \<Rightarrow> 'p machine \<Rightarrow> (cval \<times> 'p machine) option" where [wrappers]:
  "fi_trecvv P ep iov desc count src_addr tag ignore context s =
     vcall P ep struct_fid_ep ''tagged'' struct_fi_ops_tagged ''recvv''
       [V64 ep, V64 iov, V64 desc, V64 count, V64 src_addr, V64 tag, V64 ignore, V64 context] s"

definition fi_trecvmsg :: "'p provider \<Rightarrow> ptr \<Rightarrow> ptr \<Rightarrow>
    u64 \<Rightarrow> 'p machine \<Rightarrow> (cval \<times> 'p machine) option" where [wrappers]:
  "fi_trecvmsg P ep msg flags s =
     vcall P ep struct_fid_ep ''tagged'' struct_fi_ops_tagged ''recvmsg''
       [V64 ep, V64 msg, V64 flags] s"

definition fi_tsend :: "'p provider \<Rightarrow> ptr \<Rightarrow> ptr \<Rightarrow>
    u64 \<Rightarrow> ptr \<Rightarrow> u64 \<Rightarrow> u64 \<Rightarrow> ptr \<Rightarrow>
    'p machine \<Rightarrow> (cval \<times> 'p machine) option" where [wrappers]:
  "fi_tsend P ep buf len desc dest_addr tag context s =
     vcall P ep struct_fid_ep ''tagged'' struct_fi_ops_tagged ''send''
       [V64 ep, V64 buf, V64 len, V64 desc, V64 dest_addr, V64 tag, V64 context] s"

definition fi_tsendv :: "'p provider \<Rightarrow> ptr \<Rightarrow> ptr \<Rightarrow>
    ptr \<Rightarrow> u64 \<Rightarrow> u64 \<Rightarrow> u64 \<Rightarrow> ptr \<Rightarrow>
    'p machine \<Rightarrow> (cval \<times> 'p machine) option" where [wrappers]:
  "fi_tsendv P ep iov desc count dest_addr tag context s =
     vcall P ep struct_fid_ep ''tagged'' struct_fi_ops_tagged ''sendv''
       [V64 ep, V64 iov, V64 desc, V64 count, V64 dest_addr, V64 tag, V64 context] s"

definition fi_tsendmsg :: "'p provider \<Rightarrow> ptr \<Rightarrow> ptr \<Rightarrow>
    u64 \<Rightarrow> 'p machine \<Rightarrow> (cval \<times> 'p machine) option" where [wrappers]:
  "fi_tsendmsg P ep msg flags s =
     vcall P ep struct_fid_ep ''tagged'' struct_fi_ops_tagged ''sendmsg''
       [V64 ep, V64 msg, V64 flags] s"

definition fi_tinject :: "'p provider \<Rightarrow> ptr \<Rightarrow> ptr \<Rightarrow>
    u64 \<Rightarrow> u64 \<Rightarrow> u64 \<Rightarrow> 'p machine \<Rightarrow>
    (cval \<times> 'p machine) option" where [wrappers]:
  "fi_tinject P ep buf len dest_addr tag s =
     vcall P ep struct_fid_ep ''tagged'' struct_fi_ops_tagged ''inject''
       [V64 ep, V64 buf, V64 len, V64 dest_addr, V64 tag] s"

definition fi_tsenddata :: "'p provider \<Rightarrow> ptr \<Rightarrow> ptr \<Rightarrow>
    u64 \<Rightarrow> ptr \<Rightarrow> u64 \<Rightarrow> u64 \<Rightarrow> u64 \<Rightarrow>
    ptr \<Rightarrow> 'p machine \<Rightarrow> (cval \<times> 'p machine) option" where [wrappers]:
  "fi_tsenddata P ep buf len desc data dest_addr tag context s =
     vcall P ep struct_fid_ep ''tagged'' struct_fi_ops_tagged ''senddata''
       [V64 ep, V64 buf, V64 len, V64 desc, V64 data, V64 dest_addr, V64 tag, V64 context] s"

definition fi_tinjectdata :: "'p provider \<Rightarrow> ptr \<Rightarrow> ptr \<Rightarrow>
    u64 \<Rightarrow> u64 \<Rightarrow> u64 \<Rightarrow> u64 \<Rightarrow>
    'p machine \<Rightarrow> (cval \<times> 'p machine) option" where [wrappers]:
  "fi_tinjectdata P ep buf len data dest_addr tag s =
     vcall P ep struct_fid_ep ''tagged'' struct_fi_ops_tagged ''injectdata''
       [V64 ep, V64 buf, V64 len, V64 data, V64 dest_addr, V64 tag] s"

datatype tagged_call =
    Fi_trecv ptr u64 ptr u64 u64 u64 ptr
  | Fi_trecvv ptr ptr u64 u64 u64 u64 ptr
  | Fi_trecvmsg ptr u64
  | Fi_tsend ptr u64 ptr u64 u64 ptr
  | Fi_tsendv ptr ptr u64 u64 u64 ptr
  | Fi_tsendmsg ptr u64
  | Fi_tinject ptr u64 u64 u64
  | Fi_tsenddata ptr u64 ptr u64 u64 u64 ptr
  | Fi_tinjectdata ptr u64 u64 u64 u64

fun tagged_run :: "'p provider \<Rightarrow> ptr \<Rightarrow> tagged_call \<Rightarrow> 'p machine \<Rightarrow>
    (cval \<times> 'p machine) option" where
  "tagged_run P p (Fi_trecv buf len desc src_addr tag ignore context) s =
     fi_trecv P p buf len desc src_addr tag ignore context s"
| "tagged_run P p (Fi_trecvv iov desc count src_addr tag ignore context) s =
     fi_trecvv P p iov desc count src_addr tag ignore context s"
| "tagged_run P p (Fi_trecvmsg msg flags) s = fi_trecvmsg P p msg flags s"
| "tagged_run P p (Fi_tsend buf len desc dest_addr tag context) s =
     fi_tsend P p buf len desc dest_addr tag context s"
| "tagged_run P p (Fi_tsendv iov desc count dest_addr tag context) s =
     fi_tsendv P p iov desc count dest_addr tag context s"
| "tagged_run P p (Fi_tsendmsg msg flags) s = fi_tsendmsg P p msg flags s"
| "tagged_run P p (Fi_tinject buf len dest_addr tag) s = fi_tinject P p buf len dest_addr tag s"
| "tagged_run P p (Fi_tsenddata buf len desc data dest_addr tag context) s =
     fi_tsenddata P p buf len desc data dest_addr tag context s"
| "tagged_run P p (Fi_tinjectdata buf len data dest_addr tag) s =
     fi_tinjectdata P p buf len data dest_addr tag s"

fun tagged_slot :: "tagged_call \<Rightarrow> string" where
  "tagged_slot (Fi_trecv _ _ _ _ _ _ _) = ''recv''"
| "tagged_slot (Fi_trecvv _ _ _ _ _ _ _) = ''recvv''"
| "tagged_slot (Fi_trecvmsg _ _) = ''recvmsg''"
| "tagged_slot (Fi_tsend _ _ _ _ _ _) = ''send''"
| "tagged_slot (Fi_tsendv _ _ _ _ _ _) = ''sendv''"
| "tagged_slot (Fi_tsendmsg _ _) = ''sendmsg''"
| "tagged_slot (Fi_tinject _ _ _ _) = ''inject''"
| "tagged_slot (Fi_tsenddata _ _ _ _ _ _ _) = ''senddata''"
| "tagged_slot (Fi_tinjectdata _ _ _ _ _) = ''injectdata''"

fun tagged_args :: "ptr \<Rightarrow> tagged_call \<Rightarrow> cval list" where
  "tagged_args p (Fi_trecv buf len desc src_addr tag ignore context) =
     [V64 p, V64 buf, V64 len, V64 desc, V64 src_addr, V64 tag, V64 ignore, V64 context]"
| "tagged_args p (Fi_trecvv iov desc count src_addr tag ignore context) =
     [V64 p, V64 iov, V64 desc, V64 count, V64 src_addr, V64 tag, V64 ignore, V64 context]"
| "tagged_args p (Fi_trecvmsg msg flags) =
     [V64 p, V64 msg, V64 flags]"
| "tagged_args p (Fi_tsend buf len desc dest_addr tag context) =
     [V64 p, V64 buf, V64 len, V64 desc, V64 dest_addr, V64 tag, V64 context]"
| "tagged_args p (Fi_tsendv iov desc count dest_addr tag context) =
     [V64 p, V64 iov, V64 desc, V64 count, V64 dest_addr, V64 tag, V64 context]"
| "tagged_args p (Fi_tsendmsg msg flags) =
     [V64 p, V64 msg, V64 flags]"
| "tagged_args p (Fi_tinject buf len dest_addr tag) =
     [V64 p, V64 buf, V64 len, V64 dest_addr, V64 tag]"
| "tagged_args p (Fi_tsenddata buf len desc data dest_addr tag context) =
     [V64 p, V64 buf, V64 len, V64 desc, V64 data, V64 dest_addr, V64 tag, V64 context]"
| "tagged_args p (Fi_tinjectdata buf len data dest_addr tag) =
     [V64 p, V64 buf, V64 len, V64 data, V64 dest_addr, V64 tag]"

fun tagged_ret :: "tagged_call \<Rightarrow> ctype" where
  "tagged_ret c = SsizeT"

interpretation tagged: op_family tagged_run struct_fid_ep "''tagged''" struct_fi_ops_tagged tagged_slot tagged_args tagged_ret
proof unfold_locales
  show "tagged_run P p c s =
      vcall P p struct_fid_ep ''tagged'' struct_fi_ops_tagged (tagged_slot c) (tagged_args p c) s" for P p c s
    by (cases c) (simp_all add: wrappers upcast_simps)
  show "\<exists>ps. proto struct_fi_ops_tagged (tagged_slot c) = Some (tagged_ret c, ps) \<and>
      map bytes (tagged_args p c) = map sizeof ps" for p c
    by (cases c) (simp_all add: proto_map_of structs)
qed

end
