(* ===== verification/Fi_Trigger.thy ===== *)
theory Fi_Trigger
  imports Fi_Atomic Fi_Tagged
begin

section \<open>fi_trigger.h: triggered operations\<close>

text \<open>
  Triggered and deferred operations: data only, the calls are \<open>fi_control\<close> commands.
\<close>

subsection \<open>Enumerations\<close>

datatype fi_trigger_event =
    FI_TRIGGER_THRESHOLD

primrec fi_trigger_event_val :: "fi_trigger_event \<Rightarrow> u32" where
  "fi_trigger_event_val FI_TRIGGER_THRESHOLD = 0"

definition fi_trigger_event_all :: "fi_trigger_event list" where
  "fi_trigger_event_all =
     [FI_TRIGGER_THRESHOLD]"

interpretation fi_trigger_event: c_enum fi_trigger_event_val fi_trigger_event_all
proof unfold_locales
  show "x \<in> set fi_trigger_event_all" for x
    by (cases x) (simp_all add: fi_trigger_event_all_def)
  show "distinct (map fi_trigger_event_val fi_trigger_event_all)"
    by (simp add: fi_trigger_event_all_def)
qed

datatype fi_op_type =
    FI_OP_RECV | FI_OP_SEND | FI_OP_TRECV | FI_OP_TSEND | FI_OP_READ | FI_OP_WRITE | FI_OP_ATOMIC |
    FI_OP_FETCH_ATOMIC | FI_OP_COMPARE_ATOMIC | FI_OP_CNTR_SET | FI_OP_CNTR_ADD

primrec fi_op_type_val :: "fi_op_type \<Rightarrow> u32" where
  "fi_op_type_val FI_OP_RECV = 0"
| "fi_op_type_val FI_OP_SEND = 1"
| "fi_op_type_val FI_OP_TRECV = 2"
| "fi_op_type_val FI_OP_TSEND = 3"
| "fi_op_type_val FI_OP_READ = 4"
| "fi_op_type_val FI_OP_WRITE = 5"
| "fi_op_type_val FI_OP_ATOMIC = 6"
| "fi_op_type_val FI_OP_FETCH_ATOMIC = 7"
| "fi_op_type_val FI_OP_COMPARE_ATOMIC = 8"
| "fi_op_type_val FI_OP_CNTR_SET = 9"
| "fi_op_type_val FI_OP_CNTR_ADD = 10"

definition fi_op_type_all :: "fi_op_type list" where
  "fi_op_type_all =
     [FI_OP_RECV, FI_OP_SEND, FI_OP_TRECV, FI_OP_TSEND, FI_OP_READ, FI_OP_WRITE, FI_OP_ATOMIC,
      FI_OP_FETCH_ATOMIC, FI_OP_COMPARE_ATOMIC, FI_OP_CNTR_SET, FI_OP_CNTR_ADD]"

interpretation fi_op_type: c_enum fi_op_type_val fi_op_type_all
proof unfold_locales
  show "x \<in> set fi_op_type_all" for x
    by (cases x) (simp_all add: fi_op_type_all_def)
  show "distinct (map fi_op_type_val fi_op_type_all)"
    by (simp add: fi_op_type_all_def)
qed

subsection \<open>Structs\<close>

definition struct_fi_trigger_threshold :: fields where [structs]:
  "struct_fi_trigger_threshold = [
     (''cntr'', Ptr), (''threshold'', SizeT)]"

definition struct_fi_op_msg :: fields where [structs]:
  "struct_fi_op_msg = [
     (''ep'', Ptr), (''msg'', Struct struct_fi_msg), (''flags'', U64)]"

definition struct_fi_op_tagged :: fields where [structs]:
  "struct_fi_op_tagged = [
     (''ep'', Ptr), (''msg'', Struct struct_fi_msg_tagged), (''flags'', U64)]"

definition struct_fi_op_rma :: fields where [structs]:
  "struct_fi_op_rma = [
     (''ep'', Ptr), (''msg'', Struct struct_fi_msg_rma), (''flags'', U64)]"

definition struct_fi_op_atomic :: fields where [structs]:
  "struct_fi_op_atomic = [
     (''ep'', Ptr), (''msg'', Struct struct_fi_msg_atomic), (''flags'', U64)]"

definition struct_fi_op_fetch_atomic :: fields where [structs]:
  "struct_fi_op_fetch_atomic = [
     (''ep'', Ptr), (''msg'', Struct struct_fi_msg_atomic), (''fetch'', Struct struct_fi_msg_fetch),
     (''flags'', U64)]"

definition struct_fi_op_compare_atomic :: fields where [structs]:
  "struct_fi_op_compare_atomic = [
     (''ep'', Ptr), (''msg'', Struct struct_fi_msg_atomic), (''fetch'', Struct struct_fi_msg_fetch),
     (''compare'', Struct struct_fi_msg_compare), (''flags'', U64)]"

definition struct_fi_op_cntr :: fields where [structs]:
  "struct_fi_op_cntr = [
     (''cntr'', Ptr), (''value'', U64)]"

definition struct_fi_triggered_context :: fields where [structs]:
  "struct_fi_triggered_context = [
     (''event_type'', CEnum),
     (''trigger'', Union [(''threshold'', Struct struct_fi_trigger_threshold), (''internal'', Arr Ptr 3)])]"

definition struct_fi_triggered_context2 :: fields where [structs]:
  "struct_fi_triggered_context2 = [
     (''event_type'', CEnum),
     (''trigger'', Union [(''threshold'', Struct struct_fi_trigger_threshold), (''internal'', Arr Ptr 7)])]"

definition struct_fi_deferred_work :: fields where [structs]:
  "struct_fi_deferred_work = [
     (''context'', Struct struct_fi_context2), (''threshold'', U64), (''triggering_cntr'', Ptr),
     (''completion_cntr'', Ptr), (''op_type'', CEnum),
     (''op'', Union [(''msg'', Ptr), (''tagged'', Ptr), (''rma'', Ptr), (''atomic'', Ptr), (''fetch_atomic'', Ptr), (''compare_atomic'', Ptr), (''cntr'', Ptr)])]"

end
