(* ===== verification/Fi_Objects.thy ===== *)
theory Fi_Objects
  imports Fi_Collective Fi_Trigger
begin

section \<open>Calls on base descriptors, fabrics and domains\<close>

text \<open>
  The families of calls that several headers share: those on the base descriptor of any object
  (closing, binding, enabling), those on a fabric and those on a domain.
\<close>

datatype fid_call =
    Fi_close
  | Fi_control u32 ptr
  | Fi_open_ops ptr u64 ptr ptr
  | Fi_domain_bind ptr u64
  | Fi_mr_bind ptr u64
  | Fi_mr_enable
  | Fi_av_bind ptr u64
  | Fi_ep_bind ptr u64
  | Fi_pep_bind ptr u64
  | Fi_scalable_ep_bind ptr u64
  | Fi_enable

fun fid_run :: "'p provider \<Rightarrow> ptr \<Rightarrow> fid_call \<Rightarrow> 'p machine \<Rightarrow>
    (cval \<times> 'p machine) option" where
  "fid_run P p Fi_close s = fi_close P p s"
| "fid_run P p (Fi_control command arg) s = fi_control P p command arg s"
| "fid_run P p (Fi_open_ops name flags opsp context) s =
     fi_open_ops P p name flags opsp context s"
| "fid_run P p (Fi_domain_bind fid flags) s = fi_domain_bind P p fid flags s"
| "fid_run P p (Fi_mr_bind bfid flags) s = fi_mr_bind P p bfid flags s"
| "fid_run P p Fi_mr_enable s = fi_mr_enable P p s"
| "fid_run P p (Fi_av_bind fid flags) s = fi_av_bind P p fid flags s"
| "fid_run P p (Fi_ep_bind bfid flags) s = fi_ep_bind P p bfid flags s"
| "fid_run P p (Fi_pep_bind bfid flags) s = fi_pep_bind P p bfid flags s"
| "fid_run P p (Fi_scalable_ep_bind bfid flags) s = fi_scalable_ep_bind P p bfid flags s"
| "fid_run P p Fi_enable s = fi_enable P p s"

fun fid_slot :: "fid_call \<Rightarrow> string" where
  "fid_slot Fi_close = ''close''"
| "fid_slot (Fi_control _ _) = ''control''"
| "fid_slot (Fi_open_ops _ _ _ _) = ''ops_open''"
| "fid_slot (Fi_domain_bind _ _) = ''bind''"
| "fid_slot (Fi_mr_bind _ _) = ''bind''"
| "fid_slot Fi_mr_enable = ''control''"
| "fid_slot (Fi_av_bind _ _) = ''bind''"
| "fid_slot (Fi_ep_bind _ _) = ''bind''"
| "fid_slot (Fi_pep_bind _ _) = ''bind''"
| "fid_slot (Fi_scalable_ep_bind _ _) = ''bind''"
| "fid_slot Fi_enable = ''control''"

fun fid_args :: "ptr \<Rightarrow> fid_call \<Rightarrow> cval list" where
  "fid_args p Fi_close =
     [V64 p]"
| "fid_args p (Fi_control command arg) =
     [V64 p, V32 command, V64 arg]"
| "fid_args p (Fi_open_ops name flags opsp context) =
     [V64 p, V64 name, V64 flags, V64 opsp, V64 context]"
| "fid_args p (Fi_domain_bind fid flags) =
     [V64 p, V64 fid, V64 flags]"
| "fid_args p (Fi_mr_bind bfid flags) =
     [V64 p, V64 bfid, V64 flags]"
| "fid_args p Fi_mr_enable =
     [V64 p, V32 (fi_command_val FI_ENABLE), V64 NULL]"
| "fid_args p (Fi_av_bind fid flags) =
     [V64 p, V64 fid, V64 flags]"
| "fid_args p (Fi_ep_bind bfid flags) =
     [V64 p, V64 bfid, V64 flags]"
| "fid_args p (Fi_pep_bind bfid flags) =
     [V64 p, V64 bfid, V64 flags]"
| "fid_args p (Fi_scalable_ep_bind bfid flags) =
     [V64 p, V64 bfid, V64 flags]"
| "fid_args p Fi_enable =
     [V64 p, V32 (fi_command_val FI_ENABLE), V64 NULL]"

fun fid_ret :: "fid_call \<Rightarrow> ctype" where
  "fid_ret c = CInt"

interpretation fid: op_family fid_run struct_fid "''ops''" struct_fi_ops fid_slot fid_args fid_ret
proof unfold_locales
  show "fid_run P p c s =
      vcall P p struct_fid ''ops'' struct_fi_ops (fid_slot c) (fid_args p c) s" for P p c s
    by (cases c) (simp_all add: wrappers upcast_simps)
  show "\<exists>ps. proto struct_fi_ops (fid_slot c) = Some (fid_ret c, ps) \<and>
      map bytes (fid_args p c) = map sizeof ps" for p c
    by (cases c) (simp_all add: proto_map_of structs)
qed

datatype fabric_call =
    Fi_domain ptr ptr ptr
  | Fi_passive_ep ptr ptr ptr
  | Fi_eq_open ptr ptr ptr
  | Fi_wait_open ptr ptr
  | Fi_trywait ptr u32

fun fabric_run :: "'p provider \<Rightarrow> ptr \<Rightarrow> fabric_call \<Rightarrow> 'p machine \<Rightarrow>
    (cval \<times> 'p machine) option" where
  "fabric_run P p (Fi_domain info domain context) s = fi_domain P p info domain context s"
| "fabric_run P p (Fi_passive_ep info pep context) s = fi_passive_ep P p info pep context s"
| "fabric_run P p (Fi_eq_open attr eqp context) s = fi_eq_open P p attr eqp context s"
| "fabric_run P p (Fi_wait_open attr waitset) s = fi_wait_open P p attr waitset s"
| "fabric_run P p (Fi_trywait fids count) s = fi_trywait P p fids count s"

fun fabric_slot :: "fabric_call \<Rightarrow> string" where
  "fabric_slot (Fi_domain _ _ _) = ''domain''"
| "fabric_slot (Fi_passive_ep _ _ _) = ''passive_ep''"
| "fabric_slot (Fi_eq_open _ _ _) = ''eq_open''"
| "fabric_slot (Fi_wait_open _ _) = ''wait_open''"
| "fabric_slot (Fi_trywait _ _) = ''trywait''"

fun fabric_args :: "ptr \<Rightarrow> fabric_call \<Rightarrow> cval list" where
  "fabric_args p (Fi_domain info domain context) =
     [V64 p, V64 info, V64 domain, V64 context]"
| "fabric_args p (Fi_passive_ep info pep context) =
     [V64 p, V64 info, V64 pep, V64 context]"
| "fabric_args p (Fi_eq_open attr eqp context) =
     [V64 p, V64 attr, V64 eqp, V64 context]"
| "fabric_args p (Fi_wait_open attr waitset) =
     [V64 p, V64 attr, V64 waitset]"
| "fabric_args p (Fi_trywait fids count) =
     [V64 p, V64 fids, V32 count]"

fun fabric_ret :: "fabric_call \<Rightarrow> ctype" where
  "fabric_ret c = CInt"

interpretation fabric: op_family fabric_run struct_fid_fabric "''ops''" struct_fi_ops_fabric fabric_slot fabric_args fabric_ret
proof unfold_locales
  show "fabric_run P p c s =
      vcall P p struct_fid_fabric ''ops'' struct_fi_ops_fabric (fabric_slot c) (fabric_args p c) s" for P p c s
    by (cases c) (simp_all add: wrappers upcast_simps)
  show "\<exists>ps. proto struct_fi_ops_fabric (fabric_slot c) = Some (fabric_ret c, ps) \<and>
      map bytes (fabric_args p c) = map sizeof ps" for p c
    by (cases c) (simp_all add: proto_map_of structs)
qed

datatype domain_call =
    Fi_av_open ptr ptr ptr
  | Fi_cq_open ptr ptr ptr
  | Fi_endpoint ptr ptr ptr
  | Fi_scalable_ep ptr ptr ptr
  | Fi_cntr_open ptr ptr ptr
  | Fi_poll_open ptr ptr
  | Fi_stx_context ptr ptr ptr
  | Fi_srx_context ptr ptr ptr

fun domain_run :: "'p provider \<Rightarrow> ptr \<Rightarrow> domain_call \<Rightarrow> 'p machine \<Rightarrow>
    (cval \<times> 'p machine) option" where
  "domain_run P p (Fi_av_open attr av context) s = fi_av_open P p attr av context s"
| "domain_run P p (Fi_cq_open attr cq context) s = fi_cq_open P p attr cq context s"
| "domain_run P p (Fi_endpoint info ep context) s = fi_endpoint P p info ep context s"
| "domain_run P p (Fi_scalable_ep info sep context) s = fi_scalable_ep P p info sep context s"
| "domain_run P p (Fi_cntr_open attr cntr context) s = fi_cntr_open P p attr cntr context s"
| "domain_run P p (Fi_poll_open attr pollset) s = fi_poll_open P p attr pollset s"
| "domain_run P p (Fi_stx_context attr stx context) s = fi_stx_context P p attr stx context s"
| "domain_run P p (Fi_srx_context attr rx_ep context) s = fi_srx_context P p attr rx_ep context s"

fun domain_slot :: "domain_call \<Rightarrow> string" where
  "domain_slot (Fi_av_open _ _ _) = ''av_open''"
| "domain_slot (Fi_cq_open _ _ _) = ''cq_open''"
| "domain_slot (Fi_endpoint _ _ _) = ''endpoint''"
| "domain_slot (Fi_scalable_ep _ _ _) = ''scalable_ep''"
| "domain_slot (Fi_cntr_open _ _ _) = ''cntr_open''"
| "domain_slot (Fi_poll_open _ _) = ''poll_open''"
| "domain_slot (Fi_stx_context _ _ _) = ''stx_ctx''"
| "domain_slot (Fi_srx_context _ _ _) = ''srx_ctx''"

fun domain_args :: "ptr \<Rightarrow> domain_call \<Rightarrow> cval list" where
  "domain_args p (Fi_av_open attr av context) =
     [V64 p, V64 attr, V64 av, V64 context]"
| "domain_args p (Fi_cq_open attr cq context) =
     [V64 p, V64 attr, V64 cq, V64 context]"
| "domain_args p (Fi_endpoint info ep context) =
     [V64 p, V64 info, V64 ep, V64 context]"
| "domain_args p (Fi_scalable_ep info sep context) =
     [V64 p, V64 info, V64 sep, V64 context]"
| "domain_args p (Fi_cntr_open attr cntr context) =
     [V64 p, V64 attr, V64 cntr, V64 context]"
| "domain_args p (Fi_poll_open attr pollset) =
     [V64 p, V64 attr, V64 pollset]"
| "domain_args p (Fi_stx_context attr stx context) =
     [V64 p, V64 attr, V64 stx, V64 context]"
| "domain_args p (Fi_srx_context attr rx_ep context) =
     [V64 p, V64 attr, V64 rx_ep, V64 context]"

fun domain_ret :: "domain_call \<Rightarrow> ctype" where
  "domain_ret c = CInt"

interpretation domain: op_family domain_run struct_fid_domain "''ops''" struct_fi_ops_domain domain_slot domain_args domain_ret
proof unfold_locales
  show "domain_run P p c s =
      vcall P p struct_fid_domain ''ops'' struct_fi_ops_domain (domain_slot c) (domain_args p c) s" for P p c s
    by (cases c) (simp_all add: wrappers upcast_simps)
  show "\<exists>ps. proto struct_fi_ops_domain (domain_slot c) = Some (domain_ret c, ps) \<and>
      map bytes (domain_args p c) = map sizeof ps" for p c
    by (cases c) (simp_all add: proto_map_of structs)
qed

end
