(* ===== verification/C_Objects.thy ===== *)
theory C_Objects
  imports C_Link
begin

section \<open>Separate objects\<close>

text \<open>
  Two objects that share no byte: a store into one leaves the other as it was. The condition is
  on the addresses of their scalars, so it can be checked on concrete pointers.
\<close>

definition addrs :: "ptr \<Rightarrow> fields \<Rightarrow> ptr list" where
  "addrs p fs = map (\<lambda>(a, n). p + of_nat a) (leaves (Struct fs))"

definition separate :: "ptr list \<Rightarrow> ptr list \<Rightarrow> bool" where
  "separate xs ys \<longleftrightarrow> list_all (\<lambda>x. x \<notin> set ys) xs"

lemma addr_of_in_addrs: "member fs n = Some (a, t) \<Longrightarrow> scalar t \<Longrightarrow> addr_of p fs n \<in> set (addrs p fs)"
  using member_leaf [of fs n a t] by (force simp: addrs_def addr_of_member)

lemma ld_upd_other: "a \<noteq> addr_of p fs n \<Longrightarrow> ld (upd p fs n v s) a k = ld s a k"
  by (simp add: ld_def upd_def)

lemma get_outside:
  assumes "mem s' = (mem s)(a := c)" and "a \<notin> set (addrs q gs)"
  shows "get s' q gs m = get s q gs m"
proof (cases "\<exists>b t. member gs m = Some (b, t) \<and> scalar t")
  case True
  then obtain b t where m: "member gs m = Some (b, t)" "scalar t" by blast
  then have "addr_of q gs m \<noteq> a" using addr_of_in_addrs [OF m, of q] assms(2) by blast
  then show ?thesis by (simp add: get_def ld_def m assms(1))
qed (auto simp: get_def split: option.split prod.split)

lemma get_upd_separate:
  assumes "separate (addrs p fs) (addrs q gs)" and "member_ok fs n v"
  shows "get (upd p fs n v s) q gs m = get s q gs m"
proof (rule get_outside)
  show "mem (upd p fs n v s) = (mem s)(addr_of p fs n := Some (Init v))" by (simp add: upd_def)
  obtain a t where "member fs n = Some (a, t)" "scalar t" using member_ok_member [OF assms(2)] by blast
  from addr_of_in_addrs [OF this, of p] show "addr_of p fs n \<notin> set (addrs q gs)"
    using assms(1) by (auto simp: separate_def list_all_iff)
qed

lemma get64_upd_separate:
  assumes "separate (addrs p fs) (addrs q gs)" and "member_ok fs n v"
  shows "get64 (upd p fs n v s) q gs m = get64 s q gs m"
  unfolding get64_def get_upd_separate [OF assms] ..

lemma get32_upd_separate:
  assumes "separate (addrs p fs) (addrs q gs)" and "member_ok fs n v"
  shows "get32 (upd p fs n v s) q gs m = get32 s q gs m"
  unfolding get32_def get_upd_separate [OF assms] ..

lemma get64_upd:
  "p \<noteq> NULL \<Longrightarrow> member_ok fs n v \<Longrightarrow> small fs \<Longrightarrow>
    get64 (upd p fs n v s) p fs m = (if m = n then the64 v else get64 s p fs m)"
  by (simp add: get64_def get_upd)

lemma get32_upd:
  "p \<noteq> NULL \<Longrightarrow> member_ok fs n v \<Longrightarrow> small fs \<Longrightarrow>
    get32 (upd p fs n v s) p fs m = (if m = n then the32 v else get32 s p fs m)"
  by (simp add: get32_def get_upd)

lemma mapped_put_upd: "mapped s p fs \<Longrightarrow> member_ok fs n v \<Longrightarrow> small fs \<Longrightarrow>
    \<exists>s1. put p fs n v s = Some s1 \<and> s1 = upd p fs n v s \<and> mapped s1 p fs"
  by (simp add: mapped_put mapped_upd)

lemma mapped_upd_separate:
  assumes "mapped s q gs" and "separate (addrs p fs) (addrs q gs)" and "member_ok fs n v"
  shows "mapped (upd p fs n v s) q gs"
proof -
  obtain a t where "member fs n = Some (a, t)" "scalar t" using member_ok_member [OF assms(3)] by blast
  from addr_of_in_addrs [OF this, of p] have "addr_of p fs n \<notin> set (addrs q gs)"
    using assms(2) by (auto simp: separate_def list_all_iff)
  then have "q + of_nat b \<noteq> addr_of p fs n" if "(b, k) \<in> set (leaves (Struct gs))" for b k
    using that by (force simp: addrs_def)
  with assms(1) show ?thesis by (auto simp: mapped_def upd_def list_all_iff)
qed

lemma the32_Some_iff: "the32 v = Some w \<longleftrightarrow> v = V32 w"
  by (cases v) auto

lemma the64_Some_iff: "the64 v = Some w \<longleftrightarrow> v = V64 w"
  by (cases v) auto

text \<open>\<open>*p\<close> for a pointer to a 32-bit object.\<close>

definition deref32 :: "'p machine \<Rightarrow> ptr \<Rightarrow> u32 option" where
  "deref32 s p = (if p = NULL then None else Option.bind (ld s p 4) the32)"

text \<open>A whole object assigned from a list of initialisers: what is not named becomes zero.\<close>

definition assign_struct :: "ptr \<Rightarrow> fields \<Rightarrow> (string \<times> cval) list \<Rightarrow> 'p machine \<Rightarrow> 'p machine option" where
  "assign_struct p fs inits s = do { s1 \<leftarrow> memset0 p fs s; puts p fs inits s1 }"

lemma memset0_mapped:
  assumes "mapped s p fs" and "small fs"
  shows "\<exists>s1. memset0 p fs s = Some s1 \<and> mapped s1 p fs \<and> zeroed s1 p fs \<and> env s1 = env s \<and> sp s1 = sp s \<and>
    (\<forall>a. a \<notin> set (addrs p fs) \<longrightarrow> mem s1 a = mem s a)"
proof -
  let ?z = "map (\<lambda>(a, n). (p + of_nat a :: ptr, Init (zero_cval n))) (leaves (Struct fs))"
  let ?s = "s\<lparr>mem := mem s ++ map_of ?z\<rparr>"
  have z: "mem ?s (p + of_nat a) = Some (Init (zero_cval n))" if "(a, n) \<in> set (leaves (Struct fs))" for a n
    using map_of_leaves [OF assms(2) that, where p = p and c = "\<lambda>n. Init (zero_cval n)"] by simp
  have w: "bytes (zero_cval n) = n" if "(a, n) \<in> set (leaves (Struct fs))" for a n
    using leaf_width [OF that] by auto
  have "fst ` set ?z = set (addrs p fs)" by (force simp: addrs_def)
  then have "mem ?s a = mem s a" if "a \<notin> set (addrs p fs)" for a
    using that by (simp add: map_add_dom_app_simps(3) dom_map_of_conv_image_fst)
  moreover have "memset0 p fs s = Some ?s" using assms(1) by (simp add: memset0_def mapped_def)
  moreover have "mapped ?s p fs" "zeroed ?s p fs"
    using assms(1) z w by (auto simp: mapped_def zeroed_def list_all_iff)
  ultimately show ?thesis by auto
qed

lemma assign_struct_get:
  assumes "mapped s p fs" and "small fs" and "list_all (\<lambda>(n, v). member_ok fs n v) inits"
    and "distinct (map fst inits)"
  shows "\<exists>s1. assign_struct p fs inits s = Some s1 \<and> mapped s1 p fs \<and> env s1 = env s \<and> sp s1 = sp s \<and>
    (\<forall>n a t. member fs n = Some (a, t) \<longrightarrow> scalar t \<longrightarrow>
      get s1 p fs n = Some (case map_of inits n of Some v \<Rightarrow> v | None \<Rightarrow> zero_cval (sizeof t)))"
proof -
  obtain s1 where s1: "memset0 p fs s = Some s1" "mapped s1 p fs" "zeroed s1 p fs" "env s1 = env s" "sp s1 = sp s"
    using memset0_mapped [OF assms(1,2)] by blast
  obtain s2 where s2: "puts p fs inits s1 = Some s2" "mapped s2 p fs" "sp s2 = sp s1" "env s2 = env s1"
      "\<forall>(n, v) \<in> set inits. get s2 p fs n = Some v"
      "\<forall>m. m \<notin> fst ` set inits \<longrightarrow> get s2 p fs m = get s1 p fs m"
    using mapped_puts [OF s1(2) assms(2-4)] by blast
  have "get s2 p fs n = Some (case map_of inits n of Some v \<Rightarrow> v | None \<Rightarrow> zero_cval (sizeof t))"
    if "member fs n = Some (a, t)" "scalar t" for n a t
  proof (cases "map_of inits n")
    case None
    then have "n \<notin> fst ` set inits" by (simp add: map_of_eq_None_iff)
    then show ?thesis using s2(6) zeroed_get [OF s1(3) that] None by (simp del: zero_cval.simps)
  next
    case (Some v)
    then show ?thesis using s2(5) by (auto dest: map_of_SomeD)
  qed
  then show ?thesis using s1 s2 by (auto simp: assign_struct_def)
qed

text \<open>Stores leave the provider's state and the stack pointer alone.\<close>

lemma put_env: "put p fs n v s = Some s' \<Longrightarrow> env s' = env s \<and> sp s' = sp s"
  by (auto simp: put_def st_def split: option.splits if_splits)

lemma puts_env: "puts p fs as s = Some s' \<Longrightarrow> env s' = env s \<and> sp s' = sp s"
  by (induction as arbitrary: s) (auto simp: bind_Some_iff dest!: put_env)

lemma assign_env: "assign p v s = Some s' \<Longrightarrow> env s' = env s \<and> sp s' = sp s"
  by (auto simp: assign_def st_def split: option.splits if_splits)

lemma assign_struct_env: "assign_struct p fs as s = Some s' \<Longrightarrow> env s' = env s \<and> sp s' = sp s"
  by (auto simp: assign_struct_def memset0_def bind_Some_iff dest!: puts_env split: if_splits)

text \<open>The cells of an object whose every scalar is zero.\<close>

definition zero_object :: "ptr \<Rightarrow> fields \<Rightarrow> (ptr \<times> cval) list" where
  "zero_object p fs = map (\<lambda>(a, n). (p + of_nat a, zero_cval n)) (leaves (Struct fs))"

text \<open>The cells of an object lie in its bytes, so objects whose bytes do not overlap are disjoint.\<close>

lemma addrs_distinct: "small fs \<Longrightarrow> distinct (addrs p fs)"
proof -
  assume "small fs"
  then have "inj_on (\<lambda>a. p + of_nat a) (fst ` set (leaves (Struct fs)))"
    using leaf_addrs_inj [of _ _ fs] by (fastforce simp: inj_on_def)
  then have "distinct (map (\<lambda>a. p + of_nat a) (map fst (leaves (Struct fs))))"
    using leaves_distinct [of "Struct fs"] unfolding distinct_map [of "\<lambda>a. p + of_nat a"] by simp
  then show ?thesis by (simp add: addrs_def case_prod_beta' comp_def)
qed

lemma addrs_span:
  assumes "a \<in> set (addrs p fs)" and "unat p + sizeof (Struct fs) < 2 ^ 64"
  shows "unat p \<le> unat a \<and> unat a < unat p + sizeof (Struct fs)"
proof -
  obtain b n where b: "(b, n) \<in> set (leaves (Struct fs))" "a = p + of_nat b"
    using assms(1) by (auto simp: addrs_def)
  have "b < sizeof (Struct fs)" using leaves_bounds [OF b(1)] by linarith
  moreover from this have "unat a = unat p + b"
    using assms(2) unfolding b(2) by (simp add: unat_word_ariths unat_of_nat del: sizeof.simps)
  ultimately show ?thesis by linarith
qed

lemma addrs_disjoint:
  assumes "unat p + sizeof (Struct fs) \<le> unat q" and "unat q + sizeof (Struct gs) < 2 ^ 64"
  shows "set (addrs p fs) \<inter> set (addrs q gs) = {}"
  using assms addrs_span [of _ p fs] addrs_span [of _ q gs] by fastforce

lemma mapped_zero_object:
  assumes "set (map fst xs) \<inter> set (addrs p fs) = {}" and "p \<noteq> NULL" and "small fs"
  shows "mapped (boot (xs @ zero_object p fs @ ys) a e) p fs"
proof -
  have "map_of (xs @ zero_object p fs @ ys) (p + of_nat b) = Some (zero_cval n) \<and> bytes (zero_cval n) = n"
    if b: "(b, n) \<in> set (leaves (Struct fs))" for b n
  proof -
    have "p + of_nat b \<in> set (addrs p fs)" using b by (force simp: addrs_def)
    then have "map_of xs (p + of_nat b) = None" using assms(1) by (auto simp: map_of_eq_None_iff)
    moreover have "map_of (zero_object p fs) (p + of_nat b) = Some (zero_cval n)"
      unfolding zero_object_def by (rule map_of_leaves [OF assms(3) b])
    ultimately show ?thesis using leaf_width [OF b] by (auto simp: map_add_def)
  qed
  then show ?thesis using assms(2) by (fastforce simp: mapped_def boot_def list_all_iff simp del: leaves.simps)
qed

lemma zero_object_fst: "map fst (zero_object p fs) = addrs p fs"
  by (simp add: zero_object_def addrs_def case_prod_beta' comp_def)

end
