(* ===== verification/Api_Layout.thy ===== *)
theory Api_Layout
  imports Fi_Objects C_Objects
begin

section \<open>What the headers promise about data: layouts, numbers, flags\<close>

text \<open>
  The rules that the headers state in comments, or that the inline functions rely on, about the
  shape of structs and the values of constants: every descriptor starts with \<open>struct fid\<close>, a
  reader may use a shorter completion format than the one written, triggered contexts fit in
  contexts, the numbers of an enumeration leave the provider's bit alone, the flags of one
  argument do not collide, versions are ordered, traffic classes and receive addresses can be
  taken apart again.
\<close>

subsection \<open>Descriptors\<close>

definition object_structs :: "fields list" where
  "object_structs =
     [struct_fid_fabric, struct_fid_nic, struct_fid_wait, struct_fid_poll, struct_fid_eq, struct_fid_cq,
      struct_fid_cntr, struct_fid_av, struct_fid_mr, struct_fid_domain, struct_fid_ep, struct_fid_pep,
      struct_fid_stx, struct_fid_mc, struct_fid_av_set]"

lemma object_fid_class: "fs \<in> set object_structs \<Longrightarrow> fid_class fs"
  unfolding object_structs_def
  using fid_fabric.fid_class_axioms fid_nic.fid_class_axioms fid_wait.fid_class_axioms
    fid_poll.fid_class_axioms fid_eq.fid_class_axioms fid_cq.fid_class_axioms fid_cntr.fid_class_axioms
    fid_av.fid_class_axioms fid_mr.fid_class_axioms fid_domain.fid_class_axioms fid_ep.fid_class_axioms
    fid_pep.fid_class_axioms fid_stx.fid_class_axioms fid_mc.fid_class_axioms fid_av_set.fid_class_axioms
  by auto

text \<open>Reading a member of the base descriptor through the object or through a cast of it.\<close>

lemma cast_get:
  assumes "fid_class fs"
  shows "get s (addr_of p fs ''fid'') struct_fid n = get s p struct_fid n"
  using fid_class.upcast [OF assms] by simp

subsection \<open>Formats that extend one another\<close>

definition entry_prefix :: "fields \<Rightarrow> fields \<Rightarrow> bool" where
  "entry_prefix fs gs \<longleftrightarrow> list_all (\<lambda>(n, t). member fs n = member gs n) fs"

lemma entry_prefix_member: "entry_prefix fs gs \<Longrightarrow> member fs n = Some at \<Longrightarrow> member gs n = Some at"
proof -
  assume p: "entry_prefix fs gs" and m: "member fs n = Some at"
  have "(n, fst at, snd at) \<in> set (layout 0 fs)" using m by (cases at) (simp add: member_in_layout)
  then have "(n, snd at) \<in> set fs" by (rule layout_member_in)
  with p m show "member gs n = Some at" by (fastforce simp: entry_prefix_def list_all_iff)
qed

lemma entry_prefix_get: "entry_prefix fs gs \<Longrightarrow> (\<lambda>n. get s p fs n) \<subseteq>\<^sub>m (\<lambda>n. get s p gs n)"
proof (unfold map_le_def, intro ballI)
  fix n assume p: "entry_prefix fs gs" and "n \<in> dom (\<lambda>n. get s p fs n)"
  then obtain v where "get s p fs n = Some v" by auto
  then obtain a t where m: "member fs n = Some (a, t)" by (auto simp: get_def split: option.splits)
  from entry_prefix_member [OF p m] m show "get s p fs n = get s p gs n"
    by (simp add: get_def addr_of_member)
qed

definition cq_formats :: "fields list" where
  "cq_formats = [struct_fi_cq_entry, struct_fi_cq_msg_entry, struct_fi_cq_data_entry,
     struct_fi_cq_tagged_entry, struct_fi_cq_err_entry]"

lemma cq_formats_prefixes: "sorted_wrt entry_prefix cq_formats"
  by code_simp

lemma eq_entry_prefix: "entry_prefix struct_fi_eq_entry struct_fi_eq_err_entry"
  by code_simp

subsection \<open>Numbers of enumerations\<close>

definition enum_values :: "u32 list list" where
  "enum_values =
     [map fi_addr_format_val fi_addr_format_all, map fi_av_type_val fi_av_type_all,
      map fi_mr_mode_val fi_mr_mode_all, map fi_progress_val fi_progress_all,
      map fi_threading_val fi_threading_all, map fi_resource_mgmt_val fi_resource_mgmt_all,
      map fi_ep_type_val fi_ep_type_all, map fi_proto_val fi_proto_all, map fi_tclass_val fi_tclass_all,
      map fi_bus_type_val fi_bus_type_all, map fi_link_state_val fi_link_state_all,
      map fi_class_val fi_class_all, map fi_command_val fi_command_all, map fi_type_val fi_type_all,
      map fi_param_type_val fi_param_type_all, map fi_wait_obj_val fi_wait_obj_all,
      map fi_eq_event_val fi_eq_event_all, map fi_cq_format_val fi_cq_format_all,
      map fi_cq_wait_cond_val fi_cq_wait_cond_all, map fi_cntr_events_val fi_cntr_events_all,
      map fi_hmem_iface_val fi_hmem_iface_all, map fi_datatype_val fi_datatype_all,
      map fi_op_val fi_op_all, map fi_collective_op_val fi_collective_op_all,
      map fi_opt_level_val fi_opt_level_all, map fi_opt_name_val fi_opt_name_all,
      map fi_trigger_event_val fi_trigger_event_all, map fi_op_type_val fi_op_type_all]"

subsection \<open>Flags\<close>

text \<open>The bits that may be set together in one argument or attribute.\<close>

definition capability_flags :: "u64 list" where
  "capability_flags =
     [FI_MSG, FI_RMA, FI_TAGGED, FI_ATOMIC, FI_MULTICAST, FI_COLLECTIVE, FI_READ, FI_WRITE, FI_RECV, FI_SEND,
      FI_REMOTE_READ, FI_REMOTE_WRITE, FI_MULTI_RECV, FI_TRIGGER, FI_FENCE, FI_HMEM, FI_VARIABLE_MSG,
      FI_RMA_PMEM, FI_SOURCE_ERR, FI_LOCAL_COMM, FI_REMOTE_COMM, FI_SHARED_AV, FI_RMA_EVENT, FI_SOURCE,
      FI_NAMED_RX_CTX, FI_DIRECTED_RECV]"

definition operation_flags :: "u64 list" where
  "operation_flags =
     [FI_MULTI_RECV, FI_REMOTE_CQ_DATA, FI_MORE, FI_PEEK, FI_TRIGGER, FI_FENCE, FI_PRIORITY, FI_COMPLETION,
      FI_INJECT, FI_INJECT_COMPLETE, FI_TRANSMIT_COMPLETE, FI_DELIVERY_COMPLETE, FI_AFFINITY,
      FI_COMMIT_COMPLETE, FI_MATCH_COMPLETE, FI_CLAIM, FI_DISCARD]"

definition mode_flags :: "u64 list" where
  "mode_flags =
     [FI_CONTEXT, FI_MSG_PREFIX, FI_ASYNC_IOV, FI_RX_CQ_DATA, FI_LOCAL_MR, FI_NOTIFY_FLAGS_ONLY,
      FI_RESTRICTED_COMP, FI_CONTEXT2, FI_BUFFERED_RECV]"

definition order_flags :: "u64 list" where
  "order_flags =
     [FI_ORDER_RAR, FI_ORDER_RAW, FI_ORDER_RAS, FI_ORDER_WAR, FI_ORDER_WAW, FI_ORDER_WAS, FI_ORDER_SAR,
      FI_ORDER_SAW, FI_ORDER_SAS, FI_ORDER_RMA_RAR, FI_ORDER_RMA_RAW, FI_ORDER_RMA_WAR, FI_ORDER_RMA_WAW,
      FI_ORDER_ATOMIC_RAR, FI_ORDER_ATOMIC_RAW, FI_ORDER_ATOMIC_WAR, FI_ORDER_ATOMIC_WAW, FI_ORDER_DATA]"

definition mr_mode_flags :: "u32 list" where
  "mr_mode_flags =
     [fi_mr_mode_val FI_MR_BASIC, fi_mr_mode_val FI_MR_SCALABLE, FI_MR_LOCAL, FI_MR_RAW, FI_MR_VIRT_ADDR,
      FI_MR_ALLOCATED, FI_MR_PROV_KEY, FI_MR_MMU_NOTIFY, FI_MR_RMA_EVENT, FI_MR_ENDPOINT, FI_MR_HMEM]"

text \<open>Bits 60 to 63 belong to the provider.\<close>

definition provider_bits :: u64 where
  "provider_bits = push_bit 60 0xF"

definition disjoint_bits :: "'a::len word list \<Rightarrow> bool" where
  "disjoint_bits fs \<longleftrightarrow> sorted_wrt (\<lambda>a b. a AND b = 0) fs"

lemmas flag_lists = capability_flags_def operation_flags_def mode_flags_def order_flags_def mr_mode_flags_def

subsection \<open>Receive addresses\<close>

text \<open>\<open>fi_rx_addr\<close> is defined for 1 to 64 context bits.\<close>

lemma fi_rx_addr_shift:
  assumes "0 < k" and "k \<le> 64"
  shows "fi_rx_addr a i (of_nat k) = Some (push_bit (64 - k) (scast i) OR a)"
proof -
  have "sint (of_nat k :: u32) = int k"
  proof -
    have "(of_nat k :: u32) = word_of_int (int k)" by simp
    then have "sint (of_nat k :: u32) = signed_take_bit 31 (int k)" by (simp only: sint_sbintrunc') simp
    also have "\<dots> = int k" using assms by (intro signed_take_bit_int_eq_self) auto
    finally show ?thesis .
  qed
  moreover have "nat (64 - int k) = 64 - k" by simp
  ultimately show ?thesis using assms by (simp add: fi_rx_addr_def Let_def)
qed

lemma fi_rx_addr_fields:
  assumes k: "0 < k" "k \<le> 31" and i: "i < 2 ^ k" and a: "a < 2 ^ (64 - k)"
  shows "\<exists>r. fi_rx_addr a i (of_nat k) = Some r \<and> drop_bit (64 - k) r = ucast i \<and> take_bit (64 - k) r = a"
proof -
  let ?r = "push_bit (64 - k) (scast i) OR a"
  have ib: "bit i j \<Longrightarrow> j < k" for j by (rule word_bit_less [OF i])
  have ab: "bit a j \<Longrightarrow> j < 64 - k" for j by (rule word_bit_less [OF a])
  have sc: "(scast i :: u64) = ucast i"
  proof (rule bit_word_eqI)
    fix n assume n: "n < LENGTH(64)"
    have top: "\<not> bit i j" if "31 \<le> j" for j using ib [of j] k that by auto
    show "bit (scast i :: u64) n = bit (ucast i :: u64) n"
    proof (cases "n < 31")
      case True
      then show ?thesis by (simp add: bit_simps min_def)
    next
      case False
      then show ?thesis using top by (simp add: bit_simps min_def)
    qed
  qed
  have "drop_bit (64 - k) ?r = ucast i"
    unfolding sc by (rule bit_word_eqI) (use k in \<open>auto simp: bit_simps dest: ab ib\<close>)
  moreover have "take_bit (64 - k) ?r = a"
    unfolding sc by (rule bit_word_eqI) (use k in \<open>auto simp: bit_simps dest: ab\<close>)
  ultimately show ?thesis using fi_rx_addr_shift [of k a i] k by auto
qed

subsection \<open>Properties\<close>

text \<open>C32. Every object of the API starts with \<open>struct fid\<close>: a pointer to the object is a pointer to its
  base descriptor and back (\<open>&obj->fid\<close>, \<open>container_of\<close>), and where the object is mapped so is the
  descriptor, so the calls on a \<open>fid_t\<close> may be used on all of them.\<close>

theorem object_is_its_fid:
  assumes "fs \<in> set object_structs"
  shows "addr_of p fs ''fid'' = p \<and> container_of p fs ''fid'' = p \<and> (mapped s p fs \<longrightarrow> mapped s p struct_fid)"
  using fid_class.upcast [OF object_fid_class [OF assms]] fid_class.downcast [OF object_fid_class [OF assms]]
    fid_class.mapped_fid [OF object_fid_class [OF assms]] by blast

theorem object_is_its_fid_witness:
  "addr_of 0x1000 struct_fid_ep ''fid'' = 0x1000 \<and> container_of 0x1000 struct_fid_ep ''fid'' = 0x1000 \<and>
    mapped (boot (zero_object 0x1000 struct_fid_ep) 0x9000 ()) 0x1000 struct_fid"
proof -
  have "struct_fid_ep \<in> set object_structs" by (simp add: object_structs_def)
  moreover have "mapped (boot (zero_object 0x1000 struct_fid_ep) 0x9000 ()) 0x1000 struct_fid_ep" by code_simp
  ultimately show ?thesis 
    using object_is_its_fid [of struct_fid_ep "0x1000" "boot (zero_object 0x1000 struct_fid_ep) 0x9000 ()"] by blast
qed

text \<open>C40. Reading a member of a completion entry through a shorter format gives what the longer
  format holds, along the chain context, message, data, tagged, error; the same for event
  entries and event error entries.\<close>

theorem shorter_format_reads:
  "sorted_wrt (\<lambda>fs gs. (\<lambda>n. get s p fs n) \<subseteq>\<^sub>m (\<lambda>n. get s p gs n)) cq_formats \<and>
    (\<lambda>n. get s p struct_fi_eq_entry n) \<subseteq>\<^sub>m (\<lambda>n. get s p struct_fi_eq_err_entry n)"
  using sorted_wrt_mono_rel [OF entry_prefix_get cq_formats_prefixes] entry_prefix_get [OF eq_entry_prefix]
  by auto

text \<open>``Size must match'': a triggered context is as large and as aligned as the context it is
  passed for, and a deferred work item starts with the context the provider is given.\<close>

theorem triggered_contexts_fit:
  "sizeof (Struct struct_fi_triggered_context) = sizeof (Struct struct_fi_context) \<and>
    alignof (Struct struct_fi_triggered_context) = alignof (Struct struct_fi_context) \<and>
    sizeof (Struct struct_fi_triggered_context2) = sizeof (Struct struct_fi_context2) \<and>
    alignof (Struct struct_fi_triggered_context2) = alignof (Struct struct_fi_context2) \<and>
    member struct_fi_deferred_work ''context'' = Some (0, Struct struct_fi_context2)"
  by code_simp

text \<open>In every enumeration the numbers are distinct and leave the bit alone that marks
  provider-specific values.\<close>

theorem enum_numbers:
  "list_all (\<lambda>vs. distinct vs \<and> list_all (\<lambda>v. v AND FI_PROV_SPECIFIC = 0) vs) enum_values"
  by code_simp

text \<open>The operations and datatypes of atomics are numbered from 0 without a gap up to the end
  marker; those of collectives only start at \<open>FI_COLLECTIVE_OFFSET\<close>.\<close>

theorem atomic_numbers_dense:
  "map (\<lambda>v. unat (fi_op_val v)) fi_op_all = [0..<unat (fi_op_val FI_ATOMIC_OP_LAST) + 1] @ [unat FI_COLLECTIVE_OFFSET] \<and>
    map (\<lambda>v. unat (fi_datatype_val v)) fi_datatype_all =
      [0..<unat (fi_datatype_val FI_DATATYPE_LAST) + 1] @ [unat FI_COLLECTIVE_OFFSET]"
  by code_simp

text \<open>Flags that are used together are different bits, none is a bit of the provider, and strict
  ordering is the union of the nine basic orderings.\<close>

theorem flags_do_not_collide:
  "disjoint_bits capability_flags \<and> disjoint_bits operation_flags \<and> disjoint_bits mode_flags \<and>
    disjoint_bits order_flags \<and> disjoint_bits mr_mode_flags \<and>
    foldr (OR) (capability_flags @ operation_flags @ mode_flags @ order_flags) 0 AND provider_bits = 0 \<and>
    foldr (OR) (take 9 order_flags) 0 = FI_ORDER_STRICT"
  by (simp add: flag_lists flag_defs disjoint_bits_def provider_bits_def)

text \<open>C31. Error numbers: those of the system are below 256 and the library's own from 256 up, the
  negative value a call returns is negative exactly for errors, and negating it gives back the
  number and the error.\<close>

theorem error_returns:
  "list_all (\<lambda>e. errno e < FI_ERRNO_OFFSET) system_errors \<and>
    list_all (\<lambda>e. FI_ERRNO_OFFSET \<le> errno e) specific_errors \<and>
    (- errno e <s 0) = (e \<noteq> FI_SUCCESS) \<and>
    enum_decode errno (system_errors @ specific_errors) (- (- errno e)) = Some e"
proof (intro conjI)
  show "list_all (\<lambda>e. errno e < FI_ERRNO_OFFSET) system_errors"
    by (simp add: system_errors_def FI_ERRNO_OFFSET_def)
  show "list_all (\<lambda>e. FI_ERRNO_OFFSET \<le> errno e) specific_errors"
    by (simp add: specific_errors_def FI_ERRNO_OFFSET_def)
  show "(- errno e <s 0) = (e \<noteq> FI_SUCCESS)" by (cases e) (simp_all add: word_sless_alt)
  show "enum_decode errno (system_errors @ specific_errors) (- (- errno e)) = Some e"
    using fi_err.decode_val [of e] by simp
qed

text \<open>C30. A version packed from a major and a minor number below 65536 gives both back, and the two
  comparison macros order packed versions by major number, then minor number.\<close>

theorem versions_ordered:
  assumes "a < 2 ^ 16" and "b < 2 ^ 16" and "c < 2 ^ 16" and "d < 2 ^ 16"
  shows "FI_MAJOR (FI_VERSION a b) = a \<and> FI_MINOR (FI_VERSION a b) = b \<and>
    FI_VERSION_LT (FI_VERSION a b) (FI_VERSION c d) = (a < c \<or> a = c \<and> b < d) \<and>
    FI_VERSION_GE (FI_VERSION a b) (FI_VERSION c d) = (Api_version (FI_VERSION c d) \<le> Api_version (FI_VERSION a b)) \<and>
    (Api_version (FI_VERSION a b) < Api_version (FI_VERSION c d)) = (FI_VERSION a b < FI_VERSION c d)"
proof -
  note p = version_packed [OF assms(1,2)] version_packed [OF assms(3,4)]
  have "FI_VERSION_LT (FI_VERSION a b) (FI_VERSION c d) = (a < c \<or> a = c \<and> b < d)"
    unfolding FI_VERSION_LT_def by (simp only: p)
  then show ?thesis
    by (simp only: p less_eq_api_version_def less_api_version_def api_version.sel FI_VERSION_LT_iff simp_thms)
qed

theorem versions_ordered_witness:
  "FI_MAJOR (FI_VERSION FI_MAJOR_VERSION FI_MINOR_VERSION) = 1 \<and>
    FI_VERSION_LT (FI_VERSION 1 9) (FI_VERSION FI_MAJOR_VERSION FI_MINOR_VERSION)"
  using versions_ordered [of 1 11 1 9] versions_ordered [of 1 9 1 11]
  by (simp add: FI_MAJOR_VERSION_def FI_MINOR_VERSION_def)

text \<open>A DSCP value goes through its traffic class unchanged; no predefined traffic class reads
  as one; and a class with the DSCP flag is, in its low nine bits, the class of the value read.\<close>

theorem dscp_roundtrip:
  "fi_tc_dscp_get (fi_tc_dscp_set dscp) = dscp \<and>
    list_all (\<lambda>tc. fi_tc_dscp_get (fi_tclass_val tc) = 0) fi_tclass_all \<and>
    (tclass AND fi_tclass_val FI_TC_DSCP = 0 \<or> fi_tc_dscp_set (fi_tc_dscp_get tclass) = take_bit 9 tclass)"
proof (intro conjI)
  have flag: "bit (0x100 :: u32) n \<longleftrightarrow> n = 8" for n
  proof -
    have "(0x100 :: u32) = 2 ^ 8" by simp
    then show ?thesis unfolding bit_exp_iff by (simp only: bit_exp_iff) auto
  qed
  have "(0x100 :: u8) = 0" by simp
  then have "bit (0x100 :: u8) n = False" for n by (metis bit_0_eq bot_apply bot_bool_def)
  then show "fi_tc_dscp_get (fi_tc_dscp_set dscp) = dscp"
    by (intro bit_word_eqI) (auto simp: fi_tc_dscp_get_bits fi_tc_dscp_set_def bit_simps flag)
  have flagn: "bit (0x100 :: nat) n \<longleftrightarrow> n = 8" "bit (0x100 :: int) n \<longleftrightarrow> n = 8" for n
  proof -
    have "(0x100 :: nat) = 2 ^ 8" "(0x100 :: int) = 2 ^ 8" by simp_all
    then show "bit (0x100 :: nat) n \<longleftrightarrow> n = 8" "bit (0x100 :: int) n \<longleftrightarrow> n = 8"
      by (simp_all only: bit_exp_iff) auto
  qed
  show "list_all (\<lambda>tc. fi_tc_dscp_get (fi_tclass_val tc) = 0) fi_tclass_all" by code_simp
  show "tclass AND fi_tclass_val FI_TC_DSCP = 0 \<or> fi_tc_dscp_set (fi_tc_dscp_get tclass) = take_bit 9 tclass"
  proof (cases "bit tclass 8")
    case False
    then show ?thesis by (simp add: dscp_flag)
  next
    case True
    have "bit (fi_tc_dscp_set (ucast tclass)) n = bit (take_bit 9 tclass) n" if "n < 32" for n
      using that True by (cases "n = 8") (auto simp: fi_tc_dscp_set_def bit_simps flag flagn)
    then have "fi_tc_dscp_set (ucast tclass) = take_bit 9 tclass" by (intro bit_word_eqI) simp
    with True show ?thesis by (simp add: fi_tc_dscp_get_bits)
  qed
qed

text \<open>C29. The address of a receive context takes the index and the base address apart again: with
  \<open>k\<close> context bits, an index below \<open>2 ^ k\<close> and an address below \<open>2 ^ (64 - k)\<close>, the high \<open>k\<close> bits are
  the index and the rest is the address.\<close>

theorem rx_addr_roundtrip:
  assumes "0 < k" and "k \<le> 31" and "i < 2 ^ k" and "a < 2 ^ (64 - k)"
  shows "\<exists>r. fi_rx_addr a i (of_nat k) = Some r \<and> drop_bit (64 - k) r = ucast i \<and> take_bit (64 - k) r = a"
  by (rule fi_rx_addr_fields) (fact assms)+

theorem rx_addr_roundtrip_witness:
  "\<exists>r. fi_rx_addr 77 3 4 = Some r \<and> drop_bit 60 r = 3 \<and> take_bit 60 r = 77"
  using rx_addr_roundtrip [of 4 3 77] by simp

end
