(* ===== verification/Api_Calls.thy ===== *)
theory Api_Calls
  imports Fi_Objects C_Objects
begin

section \<open>What the API calls do\<close>

text \<open>
  The calls of all headers put together. A program is a list of calls on an endpoint, on queues
  or on control objects; the specification of a program calls, for each of its calls, the
  function the object's table has for it with the documented arguments. Then the calls that
  pass a struct by address, and what the callee finds in it.
\<close>

subsection \<open>Programs of calls\<close>

lemma run_all_cong:
  assumes "I s" and "\<And>c s. I s \<Longrightarrow> f c s = g c s" and "\<And>c s v s'. I s \<Longrightarrow> g c s = Some (v, s') \<Longrightarrow> I s'"
  shows "run_all f cs s = run_all g cs s"
  using assms(1)
proof (induction cs arbitrary: s)
  case Nil
  then show ?case by simp
next
  case (Cons c cs)
  then show ?case using assms(2,3) by (cases "g c s") auto
qed

subsection \<open>Data transfer on an endpoint\<close>

datatype transfer_call =
    Msg_call msg_call
  | Tagged_call tagged_call
  | Rma_call rma_call
  | Atomic_call atomic_call
  | Collective_call collective_call

fun transfer_run :: "'p provider \<Rightarrow> ptr \<Rightarrow> transfer_call \<Rightarrow> 'p machine \<Rightarrow> (cval \<times> 'p machine) option" where
  "transfer_run P p (Msg_call c) = msg_run P p c"
| "transfer_run P p (Tagged_call c) = tagged_run P p c"
| "transfer_run P p (Rma_call c) = rma_run P p c"
| "transfer_run P p (Atomic_call c) = atomic_run P p c"
| "transfer_run P p (Collective_call c) = collective_run P p c"

text \<open>\<open>M tab op\<close>: the function in the slot \<open>op\<close> of the table \<open>tab\<close>.\<close>

fun transfer_spec :: "'p provider \<Rightarrow> (string \<Rightarrow> string \<Rightarrow> ptr) \<Rightarrow> ptr \<Rightarrow> transfer_call \<Rightarrow> 'p machine \<Rightarrow>
    (cval \<times> 'p machine) option" where
  "transfer_spec P M p (Msg_call c) s =
     invoke P (M ''msg'' (msg_slot c)) (sizeof (msg_ret c)) (msg_args p c) s"
| "transfer_spec P M p (Tagged_call c) s =
     invoke P (M ''tagged'' (tagged_slot c)) (sizeof (tagged_ret c)) (tagged_args p c) s"
| "transfer_spec P M p (Rma_call c) s =
     invoke P (M ''rma'' (rma_slot c)) (sizeof (rma_ret c)) (rma_args p c) s"
| "transfer_spec P M p (Atomic_call c) s =
     invoke P (M ''atomic'' (atomic_slot c)) (sizeof (atomic_ret c)) (atomic_args p c) s"
| "transfer_spec P M p (Collective_call c) s =
     invoke P (M ''collective'' (collective_slot c)) (sizeof (collective_ret c)) (collective_args p c) s"

definition transfer_tables :: "(string \<Rightarrow> string \<Rightarrow> ptr) \<Rightarrow> ptr \<Rightarrow> 'p machine \<Rightarrow> bool" where
  "transfer_tables M p s \<longleftrightarrow>
     full_table s p struct_fid_ep ''msg'' struct_fi_ops_msg (M ''msg'') \<and>
     full_table s p struct_fid_ep ''tagged'' struct_fi_ops_tagged (M ''tagged'') \<and>
     full_table s p struct_fid_ep ''rma'' struct_fi_ops_rma (M ''rma'') \<and>
     full_table s p struct_fid_ep ''atomic'' struct_fi_ops_atomic (M ''atomic'') \<and>
     full_table s p struct_fid_ep ''collective'' struct_fi_ops_collective (M ''collective'')"

lemma transfer_run_spec: "transfer_tables M p s \<Longrightarrow> transfer_run P p c s = transfer_spec P M p c s"
  by (cases c)
    (auto simp: transfer_tables_def msg.run_full msg.spec_def tagged.run_full tagged.spec_def
      rma.run_full rma.spec_def atomic.run_full atomic.spec_def collective.run_full collective.spec_def)

lemma transfer_spec_stable:
  "stable P I \<Longrightarrow> I s \<Longrightarrow> transfer_spec P M p c s = Some (v, s') \<Longrightarrow> I s'"
  by (cases c) (auto intro: stable_invoke)

subsection \<open>Queues, counters, address vectors\<close>

datatype queue_call =
    Eq_call eq_call
  | Cq_call cq_call
  | Cntr_call cntr_call
  | Poll_call poll_call

fun queue_run :: "'p provider \<Rightarrow> ptr \<times> queue_call \<Rightarrow> 'p machine \<Rightarrow> (cval \<times> 'p machine) option" where
  "queue_run P (p, Eq_call c) = eq_run P p c"
| "queue_run P (p, Cq_call c) = cq_run P p c"
| "queue_run P (p, Cntr_call c) = cntr_run P p c"
| "queue_run P (p, Poll_call c) = poll_run P p c"

text \<open>A call on any object: the structs of the object and of its table, the table's member, the
  operation, its arguments and its result.\<close>

fun queue_target :: "ptr \<times> queue_call \<Rightarrow> fields \<times> string \<times> fields \<times> string \<times> cval list \<times> ctype" where
  "queue_target (p, Eq_call c) = (struct_fid_eq, ''ops'', struct_fi_ops_eq, eq_slot c, eq_args p c, eq_ret c)"
| "queue_target (p, Cq_call c) = (struct_fid_cq, ''ops'', struct_fi_ops_cq, cq_slot c, cq_args p c, cq_ret c)"
| "queue_target (p, Cntr_call c) =
     (struct_fid_cntr, ''ops'', struct_fi_ops_cntr, cntr_slot c, cntr_args p c, cntr_ret c)"
| "queue_target (p, Poll_call c) =
     (struct_fid_poll, ''ops'', struct_fi_ops_poll, poll_slot c, poll_args p c, poll_ret c)"

datatype control_call =
    Fid_call fid_call
  | Fabric_call fabric_call
  | Domain_call domain_call
  | Mr_call mr_call
  | Av_call av_call
  | Av_set_call av_set_call
  | Ep_call ep_call
  | Cm_call cm_call
  | Pcm_call pcm_call

fun control_run :: "'p provider \<Rightarrow> ptr \<times> control_call \<Rightarrow> 'p machine \<Rightarrow> (cval \<times> 'p machine) option" where
  "control_run P (p, Fid_call c) = fid_run P p c"
| "control_run P (p, Fabric_call c) = fabric_run P p c"
| "control_run P (p, Domain_call c) = domain_run P p c"
| "control_run P (p, Mr_call c) = mr_run P p c"
| "control_run P (p, Av_call c) = av_run P p c"
| "control_run P (p, Av_set_call c) = av_set_run P p c"
| "control_run P (p, Ep_call c) = ep_run P p c"
| "control_run P (p, Cm_call c) = cm_run P p c"
| "control_run P (p, Pcm_call c) = pcm_run P p c"

fun control_target :: "ptr \<times> control_call \<Rightarrow> fields \<times> string \<times> fields \<times> string \<times> cval list \<times> ctype" where
  "control_target (p, Fid_call c) = (struct_fid, ''ops'', struct_fi_ops, fid_slot c, fid_args p c, fid_ret c)"
| "control_target (p, Fabric_call c) =
     (struct_fid_fabric, ''ops'', struct_fi_ops_fabric, fabric_slot c, fabric_args p c, fabric_ret c)"
| "control_target (p, Domain_call c) =
     (struct_fid_domain, ''ops'', struct_fi_ops_domain, domain_slot c, domain_args p c, domain_ret c)"
| "control_target (p, Mr_call c) = (struct_fid_domain, ''mr'', struct_fi_ops_mr, mr_slot c, mr_args p c, mr_ret c)"
| "control_target (p, Av_call c) = (struct_fid_av, ''ops'', struct_fi_ops_av, av_slot c, av_args p c, av_ret c)"
| "control_target (p, Av_set_call c) =
     (struct_fid_av_set, ''ops'', struct_fi_ops_av_set, av_set_slot c, av_set_args p c, av_set_ret c)"
| "control_target (p, Ep_call c) = (struct_fid_ep, ''ops'', struct_fi_ops_ep, ep_slot c, ep_args p c, ep_ret c)"
| "control_target (p, Cm_call c) = (struct_fid_ep, ''cm'', struct_fi_ops_cm, cm_slot c, cm_args p c, cm_ret c)"
| "control_target (p, Pcm_call c) = (struct_fid_pep, ''cm'', struct_fi_ops_cm, pcm_slot c, pcm_args p c, pcm_ret c)"

text \<open>\<open>reaches P s p target v\<close>: the call reads the object's table in \<open>s\<close> and calls the function it
  finds there; without one (a null table or slot, an object that is not mapped) it is undefined.\<close>

definition reach :: "'p provider \<Rightarrow> ptr \<Rightarrow> fields \<times> string \<times> fields \<times> string \<times> cval list \<times> ctype \<Rightarrow>
    'p machine \<Rightarrow> (cval \<times> 'p machine) option" where
  "reach P p tgt s = (case tgt of (fs, tab, tfs, opn, args, ret) \<Rightarrow>
     (case meth s p fs tab tfs opn of
        None \<Rightarrow> None
      | Some f \<Rightarrow> (if f = NULL then None else invoke P f (sizeof ret) args s)))"

lemma reach_family:
  assumes "op_family run fs tab tfs slot args ret"
  shows "run P p c s = reach P p (fs, tab, tfs, slot c, args p c, ret c) s"
proof (cases "meth s p fs tab tfs (slot c)")
  case None
  then show ?thesis using op_family.absent [OF assms, of s p c P] by (simp add: reach_def)
next
  case (Some f)
  then show ?thesis
    using op_family.absent [OF assms, of s p c P] op_family.dispatch [OF assms Some]
    by (simp add: reach_def)
qed

lemma queue_reach: "queue_run P (p, c) s = reach P p (queue_target (p, c)) s"
  by (cases c)
    (simp_all add: reach_family [OF eq.op_family_axioms] reach_family [OF cq.op_family_axioms]
      reach_family [OF cntr.op_family_axioms] reach_family [OF poll.op_family_axioms])

lemma control_reach: "control_run P (p, c) s = reach P p (control_target (p, c)) s"
  by (cases c)
    (simp_all add: reach_family [OF fid.op_family_axioms] reach_family [OF fabric.op_family_axioms]
      reach_family [OF domain.op_family_axioms] reach_family [OF mr.op_family_axioms]
      reach_family [OF av.op_family_axioms] reach_family [OF av_set.op_family_axioms]
      reach_family [OF ep.op_family_axioms] reach_family [OF cm.op_family_axioms]
      reach_family [OF pcm.op_family_axioms])

subsection \<open>Checked calls\<close>

datatype checked_call =
    Fi_set_ops ptr u64 ptr ptr
  | Fi_cntr_adderr u64
  | Fi_cntr_seterr u64
  | Fi_av_set ptr ptr ptr
  | Fi_join ptr u64 ptr ptr
  | Fi_query_atomic u32 u32 ptr u64
  | Fi_query_collective u32 ptr u64

fun checked_run :: "'p provider \<Rightarrow> ptr \<Rightarrow> checked_call \<Rightarrow> 'p machine \<Rightarrow> (cval \<times> 'p machine) option" where
  "checked_run P p (Fi_set_ops nm flags opsp context) s = fi_set_ops P p nm flags opsp context s"
| "checked_run P p (Fi_cntr_adderr v) s = fi_cntr_adderr P p v s"
| "checked_run P p (Fi_cntr_seterr v) s = fi_cntr_seterr P p v s"
| "checked_run P p (Fi_av_set attr av_set context) s = fi_av_set P p attr av_set context s"
| "checked_run P p (Fi_join addr flags mc context) s = fi_join P p addr flags mc context s"
| "checked_run P p (Fi_query_atomic datatype opr attr flags) s = fi_query_atomic P p datatype opr attr flags s"
| "checked_run P p (Fi_query_collective coll attr flags) s = fi_query_collective P p coll attr flags s"

fun checked_target :: "ptr \<Rightarrow> checked_call \<Rightarrow> fields \<times> string \<times> fields \<times> string \<times> cval list" where
  "checked_target p (Fi_set_ops nm flags opsp context) =
     (struct_fid, ''ops'', struct_fi_ops, ''ops_set'', [V64 p, V64 nm, V64 flags, V64 opsp, V64 context])"
| "checked_target p (Fi_cntr_adderr v) =
     (struct_fid_cntr, ''ops'', struct_fi_ops_cntr, ''adderr'', [V64 p, V64 v])"
| "checked_target p (Fi_cntr_seterr v) =
     (struct_fid_cntr, ''ops'', struct_fi_ops_cntr, ''seterr'', [V64 p, V64 v])"
| "checked_target p (Fi_av_set attr av_set context) =
     (struct_fid_av, ''ops'', struct_fi_ops_av, ''av_set'', [V64 p, V64 attr, V64 av_set, V64 context])"
| "checked_target p (Fi_join addr flags mc context) =
     (struct_fid_ep, ''cm'', struct_fi_ops_cm, ''join'', [V64 p, V64 addr, V64 flags, V64 mc, V64 context])"
| "checked_target p (Fi_query_atomic datatype opr attr flags) =
     (struct_fid_domain, ''ops'', struct_fi_ops_domain, ''query_atomic'',
      [V64 p, V32 datatype, V32 opr, V64 attr, V64 flags])"
| "checked_target p (Fi_query_collective coll attr flags) =
     (struct_fid_domain, ''ops'', struct_fi_ops_domain, ''query_collective'',
      [V64 p, V32 coll, V64 attr, V64 flags])"

lemma checked_run_guarded:
  assumes "checked_target p c = (fs, tab, tfs, opn, args)"
    and "get64 s p fs tab = Some t" and "sized_table s t tfs"
  shows "checked_run P p c s = (case provided s t tfs opn of
      None \<Rightarrow> Some (enosys, s) | Some f \<Rightarrow> invoke P f 4 args s)"
proof (cases c)
  case (Fi_set_ops a b d e)
  then show ?thesis using assms fi_set_ops.guarded [of s "(p, a, b, d, e)" t P]
    by (auto split: option.split)
next
  case (Fi_cntr_adderr a)
  then show ?thesis using assms fi_cntr_adderr.guarded [of s "(p, a)" t P]
    by (auto split: option.split)
next
  case (Fi_cntr_seterr a)
  then show ?thesis using assms fi_cntr_seterr.guarded [of s "(p, a)" t P]
    by (auto split: option.split)
next
  case (Fi_av_set a b d)
  then show ?thesis using assms fi_av_set.guarded [of s "(p, a, b, d)" t P]
    by (auto split: option.split)
next
  case (Fi_join a b d e)
  then show ?thesis using assms fi_join.guarded [of s "(p, a, b, d, e)" t P]
    by (auto split: option.split)
next
  case (Fi_query_atomic a b d e)
  then show ?thesis using assms fi_query_atomic.guarded [of s "(p, a, b, d, e)" t P]
    by (auto split: option.split)
next
  case (Fi_query_collective a b d)
  then show ?thesis using assms fi_query_collective.guarded [of s "(p, a, b, d)" t P]
    by (auto split: option.split)
qed

text \<open>The check compares the size of the table with the start of the slot. For sizes that are
  whole slots (a provider says \<open>.size = sizeof(struct)\<close>) that is the end of the slot.\<close>

definition all_tables :: "fields list" where
  "all_tables =
     [struct_fi_ops, struct_fi_ops_fabric, struct_fi_ops_wait, struct_fi_ops_poll, struct_fi_ops_eq,
      struct_fi_ops_cq, struct_fi_ops_cntr, struct_fi_ops_av, struct_fi_ops_domain, struct_fi_ops_mr,
      struct_fi_ops_ep, struct_fi_ops_msg, struct_fi_ops_cm, struct_fi_ops_rma, struct_fi_ops_tagged,
      struct_fi_ops_atomic, struct_fi_ops_av_set, struct_fi_ops_collective]"

lemma all_tables_vtable: "tfs \<in> set all_tables \<Longrightarrow> vtable tfs"
  unfolding all_tables_def
  using ops.vtable_axioms ops_fabric.vtable_axioms ops_wait.vtable_axioms ops_poll.vtable_axioms
    ops_eq.vtable_axioms ops_cq.vtable_axioms ops_cntr.vtable_axioms ops_av.vtable_axioms
    ops_domain.vtable_axioms ops_mr.vtable_axioms ops_ep.vtable_axioms ops_msg.vtable_axioms
    ops_cm.vtable_axioms ops_rma.vtable_axioms ops_tagged.vtable_axioms ops_atomic.vtable_axioms
    ops_av_set.vtable_axioms ops_collective.vtable_axioms
  by auto

lemma slot_dvd: "tfs \<in> set all_tables \<Longrightarrow> proto tfs opn = Some (r, ps) \<Longrightarrow> 8 dvd offsetof tfs opn"
proof -
  assume "tfs \<in> set all_tables" and pr: "proto tfs opn = Some (r, ps)"
  obtain a where a: "member tfs opn = Some (a, Fn r ps)" using proto_member [OF pr] by blast
  from member_bounds [OF a] offsetof_member [OF a] show ?thesis by simp
qed

subsection \<open>Stores outside a frame\<close>

lemma assign_mem:
  "assign a v s = Some s' \<Longrightarrow>
    s' = s\<lparr>mem := (mem s)(a \<mapsto> Init v)\<rparr> \<and> a \<noteq> NULL \<and> map_option cell_bytes (mem s a) = Some (bytes v)"
  by (auto simp: assign_def st_def split: option.splits if_splits)

lemma assign_ok:
  "a \<noteq> NULL \<Longrightarrow> map_option cell_bytes (mem s a) = Some (bytes v) \<Longrightarrow>
    assign a v s = Some (s\<lparr>mem := (mem s)(a \<mapsto> Init v)\<rparr>)"
  by (auto simp: assign_def st_def)

lemma framed_assign:
  assumes f: "framed s1 s fs" and a: "assign a v s = Some s'"
  shows "\<exists>s1'. assign a v s1 = Some s1' \<and> framed s1' s' fs \<and> env s1' = env s1 \<and> sp s1' = sp s1 \<and> sp s' = sp s"
proof -
  have s': "s' = s\<lparr>mem := (mem s)(a \<mapsto> Init v)\<rparr>" and "a \<noteq> NULL" and c: "map_option cell_bytes (mem s a) = Some (bytes v)"
    using assign_mem [OF a] by auto
  have out: "a \<notin> frame_addrs (sp s) fs"
    using f c by (auto simp: framed_def)
  then have "map_option cell_bytes (mem s1 a) = Some (bytes v)" using f c by (simp add: framed_def)
  with \<open>a \<noteq> NULL\<close> have "assign a v s1 = Some (s1\<lparr>mem := (mem s1)(a \<mapsto> Init v)\<rparr>)" by (rule assign_ok)
  moreover have "framed (s1\<lparr>mem := (mem s1)(a \<mapsto> Init v)\<rparr>) s' fs"
  proof -
    have "sp s + of_nat b \<noteq> a" if "(b, n) \<in> set (leaves (Struct fs))" for b n
      using out that unfolding frame_addrs_iff by blast
    then have "mapped (s1\<lparr>mem := (mem s1)(a \<mapsto> Init v)\<rparr>) (sp s) fs"
      using f by (auto simp: framed_def mapped_def list_all_iff)
    then show ?thesis using f out by (auto simp: framed_def s')
  qed
  ultimately show ?thesis by (simp add: s')
qed

lemma deref64_assign: "assign a (V64 w) s = Some s' \<Longrightarrow> deref64 s' a = Some w"
  by (auto dest!: assign_mem simp: deref64_def ld_def)

subsection \<open>Control commands with a struct\<close>

text \<open>A \<open>control\<close> call made while a local is on the stack reaches the function the object had
  before.\<close>

lemma control_invoke:
  assumes "extends s1 s" and "meth s p struct_fid ''ops'' struct_fi_ops ''control'' = Some f" and "f \<noteq> NULL"
  shows "vcall P p struct_fid ''ops'' struct_fi_ops ''control'' [V64 p, V32 cmd, V64 a] s1 =
    invoke P f 4 [V64 p, V32 cmd, V64 a] s1"
proof -
  have m: "meth s1 p struct_fid ''ops'' struct_fi_ops ''control'' = Some f"
    by (rule extends_meth) (fact assms)+
  have "proto struct_fi_ops ''control'' = Some (CInt, [Ptr, CInt, Ptr])"
    by (simp add: proto_map_of structs)
  from vcall_invoke [OF m assms(3) this] show ?thesis by simp
qed

lemma control_local_call:
  assumes "local_call wrap loc vals (\<lambda>P x a. vcall P (obj x) struct_fid ''ops'' struct_fi_ops ''control''
      [V64 (obj x), V32 cmd, V64 a])"
    and "room loc s" and "meth s (obj x) struct_fid ''ops'' struct_fi_ops ''control'' = Some f" and "f \<noteq> NULL"
  shows "\<exists>s1. passes s1 s loc (vals x) \<and> wrap P x s = do {
      (v, s2) \<leftarrow> invoke P f 4 [V64 (obj x), V32 cmd, V64 (sp s)] s1; Some (v, pop (sp s) loc s2) }"
proof -
  obtain s1 where s1: "passes s1 s loc (vals x)"
      "wrap P x s = do { (v, s3) \<leftarrow> vcall P (obj x) struct_fid ''ops'' struct_fi_ops ''control''
        [V64 (obj x), V32 cmd, V64 (sp s)] s1; Some (v, pop (sp s) loc s3) }"
    using local_call.callee_sees [OF assms(1,2), of x P] by blast
  have "vcall P (obj x) struct_fid ''ops'' struct_fi_ops ''control'' [V64 (obj x), V32 cmd, V64 (sp s)] s1 =
      invoke P f 4 [V64 (obj x), V32 cmd, V64 (sp s)] s1"
    by (rule control_invoke [OF passes_extends [OF s1(1)] assms(3,4)])
  with s1 show ?thesis by auto
qed

subsection \<open>Aliases\<close>

lemma fi_alias_passes:
  assumes "room struct_fi_alias s" and "meth s fid struct_fid ''ops'' struct_fi_ops ''control'' = Some f"
    and "f \<noteq> NULL"
  shows "\<exists>s1. passes s1 s struct_fi_alias [(''fid'', V64 alias_fid), (''flags'', V64 flags)] \<and>
    fi_alias P fid alias_fid flags s = do {
      (v, s2) \<leftarrow> invoke P f 4 [V64 fid, V32 (fi_command_val FI_ALIAS), V64 (sp s)] s1;
      Some (v, pop (sp s) struct_fi_alias s2) }"
proof -
  obtain s1 where s1: "passes s1 s struct_fi_alias [(''fid'', V64 alias_fid), (''flags'', V64 flags)]"
      "fi_alias P fid alias_fid flags s = do {
        (v, s2) \<leftarrow> fi_control P fid (fi_command_val FI_ALIAS) (sp s) s1; Some (v, pop (sp s) struct_fi_alias s2) }"
    using fi_alias.callee_sees [OF assms(1), of "(fid, alias_fid, flags)" P] by auto
  with control_invoke [OF passes_extends [OF s1(1)] assms(2,3), of P "fi_command_val FI_ALIAS" "sp s"]
  show ?thesis by (auto simp: fi_control_def)
qed

text \<open>What a provider does on \<open>FI_ALIAS\<close>: it makes a second descriptor, stores a pointer to it where
  the \<open>fid\<close> member of the argument points, and returns 0; or it returns an error.\<close>

definition alias_server :: "'p provider \<Rightarrow> ptr \<Rightarrow> ptr \<Rightarrow> u32 \<Rightarrow> ptr \<Rightarrow> bool" where
  "alias_server P f fid ret copy \<longleftrightarrow> (\<forall>s a. P f [V64 fid, V32 (fi_command_val FI_ALIAS), V64 a] s =
     (if ret = 0
      then do { out \<leftarrow> get64 s a struct_fi_alias ''fid''; s' \<leftarrow> assign out (V64 copy) s; Some (V32 0, s') }
      else Some (V32 ret, s)))"

lemma fi_alias_effect:
  assumes "room struct_fi_alias s" and "meth s fid struct_fid ''ops'' struct_fi_ops ''control'' = Some f"
    and "f \<noteq> NULL" and srv: "alias_server P f fid ret copy" and a: "assign alias_fid (V64 copy) s = Some s'"
  shows "fi_alias P fid alias_fid flags s = Some (V32 ret, if ret = 0 then s' else s)"
proof -
  obtain s1 where p: "passes s1 s struct_fi_alias [(''fid'', V64 alias_fid), (''flags'', V64 flags)]"
    and e: "fi_alias P fid alias_fid flags s = do {
      (v, s2) \<leftarrow> invoke P f 4 [V64 fid, V32 (fi_command_val FI_ALIAS), V64 (sp s)] s1;
      Some (v, pop (sp s) struct_fi_alias s2) }"
    using fi_alias_passes [OF assms(1-3)] by blast
  have f: "framed s1 s struct_fi_alias" "env s1 = env s" using p by (simp_all add: passes_def)
  have g: "get64 s1 (sp s) struct_fi_alias ''fid'' = Some alias_fid"
    using passes_get [OF p] by (simp add: get64_def)
  show ?thesis
  proof (cases "ret = 0")
    case True
    obtain s1' where s1': "assign alias_fid (V64 copy) s1 = Some s1'" "framed s1' s' struct_fi_alias"
        "env s1' = env s1" "sp s' = sp s"
      using framed_assign [OF f(1) a] by blast
    have "invoke P f 4 [V64 fid, V32 (fi_command_val FI_ALIAS), V64 (sp s)] s1 = Some (V32 0, s1')"
      using srv True g s1'(1) by (simp add: invoke_def alias_server_def)
    moreover have "pop (sp s) struct_fi_alias s1' = s'"
      using pop_framed [OF s1'(2)] s1'(3,4) f(2) assign_env [OF a] by simp
    ultimately show ?thesis using True e by simp
  next
    case False
    have "invoke P f 4 [V64 fid, V32 (fi_command_val FI_ALIAS), V64 (sp s)] s1 = Some (V32 ret, s1)"
      using srv False by (simp add: invoke_def alias_server_def)
    moreover have "pop (sp s) struct_fi_alias s1 = s" using pop_framed [OF f(1)] f(2) by simp
    ultimately show ?thesis using False e by simp
  qed
qed

lemma fid_local_leaves: "leaves (Struct fid_local) = [(0, 8)]"
  by (simp add: fid_local_def layout_simps)

lemma fid_local_size: "sizeof (Struct fid_local) = 8"
  by (simp add: fid_local_def layout_simps)

lemma fi_ep_alias_effect:
  assumes room: "room fid_local s" "room struct_fi_alias (s\<lparr>sp := sp s + 16\<rparr>)"
    and m: "meth s ep struct_fid ''ops'' struct_fi_ops ''control'' = Some f" "f \<noteq> NULL"
    and srv: "alias_server P f ep ret copy" and a: "assign alias_ep (V64 copy) s = Some s'"
  shows "fi_ep_alias P ep alias_ep flags s = Some (V32 ret, if ret = 0 then s' else s)"
proof -
  have small: "small fid_local" unfolding small_def fid_local_size by simp
  obtain s1 where s1: "push fid_local s = Some (sp s, s1)" using room(1) by (simp add: push_def)
  have f1: "framed s1 s fid_local" "env s1 = env s" using push_framed [OF s1 small] by auto
  have "roundup 8 16 = 16" by (simp add: roundup_def)
  then have sp1: "sp s1 = sp s + 16"
    using s1 room(1) unfolding push_def fid_local_size by auto
  have cell: "map_option cell_bytes (mem s1 (sp s)) = Some 8" and nn: "sp s \<noteq> NULL"
    using f1(1) unfolding framed_def mapped_def fid_local_leaves by auto
  have only: "x \<noteq> sp s \<Longrightarrow> mem s1 x = mem s x" for x
    using f1(1) unfolding framed_def frame_addrs_iff fid_local_leaves by auto
  have room1: "room struct_fi_alias s1"
  proof -
    have "x \<noteq> sp s" if "x \<in> frame_addrs (sp s + 16) struct_fi_alias" for x
    proof -
      have "frame_addrs (sp s + 16) struct_fi_alias = {sp s + 16, sp s + 24}"
        by (simp add: frame_def structs layout_simps add.commute)
      with that have "x = sp s + 16 \<or> x = sp s + 24" by blast
      then show ?thesis by auto
    qed
    then show ?thesis using room(2) only unfolding room_def sp1 by (fastforce simp: list_all_iff)
  qed
  have m1: "meth s1 ep struct_fid ''ops'' struct_fi_ops ''control'' = Some f"
    by (rule extends_meth [OF framed_extends [OF f1(1)] m(1)])
  let ?s1 = "s1\<lparr>mem := (mem s1)(sp s \<mapsto> Init (V64 copy))\<rparr>"
  have a1: "assign (sp s) (V64 copy) s1 = Some ?s1" by (rule assign_ok) (use cell nn in auto)
  have al: "fi_alias P ep (sp s) flags s1 = Some (V32 ret, if ret = 0 then ?s1 else s1)"
    by (rule fi_alias_effect [OF room1 m1 m(2) srv a1])
  show ?thesis
  proof (cases "ret = 0")
    case False
    then show ?thesis
      using s1 al pop_framed [OF f1(1)] f1(2) by (simp add: fi_ep_alias_def fid_ep.upcast)
  next
    case True
    have "framed ?s1 s fid_local"
      using f1(1) unfolding framed_def mapped_def frame_addrs_iff fid_local_leaves by auto
    from framed_assign [OF this a] obtain s2 where
      s2: "assign alias_ep (V64 copy) ?s1 = Some s2" "framed s2 s' fid_local" "env s2 = env ?s1" "sp s' = sp s"
      by blast
    have "pop (sp s) fid_local s2 = s'"
      using pop_framed [OF s2(2)] s2(3,4) f1(2) assign_env [OF a] by simp
    then show ?thesis
      using True s1 al s2(1) deref64_assign [OF a1]
      by (simp add: fi_ep_alias_def fid_ep.upcast fid_ep.downcast)
  qed
qed

subsection \<open>Refreshing a memory region\<close>

lemma fi_mr_refresh_passes:
  assumes room: "room struct_fi_mr_modify s"
    and m: "meth s mr struct_fid ''ops'' struct_fi_ops ''control'' = Some f" "f \<noteq> NULL"
  shows "\<exists>s1. framed s1 s struct_fi_mr_modify \<and> env s1 = env s \<and>
    get s1 (sp s) struct_fi_mr_modify ''flags'' = Some (V64 flags) \<and>
    get s1 (addr_of (sp s) struct_fi_mr_modify ''attr'') struct_fi_mr_attr ''mr_iov'' = Some (V64 iov) \<and>
    get s1 (addr_of (sp s) struct_fi_mr_modify ''attr'') struct_fi_mr_attr ''iov_count'' = Some (V64 cnt) \<and>
    list_all (\<lambda>(a, n). a \<in> {0, 8, 16} \<or> mem s1 (sp s + of_nat a) = Some (Init (zero_cval n)))
      (leaves (Struct struct_fi_mr_modify)) \<and>
    fi_mr_refresh P mr iov cnt flags s = do {
      (v, s2) \<leftarrow> invoke P f 4 [V64 mr, V32 (fi_command_val FI_REFRESH), V64 (sp s)] s1;
      Some (v, pop (sp s) struct_fi_mr_modify s2) }"
proof -
  let ?M = "struct_fi_mr_modify" and ?A = "struct_fi_mr_attr" and ?p = "sp s"
  let ?q = "addr_of ?p ?M ''attr''"
  have mem: "member ?M ''attr'' = Some (8, Struct ?A)" by code_simp
  have flags0: "member ?M ''flags'' = Some (0, U64)" by code_simp
  have iov0: "member ?A ''mr_iov'' = Some (0, Ptr)" by code_simp
  have cnt0: "member ?A ''iov_count'' = Some (8, U64)" by code_simp
  have small: "small ?M" by (simp add: small_def structs layout_simps)
  have smallA: "small ?A" by (rule small_nested [OF mem small])
  have ok: "member_ok ?M ''flags'' (V64 w)" "member_ok ?A ''mr_iov'' (V64 w)" "member_ok ?A ''iov_count'' (V64 w)" for w
    by (simp_all add: member_ok_def structs)
  have q: "?q \<noteq> NULL" by (rule room_nested_NULL [OF room mem])
  have p: "?p \<noteq> NULL" using room by (simp add: room_def)
  obtain s1 s2 where s2: "push ?M s = Some (?p, s1)" "memset0 ?p ?M s1 = Some s2" "framed s2 s ?M"
      "env s2 = env s" "zeroed s2 ?p ?M"
    using push_memset0 [OF room small] by blast
  define s3 where "s3 = upd ?p ?M ''flags'' (V64 flags) s2"
  define s4 where "s4 = upd ?q ?A ''mr_iov'' (V64 iov) s3"
  define s5 where "s5 = upd ?q ?A ''iov_count'' (V64 cnt) s4"
  have f3: "framed s3 s ?M" unfolding s3_def by (rule upd_framed [OF s2(3) ok(1) small])
  have f4: "framed s4 s ?M" unfolding s4_def by (rule upd_nested_framed [OF f3 mem ok(2) small])
  have f5: "framed s5 s ?M" unfolding s5_def by (rule upd_nested_framed [OF f4 mem ok(3) small])
  have mp: "mapped t ?p ?M" if "framed t s ?M" for t using that by (simp add: framed_def)
  have mq: "mapped t ?q ?A" if "framed t s ?M" for t by (rule mapped_nested [OF mp [OF that] mem q])
  have p3: "put ?p ?M ''flags'' (V64 flags) s2 = Some s3"
    unfolding s3_def by (rule mapped_put [OF mp [OF s2(3)] ok(1)])
  have p4: "put ?q ?A ''mr_iov'' (V64 iov) s3 = Some s4"
    unfolding s4_def by (rule mapped_put [OF mq [OF f3] ok(2)])
  have p5: "put ?q ?A ''iov_count'' (V64 cnt) s4 = Some s5"
    unfolding s5_def by (rule mapped_put [OF mq [OF f4] ok(3)])
  have "get s5 ?p ?M ''flags'' = Some (V64 flags)"
    unfolding s5_def s4_def get_upd_nested [OF mem ok(3) _ small, of "''flags''", simplified]
      get_upd_nested [OF mem ok(2) _ small, of "''flags''", simplified] s3_def
    by (simp add: get_upd [OF p ok(1) small])
  moreover have "get s5 ?q ?A ''mr_iov'' = Some (V64 iov)"
    unfolding s5_def s4_def by (simp add: get_upd [OF q ok(3) smallA] get_upd [OF q ok(2) smallA])
  moreover have "get s5 ?q ?A ''iov_count'' = Some (V64 cnt)"
    unfolding s5_def by (simp add: get_upd [OF q ok(3) smallA])
  moreover have "a \<in> {0, 8, 16} \<or> mem s5 (?p + of_nat a) = Some (Init (zero_cval n))"
    if "(a, n) \<in> set (leaves (Struct ?M))" for a n
  proof (rule disjCI)
    assume "\<not> mem s5 (?p + of_nat a) = Some (Init (zero_cval n))"
    moreover have "mem s2 (?p + of_nat a) = Some (Init (zero_cval n))"
      using s2(5) that by (auto simp: zeroed_def list_all_iff)
    ultimately have "?p + of_nat a \<in> {addr_of ?p ?M ''flags'', addr_of ?q ?A ''mr_iov'', addr_of ?q ?A ''iov_count''}"
      by (auto simp: s5_def s4_def s3_def upd_def split: if_splits)
    then have "?p + of_nat a = ?p + of_nat 0 \<or> ?p + of_nat a = ?p + of_nat 8 \<or> ?p + of_nat a = ?p + (of_nat 16 :: ptr)"
      unfolding nested_addr [OF mem iov0] nested_addr [OF mem cnt0] addr_of_member [OF flags0] by simp
    moreover have "a < 2 ^ 64" using leaves_bounds [OF that] small unfolding small_def by linarith
    ultimately show "a \<in> {0, 8, 16}"
      using ptr_add_eq_iff [of a 0 ?p] ptr_add_eq_iff [of a 8 ?p] ptr_add_eq_iff [of a 16 ?p] by auto
  qed
  moreover have "fi_mr_refresh P mr iov cnt flags s = do {
      (v, s6) \<leftarrow> invoke P f 4 [V64 mr, V32 (fi_command_val FI_REFRESH), V64 ?p] s5; Some (v, pop ?p ?M s6) }"
    unfolding fi_mr_refresh_def
    by (simp add: s2(1,2) p3 p4 p5 fid_mr.upcast control_invoke [OF framed_extends [OF f5] m])
  moreover have "env s5 = env s" by (simp add: s5_def s4_def s3_def s2(4))
  ultimately show ?thesis using f5 by (intro exI [of _ s5]) (auto simp only: list_all_iff)
qed

subsection \<open>Which operations have a call\<close>

definition operations :: "fields \<Rightarrow> string set" where
  "operations tfs = fst ` set (tl tfs)"

lemma range_slots: "(\<And>c. f c \<in> S) \<Longrightarrow> (\<And>n. n \<in> S \<Longrightarrow> \<exists>c. f c = n) \<Longrightarrow> range f = S"
  unfolding image_def by blast

lemma msg_slots: "range msg_slot = operations struct_fi_ops_msg"
proof (rule range_slots)
  show "msg_slot c \<in> operations struct_fi_ops_msg" for c
    by (cases c) (simp_all add: operations_def structs)
  show "\<exists>c. msg_slot c = n" if "n \<in> operations struct_fi_ops_msg" for n
    using that by (auto simp: operations_def structs) (metis msg_slot.simps)+
qed

lemma tagged_slots: "range tagged_slot = operations struct_fi_ops_tagged"
proof (rule range_slots)
  show "tagged_slot c \<in> operations struct_fi_ops_tagged" for c
    by (cases c) (simp_all add: operations_def structs)
  show "\<exists>c. tagged_slot c = n" if "n \<in> operations struct_fi_ops_tagged" for n
    using that by (auto simp: operations_def structs) (metis tagged_slot.simps)+
qed

lemma rma_slots: "range rma_slot = operations struct_fi_ops_rma"
proof (rule range_slots)
  show "rma_slot c \<in> operations struct_fi_ops_rma" for c
    by (cases c) (simp_all add: operations_def structs)
  show "\<exists>c. rma_slot c = n" if "n \<in> operations struct_fi_ops_rma" for n
    using that by (auto simp: operations_def structs) (metis rma_slot.simps)+
qed

lemma atomic_slots: "range atomic_slot = operations struct_fi_ops_atomic"
proof (rule range_slots)
  show "atomic_slot c \<in> operations struct_fi_ops_atomic" for c
    by (cases c) (simp_all add: operations_def structs)
  show "\<exists>c. atomic_slot c = n" if "n \<in> operations struct_fi_ops_atomic" for n
    using that by (auto simp: operations_def structs) (metis atomic_slot.simps)+
qed

lemma fabric_slots: "range fabric_slot = operations struct_fi_ops_fabric"
proof (rule range_slots)
  show "fabric_slot c \<in> operations struct_fi_ops_fabric" for c
    by (cases c) (simp_all add: operations_def structs)
  show "\<exists>c. fabric_slot c = n" if "n \<in> operations struct_fi_ops_fabric" for n
    using that by (auto simp: operations_def structs) (metis fabric_slot.simps)+
qed

lemma mr_slots: "range mr_slot = operations struct_fi_ops_mr"
proof (rule range_slots)
  show "mr_slot c \<in> operations struct_fi_ops_mr" for c
    by (cases c) (simp_all add: operations_def structs)
  show "\<exists>c. mr_slot c = n" if "n \<in> operations struct_fi_ops_mr" for n
    using that by (auto simp: operations_def structs) (metis mr_slot.simps)+
qed

lemma av_set_slots: "range av_set_slot = operations struct_fi_ops_av_set"
proof (rule range_slots)
  show "av_set_slot c \<in> operations struct_fi_ops_av_set" for c
    by (cases c) (simp_all add: operations_def structs)
  show "\<exists>c. av_set_slot c = n" if "n \<in> operations struct_fi_ops_av_set" for n
    using that by (auto simp: operations_def structs) (metis av_set_slot.simps)+
qed

lemma ep_slots: "range ep_slot = operations struct_fi_ops_ep"
proof (rule range_slots)
  show "ep_slot c \<in> operations struct_fi_ops_ep" for c
    by (cases c) (simp_all add: operations_def structs)
  show "\<exists>c. ep_slot c = n" if "n \<in> operations struct_fi_ops_ep" for n
    using that by (auto simp: operations_def structs) (metis ep_slot.simps)+
qed

lemma eq_slots: "range eq_slot = operations struct_fi_ops_eq"
proof (rule range_slots)
  show "eq_slot c \<in> operations struct_fi_ops_eq" for c
    by (cases c) (simp_all add: operations_def structs)
  show "\<exists>c. eq_slot c = n" if "n \<in> operations struct_fi_ops_eq" for n
    using that by (auto simp: operations_def structs) (metis eq_slot.simps)+
qed

lemma cq_slots: "range cq_slot = operations struct_fi_ops_cq"
proof (rule range_slots)
  show "cq_slot c \<in> operations struct_fi_ops_cq" for c
    by (cases c) (simp_all add: operations_def structs)
  show "\<exists>c. cq_slot c = n" if "n \<in> operations struct_fi_ops_cq" for n
    using that by (auto simp: operations_def structs) (metis cq_slot.simps)+
qed

lemma poll_slots: "range poll_slot = operations struct_fi_ops_poll"
proof (rule range_slots)
  show "poll_slot c \<in> operations struct_fi_ops_poll" for c
    by (cases c) (simp_all add: operations_def structs)
  show "\<exists>c. poll_slot c = n" if "n \<in> operations struct_fi_ops_poll" for n
    using that by (auto simp: operations_def structs) (metis poll_slot.simps)+
qed

lemma collective_slots: "range collective_slot =
     {''barrier'', ''broadcast'', ''alltoall'', ''allreduce'', ''allgather'', ''reduce_scatter'',
      ''reduce'', ''scatter'', ''gather''}"
proof (rule range_slots)
  show "collective_slot c \<in> {''barrier'', ''broadcast'', ''alltoall'', ''allreduce'', ''allgather'', ''reduce_scatter'',
      ''reduce'', ''scatter'', ''gather''}" for c by (cases c) simp_all
  show "\<exists>c. collective_slot c = n" if "n \<in> {''barrier'', ''broadcast'', ''alltoall'', ''allreduce'', ''allgather'', ''reduce_scatter'',
      ''reduce'', ''scatter'', ''gather''}" for n
    using that by (elim insertE emptyE) (metis collective_slot.simps)+
qed
lemma domain_slots: "range domain_slot =
     {''av_open'', ''cq_open'', ''endpoint'', ''scalable_ep'', ''cntr_open'', ''poll_open'',
      ''stx_ctx'', ''srx_ctx''}"
proof (rule range_slots)
  show "domain_slot c \<in> {''av_open'', ''cq_open'', ''endpoint'', ''scalable_ep'', ''cntr_open'', ''poll_open'',
      ''stx_ctx'', ''srx_ctx''}" for c by (cases c) simp_all
  show "\<exists>c. domain_slot c = n" if "n \<in> {''av_open'', ''cq_open'', ''endpoint'', ''scalable_ep'', ''cntr_open'', ''poll_open'',
      ''stx_ctx'', ''srx_ctx''}" for n
    using that by (elim insertE emptyE) (metis domain_slot.simps)+
qed
lemma av_slots: "range av_slot =
     {''insert'', ''insertsvc'', ''insertsym'', ''remove'', ''lookup'', ''straddr''}"
proof (rule range_slots)
  show "av_slot c \<in> {''insert'', ''insertsvc'', ''insertsym'', ''remove'', ''lookup'', ''straddr''}" for c by (cases c) simp_all
  show "\<exists>c. av_slot c = n" if "n \<in> {''insert'', ''insertsvc'', ''insertsym'', ''remove'', ''lookup'', ''straddr''}" for n
    using that by (elim insertE emptyE) (metis av_slot.simps)+
qed
lemma cntr_slots: "range cntr_slot =
     {''read'', ''readerr'', ''add'', ''set'', ''wait''}"
proof (rule range_slots)
  show "cntr_slot c \<in> {''read'', ''readerr'', ''add'', ''set'', ''wait''}" for c by (cases c) simp_all
  show "\<exists>c. cntr_slot c = n" if "n \<in> {''read'', ''readerr'', ''add'', ''set'', ''wait''}" for n
    using that by (elim insertE emptyE) (metis cntr_slot.simps)+
qed
lemma fid_slots: "range fid_slot =
     {''close'', ''bind'', ''control'', ''ops_open''}"
proof (rule range_slots)
  show "fid_slot c \<in> {''close'', ''bind'', ''control'', ''ops_open''}" for c by (cases c) simp_all
  show "\<exists>c. fid_slot c = n" if "n \<in> {''close'', ''bind'', ''control'', ''ops_open''}" for n
    using that by (elim insertE emptyE) (metis fid_slot.simps)+
qed
lemma pcm_slots: "range pcm_slot =
     {''listen'', ''reject''}"
proof (rule range_slots)
  show "pcm_slot c \<in> {''listen'', ''reject''}" for c by (cases c) simp_all
  show "\<exists>c. pcm_slot c = n" if "n \<in> {''listen'', ''reject''}" for n
    using that by (elim insertE emptyE) (metis pcm_slot.simps)+
qed
lemma cm_slots: "range cm_slot =
     {''setname'', ''getname'', ''getpeer'', ''connect'', ''accept'', ''shutdown''}"
proof (rule range_slots)
  show "cm_slot c \<in> {''setname'', ''getname'', ''getpeer'', ''connect'', ''accept'', ''shutdown''}" for c by (cases c) simp_all
  show "\<exists>c. cm_slot c = n" if "n \<in> {''setname'', ''getname'', ''getpeer'', ''connect'', ''accept'', ''shutdown''}" for n
    using that by (elim insertE emptyE) (metis cm_slot.simps)+
qed
subsection \<open>Checked calls under a frame\<close>

lemma extends_table:
  assumes ext: "extends s1 s" and sized: "sized_table s t tfs" and pr: "proto tfs opn = Some (r, ps)"
  shows "sized_table s1 t tfs \<and> provided s1 t tfs opn = provided s t tfs opn"
proof (cases "t = NULL")
  case True
  then show ?thesis by (simp add: sized_table_def provided_def)
next
  case False
  with sized obtain n where n: "get64 s t tfs ''size'' = Some n" and
    all: "list_all (\<lambda>(opn, a, u). is_fn u \<longrightarrow> a < unat n \<longrightarrow> get64 s t tfs opn \<noteq> None) (layout 0 tfs)"
    by (auto simp: sized_table_def split: option.splits)
  note get = extends_get64 [OF ext]
  have n1: "get64 s1 t tfs ''size'' = Some n" by (rule get [OF n])
  have "list_all (\<lambda>(opn, a, u). is_fn u \<longrightarrow> a < unat n \<longrightarrow> get64 s1 t tfs opn \<noteq> None) (layout 0 tfs)"
    using all get by (fastforce simp: list_all_iff)
  moreover obtain a where a: "member tfs opn = Some (a, Fn r ps)" using proto_member [OF pr] by blast
  then have "(opn, a, Fn r ps) \<in> set (layout 0 tfs)" "offsetof tfs opn = a"
    by (auto intro: member_in_layout offsetof_member)
  then have "offsetof tfs opn < unat n \<Longrightarrow> \<exists>f. get64 s t tfs opn = Some f \<and> get64 s1 t tfs opn = Some f"
    using all get by (fastforce simp: list_all_iff)
  ultimately show ?thesis using False n n1 by (auto simp: sized_table_def provided_def)
qed

lemma fi_join_collective_passes:
  assumes room: "room struct_fi_collective_addr s"
    and t: "get64 s ep struct_fid_ep ''cm'' = Some t" and sized: "sized_table s t struct_fi_ops_cm"
  shows "\<exists>s1. passes s1 s struct_fi_collective_addr [(''set'', V64 av_set), (''coll_addr'', V64 coll_addr)] \<and>
    fi_join_collective P ep coll_addr av_set flags mc context s =
      (case provided s t struct_fi_ops_cm ''join'' of
         None \<Rightarrow> Some (enosys, s)
       | Some f \<Rightarrow> do {
           (v, s2) \<leftarrow> invoke P f 4 [V64 ep, V64 (sp s), V64 (flags OR FI_COLLECTIVE), V64 mc, V64 context] s1;
           Some (v, pop (sp s) struct_fi_collective_addr s2) })"
proof -
  let ?loc = "struct_fi_collective_addr"
  obtain s1 where p: "passes s1 s ?loc [(''set'', V64 av_set), (''coll_addr'', V64 coll_addr)]"
    and e: "fi_join_collective P ep coll_addr av_set flags mc context s = do {
      (v, s2) \<leftarrow> fi_join P ep (sp s) (flags OR FI_COLLECTIVE) mc context s1; Some (v, pop (sp s) ?loc s2) }"
    using fi_join_collective.callee_sees [OF room, of "(ep, coll_addr, av_set, flags, mc, context)" P] by auto
  have ext: "extends s1 s" by (rule passes_extends [OF p])
  have pr: "proto struct_fi_ops_cm ''join'' = Some (CInt, [Ptr, Ptr, U64, Ptr, Ptr])"
    by (simp add: proto_map_of structs)
  note tab = extends_table [OF ext sized pr]
  have t1: "get64 s1 ep struct_fid_ep ''cm'' = Some t" by (rule extends_get64 [OF ext t])
  have j: "fi_join P ep (sp s) (flags OR FI_COLLECTIVE) mc context s1 =
      (case provided s t struct_fi_ops_cm ''join'' of
         None \<Rightarrow> Some (enosys, s1)
       | Some f \<Rightarrow> invoke P f 4 [V64 ep, V64 (sp s), V64 (flags OR FI_COLLECTIVE), V64 mc, V64 context] s1)"
    using checked_run_guarded [of ep "Fi_join (sp s) (flags OR FI_COLLECTIVE) mc context" _ _ _ _ _ s1 t P] t1 tab
    by simp
  have "pop (sp s) ?loc s1 = s" using p pop_framed [of s1 s ?loc] by (simp add: passes_def)
  with p e j show ?thesis by (intro exI [of _ s1]) (simp split: option.split)
qed

subsection \<open>Properties\<close>

text \<open>A machine with an endpoint whose tables are full, for the examples: an endpoint at 0x1000 with
  its tables at round addresses above; slot \<open>op\<close> of a table holds the address after its own.\<close>

definition example_cells :: "(ptr \<times> cval) list" where
  "example_cells = (0x800, V64 0) #
     object 0x1000 struct_fid_ep [(''ops'', V64 0x1800), (''cm'', V64 0x2000), (''msg'', V64 0x3000),
       (''rma'', V64 0x4000), (''tagged'', V64 0x5000), (''atomic'', V64 0x6000), (''collective'', V64 0x7000)] @
     object 0x1000 struct_fid [(''fclass'', V64 3), (''context'', V64 0), (''ops'', V64 0x1400)] @
     [(0x2000, V64 (of_nat (sizeof (Struct struct_fi_ops_cm))))]"

definition example_machine :: "unit machine" where
  "example_machine = \<lparr>mem = (\<lambda>a. case map_of example_cells a of
       Some v \<Rightarrow> Some (Init v)
     | None \<Rightarrow> (if 0x1400 \<le> a \<and> a < 0x8000 then Some (Init (V64 (a + 1))) else None)), sp = 0x9000, env = ()\<rparr>"

definition example_slot :: "string \<Rightarrow> string \<Rightarrow> ptr" where
  "example_slot tab opn = 1 +
     (if tab = ''msg'' then addr_of 0x3000 struct_fi_ops_msg opn
      else if tab = ''rma'' then addr_of 0x4000 struct_fi_ops_rma opn
      else if tab = ''tagged'' then addr_of 0x5000 struct_fi_ops_tagged opn
      else if tab = ''atomic'' then addr_of 0x6000 struct_fi_ops_atomic opn
      else addr_of 0x7000 struct_fi_ops_collective opn)"

lemma example_sp: "sp example_machine = 0x9000"
  by (simp add: example_machine_def)

lemma example_roomI:
  "sizeof (Struct fs) < 2 ^ 63 \<Longrightarrow> list_all (\<lambda>(a, c). mem example_machine a = None) (frame 0x9000 fs) \<Longrightarrow>
    room fs example_machine"
  by (simp add: room_def example_sp)

lemma example_room:
  "room struct_fi_mr_raw_attr example_machine" "room struct_fi_mr_map_raw example_machine"
  "room key_param example_machine" "room struct_fi_mr_modify example_machine"
  "room struct_fi_collective_addr example_machine" "room fid_local example_machine"
  by (rule example_roomI, simp add: key_param_def fid_local_def structs layout_simps, code_simp)+

lemma example_room_above: "room struct_fi_alias (example_machine\<lparr>sp := sp example_machine + 16\<rparr>)"
proof -
  have "list_all (\<lambda>(a, c). mem example_machine a = None) (frame 0x9010 struct_fi_alias)" by code_simp
  moreover have "sizeof (Struct struct_fi_alias) = 16" by (simp add: structs layout_simps)
  ultimately show ?thesis by (simp add: room_def example_sp del: sizeof.simps)
qed

text \<open>C1. A program of data transfer calls (messages, tagged messages, remote memory access,
  atomics, collectives) on an endpoint whose tables are full behaves, result for result and
  state for state, as its specification: each call invokes the function in the documented slot
  of the documented table with the documented arguments, whatever the provider does, as long as
  it leaves the tables in place.\<close>

theorem transfer_programs:
  assumes "stable P (transfer_tables M p)" and "transfer_tables M p s"
  shows "run_all (transfer_run P p) cs s = run_all (transfer_spec P M p) cs s"
proof (rule run_all_cong [where I = "transfer_tables M p"])
  show "transfer_tables M p s" by (fact assms(2))
  show "transfer_run P p c s = transfer_spec P M p c s" if "transfer_tables M p s" for c s
    using that by (rule transfer_run_spec)
  show "transfer_tables M p s'" if "transfer_tables M p s" "transfer_spec P M p c s = Some (v, s')" for c s v s'
    using transfer_spec_stable [OF assms(1) that] .
qed

theorem transfer_programs_witness:
  "run_all (transfer_run (\<lambda>f args s. Some (V64 f, s)) 0x1000)
      [Msg_call (Fi_recv 0x10 8 0 0 0), Tagged_call (Fi_tsend 0x10 8 0 0 7 0), Rma_call (Fi_read 0x10 8 0 0 0x40 1 0)]
      example_machine =
    Some ([V64 0x3009, V64 0x5021, V64 0x4009], example_machine)"
proof -
  have "transfer_tables example_slot 0x1000 example_machine"
    unfolding transfer_tables_def by (intro conjI; code_simp)
  moreover have "stable (\<lambda>f args s. Some (V64 f, s)) (transfer_tables example_slot 0x1000)"
    by (simp add: stable_def)
  ultimately have "run_all (transfer_run (\<lambda>f args s. Some (V64 f, s)) 0x1000)
      [Msg_call (Fi_recv 0x10 8 0 0 0), Tagged_call (Fi_tsend 0x10 8 0 0 7 0), Rma_call (Fi_read 0x10 8 0 0 0x40 1 0)]
      example_machine =
    run_all (transfer_spec (\<lambda>f args s. Some (V64 f, s)) example_slot 0x1000)
      [Msg_call (Fi_recv 0x10 8 0 0 0), Tagged_call (Fi_tsend 0x10 8 0 0 7 0), Rma_call (Fi_read 0x10 8 0 0 0x40 1 0)]
      example_machine"
    by (intro transfer_programs) auto
  also have "\<dots> = Some ([V64 0x3009, V64 0x5021, V64 0x4009], example_machine)"
    by (simp add: invoke_def example_slot_def addr_of_def structs layout_simps)
  finally show ?thesis .
qed

text \<open>C27. Every other direct call, on queues, counters and poll sets and on the control objects
  (descriptors, fabrics, domains, memory regions, address vectors, sets of peers, endpoints and
  their connections), reaches exactly the operation of its table, with the object as the first
  argument, and has no defined result where the table or the slot is missing.\<close>

theorem object_calls:
  "queue_run P (p, q) s = reach P p (queue_target (p, q)) s \<and>
    control_run P (p, c) s = reach P p (control_target (p, c)) s"
  by (simp add: queue_reach control_reach)

text \<open>C4. The calls guarded by \<open>FI_CHECK_OP\<close> are total on every table, null, truncated or full: they
  call the operation when the table provides it and return \<open>-FI_ENOSYS\<close>, changing nothing, when
  it does not.\<close>

theorem checked_calls:
  assumes "checked_target p c = (fs, tab, tfs, opn, args)" and "get64 s p fs tab = Some t"
    and "sized_table s t tfs"
  shows "checked_run P p c s = (case provided s t tfs opn of
      None \<Rightarrow> Some (enosys, s) | Some f \<Rightarrow> invoke P f 4 args s)"
  by (rule checked_run_guarded) (fact assms)+

text \<open>A counter of a provider from before the error counters: its table ends at \<open>wait\<close>.\<close>

definition example_counter :: "unit machine" where
  "example_counter = boot (object 0x1000 struct_fid_cntr [(''ops'', V64 0x2000)] @
     object 0x2000 struct_fi_ops_cntr [(''size'', V64 48), (''read'', V64 0x11), (''readerr'', V64 0x12),
       (''add'', V64 0x13), (''set'', V64 0x14), (''wait'', V64 0x15)]) 0x9000 ()"

theorem checked_calls_witness:
  "checked_run (\<lambda>f args s. Some (V32 7, s)) 0x1000 (Fi_cntr_adderr 5) example_counter = Some (enosys, example_counter) \<and>
    checked_run (\<lambda>f args s. Some (V32 7, s)) 0x1000 (Fi_join 0x10 0 0x20 0) example_machine =
      Some (V32 7, example_machine)"
proof
  have "get64 example_counter 0x1000 struct_fid_cntr ''ops'' = Some 0x2000" by code_simp
  moreover have "sized_table example_counter 0x2000 struct_fi_ops_cntr" by code_simp
  moreover have "provided example_counter 0x2000 struct_fi_ops_cntr ''adderr'' = None" by code_simp
  ultimately show "checked_run (\<lambda>f args s. Some (V32 7, s)) 0x1000 (Fi_cntr_adderr 5) example_counter =
      Some (enosys, example_counter)"
    using checked_calls [of "0x1000" "Fi_cntr_adderr 5" struct_fid_cntr "''ops''" struct_fi_ops_cntr "''adderr''"
      "[V64 0x1000, V64 5]" example_counter "0x2000" "\<lambda>f args s. Some (V32 7, s)"] by simp
  have "get64 example_machine 0x1000 struct_fid_ep ''cm'' = Some 0x2000" by code_simp
  moreover have "sized_table example_machine 0x2000 struct_fi_ops_cm" by code_simp
  moreover have "provided example_machine 0x2000 struct_fi_ops_cm ''join'' = Some 0x2049" by code_simp
  ultimately show "checked_run (\<lambda>f args s. Some (V32 7, s)) 0x1000 (Fi_join 0x10 0 0x20 0) example_machine =
      Some (V32 7, example_machine)"
    using checked_calls [of "0x1000" "Fi_join 0x10 0 0x20 0" struct_fid_ep "''cm''" struct_fi_ops_cm "''join''"
      "[V64 0x1000, V64 0x10, V64 0, V64 0x20, V64 0]" example_machine "0x2000" "\<lambda>f args s. Some (V32 7, s)"]
    by (simp add: invoke_def)
qed



text \<open>C13. \<open>fi_ep_alias\<close> with a provider that implements \<open>FI_ALIAS\<close> has exactly one effect: on success
  \<open>*alias_ep\<close> is the new endpoint; on an error nothing changes, \<open>*alias_ep\<close> included. The
  provider's result is returned and the stack is as before.\<close>

theorem ep_alias_copies:
  assumes "room fid_local s" and "room struct_fi_alias (s\<lparr>sp := sp s + 16\<rparr>)"
    and "meth s ep struct_fid ''ops'' struct_fi_ops ''control'' = Some f" and "f \<noteq> NULL"
    and "alias_server P f ep ret copy" and "assign alias_ep (V64 copy) s = Some s'"
  shows "fi_ep_alias P ep alias_ep flags s = Some (V32 ret, if ret = 0 then s' else s)"
  by (rule fi_ep_alias_effect) (fact assms)+

definition example_provider :: "u32 \<Rightarrow> unit provider" where
  "example_provider ret f args s = (case args of
     [V64 fid, V32 cmd, V64 a] \<Rightarrow>
       (if ret = 0
        then do { out \<leftarrow> get64 s a struct_fi_alias ''fid''; s' \<leftarrow> assign out (V64 0x1100) s; Some (V32 0, s') }
        else Some (V32 ret, s))
   | _ \<Rightarrow> None)"

theorem ep_alias_copies_witness:
  "(\<exists>s'. assign 0x800 (V64 0x1100) example_machine = Some s' \<and>
      fi_ep_alias (example_provider 0) 0x1000 0x800 0 example_machine = Some (V32 0, s')) \<and>
    fi_ep_alias (example_provider 22) 0x1000 0x800 0 example_machine = Some (V32 22, example_machine)"
proof -
  let ?s = "example_machine"
  have meth: "meth ?s 0x1000 struct_fid ''ops'' struct_fi_ops ''control'' = Some 0x1419" by code_simp
  have srv: "alias_server (example_provider ret) f 0x1000 ret 0x1100" for ret f
    by (simp add: alias_server_def example_provider_def)
  have "mem ?s 0x800 = Some (Init (V64 0))" by code_simp
  then obtain s' where a: "assign 0x800 (V64 0x1100) ?s = Some s'"
    using assign_ok [of "0x800" ?s "V64 0x1100"] by auto
  have "fi_ep_alias (example_provider 0) 0x1000 0x800 0 ?s = Some (V32 0, if (0 :: u32) = 0 then s' else ?s)"
    by (rule ep_alias_copies [OF example_room(6) example_room_above meth _ srv a]) simp
  moreover have "fi_ep_alias (example_provider 22) 0x1000 0x800 0 ?s = Some (V32 22, if (22 :: u32) = 0 then s' else ?s)"
    by (rule ep_alias_copies [OF example_room(6) example_room_above meth _ srv a]) simp
  ultimately show ?thesis using a by auto
qed

text \<open>C14. The memory region calls that pass a struct, \<open>fi_mr_raw_attr\<close>, \<open>fi_mr_map_raw\<close> and
  \<open>fi_mr_unmap_key\<close>: the control operation of the object is called once with the command of the
  call, the struct it is given holds every argument in the member of its name, nothing else has
  changed, and when it returns the struct is gone and its result is returned.\<close>

theorem mr_struct_calls:
  assumes "room struct_fi_mr_raw_attr s" and "room struct_fi_mr_map_raw s" and "room key_param s"
    and "meth s mr struct_fid ''ops'' struct_fi_ops ''control'' = Some f" and "f \<noteq> NULL"
    and "meth s domain struct_fid ''ops'' struct_fi_ops ''control'' = Some g" and "g \<noteq> NULL"
  shows "(\<exists>s1. passes s1 s struct_fi_mr_raw_attr [(''flags'', V64 flags), (''base_addr'', V64 base_addr),
        (''raw_key'', V64 raw_key), (''key_size'', V64 key_size)] \<and>
      fi_mr_raw_attr P mr base_addr raw_key key_size flags s = do {
        (v, s2) \<leftarrow> invoke P f 4 [V64 mr, V32 (fi_command_val FI_GET_RAW_MR), V64 (sp s)] s1;
        Some (v, pop (sp s) struct_fi_mr_raw_attr s2) }) \<and>
    (\<exists>s1. passes s1 s struct_fi_mr_map_raw [(''flags'', V64 flags), (''base_addr'', V64 base),
        (''raw_key'', V64 raw_key), (''key_size'', V64 len), (''key'', V64 keyp)] \<and>
      fi_mr_map_raw P domain base raw_key len keyp flags s = do {
        (v, s2) \<leftarrow> invoke P g 4 [V64 domain, V32 (fi_command_val FI_MAP_RAW_MR), V64 (sp s)] s1;
        Some (v, pop (sp s) struct_fi_mr_map_raw s2) }) \<and>
    (\<exists>s1. passes s1 s key_param [(''key'', V64 key)] \<and>
      fi_mr_unmap_key P domain key s = do {
        (v, s2) \<leftarrow> invoke P g 4 [V64 domain, V32 (fi_command_val FI_UNMAP_KEY), V64 (sp s)] s1;
        Some (v, pop (sp s) key_param s2) })"
proof (intro conjI)
  show "\<exists>s1. passes s1 s struct_fi_mr_raw_attr [(''flags'', V64 flags), (''base_addr'', V64 base_addr),
        (''raw_key'', V64 raw_key), (''key_size'', V64 key_size)] \<and>
      fi_mr_raw_attr P mr base_addr raw_key key_size flags s = do {
        (v, s2) \<leftarrow> invoke P f 4 [V64 mr, V32 (fi_command_val FI_GET_RAW_MR), V64 (sp s)] s1;
        Some (v, pop (sp s) struct_fi_mr_raw_attr s2) }"
    using control_local_call [OF fi_mr_raw_attr.local_call_axioms assms(1),
      of "(mr, base_addr, raw_key, key_size, flags)" f P] assms(4,5) by simp
  show "\<exists>s1. passes s1 s struct_fi_mr_map_raw [(''flags'', V64 flags), (''base_addr'', V64 base),
        (''raw_key'', V64 raw_key), (''key_size'', V64 len), (''key'', V64 keyp)] \<and>
      fi_mr_map_raw P domain base raw_key len keyp flags s = do {
        (v, s2) \<leftarrow> invoke P g 4 [V64 domain, V32 (fi_command_val FI_MAP_RAW_MR), V64 (sp s)] s1;
        Some (v, pop (sp s) struct_fi_mr_map_raw s2) }"
    using control_local_call [OF fi_mr_map_raw.local_call_axioms assms(2),
      of "(domain, base, raw_key, len, keyp, flags)" g P] assms(6,7) by simp
  show "\<exists>s1. passes s1 s key_param [(''key'', V64 key)] \<and>
      fi_mr_unmap_key P domain key s = do {
        (v, s2) \<leftarrow> invoke P g 4 [V64 domain, V32 (fi_command_val FI_UNMAP_KEY), V64 (sp s)] s1;
        Some (v, pop (sp s) key_param s2) }"
    using control_local_call [OF fi_mr_unmap_key.local_call_axioms assms(3), of "(domain, key)" g P] assms(6,7)
    by simp
qed

theorem mr_struct_calls_witness:
  "\<exists>s1. passes s1 example_machine key_param [(''key'', V64 5)] \<and>
    fi_mr_unmap_key (\<lambda>f args s. Some (V32 0, s)) 0x1000 5 example_machine = Some (V32 0, pop 0x9000 key_param s1)"
proof -
  have meth: "meth example_machine 0x1000 struct_fid ''ops'' struct_fi_ops ''control'' = Some 0x1419" by code_simp
  note example_sp
  with mr_struct_calls [OF example_room(1,2,3) meth _ meth, where key = 5 and P = "\<lambda>f args s. Some (V32 0, s)"]
  show ?thesis by (simp add: invoke_def)
qed

text \<open>C15. \<open>fi_mr_refresh\<close> passes a \<open>struct fi_mr_modify\<close> in which the flags, the vector and its length
  are those of the call and every other scalar, padding of unions included, is zero, as the
  \<open>memset\<close> before the assignments is there for.\<close>

theorem mr_refresh_zeroes_rest:
  assumes "room struct_fi_mr_modify s"
    and "meth s mr struct_fid ''ops'' struct_fi_ops ''control'' = Some f" and "f \<noteq> NULL"
  shows "\<exists>s1. framed s1 s struct_fi_mr_modify \<and> env s1 = env s \<and>
    get s1 (sp s) struct_fi_mr_modify ''flags'' = Some (V64 flags) \<and>
    get s1 (addr_of (sp s) struct_fi_mr_modify ''attr'') struct_fi_mr_attr ''mr_iov'' = Some (V64 iov) \<and>
    get s1 (addr_of (sp s) struct_fi_mr_modify ''attr'') struct_fi_mr_attr ''iov_count'' = Some (V64 cnt) \<and>
    list_all (\<lambda>(a, n). a \<in> {0, 8, 16} \<or> mem s1 (sp s + of_nat a) = Some (Init (zero_cval n)))
      (leaves (Struct struct_fi_mr_modify)) \<and>
    fi_mr_refresh P mr iov cnt flags s = do {
      (v, s2) \<leftarrow> invoke P f 4 [V64 mr, V32 (fi_command_val FI_REFRESH), V64 (sp s)] s1;
      Some (v, pop (sp s) struct_fi_mr_modify s2) }"
  by (rule fi_mr_refresh_passes) (fact assms)+

theorem mr_refresh_zeroes_rest_witness:
  "\<exists>s1. framed s1 example_machine struct_fi_mr_modify \<and>
    get s1 0x9000 struct_fi_mr_modify ''flags'' = Some (V64 1) \<and>
    fi_mr_refresh (\<lambda>f args s. Some (V32 0, s)) 0x1000 0x10 2 1 example_machine =
      Some (V32 0, pop 0x9000 struct_fi_mr_modify s1)"
proof -
  have meth: "meth example_machine 0x1000 struct_fid ''ops'' struct_fi_ops ''control'' = Some 0x1419" by code_simp
  note example_sp
  with mr_refresh_zeroes_rest [OF example_room(4) meth, where flags = 1 and iov = "0x10" and cnt = 2
    and P = "\<lambda>f args s. Some (V32 0, s)"]
  show ?thesis by (auto simp: invoke_def)
qed

text \<open>C16. \<open>fi_join_collective\<close> joins with the set and the address of the group in a struct on the
  stack and the collective flag added to the caller's flags; where the endpoint has no \<open>join\<close> it
  returns \<open>-FI_ENOSYS\<close> and the machine is as before the call.\<close>

theorem join_collective_passes:
  assumes "room struct_fi_collective_addr s"
    and "get64 s ep struct_fid_ep ''cm'' = Some t" and "sized_table s t struct_fi_ops_cm"
  shows "\<exists>s1. passes s1 s struct_fi_collective_addr [(''set'', V64 av_set), (''coll_addr'', V64 coll_addr)] \<and>
    fi_join_collective P ep coll_addr av_set flags mc ctx s =
      (case provided s t struct_fi_ops_cm ''join'' of
         None \<Rightarrow> Some (enosys, s)
       | Some f \<Rightarrow> do {
           (v, s2) \<leftarrow> invoke P f 4 [V64 ep, V64 (sp s), V64 (flags OR FI_COLLECTIVE), V64 mc, V64 ctx] s1;
           Some (v, pop (sp s) struct_fi_collective_addr s2) })"
  by (rule fi_join_collective_passes) (fact assms)+

theorem join_collective_passes_witness:
  "\<exists>s1. passes s1 example_machine struct_fi_collective_addr [(''set'', V64 4), (''coll_addr'', V64 5)] \<and>
    fi_join_collective (\<lambda>f args s. Some (V32 0, s)) 0x1000 5 4 0 0x20 0 example_machine =
      Some (V32 0, pop 0x9000 struct_fi_collective_addr s1)"
proof -
  have "get64 example_machine 0x1000 struct_fid_ep ''cm'' = Some 0x2000" by code_simp
  moreover have "sized_table example_machine 0x2000 struct_fi_ops_cm" by code_simp
  moreover have "provided example_machine 0x2000 struct_fi_ops_cm ''join'' = Some 0x2049" by code_simp
  moreover note example_sp
  ultimately show ?thesis
    using join_collective_passes [OF example_room(5), where ep = "0x1000" and t = "0x2000" and av_set = 4
      and coll_addr = 5 and P = "\<lambda>f args s. Some (V32 0, s)" and flags = 0 and mc = "0x20" and ctx = 0]
    by (auto simp: invoke_def)
qed

text \<open>\<open>fi_setname\<close> and \<open>fi_getname\<close>, which read the table of the object as that of an active
  endpoint, also work on a passive one, and so do the option calls on passive endpoints and
  shared transmit contexts: the tables are at the same place.\<close>

theorem names_of_passive_endpoints:
  "fi_setname P fid addr len s =
      vcall P fid struct_fid_pep ''cm'' struct_fi_ops_cm ''setname'' [V64 fid, V64 addr, V64 len] s \<and>
    fi_getname P fid addr lenp s =
      vcall P fid struct_fid_pep ''cm'' struct_fi_ops_cm ''getname'' [V64 fid, V64 addr, V64 lenp] s \<and>
    fi_setopt P fid level optname optval len s =
      vcall P fid struct_fid_pep ''ops'' struct_fi_ops_ep ''setopt''
        [V64 fid, V32 level, V32 optname, V64 optval, V64 len] s \<and>
    fi_getopt P fid level optname optval lenp s =
      vcall P fid struct_fid_stx ''ops'' struct_fi_ops_ep ''getopt''
        [V64 fid, V32 level, V32 optname, V64 optval, V64 lenp] s"
proof -
  have cong: "member fs n = member gs n \<Longrightarrow> get64 s fid fs n = get64 s fid gs n" for fs gs n
    by (simp add: get64_def get_def addr_of_def offsetof_def split: option.split)
  have "member struct_fid_ep ''cm'' = member struct_fid_pep ''cm''"
    "member struct_fid_ep ''ops'' = member struct_fid_pep ''ops''"
    "member struct_fid_ep ''ops'' = member struct_fid_stx ''ops''" by code_simp+
  note eqs = this [THEN cong]
  show ?thesis
    unfolding fi_setname_def fi_getname_def fi_setopt_def fi_getopt_def fid_ep.downcast vcall_def
    by (simp only: eqs(1,2) eqs(3) [symmetric] simp_thms)
qed

text \<open>The calls cover the tables: every operation of a table has a direct call that reaches it,
  apart from those that have a checked call (\<open>ops_set\<close>, \<open>av_set\<close>, \<open>join\<close>, \<open>adderr\<close>, \<open>seterr\<close> and the
  two queries) and \<open>tostr\<close> of the base descriptor and \<open>msg\<close> of the collective table, which no
  inline function calls.\<close>

theorem calls_cover_tables:
  "range msg_slot = operations struct_fi_ops_msg \<and> range tagged_slot = operations struct_fi_ops_tagged \<and>
    range rma_slot = operations struct_fi_ops_rma \<and> range atomic_slot = operations struct_fi_ops_atomic \<and>
    range collective_slot \<union> {''msg''} = operations struct_fi_ops_collective \<and>
    range fid_slot \<union> {''tostr'', ''ops_set''} = operations struct_fi_ops \<and>
    range fabric_slot = operations struct_fi_ops_fabric \<and>
    range domain_slot \<union> {''query_atomic'', ''query_collective''} = operations struct_fi_ops_domain \<and>
    range mr_slot = operations struct_fi_ops_mr \<and>
    range av_slot \<union> {''av_set''} = operations struct_fi_ops_av \<and>
    range av_set_slot = operations struct_fi_ops_av_set \<and> range ep_slot = operations struct_fi_ops_ep \<and>
    range cm_slot \<union> range pcm_slot \<union> {''join''} = operations struct_fi_ops_cm \<and>
    range eq_slot = operations struct_fi_ops_eq \<and> range cq_slot = operations struct_fi_ops_cq \<and>
    range cntr_slot \<union> {''adderr'', ''seterr''} = operations struct_fi_ops_cntr \<and>
    range poll_slot = operations struct_fi_ops_poll"
proof (intro conjI)
  show "range collective_slot \<union> {''msg''} = operations struct_fi_ops_collective"
    "range fid_slot \<union> {''tostr'', ''ops_set''} = operations struct_fi_ops"
    "range domain_slot \<union> {''query_atomic'', ''query_collective''} = operations struct_fi_ops_domain"
    "range av_slot \<union> {''av_set''} = operations struct_fi_ops_av"
    "range cm_slot \<union> range pcm_slot \<union> {''join''} = operations struct_fi_ops_cm"
    "range cntr_slot \<union> {''adderr'', ''seterr''} = operations struct_fi_ops_cntr"
    unfolding collective_slots fid_slots domain_slots av_slots cm_slots pcm_slots cntr_slots
      operations_def structs list.sel list.set image_insert image_empty fst_conv
    by (rule equalityI; simp)+
qed (fact msg_slots tagged_slots rma_slots atomic_slots fabric_slots mr_slots av_set_slots ep_slots eq_slots
    cq_slots poll_slots)+

end
