(* ===== verification/Shared.thy ===== *)
theory Shared
  imports Fi_Objects C_Objects
begin

section \<open>shared.h: helpers of the test programs\<close>

text \<open>
  The inline functions and macros of the test programs: options and their initial value, exit
  codes, the choice of message sizes, prefix mode, error printing, closing and binding. The
  functions \<open>shared.h\<close> only declares are external symbols.
\<close>

subsection \<open>Constants\<close>

definition FT_FIVERSION :: u32 where [flag_defs]: "FT_FIVERSION = FI_VERSION 1 9"

definition OFI_MR_BASIC_MAP :: u32 where [flag_defs]:
  "OFI_MR_BASIC_MAP = FI_MR_ALLOCATED OR FI_MR_PROV_KEY OR FI_MR_VIRT_ADDR"

definition FT_ENABLE_ALL :: u32 where [flag_defs]: "FT_ENABLE_ALL = NOT 0"
definition FT_DEFAULT_SIZE :: u32 where [flag_defs]: "FT_DEFAULT_SIZE = push_bit 0 1"

definition FT_STR_LEN :: u32 where [flag_defs]: "FT_STR_LEN = 32"
definition FT_MAX_CTRL_MSG :: u32 where [flag_defs]: "FT_MAX_CTRL_MSG = 256"
definition FT_MR_KEY :: u64 where [flag_defs]: "FT_MR_KEY = 0xC0DE"
definition FT_TX_MR_KEY :: u64 where [flag_defs]: "FT_TX_MR_KEY = FT_MR_KEY + 1"
definition FT_RX_MR_KEY :: u64 where [flag_defs]: "FT_RX_MR_KEY = 0xFFFF"
definition FT_MSG_MR_ACCESS :: u64 where [flag_defs]: "FT_MSG_MR_ACCESS = FI_SEND OR FI_RECV"
definition FT_RMA_MR_ACCESS :: u64 where [flag_defs]:
  "FT_RMA_MR_ACCESS = FI_READ OR FI_WRITE OR FI_REMOTE_READ OR FI_REMOTE_WRITE"
definition NO_CQ_DATA :: u64 where [flag_defs]: "NO_CQ_DATA = 0"

definition ADDR_OPTS :: string where "ADDR_OPTS = ''B:P:s:a:b::E::C:F:''"
definition FAB_OPTS :: string where "FAB_OPTS = ''f:d:p:D:i:H''"
definition INFO_OPTS :: string where "INFO_OPTS = FAB_OPTS @ ''e:M:''"
definition CS_OPTS :: string where "CS_OPTS = ADDR_OPTS @ ''I:S:mc:t:w:l''"

text \<open>The anonymous enumeration of test options is a set of bits.\<close>

definition FT_OPT_ACTIVE :: u32 where [flag_defs]: "FT_OPT_ACTIVE = push_bit 0 1"
definition FT_OPT_ITER :: u32 where [flag_defs]: "FT_OPT_ITER = push_bit 1 1"
definition FT_OPT_SIZE :: u32 where [flag_defs]: "FT_OPT_SIZE = push_bit 2 1"
definition FT_OPT_RX_CQ :: u32 where [flag_defs]: "FT_OPT_RX_CQ = push_bit 3 1"
definition FT_OPT_TX_CQ :: u32 where [flag_defs]: "FT_OPT_TX_CQ = push_bit 4 1"
definition FT_OPT_RX_CNTR :: u32 where [flag_defs]: "FT_OPT_RX_CNTR = push_bit 5 1"
definition FT_OPT_TX_CNTR :: u32 where [flag_defs]: "FT_OPT_TX_CNTR = push_bit 6 1"
definition FT_OPT_VERIFY_DATA :: u32 where [flag_defs]: "FT_OPT_VERIFY_DATA = push_bit 7 1"
definition FT_OPT_ALIGN :: u32 where [flag_defs]: "FT_OPT_ALIGN = push_bit 8 1"
definition FT_OPT_BW :: u32 where [flag_defs]: "FT_OPT_BW = push_bit 9 1"
definition FT_OPT_CQ_SHARED :: u32 where [flag_defs]: "FT_OPT_CQ_SHARED = push_bit 10 1"
definition FT_OPT_OOB_SYNC :: u32 where [flag_defs]: "FT_OPT_OOB_SYNC = push_bit 11 1"
definition FT_OPT_SKIP_MSG_ALLOC :: u32 where [flag_defs]: "FT_OPT_SKIP_MSG_ALLOC = push_bit 12 1"
definition FT_OPT_SKIP_REG_MR :: u32 where [flag_defs]: "FT_OPT_SKIP_REG_MR = push_bit 13 1"
definition FT_OPT_OOB_ADDR_EXCH :: u32 where [flag_defs]: "FT_OPT_OOB_ADDR_EXCH = push_bit 14 1"
definition FT_OPT_ALLOC_MULT_MR :: u32 where [flag_defs]: "FT_OPT_ALLOC_MULT_MR = push_bit 15 1"
definition FT_OPT_SERVER_PERSIST :: u32 where [flag_defs]: "FT_OPT_SERVER_PERSIST = push_bit 16 1"
definition FT_OPT_ENABLE_HMEM :: u32 where [flag_defs]: "FT_OPT_ENABLE_HMEM = push_bit 17 1"
definition FT_OPT_USE_DEVICE :: u32 where [flag_defs]: "FT_OPT_USE_DEVICE = push_bit 18 1"
definition FT_OPT_OOB_CTRL :: u32 where [flag_defs]:
  "FT_OPT_OOB_CTRL = FT_OPT_OOB_SYNC OR FT_OPT_OOB_ADDR_EXCH"

definition MIN_macro :: "'a::linorder \<Rightarrow> 'a \<Rightarrow> 'a" where "MIN_macro a b = (if a < b then a else b)"
definition MAX_macro :: "'a::linorder \<Rightarrow> 'a \<Rightarrow> 'a" where "MAX_macro a b = (if a > b then a else b)"

subsection \<open>Enumerations\<close>

datatype precision =
    NANO | MICRO | MILLI

primrec precision_val :: "precision \<Rightarrow> u32" where
  "precision_val NANO = 1"
| "precision_val MICRO = 1000"
| "precision_val MILLI = 1000000"

definition precision_all :: "precision list" where
  "precision_all =
     [NANO, MICRO, MILLI]"

interpretation precision: c_enum precision_val precision_all
proof unfold_locales
  show "x \<in> set precision_all" for x
    by (cases x) (simp_all add: precision_all_def)
  show "distinct (map precision_val precision_all)"
    by (simp add: precision_all_def)
qed

datatype ft_comp_method =
    FT_COMP_SPIN | FT_COMP_SREAD | FT_COMP_WAITSET | FT_COMP_WAIT_FD | FT_COMP_YIELD

primrec ft_comp_method_val :: "ft_comp_method \<Rightarrow> u32" where
  "ft_comp_method_val FT_COMP_SPIN = 0"
| "ft_comp_method_val FT_COMP_SREAD = 1"
| "ft_comp_method_val FT_COMP_WAITSET = 2"
| "ft_comp_method_val FT_COMP_WAIT_FD = 3"
| "ft_comp_method_val FT_COMP_YIELD = 4"

definition ft_comp_method_all :: "ft_comp_method list" where
  "ft_comp_method_all =
     [FT_COMP_SPIN, FT_COMP_SREAD, FT_COMP_WAITSET, FT_COMP_WAIT_FD, FT_COMP_YIELD]"

interpretation ft_comp_method: c_enum ft_comp_method_val ft_comp_method_all
proof unfold_locales
  show "x \<in> set ft_comp_method_all" for x
    by (cases x) (simp_all add: ft_comp_method_all_def)
  show "distinct (map ft_comp_method_val ft_comp_method_all)"
    by (simp add: ft_comp_method_all_def)
qed

datatype ft_rma_opcodes =
    FT_RMA_READ | FT_RMA_WRITE | FT_RMA_WRITEDATA

primrec ft_rma_opcodes_val :: "ft_rma_opcodes \<Rightarrow> u32" where
  "ft_rma_opcodes_val FT_RMA_READ = 1"
| "ft_rma_opcodes_val FT_RMA_WRITE = 2"
| "ft_rma_opcodes_val FT_RMA_WRITEDATA = 3"

definition ft_rma_opcodes_all :: "ft_rma_opcodes list" where
  "ft_rma_opcodes_all =
     [FT_RMA_READ, FT_RMA_WRITE, FT_RMA_WRITEDATA]"

interpretation ft_rma_opcodes: c_enum ft_rma_opcodes_val ft_rma_opcodes_all
proof unfold_locales
  show "x \<in> set ft_rma_opcodes_all" for x
    by (cases x) (simp_all add: ft_rma_opcodes_all_def)
  show "distinct (map ft_rma_opcodes_val ft_rma_opcodes_all)"
    by (simp add: ft_rma_opcodes_all_def)
qed

datatype ft_atomic_opcodes =
    FT_ATOMIC_BASE | FT_ATOMIC_FETCH | FT_ATOMIC_COMPARE

primrec ft_atomic_opcodes_val :: "ft_atomic_opcodes \<Rightarrow> u32" where
  "ft_atomic_opcodes_val FT_ATOMIC_BASE = 0"
| "ft_atomic_opcodes_val FT_ATOMIC_FETCH = 1"
| "ft_atomic_opcodes_val FT_ATOMIC_COMPARE = 2"

definition ft_atomic_opcodes_all :: "ft_atomic_opcodes list" where
  "ft_atomic_opcodes_all =
     [FT_ATOMIC_BASE, FT_ATOMIC_FETCH, FT_ATOMIC_COMPARE]"

interpretation ft_atomic_opcodes: c_enum ft_atomic_opcodes_val ft_atomic_opcodes_all
proof unfold_locales
  show "x \<in> set ft_atomic_opcodes_all" for x
    by (cases x) (simp_all add: ft_atomic_opcodes_all_def)
  show "distinct (map ft_atomic_opcodes_val ft_atomic_opcodes_all)"
    by (simp add: ft_atomic_opcodes_all_def)
qed

datatype op_state =
    OP_DONE | OP_PENDING

primrec op_state_val :: "op_state \<Rightarrow> u32" where
  "op_state_val OP_DONE = 0"
| "op_state_val OP_PENDING = 1"

definition op_state_all :: "op_state list" where
  "op_state_all =
     [OP_DONE, OP_PENDING]"

interpretation op_state: c_enum op_state_val op_state_all
proof unfold_locales
  show "x \<in> set op_state_all" for x
    by (cases x) (simp_all add: op_state_all_def)
  show "distinct (map op_state_val op_state_all)"
    by (simp add: op_state_all_def)
qed

subsection \<open>Structs\<close>

definition struct_test_size_param :: fields where [structs]:
  "struct_test_size_param = [
     (''size'', SizeT), (''enable_flags'', CInt)]"

definition struct_ft_context :: fields where [structs]:
  "struct_ft_context = [
     (''buf'', Ptr), (''desc'', Ptr), (''state'', CEnum), (''mr'', Ptr),
     (''context'', Struct struct_fi_context2)]"

definition struct_ft_opts :: fields where [structs]:
  "struct_ft_opts = [
     (''iterations'', CInt), (''warmup_iterations'', CInt), (''transfer_size'', SizeT),
     (''window_size'', CInt), (''av_size'', CInt), (''verbose'', CInt), (''tx_cq_size'', CInt),
     (''rx_cq_size'', CInt), (''src_port'', Ptr), (''dst_port'', Ptr), (''src_addr'', Ptr),
     (''dst_addr'', Ptr), (''av_name'', Ptr), (''sizes_enabled'', CInt), (''options'', CInt),
     (''comp_method'', CEnum), (''machr'', CInt), (''rma_op'', CEnum), (''oob_port'', Ptr),
     (''argc'', CInt), (''num_connections'', CInt), (''address_format'', CInt),
     (''mr_mode'', U64), (''force_prefix'', CInt), (''iface'', CEnum), (''device'', U64),
     (''argv'', Ptr)]"

subsection \<open>Exit codes\<close>

definition INT_MIN :: u32 where "INT_MIN = push_bit 31 1"
definition EXIT_SUCCESS :: u32 where "EXIT_SUCCESS = 0"
definition EXIT_FAILURE :: u32 where "EXIT_FAILURE = 1"

text \<open>``exit codes must be 0-255''. Negating the smallest \<open>int\<close> overflows: undefined.\<close>

definition ft_exit_code :: "u32 \<Rightarrow> u32 option" where
  "ft_exit_code ret =
     (if ret <s 0 \<and> ret = INT_MIN then None
      else let absret = (if ret <s 0 then - ret else ret)
           in Some (if 255 <s absret then EXIT_FAILURE else absret))"

lemma sint_range32: "- (2 ^ 31) \<le> sint (w :: u32) \<and> sint w < 2 ^ 31"
  using sint_ge [of w] sint_lt [of w] by simp

lemma INT_MIN_iff: "(w :: u32) = INT_MIN \<longleftrightarrow> sint w = - (2 ^ 31)"
proof -
  have "sint INT_MIN = - (2 ^ 31)" by (simp add: INT_MIN_def push_bit_eq_mult)
  then show ?thesis by (metis signed_word_eqI)
qed

lemma sint_uminus32: "(w :: u32) \<noteq> INT_MIN \<Longrightarrow> sint (- w) = - sint w"
proof -
  assume "w \<noteq> INT_MIN"
  then have b: "- (2 ^ 31) \<le> - sint w \<and> - sint w < 2 ^ 31"
    using sint_range32 [of w] INT_MIN_iff [of w] by linarith
  have "- w = word_of_int (- sint w)" by simp
  then have "sint (- w) = signed_take_bit 31 (- sint w)" by (simp only: sint_sbintrunc') simp
  also have "\<dots> = - sint w" using b by (intro signed_take_bit_int_eq_self) auto
  finally show ?thesis .
qed

lemma ft_exit_code_spec:
  "ft_exit_code ret =
    (if ret = INT_MIN then None
     else if \<bar>sint ret\<bar> \<le> 255 then Some (word_of_int \<bar>sint ret\<bar>) else Some EXIT_FAILURE)"
proof (cases "ret = INT_MIN")
  case True
  then show ?thesis by (simp add: ft_exit_code_def INT_MIN_def push_bit_eq_mult word_sless_alt)
next
  case False
  have abs: "sint (if ret <s 0 then - ret else ret) = \<bar>sint ret\<bar>"
    using sint_uminus32 [OF False] by (simp add: word_sless_alt)
  have "(if ret <s 0 then - ret else ret) = word_of_int \<bar>sint ret\<bar>" by (simp only: abs [symmetric] of_int_sint scast_id)
  with False abs show ?thesis by (simp add: ft_exit_code_def Let_def word_sless_alt)
qed

subsection \<open>Initial options\<close>

text \<open>\<open>INIT_OPTS\<close> is a compound literal: the designated members in the order of the source, the
  others zero.\<close>

definition INIT_OPTS :: "u32 \<Rightarrow> ptr \<Rightarrow> (string \<times> cval) list" where
  "INIT_OPTS argc argv = [
     (''options'', V32 (FT_OPT_RX_CQ OR FT_OPT_TX_CQ)),
     (''iterations'', V32 1000),
     (''warmup_iterations'', V32 10),
     (''transfer_size'', V64 1024),
     (''window_size'', V32 64),
     (''av_size'', V32 1),
     (''tx_cq_size'', V32 0),
     (''rx_cq_size'', V32 0),
     (''verbose'', V32 0),
     (''sizes_enabled'', V32 FT_DEFAULT_SIZE),
     (''rma_op'', V32 (ft_rma_opcodes_val FT_RMA_WRITE)),
     (''oob_port'', V64 NULL),
     (''mr_mode'', V64 (ucast (FI_MR_LOCAL OR OFI_MR_BASIC_MAP))),
     (''iface'', V32 (fi_hmem_iface_val FI_HMEM_SYSTEM)),
     (''device'', V64 0),
     (''argc'', V32 argc),
     (''argv'', V64 argv),
     (''address_format'', V32 (fi_addr_format_val FI_FORMAT_UNSPEC))]"

lemma init_opts_ok: "list_all (\<lambda>(n, v). member_ok struct_ft_opts n v) (INIT_OPTS argc argv)"
  by (simp add: INIT_OPTS_def member_ok_def structs)

lemma init_opts_distinct: "distinct (map fst (INIT_OPTS argc argv))"
  by (simp add: INIT_OPTS_def)

lemma small_ft_opts: "small struct_ft_opts"
  by (simp add: small_def structs layout_simps)

subsection \<open>Message sizes, timing, prefix mode\<close>

text \<open>\<open>test_size[index]\<close>, \<open>fi\<close> and \<open>opts\<close> are variables of the test library.\<close>

definition test_size_at :: "linkage \<Rightarrow> u32 \<Rightarrow> ptr" where
  "test_size_at L index = L ''test_size'' + scast index * of_nat (sizeof (Struct struct_test_size_param))"

definition ft_use_size :: "linkage \<Rightarrow> u32 \<Rightarrow> u32 \<Rightarrow> 'p machine \<Rightarrow> bool option" where
  "ft_use_size L index enable_flags s = do {
     size \<leftarrow> get64 s (test_size_at L index) struct_test_size_param ''size'';
     fi \<leftarrow> deref64 s (L ''fi'');
     ep_attr \<leftarrow> get64 s fi struct_fi_info ''ep_attr'';
     max \<leftarrow> get64 s ep_attr struct_fi_ep_attr ''max_msg_size'';
     if size \<le> max
     then if enable_flags = FT_ENABLE_ALL then Some True
          else do {
            enabled \<leftarrow> get32 s (test_size_at L index) struct_test_size_param ''enable_flags'';
            Some (enable_flags AND enabled \<noteq> 0) }
     else Some False }"

definition CLOCK_MONOTONIC :: u32 where "CLOCK_MONOTONIC = 1"

definition ft_start :: "'p provider \<Rightarrow> linkage \<Rightarrow> 'p machine \<Rightarrow> 'p machine option" where
  "ft_start P L s = do {
     o1 \<leftarrow> get32 s (L ''opts'') struct_ft_opts ''options'';
     s1 \<leftarrow> put (L ''opts'') struct_ft_opts ''options'' (V32 (o1 OR FT_OPT_ACTIVE)) s;
     invoke_void P (L ''clock_gettime'') [V32 CLOCK_MONOTONIC, V64 (L ''start'')] s1 }"

definition ft_stop :: "'p provider \<Rightarrow> linkage \<Rightarrow> 'p machine \<Rightarrow> 'p machine option" where
  "ft_stop P L s = do {
     s1 \<leftarrow> invoke_void P (L ''clock_gettime'') [V32 CLOCK_MONOTONIC, V64 (L ''end'')] s;
     o1 \<leftarrow> get32 s1 (L ''opts'') struct_ft_opts ''options'';
     put (L ''opts'') struct_ft_opts ''options'' (V32 (o1 AND NOT FT_OPT_ACTIVE)) s1 }"

definition ft_force_prefix :: "ptr \<Rightarrow> ptr \<Rightarrow> 'p machine \<Rightarrow> 'p machine option" where
  "ft_force_prefix info optsp s = do {
     m \<leftarrow> get64 s info struct_fi_info ''mode'';
     s1 \<leftarrow> put info struct_fi_info ''mode'' (V64 (m OR FI_MSG_PREFIX)) s;
     put optsp struct_ft_opts ''force_prefix'' (V32 1) s1 }"

definition ft_check_prefix_forced :: "ptr \<Rightarrow> ptr \<Rightarrow> 'p machine \<Rightarrow> bool option" where
  "ft_check_prefix_forced info optsp s = do {
     forced \<leftarrow> get32 s optsp struct_ft_opts ''force_prefix'';
     if forced \<noteq> 0
     then do {
       tx \<leftarrow> get64 s info struct_fi_info ''tx_attr'';
       txm \<leftarrow> get64 s tx struct_fi_tx_attr ''mode'';
       if txm AND FI_MSG_PREFIX \<noteq> 0
       then do {
         rx \<leftarrow> get64 s info struct_fi_info ''rx_attr'';
         rxm \<leftarrow> get64 s rx struct_fi_rx_attr ''mode'';
         Some (rxm AND FI_MSG_PREFIX \<noteq> 0) }
       else Some False }
     else Some True }"

subsection \<open>Messages to stderr\<close>

text \<open>A use of a printing macro: the addresses of its format string and file name, its line.\<close>

type_synonym site = "ptr \<times> ptr \<times> u32"

definition FT_PRINTERR :: "'p provider \<Rightarrow> linkage \<Rightarrow> site \<Rightarrow> u64 \<Rightarrow> 'p machine \<Rightarrow> 'p machine option" where
  "FT_PRINTERR P L site retv s = (case site of (fmt, file, line) \<Rightarrow> do {
     (str, s1) \<leftarrow> invoke P (L ''fi_strerror'') 8 [V32 (ucast (- retv))] s;
     stderr \<leftarrow> deref64 s1 (L ''stderr'');
     invoke_void P (L ''fprintf'') [V64 stderr, V64 fmt, V64 file, V32 line, V32 (ucast retv), str] s1 })"

definition FT_LOG :: "'p provider \<Rightarrow> linkage \<Rightarrow> ptr \<Rightarrow> site \<Rightarrow> cval list \<Rightarrow> 'p machine \<Rightarrow> 'p machine option" where
  "FT_LOG P L level site args s = (case site of (fmt, file, line) \<Rightarrow> do {
     stderr \<leftarrow> deref64 s (L ''stderr'');
     invoke_void P (L ''fprintf'') ([V64 stderr, V64 fmt, V64 level, V64 file, V32 line] @ args) s })"

definition FT_ERR :: "'p provider \<Rightarrow> linkage \<Rightarrow> site \<Rightarrow> cval list \<Rightarrow> 'p machine \<Rightarrow> 'p machine option" where
  "FT_ERR P L = FT_LOG P L (L ''.str.error'')"

definition FT_WARN :: "'p provider \<Rightarrow> linkage \<Rightarrow> site \<Rightarrow> cval list \<Rightarrow> 'p machine \<Rightarrow> 'p machine option" where
  "FT_WARN P L = FT_LOG P L (L ''.str.warn'')"

definition FT_EQ_ERR :: "'p provider \<Rightarrow> linkage \<Rightarrow> site \<Rightarrow> ptr \<Rightarrow> ptr \<Rightarrow> ptr \<Rightarrow> u64 \<Rightarrow> 'p machine \<Rightarrow>
    'p machine option" where
  "FT_EQ_ERR P L site eqp entry buf len s = do {
     prov \<leftarrow> get32 s entry struct_fi_eq_err_entry ''prov_errno'';
     data \<leftarrow> get64 s entry struct_fi_eq_err_entry ''err_data'';
     (str, s1) \<leftarrow> fi_eq_strerror P eqp prov data buf len s;
     prov1 \<leftarrow> get32 s1 entry struct_fi_eq_err_entry ''prov_errno'';
     FT_ERR P L site [V32 prov1, str] s1 }"

definition FT_CQ_ERR :: "'p provider \<Rightarrow> linkage \<Rightarrow> site \<Rightarrow> ptr \<Rightarrow> ptr \<Rightarrow> ptr \<Rightarrow> u64 \<Rightarrow> 'p machine \<Rightarrow>
    'p machine option" where
  "FT_CQ_ERR P L site cq entry buf len s = do {
     prov \<leftarrow> get32 s entry struct_fi_cq_err_entry ''prov_errno'';
     data \<leftarrow> get64 s entry struct_fi_cq_err_entry ''err_data'';
     (str, s1) \<leftarrow> fi_cq_strerror P cq prov data buf len s;
     prov1 \<leftarrow> get32 s1 entry struct_fi_cq_err_entry ''prov_errno'';
     FT_ERR P L site [V32 prov1, str] s1 }"

text \<open>\<open>readerr\<close> is the function the macro is given (\<open>eq_readerr\<close> for \<open>FT_PROCESS_EQ_ERR\<close>), \<open>str\<close>
  the address of the string it pastes together.\<close>

definition FT_PROCESS_QUEUE_ERR :: "'p provider \<Rightarrow> linkage \<Rightarrow> site \<Rightarrow> ptr \<Rightarrow> u64 \<Rightarrow> ptr \<Rightarrow> ptr \<Rightarrow> 'p machine \<Rightarrow>
    'p machine option" where
  "FT_PROCESS_QUEUE_ERR P L site readerr rd queue str s =
     (if rd = - ucast (errno FI_EAVAIL)
      then invoke_void P readerr [V64 queue, V64 str] s
      else FT_PRINTERR P L site rd s)"

definition FT_PROCESS_EQ_ERR :: "'p provider \<Rightarrow> linkage \<Rightarrow> site \<Rightarrow> u64 \<Rightarrow> ptr \<Rightarrow> ptr \<Rightarrow> 'p machine \<Rightarrow>
    'p machine option" where
  "FT_PROCESS_EQ_ERR P L site rd eqp str s = FT_PROCESS_QUEUE_ERR P L site (L ''eq_readerr'') rd eqp str s"

subsection \<open>Closing and binding objects\<close>

text \<open>\<open>fd\<close> is a variable that holds a pointer to an object, here the address of the variable; the
  object is a \<open>struct\<close> with members \<open>fs\<close>, whose descriptor is closed.\<close>

definition FT_CLOSE_FID :: "'p provider \<Rightarrow> linkage \<Rightarrow> site \<Rightarrow> fields \<Rightarrow> ptr \<Rightarrow> 'p machine \<Rightarrow>
    'p machine option" where
  "FT_CLOSE_FID P L site fs fd s = do {
     p \<leftarrow> deref64 s fd;
     if p \<noteq> NULL
     then do {
       (ret, s1) \<leftarrow> fi_close P (addr_of p fs ''fid'') s;
       s2 \<leftarrow> (if ret \<noteq> V32 0
             then do {
               r \<leftarrow> the32 ret;
               (str, s2) \<leftarrow> invoke P (L ''fi_strerror'') 8 [V32 (- r)] s1;
               p1 \<leftarrow> deref64 s2 fd;
               c \<leftarrow> get64 s2 (addr_of p1 fs ''fid'') struct_fid ''fclass'';
               FT_ERR P L site [str, ret, V32 (ucast c)] s2 }
             else Some s1);
       assign fd (V64 NULL) s2 }
     else Some s }"

text \<open>\<open>fd\<close> is an array of \<open>cnt\<close> pointers (\<open>int i\<close> runs from 0 while \<open>i < cnt\<close>).\<close>

function closev_from :: "'p provider \<Rightarrow> linkage \<Rightarrow> site \<Rightarrow> fields \<Rightarrow> ptr \<Rightarrow> int \<Rightarrow> int \<Rightarrow> 'p machine \<Rightarrow>
    'p machine option" where
  "closev_from P L site fs fd i cnt s =
     (if i < cnt
      then do {
        s1 \<leftarrow> FT_CLOSE_FID P L site fs (fd + of_int (8 * i)) s;
        closev_from P L site fs fd (i + 1) cnt s1 }
      else Some s)"
  by pat_completeness auto

termination
  by (relation "measure (\<lambda>(P, L, site, fs, fd, i, cnt, s). nat (cnt - i))") auto

declare closev_from.simps [simp del]

definition FT_CLOSEV_FID :: "'p provider \<Rightarrow> linkage \<Rightarrow> site \<Rightarrow> fields \<Rightarrow> ptr \<Rightarrow> u32 \<Rightarrow> 'p machine \<Rightarrow>
    'p machine option" where
  "FT_CLOSEV_FID P L site fs fd cnt s =
     (if fd = NULL then Some s else closev_from P L site fs fd 0 (sint cnt) s)"

text \<open>The macro returns from the function that uses it when the bind fails: \<open>Some ret\<close> is that
  return, \<open>None\<close> goes on after the macro.\<close>

definition FT_EP_BIND :: "'p provider \<Rightarrow> linkage \<Rightarrow> site \<Rightarrow> fields \<Rightarrow> ptr \<Rightarrow> ptr \<Rightarrow> u64 \<Rightarrow> 'p machine \<Rightarrow>
    (u32 option \<times> 'p machine) option" where
  "FT_EP_BIND P L site fs ep fd flags s =
     (if fd \<noteq> NULL
      then do {
        (v, s1) \<leftarrow> fi_ep_bind P ep (addr_of fd fs ''fid'') flags s;
        ret \<leftarrow> the32 v;
        if ret \<noteq> 0
        then do { s2 \<leftarrow> FT_PRINTERR P L site (scast ret) s1; Some (Some ret, s2) }
        else Some (None, s1) }
      else Some (None, s))"

subsection \<open>Parsing of names\<close>

text \<open>\<open>!strncmp(p, q, n)\<close> on strings in memory.\<close>

fun strncmp_eq :: "'p machine \<Rightarrow> ptr \<Rightarrow> ptr \<Rightarrow> nat \<Rightarrow> bool option" where
  "strncmp_eq s p q 0 = Some True"
| "strncmp_eq s p q (Suc n) = do {
     a \<leftarrow> ld s p 1;
     b \<leftarrow> ld s q 1;
     if a \<noteq> b then Some False
     else if a = V8 0 then Some True
     else strncmp_eq s (p + 1) (q + 1) n }"

text \<open>\<open>Some True\<close>: the function that uses the macro returns 0 there.\<close>

definition TEST_SET_N_RETURN :: "ptr \<Rightarrow> u64 \<Rightarrow> ptr \<Rightarrow> cval \<Rightarrow> ptr \<Rightarrow> 'p machine \<Rightarrow>
    (bool \<times> 'p machine) option" where
  "TEST_SET_N_RETURN str len val_str val data s = do {
     same \<leftarrow> strncmp_eq s str val_str (unat len);
     if same then do { s1 \<leftarrow> assign data val s; Some (True, s1) }
     else Some (False, s) }"

subsection \<open>Lemmas\<close>

lemma ft_exit_code_range:
  "pred_option (\<lambda>c. c \<le> 255 \<and> (c = EXIT_SUCCESS) = (ret = 0)) (ft_exit_code ret)"
proof (cases "\<bar>sint ret\<bar> \<le> 255 \<and> ret \<noteq> INT_MIN")
  case True
  then have "unat (word_of_int \<bar>sint ret\<bar> :: u32) = nat \<bar>sint ret\<bar>"
    by (simp add: unat_eq_nat_uint uint_word_of_int take_bit_int_eq_self)
  moreover have "(sint ret = 0) = (ret = 0)" by (metis sint_0 signed_word_eqI)
  ultimately show ?thesis
    using True by (auto simp: ft_exit_code_spec word_le_nat_alt word_unat_eq_iff EXIT_SUCCESS_def)
next
  case False
  then show ?thesis by (auto simp: ft_exit_code_spec EXIT_FAILURE_def EXIT_SUCCESS_def)
qed

lemma ft_exit_code_success: "ft_exit_code ret = Some EXIT_SUCCESS \<Longrightarrow> ret = 0"
  using ft_exit_code_range [of ret] by simp

lemma FT_CLOSE_FID_null:
  assumes "FT_CLOSE_FID P L site fs fd s = Some s'"
  shows "deref64 s' fd = Some NULL"
proof -
  obtain p where p: "deref64 s fd = Some p" using assms by (auto simp: FT_CLOSE_FID_def bind_Some_iff)
  show ?thesis
  proof (cases "p = NULL")
    case True
    then show ?thesis using assms p by (simp add: FT_CLOSE_FID_def)
  next
    case False
    with assms p obtain s2 where "assign fd (V64 NULL) s2 = Some s'"
      by (auto simp: FT_CLOSE_FID_def bind_Some_iff)
    then show ?thesis by (auto simp: assign_def st_def deref64_def ld_def split: option.splits if_splits)
  qed
qed

lemma FT_CLOSE_FID_skip: "deref64 s fd = Some NULL \<Longrightarrow> FT_CLOSE_FID P L site fs fd s = Some s"
  by (simp add: FT_CLOSE_FID_def)

text \<open>A closed descriptor whose provider closes it and returns 0.\<close>

definition closes :: "'p provider \<Rightarrow> ptr \<Rightarrow> ptr \<Rightarrow> bool" where
  "closes P p f \<longleftrightarrow> (\<forall>s. \<exists>e. P f [V64 p] s = Some (V32 0, s\<lparr>env := e\<rparr>))"

text \<open>An object whose base descriptor and table of base operations lie outside the cells \<open>A\<close>.\<close>

definition closable :: "'p machine \<Rightarrow> ptr set \<Rightarrow> ptr \<Rightarrow> ptr \<Rightarrow> bool" where
  "closable s A p f \<longleftrightarrow> f \<noteq> NULL \<and> addr_of p struct_fid ''ops'' \<notin> A \<and>
     (case get64 s p struct_fid ''ops'' of
        None \<Rightarrow> False
      | Some t \<Rightarrow> get64 s t struct_fi_ops ''close'' = Some f \<and> addr_of t struct_fi_ops ''close'' \<notin> A)"

lemma get64_same_cell:
  "mem s' (addr_of p fs n) = mem s (addr_of p fs n) \<Longrightarrow> get64 s' p fs n = get64 s p fs n"
  by (simp add: get64_def get_def ld_def split: option.split)

lemma closable_outside:
  assumes "closable s A p f" and "\<And>a. a \<notin> A \<Longrightarrow> mem s' a = mem s a"
  shows "closable s' A p f"
proof -
  from assms(1) obtain t where t: "get64 s p struct_fid ''ops'' = Some t" "get64 s t struct_fi_ops ''close'' = Some f"
      "addr_of t struct_fi_ops ''close'' \<notin> A" "addr_of p struct_fid ''ops'' \<notin> A" "f \<noteq> NULL"
    by (auto simp: closable_def split: option.splits)
  have "get64 s' p struct_fid ''ops'' = Some t" using get64_same_cell [of s' p struct_fid "''ops''" s] assms(2) t by simp
  moreover have "get64 s' t struct_fi_ops ''close'' = Some f"
    using get64_same_cell [of s' t struct_fi_ops "''close''" s] assms(2) t by simp
  ultimately show ?thesis using t by (simp add: closable_def)
qed

lemma closable_meth:
  "closable s A p f \<Longrightarrow> meth s p struct_fid ''ops'' struct_fi_ops ''close'' = Some f \<and> f \<noteq> NULL"
  by (auto simp: closable_def meth_def split: option.splits)

lemma close_invoke:
  assumes "meth s p struct_fid ''ops'' struct_fi_ops ''close'' = Some f" and "f \<noteq> NULL"
  shows "fi_close P p s = invoke P f 4 [V64 p] s"
proof -
  have "proto struct_fi_ops ''close'' = Some (CInt, [Ptr])" by (simp add: proto_map_of structs)
  from vcall_invoke [OF assms this] show ?thesis by (simp add: fi_close_def)
qed

lemma bind_invoke:
  assumes "fi_ep_bind P ep bfid flags s = Some (v, s')"
    and "meth s ep struct_fid ''ops'' struct_fi_ops ''bind'' = Some b"
  shows "\<exists>args. invoke P b 4 args s = Some (v, s')"
proof -
  have "proto struct_fi_ops ''bind'' = Some (CInt, [Ptr, Ptr, U64])" by (simp add: proto_map_of structs)
  with assms show ?thesis
    by (auto simp: fi_ep_bind_def fid_ep.upcast vcall_meth call_def invoke_def bind_Some_iff split: if_splits)
qed

lemma FT_CLOSE_FID_ok:
  assumes fc: "fid_class fs" and cell: "mem s fd = Some (Init (V64 p))" and fd: "fd \<noteq> NULL" and p: "p \<noteq> NULL"
    and cl: "closable s A p f" and ok: "closes P p f" and log: "logged P log"
  shows "\<exists>s'. FT_CLOSE_FID P L site fs fd s = Some s' \<and> mem s' = (mem s)(fd \<mapsto> Init (V64 NULL)) \<and>
    log (env s') = log (env s) @ [f]"
proof -
  obtain e where e: "P f [V64 p] s = Some (V32 0, s\<lparr>env := e\<rparr>)" using ok by (auto simp: closes_def)
  have "fi_close P p s = Some (V32 0, s\<lparr>env := e\<rparr>)"
    using close_invoke [of s p f P] closable_meth [OF cl] e by (simp add: invoke_def)
  moreover have "deref64 s fd = Some p" using cell fd by (simp add: deref64_def ld_def)
  moreover have "log e = log (env s) @ [f]" using logged_call [OF log e] by simp
  ultimately show ?thesis
    using cell fd p fid_class.upcast [OF fc]
    by (simp add: FT_CLOSE_FID_def assign_def st_def)
qed

text \<open>The cells of the array, from index \<open>i\<close> on.\<close>

definition cells_from :: "ptr \<Rightarrow> nat \<Rightarrow> nat \<Rightarrow> ptr set" where
  "cells_from fd i n = {fd + of_nat (8 * j) | j. i \<le> j \<and> j < n}"

lemma closev_from_spec:
  assumes fc: "fid_class fs" and log: "logged P log"
    and i: "i \<le> length ps" and n: "length ps < 2 ^ 60"
    and nn: "\<forall>j < length ps. fd + of_nat (8 * j) \<noteq> NULL"
    and cells: "\<forall>j < length ps. i \<le> j \<longrightarrow> mem s (fd + of_nat (8 * j)) = Some (Init (V64 (ps ! j)))"
    and objs: "\<forall>p \<in> set ps. p \<noteq> NULL \<longrightarrow> closable s (cells_from fd 0 (length ps)) p (c p) \<and> closes P p (c p)"
  shows "\<exists>s'. closev_from P L site fs fd (int i) (int (length ps)) s = Some s' \<and>
    (\<forall>j < length ps. i \<le> j \<longrightarrow> mem s' (fd + of_nat (8 * j)) = Some (Init (V64 NULL))) \<and>
    (\<forall>a. a \<notin> cells_from fd i (length ps) \<longrightarrow> mem s' a = mem s a) \<and>
    log (env s') = log (env s) @ map c (filter (\<lambda>p. p \<noteq> NULL) (drop i ps))"
  using i cells objs
proof (induction "length ps - i" arbitrary: i s)
  case 0
  then have "i = length ps" by simp
  then show ?case by (simp add: closev_from.simps)
next
  case (Suc k)
  then have i: "i < length ps" by simp
  let ?fd = "fd + of_nat (8 * i)" and ?A = "cells_from fd 0 (length ps)"
  have addr: "fd + of_int (8 * int i) = ?fd" by simp
  have inA: "?fd \<in> ?A" using i by (auto simp: cells_from_def)
  have cell: "mem s ?fd = Some (Init (V64 (ps ! i)))" using Suc.prems(2) i by blast
  have drop: "drop i ps = ps ! i # drop (Suc i) ps" using i by (simp add: Cons_nth_drop_Suc)
  have other: "?fd \<noteq> fd + of_nat (8 * j)" if "i < j" "j < length ps" for j
  proof -
    have "8 * i < 2 ^ 64" "8 * j < 2 ^ 64" using that n by auto
    then show ?thesis using ptr_add_eq_iff [of "8 * i" "8 * j" fd] that by linarith
  qed
  obtain s1 where s1: "FT_CLOSE_FID P L site fs ?fd s = Some s1" "mem s1 = (mem s)(?fd \<mapsto> Init (V64 NULL))"
      "log (env s1) = log (env s) @ map c (filter (\<lambda>p. p \<noteq> NULL) [ps ! i])"
  proof (cases "ps ! i = NULL")
    case True
    then have "FT_CLOSE_FID P L site fs ?fd s = Some s"
      using cell nn i by (intro FT_CLOSE_FID_skip) (simp add: deref64_def ld_def)
    moreover have "mem s = (mem s)(?fd \<mapsto> Init (V64 NULL))" using cell True by (simp add: fun_upd_idem)
    ultimately show ?thesis using that True by simp
  next
    case False
    have "closable s ?A (ps ! i) (c (ps ! i))" "closes P (ps ! i) (c (ps ! i))"
      using Suc.prems(3) i False by (auto dest: nth_mem)
    from FT_CLOSE_FID_ok [OF fc cell _ False this log, of L site] nn i show ?thesis using that False by auto
  qed
  have cells1: "\<forall>j < length ps. Suc i \<le> j \<longrightarrow> mem s1 (fd + of_nat (8 * j)) = Some (Init (V64 (ps ! j)))"
  proof (intro allI impI)
    fix j assume j: "j < length ps" "Suc i \<le> j"
    then have "fd + of_nat (8 * j) \<noteq> ?fd" using other [of j] by auto
    then show "mem s1 (fd + of_nat (8 * j)) = Some (Init (V64 (ps ! j)))"
      using Suc.prems(2) j by (simp add: s1(2))
  qed
  have objs1: "\<forall>p \<in> set ps. p \<noteq> NULL \<longrightarrow> closable s1 ?A p (c p) \<and> closes P p (c p)"
  proof (intro ballI impI)
    fix p assume p: "p \<in> set ps" "p \<noteq> NULL"
    then have "closable s ?A p (c p)" "closes P p (c p)" using Suc.prems(3) by auto
    moreover have "mem s1 a = mem s a" if "a \<notin> ?A" for a using that inA by (auto simp: s1(2))
    ultimately show "closable s1 ?A p (c p) \<and> closes P p (c p)" using closable_outside by blast
  qed
  have k: "k = length ps - Suc i" "Suc i \<le> length ps" using Suc.hyps(2) i by simp_all
  obtain s' where s': "closev_from P L site fs fd (int (Suc i)) (int (length ps)) s1 = Some s'"
      "\<forall>j < length ps. Suc i \<le> j \<longrightarrow> mem s' (fd + of_nat (8 * j)) = Some (Init (V64 NULL))"
      "\<forall>a. a \<notin> cells_from fd (Suc i) (length ps) \<longrightarrow> mem s' a = mem s1 a"
      "log (env s') = log (env s1) @ map c (filter (\<lambda>p. p \<noteq> NULL) (drop (Suc i) ps))"
    using Suc.hyps(1) [OF k(1) k(2) cells1 objs1] by blast
  have "closev_from P L site fs fd (int i) (int (length ps)) s = Some s'"
    using s1(1) s'(1) i addr by (subst closev_from.simps) (simp add: add.commute)
  moreover have fresh: "?fd \<notin> cells_from fd (Suc i) (length ps)"
  proof
    assume "?fd \<in> cells_from fd (Suc i) (length ps)"
    then obtain j where "?fd = fd + of_nat (8 * j)" "Suc i \<le> j" "j < length ps"
      unfolding cells_from_def by blast
    with other [of j] show False by simp
  qed
  have "mem s' (fd + of_nat (8 * j)) = Some (Init (V64 NULL))" if "j < length ps" "i \<le> j" for j
  proof (cases "j = i")
    case True
    then show ?thesis using s'(3) fresh by (simp add: s1(2))
  qed (use that s'(2) in auto)
  moreover have "mem s' a = mem s a" if "a \<notin> cells_from fd i (length ps)" for a
  proof -
    have "a \<noteq> ?fd" "a \<notin> cells_from fd (Suc i) (length ps)" using that i by (auto simp: cells_from_def)
    then show ?thesis using s'(3) by (simp add: s1(2))
  qed
  ultimately show ?case using s'(4) s1(3) by (auto simp: drop)
qed

text \<open>Strings in memory: the bytes, then a zero.\<close>

definition cstring :: "'p machine \<Rightarrow> ptr \<Rightarrow> u8 list \<Rightarrow> bool" where
  "cstring s p bs \<longleftrightarrow> 0 \<notin> set bs \<and>
     list_all (\<lambda>i. ld s (p + of_nat i) 1 = Some (V8 ((bs @ [0]) ! i))) [0..<length bs + 1]"

lemma cstring_step:
  assumes "cstring s p (b # bs)"
  shows "ld s p 1 = Some (V8 b) \<and> b \<noteq> 0 \<and> cstring s (p + 1) bs"
proof -
  have "\<forall>i \<in> set [0..<length (b # bs) + 1]. ld s (p + of_nat i) 1 = Some (V8 (((b # bs) @ [0]) ! i))"
    using assms unfolding cstring_def list_all_iff by blast
  then have all: "ld s (p + of_nat i) 1 = Some (V8 ((b # bs @ [0]) ! i))" if "i < length bs + 2" for i
  proof -
    have "i \<in> set [0..<length (b # bs) + 1]" using that by auto
    with \<open>\<forall>i \<in> _. _\<close> show ?thesis by (metis append_Cons)
  qed
  have "ld s p 1 = Some (V8 b)" using all [of 0] by simp
  moreover have "ld s (p + 1 + of_nat i) 1 = Some (V8 ((bs @ [0]) ! i))" if "i < length bs + 1" for i
    using all [of "Suc i"] that by (simp add: add.assoc)
  ultimately show ?thesis using assms by (auto simp: cstring_def list_all_iff)
qed

lemma cstring_end: "cstring s p [] \<Longrightarrow> ld s p 1 = Some (V8 0)"
  by (simp add: cstring_def)

lemma strncmp_eq_take:
  "cstring s p bs \<Longrightarrow> cstring s q cs \<Longrightarrow>
    strncmp_eq s p q n = Some (take n (bs @ [0]) = take n (cs @ [0]))"
proof (induction n arbitrary: p q bs cs)
  case 0
  then show ?case by simp
next
  case (Suc n)
  show ?case
  proof (cases bs)
    case Nil
    then have p: "ld s p 1 = Some (V8 0)" using Suc.prems(1) cstring_end by simp
    show ?thesis
    proof (cases cs)
      case Nil
      then show ?thesis using \<open>bs = []\<close> p cstring_end [of s q] Suc.prems(2) by simp
    next
      case (Cons c cs')
      then show ?thesis using \<open>bs = []\<close> p cstring_step [of s q c cs'] Suc.prems(2) by auto
    qed
  next
    case (Cons b bs')
    then have p: "ld s p 1 = Some (V8 b)" "b \<noteq> 0" "cstring s (p + 1) bs'"
      using cstring_step [of s p b bs'] Suc.prems(1) by auto
    show ?thesis
    proof (cases cs)
      case Nil
      then show ?thesis using Cons p cstring_end [of s q] Suc.prems(2) by simp
    next
      case c: (Cons c cs')
      then have "ld s q 1 = Some (V8 c)" "cstring s (q + 1) cs'"
        using cstring_step [of s q c cs'] Suc.prems(2) by auto
      then show ?thesis using Cons c p Suc.IH [OF p(3)] by auto
    qed
  qed
qed

lemma small_structs:
  "small struct_fi_info" "small struct_fi_ep_attr" "small struct_fi_domain_attr" "small struct_fi_tx_attr"
  "small struct_fi_rx_attr"
  by (simp_all add: small_def structs layout_simps)

subsection \<open>Properties\<close>

text \<open>C25. \<open>ft_exit_code\<close>: undefined for the smallest \<open>int\<close> only, whose negation overflows; otherwise an
  exit code between 0 and 255, which is 0 exactly for 0. For every error of the API the code is
  its number when that fits and \<open>EXIT_FAILURE\<close> when it does not, so no error exits with success.\<close>

theorem exit_codes:
  "(ft_exit_code ret = None) = (ret = INT_MIN) \<and>
    pred_option (\<lambda>c. c \<le> 255 \<and> (c = EXIT_SUCCESS) = (ret = 0)) (ft_exit_code ret) \<and>
    ft_exit_code (- errno e) = Some (if errno e \<le> 255 then errno e else EXIT_FAILURE)"
proof (intro conjI)
  show "(ft_exit_code ret = None) = (ret = INT_MIN)" by (simp add: ft_exit_code_spec)
  show "pred_option (\<lambda>c. c \<le> 255 \<and> (c = EXIT_SUCCESS) = (ret = 0)) (ft_exit_code ret)"
    by (rule ft_exit_code_range)
  show "ft_exit_code (- errno e) = Some (if errno e \<le> 255 then errno e else EXIT_FAILURE)"
    by (cases e) (simp_all add: ft_exit_code_spec INT_MIN_def push_bit_eq_mult)
qed

text \<open>A test size is used exactly when the provider can send a message of that size and either
  all sizes are enabled or one of the size's enable flags is.\<close>

theorem use_size_iff:
  assumes "get64 s (test_size_at L index) struct_test_size_param ''size'' = Some size'"
    and "get32 s (test_size_at L index) struct_test_size_param ''enable_flags'' = Some enabled"
    and "deref64 s (L ''fi'') = Some info" and "get64 s info struct_fi_info ''ep_attr'' = Some attr"
    and "get64 s attr struct_fi_ep_attr ''max_msg_size'' = Some max_size"
  shows "ft_use_size L index flags s =
    Some (size' \<le> max_size \<and> (flags = FT_ENABLE_ALL \<or> flags AND enabled \<noteq> 0))"
  using assms by (simp add: ft_use_size_def)

definition example_link :: linkage where
  "example_link nm =
     (if nm = ''test_size'' then 0x1000 else if nm = ''fi'' then 0x2000 else if nm = ''opts'' then 0x5000
      else if nm = ''stderr'' then 0x2008 else if nm = ''clock_gettime'' then 0x101 else if nm = ''fi_strerror'' then 0x102
      else if nm = ''fprintf'' then 0x103 else if nm = ''eq_readerr'' then 0x104 else 0x200)"

definition example_sizes :: "unit machine" where
  "example_sizes = boot (object 0x1010 struct_test_size_param [(''size'', V64 64), (''enable_flags'', V32 1)] @
     [(0x2000, V64 0x3000)] @ object 0x3000 struct_fi_info [(''ep_attr'', V64 0x4000)] @
     object 0x4000 struct_fi_ep_attr [(''max_msg_size'', V64 4096)]) 0x9000 ()"

theorem use_size_iff_witness: "ft_use_size example_link 1 FT_DEFAULT_SIZE example_sizes = Some True"
proof -
  have "get64 example_sizes (test_size_at example_link 1) struct_test_size_param ''size'' = Some 64" by code_simp
  moreover have "get32 example_sizes (test_size_at example_link 1) struct_test_size_param ''enable_flags'' = Some 1"
    by code_simp
  moreover have "deref64 example_sizes (example_link ''fi'') = Some 0x3000" by code_simp
  moreover have "get64 example_sizes 0x3000 struct_fi_info ''ep_attr'' = Some 0x4000" by code_simp
  moreover have "get64 example_sizes 0x4000 struct_fi_ep_attr ''max_msg_size'' = Some 4096" by code_simp
  ultimately show ?thesis
    using use_size_iff [of example_sizes example_link 1 64 1 "0x3000" "0x4000" 4096 FT_DEFAULT_SIZE]
    by (simp add: FT_DEFAULT_SIZE_def)
qed

text \<open>C33. Forcing prefix mode sets the mode bit of the hints and the option, and keeps the mode bits
  the caller had; after it the check holds exactly when both the transmit and the receive
  attributes have the bit. Without it the check holds.\<close>

theorem prefix_forced:
  assumes "mapped s info struct_fi_info" and "mapped s optsp struct_ft_opts"
    and "get64 s info struct_fi_info ''mode'' = Some m"
    and "get64 s info struct_fi_info ''tx_attr'' = Some tx" and "get64 s tx struct_fi_tx_attr ''mode'' = Some txm"
    and "get64 s info struct_fi_info ''rx_attr'' = Some rx" and "get64 s rx struct_fi_rx_attr ''mode'' = Some rxm"
    and "separate (addrs optsp struct_ft_opts) (addrs info struct_fi_info @ addrs tx struct_fi_tx_attr @ addrs rx struct_fi_rx_attr)"
    and "separate (addrs info struct_fi_info) (addrs optsp struct_ft_opts @ addrs tx struct_fi_tx_attr @ addrs rx struct_fi_rx_attr)"
  shows "(\<exists>s'. ft_force_prefix info optsp s = Some s' \<and>
      get64 s' info struct_fi_info ''mode'' = Some (m OR FI_MSG_PREFIX) \<and>
      ft_check_prefix_forced info optsp s' = Some (txm AND FI_MSG_PREFIX \<noteq> 0 \<and> rxm AND FI_MSG_PREFIX \<noteq> 0)) \<and>
    (get32 s optsp struct_ft_opts ''force_prefix'' = Some 0 \<longrightarrow> ft_check_prefix_forced info optsp s = Some True)"
proof (intro conjI impI)
  have sep: "separate xs (ys @ zs) \<Longrightarrow> separate xs ys \<and> separate xs zs" for xs ys zs
    by (auto simp: separate_def list_all_iff)
  note so = sep [OF assms(8)] and si = sep [OF assms(9)]
  have ok: "member_ok struct_fi_info ''mode'' (V64 w)" "member_ok struct_ft_opts ''force_prefix'' (V32 v)" for v w
    by (simp_all add: member_ok_def structs)
  have nn: "info \<noteq> NULL" "optsp \<noteq> NULL" using assms(1,2) by (simp_all add: mapped_def)
  define s1 where "s1 = upd info struct_fi_info ''mode'' (V64 (m OR FI_MSG_PREFIX)) s"
  define s2 where "s2 = upd optsp struct_ft_opts ''force_prefix'' (V32 1) s1"
  have p1: "put info struct_fi_info ''mode'' (V64 (m OR FI_MSG_PREFIX)) s = Some s1"
    unfolding s1_def by (rule mapped_put [OF assms(1) ok(1)])
  have "mapped s1 optsp struct_ft_opts"
    unfolding s1_def by (rule mapped_upd_separate [OF assms(2) _ ok(1)]) (use si in blast)
  then have p2: "put optsp struct_ft_opts ''force_prefix'' (V32 1) s1 = Some s2"
    unfolding s2_def by (rule mapped_put [OF _ ok(2)])
  have info: "get64 s2 info struct_fi_info n = (if n = ''mode'' then Some (m OR FI_MSG_PREFIX) else get64 s info struct_fi_info n)" for n
    unfolding s2_def get64_upd_separate [OF conjunct1 [OF so] ok(2)] s1_def
      get64_upd [OF nn(1) ok(1) small_structs(1)] by simp
  have other: "get64 s2 q gs n = get64 s q gs n"
    if "separate (addrs info struct_fi_info) (addrs q gs)" "separate (addrs optsp struct_ft_opts) (addrs q gs)" for q gs n
    unfolding s2_def get64_upd_separate [OF that(2) ok(2)] s1_def get64_upd_separate [OF that(1) ok(1)] ..
  have forced: "get32 s2 optsp struct_ft_opts ''force_prefix'' = Some 1"
    unfolding s2_def by (simp add: get32_upd [OF nn(2) ok(2) small_ft_opts])
  have tx: "get64 s2 tx struct_fi_tx_attr ''mode'' = Some txm"
    using other [of tx struct_fi_tx_attr] si so sep assms(5) by metis
  have rx: "get64 s2 rx struct_fi_rx_attr ''mode'' = Some rxm"
    using other [of rx struct_fi_rx_attr] si so sep assms(7) by metis
  have "ft_force_prefix info optsp s = Some s2" by (simp add: ft_force_prefix_def assms(3) p1 p2)
  moreover have "ft_check_prefix_forced info optsp s2 = Some (txm AND FI_MSG_PREFIX \<noteq> 0 \<and> rxm AND FI_MSG_PREFIX \<noteq> 0)"
    by (simp add: ft_check_prefix_forced_def forced info tx rx assms(4,6))
  ultimately show "\<exists>s'. ft_force_prefix info optsp s = Some s' \<and>
      get64 s' info struct_fi_info ''mode'' = Some (m OR FI_MSG_PREFIX) \<and>
      ft_check_prefix_forced info optsp s' = Some (txm AND FI_MSG_PREFIX \<noteq> 0 \<and> rxm AND FI_MSG_PREFIX \<noteq> 0)"
    using info by auto
  show "ft_check_prefix_forced info optsp s = Some True"
    if "get32 s optsp struct_ft_opts ''force_prefix'' = Some 0"
    using that by (simp add: ft_check_prefix_forced_def)
qed

text \<open>Hints at 0x3000 with transmit and receive attributes that have the prefix bit, options at 0x5000.\<close>

definition example_hints :: "unit machine" where
  "example_hints = boot (object 0x3000 struct_fi_info [(''tx_attr'', V64 0x4000), (''rx_attr'', V64 0x4100)] @
     zero_object 0x3000 struct_fi_info @ zero_object 0x5000 struct_ft_opts @
     object 0x4000 struct_fi_tx_attr [(''mode'', V64 FI_MSG_PREFIX)] @
     object 0x4100 struct_fi_rx_attr [(''mode'', V64 FI_MSG_PREFIX)]) 0x9000 ()"

theorem prefix_forced_witness:
  "\<exists>s'. ft_force_prefix 0x3000 0x5000 example_hints = Some s' \<and> ft_check_prefix_forced 0x3000 0x5000 s' = Some True"
proof -
  let ?s = example_hints
  have "mapped ?s 0x3000 struct_fi_info" "mapped ?s 0x5000 struct_ft_opts" by code_simp+
  moreover have "get64 ?s 0x3000 struct_fi_info ''mode'' = Some 0"
    "get64 ?s 0x3000 struct_fi_info ''tx_attr'' = Some 0x4000"
    "get64 ?s 0x4000 struct_fi_tx_attr ''mode'' = Some FI_MSG_PREFIX"
    "get64 ?s 0x3000 struct_fi_info ''rx_attr'' = Some 0x4100"
    "get64 ?s 0x4100 struct_fi_rx_attr ''mode'' = Some FI_MSG_PREFIX" by code_simp+
  moreover have "separate (addrs 0x5000 struct_ft_opts)
      (addrs 0x3000 struct_fi_info @ addrs 0x4000 struct_fi_tx_attr @ addrs 0x4100 struct_fi_rx_attr)"
    "separate (addrs 0x3000 struct_fi_info)
      (addrs 0x5000 struct_ft_opts @ addrs 0x4000 struct_fi_tx_attr @ addrs 0x4100 struct_fi_rx_attr)"
  proof -
    have "sizeof (Struct struct_ft_opts) \<le> 0x200" "sizeof (Struct struct_fi_info) \<le> 0x100"
      "sizeof (Struct struct_fi_tx_attr) \<le> 0x100" "sizeof (Struct struct_fi_rx_attr) \<le> 0x100" by code_simp+
    then have "set (addrs 0x3000 struct_fi_info) \<inter> set (addrs 0x5000 struct_ft_opts) = {}"
      "set (addrs 0x4000 struct_fi_tx_attr) \<inter> set (addrs 0x5000 struct_ft_opts) = {}"
      "set (addrs 0x4100 struct_fi_rx_attr) \<inter> set (addrs 0x5000 struct_ft_opts) = {}"
      "set (addrs 0x3000 struct_fi_info) \<inter> set (addrs 0x4000 struct_fi_tx_attr) = {}"
      "set (addrs 0x3000 struct_fi_info) \<inter> set (addrs 0x4100 struct_fi_rx_attr) = {}"
      by (intro addrs_disjoint; simp del: sizeof.simps)+
    then show "separate (addrs 0x5000 struct_ft_opts)
        (addrs 0x3000 struct_fi_info @ addrs 0x4000 struct_fi_tx_attr @ addrs 0x4100 struct_fi_rx_attr)"
      "separate (addrs 0x3000 struct_fi_info)
        (addrs 0x5000 struct_ft_opts @ addrs 0x4000 struct_fi_tx_attr @ addrs 0x4100 struct_fi_rx_attr)"
      unfolding separate_def list_all_iff set_append by blast+
  qed
  moreover have "FI_MSG_PREFIX \<noteq> 0" by code_simp
  ultimately show ?thesis
    using prefix_forced [of ?s "0x3000" "0x5000" 0 "0x4000" FI_MSG_PREFIX "0x4100" FI_MSG_PREFIX] by auto
qed

text \<open>A timed region: \<open>ft_start\<close> marks the test active and reads the clock into \<open>start\<close>, \<open>ft_stop\<close> reads
  it into \<open>end\<close> and clears the mark; the other options are as they were. Each reads the clock once.\<close>

theorem timed_region:
  assumes "quiet P" and "logged P log" and "\<forall>args s. P (L ''clock_gettime'') args s \<noteq> None"
    and "mapped s (L ''opts'') struct_ft_opts" and "get32 s (L ''opts'') struct_ft_opts ''options'' = Some o1"
  shows "\<exists>s1 s2. ft_start P L s = Some s1 \<and> ft_stop P L s1 = Some s2 \<and>
    get32 s1 (L ''opts'') struct_ft_opts ''options'' = Some (o1 OR FT_OPT_ACTIVE) \<and>
    get32 s2 (L ''opts'') struct_ft_opts ''options'' = Some (o1 AND NOT FT_OPT_ACTIVE) \<and>
    log (env s2) = log (env s) @ [L ''clock_gettime'', L ''clock_gettime'']"
proof -
  let ?o = "L ''opts''" and ?c = "L ''clock_gettime''"
  have ok: "member_ok struct_ft_opts ''options'' (V32 w)" for w by (simp add: member_ok_def structs)
  have nn: "?o \<noteq> NULL" using assms(4) by (simp add: mapped_def)
  have call: "\<exists>t'. invoke_void P ?c args t = Some t' \<and> mem t' = mem t \<and> log (env t') = log (env t) @ [?c]" for args t
  proof -
    obtain v t' where "P ?c args t = Some (v, t')" using assms(3) by fastforce
    then show ?thesis using quiet_call [OF assms(1)] logged_call [OF assms(2)] by (fastforce simp: invoke_void_def)
  qed
  define u where "u = upd ?o struct_ft_opts ''options'' (V32 (o1 OR FT_OPT_ACTIVE)) s"
  have p: "put ?o struct_ft_opts ''options'' (V32 (o1 OR FT_OPT_ACTIVE)) s = Some u"
    unfolding u_def by (rule mapped_put [OF assms(4) ok])
  have mu: "mapped u ?o struct_ft_opts" unfolding u_def by (rule mapped_upd [OF assms(4) ok small_ft_opts])
  obtain s1 where s1: "invoke_void P ?c [V32 CLOCK_MONOTONIC, V64 (L ''start'')] u = Some s1" "mem s1 = mem u"
      "log (env s1) = log (env u) @ [?c]" using call by blast
  obtain s2 where s2: "invoke_void P ?c [V32 CLOCK_MONOTONIC, V64 (L ''end'')] s1 = Some s2" "mem s2 = mem s1"
      "log (env s2) = log (env s1) @ [?c]" using call by blast
  have o: "get32 t ?o struct_ft_opts ''options'' = Some (o1 OR FT_OPT_ACTIVE)" if "mem t = mem u" for t
    using get_mem_cong [OF that] by (simp add: get32_def u_def get_upd [OF nn ok small_ft_opts])
  have m2: "mapped s2 ?o struct_ft_opts" using mu s1(2) s2(2) by (simp add: mapped_def)
  define s3 where "s3 = upd ?o struct_ft_opts ''options'' (V32 ((o1 OR FT_OPT_ACTIVE) AND NOT FT_OPT_ACTIVE)) s2"
  have "put ?o struct_ft_opts ''options'' (V32 ((o1 OR FT_OPT_ACTIVE) AND NOT FT_OPT_ACTIVE)) s2 = Some s3"
    unfolding s3_def by (rule mapped_put [OF m2 ok])
  then have stop: "ft_stop P L s1 = Some s3" using s2(1) o [of s2] s1(2) s2(2) by (simp add: ft_stop_def)
  have start: "ft_start P L s = Some s1" by (simp add: ft_start_def assms(5) p s1(1))
  have "(o1 OR FT_OPT_ACTIVE) AND NOT FT_OPT_ACTIVE = o1 AND NOT FT_OPT_ACTIVE"
    by (rule bit_word_eqI) (auto simp: bit_simps)
  then have "get32 s3 ?o struct_ft_opts ''options'' = Some (o1 AND NOT FT_OPT_ACTIVE)"
    by (simp add: s3_def get32_upd [OF nn ok small_ft_opts])
  moreover have "log (env s3) = log (env s) @ [?c, ?c]" using s1(3) s2(3) by (simp add: s3_def u_def)
  ultimately show ?thesis using start stop o [of s1] s1(2) by blast
qed

text \<open>A provider that keeps a log of the functions called and returns 0.\<close>

definition logging :: "ptr list provider" where
  "logging f args s = Some (V32 0, s\<lparr>env := env s @ [f]\<rparr>)"

lemma logging_ok: "quiet logging" "logged logging (\<lambda>e. e)" "logging f args s \<noteq> None"
  by (auto simp: quiet_def logged_def logging_def)

theorem timed_region_witness:
  "\<exists>s1 s2. ft_start logging example_link (boot (zero_object 0x5000 struct_ft_opts) 0x9000 []) = Some s1 \<and>
    ft_stop logging example_link s1 = Some s2 \<and> env s2 = [0x101, 0x101]"
proof -
  let ?s = "boot (zero_object 0x5000 struct_ft_opts) 0x9000 [] :: ptr list machine"
  have "mapped ?s 0x5000 struct_ft_opts" "get32 ?s 0x5000 struct_ft_opts ''options'' = Some 0" by code_simp+
  moreover have "example_link ''opts'' = 0x5000" "example_link ''clock_gettime'' = 0x101" by code_simp+
  ultimately show ?thesis
    using timed_region [OF logging_ok(1,2), of example_link ?s 0] logging_ok(3) by (auto simp: boot_def)
qed

text \<open>C24. Whatever the provider's \<open>close\<close> does, after \<open>FT_CLOSE_FID\<close> the variable is null, so doing it
  again is a no-op: an object is never closed twice through one variable.\<close>

theorem close_fid_once:
  assumes "FT_CLOSE_FID P L site fs fd s = Some s'"
  shows "deref64 s' fd = Some NULL \<and> FT_CLOSE_FID P L site fs fd s' = Some s'"
  using FT_CLOSE_FID_null [OF assms] FT_CLOSE_FID_skip by blast

definition example_queue :: "ptr list machine" where
  "example_queue = boot ([(0x100, V64 0x1000), (0x108, V64 0), (0x110, V64 0x1100)] @
     object 0x1000 struct_fid [(''ops'', V64 0x2000)] @ object 0x1100 struct_fid [(''ops'', V64 0x2000)] @
     object 0x2000 struct_fi_ops [(''close'', V64 0x77)]) 0x9000 []"

theorem close_fid_once_witness:
  "\<exists>s'. FT_CLOSE_FID logging example_link (0, 0, 0) struct_fid_cq 0x100 example_queue = Some s' \<and>
    FT_CLOSE_FID logging example_link (0, 0, 0) struct_fid_cq 0x100 s' = Some s'"
proof -
  have "FT_CLOSE_FID logging example_link (0, 0, 0) struct_fid_cq 0x100 example_queue \<noteq> None" by code_simp
  then show ?thesis using close_fid_once by blast
qed





text \<open>C35. A failed read of a queue is reported one way: by reading the error entry when the error is
  that one is available, by printing the error otherwise.\<close>

theorem queue_error_reported:
  assumes "logged P log" and "FT_PROCESS_EQ_ERR P L site rd eqp str s = Some s'"
  shows "log (env s') = log (env s) @
    (if rd = - ucast (errno FI_EAVAIL) then [L ''eq_readerr''] else [L ''fi_strerror'', L ''fprintf''])"
proof (cases "rd = - ucast (errno FI_EAVAIL)")
  case True
  then have "invoke_void P (L ''eq_readerr'') [V64 eqp, V64 str] s = Some s'"
    using assms(2) by (simp add: FT_PROCESS_EQ_ERR_def FT_PROCESS_QUEUE_ERR_def)
  from logged_invoke_void [OF assms(1) this] True show ?thesis by simp
next
  case False
  then have p: "FT_PRINTERR P L site rd s = Some s'"
    using assms(2) by (simp only: FT_PROCESS_EQ_ERR_def FT_PROCESS_QUEUE_ERR_def if_False)
  obtain fmt nm line where site: "site = (fmt, nm, line)" by (cases site)
  from p obtain str t e where
    a: "invoke P (L ''fi_strerror'') 8 [V32 (ucast (- rd))] s = Some (str, t)" and
    b: "invoke_void P (L ''fprintf'') [V64 e, V64 fmt, V64 nm, V32 line, V32 (ucast rd), str] t = Some s'"
    by (auto simp: FT_PRINTERR_def site bind_Some_iff)
  have "log (env s') = log (env s) @ [L ''fi_strerror'', L ''fprintf'']"
    using logged_invoke [OF assms(1) a] logged_invoke_void [OF assms(1) b] by simp
  with False show ?thesis by (simp only: if_False)
qed

theorem queue_error_reported_witness:
  "\<exists>s'. FT_PROCESS_EQ_ERR logging example_link (0, 0, 0) (- 259) 0x10 0x20 (boot [] 0x9000 []) = Some s' \<and> env s' = [0x104]"
proof -
  have "FT_PROCESS_EQ_ERR logging example_link (0, 0, 0) (- 259) 0x10 0x20 (boot [] 0x9000 []) \<noteq> None" by code_simp
  then obtain s' where "FT_PROCESS_EQ_ERR logging example_link (0, 0, 0) (- 259) 0x10 0x20 (boot [] 0x9000 []) = Some s'"
    by blast
  with queue_error_reported [OF logging_ok(2) this] show ?thesis by (simp add: boot_def example_link_def)
qed

text \<open>C36. \<open>TEST_SET_N_RETURN\<close> on two strings: it matches exactly when their first \<open>len\<close> bytes, the
  terminators included, are the same; then the value is stored and the function returns,
  otherwise nothing happens.\<close>

theorem name_matches:
  assumes "cstring s str bs" and "cstring s name cs" and "assign data val s = Some s'"
  shows "TEST_SET_N_RETURN str len name val data s =
    (if take (unat len) (bs @ [0]) = take (unat len) (cs @ [0]) then Some (True, s') else Some (False, s))"
  using strncmp_eq_take [OF assms(1,2)] assms(3) by (simp add: TEST_SET_N_RETURN_def)

definition example_strings :: "unit machine" where
  "example_strings = boot [(0x10, V8 102), (0x11, V8 105), (0x12, V8 0), (0x20, V8 102), (0x21, V8 0), (0x30, V32 7)] 0x9000 ()"

theorem name_matches_witness:
  "TEST_SET_N_RETURN 0x20 2 0x10 (V32 1) 0x30 example_strings = Some (False, example_strings) \<and>
    (\<exists>s'. TEST_SET_N_RETURN 0x20 1 0x10 (V32 1) 0x30 example_strings = Some (True, s'))"
proof -
  have "cstring example_strings 0x20 [102]" "cstring example_strings 0x10 [102, 105]" by code_simp+
  moreover have "assign 0x30 (V32 1) example_strings \<noteq> None" by code_simp
  then obtain s' where "assign 0x30 (V32 1) example_strings = Some s'" by blast
  ultimately show ?thesis
    using name_matches [of example_strings "0x20" "[102]" "0x10" "[102, 105]" "0x30" "V32 1" s' 2]
      name_matches [of example_strings "0x20" "[102]" "0x10" "[102, 105]" "0x30" "V32 1" s' 1] by auto
qed

end
