(* ===== verification/Msg.thy ===== *)
theory Msg
  imports Shared
begin

section \<open>msg.c: the message client and server\<close>

text \<open>
  The one program of the repository's C code: \<open>msg\<close> sets the options, parses the command line
  with \<open>getopt\<close>, asks for a message endpoint and lets \<open>run\<close> connect, exchange a greeting and
  shut down. The functions of the test library and \<open>getopt\<close> are external symbols, the variables
  \<open>opts\<close>, \<open>hints\<close>, \<open>ep\<close>, \<open>optarg\<close> and \<open>optind\<close> cells at their addresses.
\<close>

subsection \<open>run\<close>

text \<open>What follows the start of the server.\<close>

definition run_connect :: "'p provider \<Rightarrow> linkage \<Rightarrow> 'p machine \<Rightarrow> (u32 \<times> 'p machine) option" where
  "run_connect P L s = do {
     dst \<leftarrow> get64 s (L ''opts'') struct_ft_opts ''dst_addr'';
     (v, s1) \<leftarrow> (if dst \<noteq> NULL then invoke P (L ''ft_client_connect'') 4 [] s
                else invoke P (L ''ft_server_connect'') 4 [] s);
     ret \<leftarrow> the32 v;
     if ret \<noteq> 0 then Some (ret, s1)
     else do {
       ep \<leftarrow> deref64 s1 (L ''ep'');
       (v, s2) \<leftarrow> invoke P (L ''ft_send_recv_greeting'') 4 [V64 ep] s1;
       ret \<leftarrow> the32 v;
       ep \<leftarrow> deref64 s2 (L ''ep'');
       (_, s3) \<leftarrow> fi_shutdown P ep 0 s2;
       Some (ret, s3) } }"

definition run :: "'p provider \<Rightarrow> linkage \<Rightarrow> 'p machine \<Rightarrow> (u32 \<times> 'p machine) option" where
  "run P L s = do {
     dst \<leftarrow> get64 s (L ''opts'') struct_ft_opts ''dst_addr'';
     if dst = NULL
     then do {
       (v, s1) \<leftarrow> invoke P (L ''ft_start_server'') 4 [] s;
       ret \<leftarrow> the32 v;
       if ret \<noteq> 0 then Some (ret, s1) else run_connect P L s1 }
     else run_connect P L s }"

subsection \<open>The option loop\<close>

text \<open>The option string of the program, and the characters \<open>?\<close> and \<open>h\<close>.\<close>

definition msg_optstring :: string where
  "msg_optstring = ''h'' @ ADDR_OPTS @ INFO_OPTS"

definition op_unknown :: u32 where "op_unknown = 63"
definition op_help :: u32 where "op_help = 104"

text \<open>The loop ends with the value \<open>getopt\<close> ends with (\<open>None\<close>), or returns from \<open>msg\<close>
  (\<open>Some\<close> of the exit code).\<close>

partial_function (option) msg_options :: "'p provider \<Rightarrow> linkage \<Rightarrow> u32 \<Rightarrow> ptr \<Rightarrow> 'p machine \<Rightarrow>
    (u32 option \<times> 'p machine) option" where
  "msg_options P L argc argv s = do {
     (v, s1) \<leftarrow> invoke P (L ''getopt'') 4 [V32 argc, V64 argv, V64 (L ''.str.optstring'')] s;
     opr \<leftarrow> the32 v;
     if opr = - 1 then Some (None, s1)
     else if opr = op_unknown \<or> opr = op_help
     then do {
       name \<leftarrow> deref64 s1 argv;
       s2 \<leftarrow> invoke_void P (L ''ft_usage'') [V64 name, V64 (L ''.str.usage'')] s1;
       Some (Some EXIT_FAILURE, s2) }
     else do {
       arg \<leftarrow> deref64 s1 (L ''optarg'');
       s2 \<leftarrow> invoke_void P (L ''ft_parse_addr_opts'') [V32 opr, V64 arg, V64 (L ''opts'')] s1;
       arg \<leftarrow> deref64 s2 (L ''optarg'');
       hints \<leftarrow> deref64 s2 (L ''hints'');
       s3 \<leftarrow> invoke_void P (L ''ft_parseinfo'') [V32 opr, V64 arg, V64 hints, V64 (L ''opts'')] s2;
       msg_options P L argc argv s3 } }"

declare msg_options.simps [code]

subsection \<open>msg\<close>

text \<open>\<open>opts = INIT_OPTS; opts.options |= FT_OPT_SIZE;\<close>\<close>

definition msg_init :: "linkage \<Rightarrow> u32 \<Rightarrow> ptr \<Rightarrow> 'p machine \<Rightarrow> 'p machine option" where
  "msg_init L argc argv s = do {
     s1 \<leftarrow> assign_struct (L ''opts'') struct_ft_opts (INIT_OPTS argc argv) s;
     o1 \<leftarrow> get32 s1 (L ''opts'') struct_ft_opts ''options'';
     put (L ''opts'') struct_ft_opts ''options'' (V32 (o1 OR FT_OPT_SIZE)) s1 }"

text \<open>From the end of the option loop to the call of \<open>run\<close>.\<close>

definition msg_configure :: "linkage \<Rightarrow> u32 \<Rightarrow> ptr \<Rightarrow> 'p machine \<Rightarrow> 'p machine option" where
  "msg_configure L argc argv s = do {
     i \<leftarrow> deref32 s (L ''optind'');
     s1 \<leftarrow> (if i <s argc
           then do {
             arg \<leftarrow> deref64 s (argv + 8 * scast i);
             put (L ''opts'') struct_ft_opts ''dst_addr'' (V64 arg) s }
           else Some s);
     h \<leftarrow> deref64 s1 (L ''hints'');
     e \<leftarrow> get64 s1 h struct_fi_info ''ep_attr'';
     s2 \<leftarrow> put e struct_fi_ep_attr ''type'' (V32 (fi_ep_type_val FI_EP_MSG)) s1;
     h \<leftarrow> deref64 s2 (L ''hints'');
     s3 \<leftarrow> put h struct_fi_info ''caps'' (V64 FI_MSG) s2;
     h \<leftarrow> deref64 s3 (L ''hints'');
     d \<leftarrow> get64 s3 h struct_fi_info ''domain_attr'';
     put d struct_fi_domain_attr ''mr_mode'' (V32 (FI_MR_LOCAL OR OFI_MR_BASIC_MAP)) s3 }"

definition msg :: "'p provider \<Rightarrow> linkage \<Rightarrow> u32 \<Rightarrow> ptr \<Rightarrow> 'p machine \<Rightarrow> (u32 \<times> 'p machine) option" where
  "msg P L argc argv s = do {
     s1 \<leftarrow> msg_init L argc argv s;
     (h, s2) \<leftarrow> fi_allocinfo P L s1;
     s3 \<leftarrow> assign (L ''hints'') h s2;
     hints \<leftarrow> deref64 s3 (L ''hints'');
     if hints = NULL then Some (EXIT_FAILURE, s3)
     else do {
       (exit, s4) \<leftarrow> msg_options P L argc argv s3;
       case exit of
         Some code \<Rightarrow> Some (code, s4)
       | None \<Rightarrow> do {
           s5 \<leftarrow> msg_configure L argc argv s4;
           (ret, s6) \<leftarrow> run P L s5;
           s7 \<leftarrow> invoke_void P (L ''ft_free_res'') [] s6;
           code \<leftarrow> ft_exit_code ret;
           Some (code, s7) } } }"

subsection \<open>Traces\<close>

text \<open>The sequences of calls \<open>run\<close> may make, with the value it then returns; \<open>conn\<close> is the
  function that connects, \<open>shut\<close> the endpoint's \<open>shutdown\<close>.\<close>

inductive connect_trace :: "linkage \<Rightarrow> ptr \<Rightarrow> ptr \<Rightarrow> ptr list \<Rightarrow> u32 \<Rightarrow> bool" for L shut conn where
  failed: "ret \<noteq> 0 \<Longrightarrow> connect_trace L shut conn [conn] ret"
| greeted: "connect_trace L shut conn [conn, L ''ft_send_recv_greeting'', shut] ret"

inductive run_trace :: "linkage \<Rightarrow> ptr \<Rightarrow> ptr \<Rightarrow> ptr list \<Rightarrow> u32 \<Rightarrow> bool" for L shut where
  client: "dst \<noteq> NULL \<Longrightarrow> connect_trace L shut (L ''ft_client_connect'') t ret \<Longrightarrow> run_trace L shut dst t ret"
| no_server: "ret \<noteq> 0 \<Longrightarrow> run_trace L shut NULL [L ''ft_start_server''] ret"
| server: "connect_trace L shut (L ''ft_server_connect'') t ret \<Longrightarrow>
    run_trace L shut NULL (L ''ft_start_server'' # t) ret"

inductive_simps connect_trace_iff: "connect_trace L shut conn t ret"
inductive_cases run_trace_cases: "run_trace L shut dst t ret"

text \<open>What \<open>run\<close> needs to know of two calls: starting the server does not change the destination the
  options name, and \<open>shut\<close> is the \<open>shutdown\<close> of the endpoint \<open>ep\<close> points to after the greeting.\<close>

definition run_env :: "'p provider \<Rightarrow> linkage \<Rightarrow> ptr \<Rightarrow> bool" where
  "run_env P L shut \<longleftrightarrow>
     (\<forall>args s v s'. P (L ''ft_start_server'') args s = Some (v, s') \<longrightarrow>
        get64 s' (L ''opts'') struct_ft_opts ''dst_addr'' = get64 s (L ''opts'') struct_ft_opts ''dst_addr'') \<and>
     (\<forall>args s v s' e f. P (L ''ft_send_recv_greeting'') args s = Some (v, s') \<longrightarrow> deref64 s' (L ''ep'') = Some e \<longrightarrow>
        meth s' e struct_fid_ep ''cm'' struct_fi_ops_cm ''shutdown'' = Some f \<longrightarrow> f = shut)"

lemma run_env_start:
  "run_env P L shut \<Longrightarrow> invoke P (L ''ft_start_server'') n args s = Some (v, s') \<Longrightarrow>
    get64 s' (L ''opts'') struct_ft_opts ''dst_addr'' = get64 s (L ''opts'') struct_ft_opts ''dst_addr''"
  by (auto simp: run_env_def invoke_def bind_Some_iff split: if_splits)

lemma run_env_greeting:
  "run_env P L shut \<Longrightarrow> invoke P (L ''ft_send_recv_greeting'') n args s = Some (v, s') \<Longrightarrow>
    deref64 s' (L ''ep'') = Some e \<Longrightarrow>
    meth s' e struct_fid_ep ''cm'' struct_fi_ops_cm ''shutdown'' = Some f \<Longrightarrow> f = shut"
  by (auto simp: run_env_def invoke_def bind_Some_iff split: if_splits)

lemma shutdown_invoke:
  assumes "fi_shutdown P e flags s = Some (v, s')"
  shows "\<exists>f. meth s e struct_fid_ep ''cm'' struct_fi_ops_cm ''shutdown'' = Some f \<and>
    invoke P f 4 [V64 e, V64 flags] s = Some (v, s')"
  using assms
  by (auto simp: fi_shutdown_def vcall_meth call_def invoke_def proto_map_of structs bind_Some_iff
    split: if_splits)

lemma run_connect_trace:
  assumes log: "logged P log" and env: "run_env P L shut"
    and dst: "get64 s (L ''opts'') struct_ft_opts ''dst_addr'' = Some dst"
    and run: "run_connect P L s = Some (ret, s')"
  shows "\<exists>t. log (env s') = log (env s) @ t \<and>
    connect_trace L shut (if dst \<noteq> NULL then L ''ft_client_connect'' else L ''ft_server_connect'') t ret"
proof -
  let ?conn = "if dst \<noteq> NULL then L ''ft_client_connect'' else L ''ft_server_connect''"
  from run obtain v s1 r where c: "invoke P ?conn 4 [] s = Some (v, s1)" "the32 v = Some r" and
    rest: "(if r \<noteq> 0 then Some (r, s1)
      else do {
        ep \<leftarrow> deref64 s1 (L ''ep'');
        (v, s2) \<leftarrow> invoke P (L ''ft_send_recv_greeting'') 4 [V64 ep] s1;
        ret \<leftarrow> the32 v;
        ep \<leftarrow> deref64 s2 (L ''ep'');
        (_, s3) \<leftarrow> fi_shutdown P ep 0 s2;
        Some (ret, s3) }) = Some (ret, s')"
    by (cases "dst = NULL") (auto simp: run_connect_def dst bind_Some_iff)
  have l1: "log (env s1) = log (env s) @ [?conn]" by (rule logged_invoke [OF log c(1)])
  show ?thesis
  proof (cases "r = 0")
    case False
    with rest l1 show ?thesis by (auto simp: connect_trace_iff)
  next
    case True
    with rest obtain ep v2 s2 ep2 v3 where
      g: "invoke P (L ''ft_send_recv_greeting'') 4 [V64 ep] s1 = Some (v2, s2)" and
      e: "deref64 s2 (L ''ep'') = Some ep2" and sh: "fi_shutdown P ep2 0 s2 = Some (v3, s')"
      by (auto simp: bind_Some_iff)
    obtain f where f: "meth s2 ep2 struct_fid_ep ''cm'' struct_fi_ops_cm ''shutdown'' = Some f"
        "invoke P f 4 [V64 ep2, V64 0] s2 = Some (v3, s')"
      using shutdown_invoke [OF sh] by blast
    have "f = shut" by (rule run_env_greeting [OF env g e f(1)])
    then have "log (env s') = log (env s) @ [?conn, L ''ft_send_recv_greeting'', shut]"
      using logged_invoke [OF log f(2)] logged_invoke [OF log g] l1 by simp
    then show ?thesis by (auto simp: connect_trace_iff)
  qed
qed

lemma run_traced:
  assumes log: "logged P log" and env: "run_env P L shut" and run: "run P L s = Some (ret, s')"
  shows "\<exists>dst t. get64 s (L ''opts'') struct_ft_opts ''dst_addr'' = Some dst \<and>
    log (env s') = log (env s) @ t \<and> run_trace L shut dst t ret"
proof -
  from run obtain dst where dst: "get64 s (L ''opts'') struct_ft_opts ''dst_addr'' = Some dst"
    by (auto simp: run_def bind_Some_iff)
  show ?thesis
  proof (cases "dst = NULL")
    case False
    with dst run have "run_connect P L s = Some (ret, s')" by (simp add: run_def)
    from run_connect_trace [OF log env dst this] False dst show ?thesis by (auto intro: run_trace.client)
  next
    case True
    with dst run obtain v s1 r where c: "invoke P (L ''ft_start_server'') 4 [] s = Some (v, s1)" and
      rest: "(if r \<noteq> 0 then Some (r, s1) else run_connect P L s1) = Some (ret, s')"
      by (auto simp: run_def bind_Some_iff)
    have l1: "log (env s1) = log (env s) @ [L ''ft_start_server'']" by (rule logged_invoke [OF log c])
    have d1: "get64 s1 (L ''opts'') struct_ft_opts ''dst_addr'' = Some NULL"
      using run_env_start [OF env c] dst True by simp
    show ?thesis
    proof (cases "r = 0")
      case False
      with rest l1 True dst show ?thesis by (auto intro: run_trace.no_server)
    next
      case r: True
      with rest run_connect_trace [OF log env d1] obtain t where
        "log (env s') = log (env s1) @ t" "connect_trace L shut (L ''ft_server_connect'') t ret" by auto
      with l1 True dst show ?thesis by (auto intro: run_trace.server)
    qed
  qed
qed

lemma stable_invoke_void:
  "stable P I \<Longrightarrow> I s \<Longrightarrow> invoke_void P f args s = Some s' \<Longrightarrow> I s'"
  by (auto simp: invoke_void_def bind_Some_iff dest: stableD)

text \<open>Induction along a terminating run of the option loop.\<close>

lemma msg_options_induct [consumes 1, case_names ended usage parsed]:
  assumes run: "msg_options P L argc argv s = Some (r, s')"
    and ended: "\<And>s s1. invoke P (L ''getopt'') 4 [V32 argc, V64 argv, V64 (L ''.str.optstring'')] s = Some (V32 (- 1), s1) \<Longrightarrow>
      Q s None s1"
    and usage: "\<And>s opr s1 name s2.
      invoke P (L ''getopt'') 4 [V32 argc, V64 argv, V64 (L ''.str.optstring'')] s = Some (V32 opr, s1) \<Longrightarrow>
      opr = op_unknown \<or> opr = op_help \<Longrightarrow>
      invoke_void P (L ''ft_usage'') [V64 name, V64 (L ''.str.usage'')] s1 = Some s2 \<Longrightarrow>
      Q s (Some EXIT_FAILURE) s2"
    and parsed: "\<And>s opr s1 arg s2 arg2 h s3 r s'.
      invoke P (L ''getopt'') 4 [V32 argc, V64 argv, V64 (L ''.str.optstring'')] s = Some (V32 opr, s1) \<Longrightarrow>
      opr \<notin> {- 1, op_unknown, op_help} \<Longrightarrow>
      invoke_void P (L ''ft_parse_addr_opts'') [V32 opr, V64 arg, V64 (L ''opts'')] s1 = Some s2 \<Longrightarrow>
      invoke_void P (L ''ft_parseinfo'') [V32 opr, V64 arg2, V64 h, V64 (L ''opts'')] s2 = Some s3 \<Longrightarrow>
      Q s3 r s' \<Longrightarrow> Q s r s'"
  shows "Q s r s'"
proof -
  let ?Pa = "\<lambda>((((P', L'), argc'), argv'), s) (r, s').
    P' = P \<longrightarrow> L' = L \<longrightarrow> argc' = argc \<longrightarrow> argv' = argv \<longrightarrow> Q s r s'"
  have "?Pa ((((P, L), argc), argv), s) (r, s')"
  proof (rule msg_options.raw_induct [where Pa = ?Pa, OF _ run], goal_cases)
    case (1 rec P' L' argc' argv' s y)
    obtain r s' where y: "y = (r, s')" by force
    have "Q s r s'" if eqs: "P' = P" "L' = L" "argc' = argc" "argv' = argv"
    proof -
      note IH = 1(1) [of P L argc argv] and step = 1(2) [unfolded eqs y]
      from step obtain opr s1 where
        g: "invoke P (L ''getopt'') 4 [V32 argc, V64 argv, V64 (L ''.str.optstring'')] s = Some (V32 opr, s1)"
        by (auto simp: bind_Some_iff the32_Some_iff)
      consider "opr = - 1" | "opr \<noteq> - 1" "opr = op_unknown \<or> opr = op_help" | "opr \<notin> {- 1, op_unknown, op_help}"
        by blast
      then show ?thesis
      proof cases
        case 1
        then show ?thesis using step g ended by auto
      next
        case 2
        then show ?thesis using step g usage [OF g] by (auto simp: bind_Some_iff)
      next
        case 3
        then obtain arg s2 arg2 h s3 where
          "invoke_void P (L ''ft_parse_addr_opts'') [V32 opr, V64 arg, V64 (L ''opts'')] s1 = Some s2"
          "invoke_void P (L ''ft_parseinfo'') [V32 opr, V64 arg2, V64 h, V64 (L ''opts'')] s2 = Some s3"
          "rec P L argc argv s3 = Some (r, s')"
          using step g by (auto simp: bind_Some_iff)
        with parsed [OF g 3] IH show ?thesis by fastforce
      qed
    qed
    then show ?case by (simp add: y)
  qed
  then show ?thesis by simp
qed

inductive options_trace :: "linkage \<Rightarrow> ptr list \<Rightarrow> u32 option \<Rightarrow> bool" for L where
  ended: "options_trace L [L ''getopt''] None"
| usage: "options_trace L [L ''getopt'', L ''ft_usage''] (Some EXIT_FAILURE)"
| parsed: "options_trace L t r \<Longrightarrow>
    options_trace L (L ''getopt'' # L ''ft_parse_addr_opts'' # L ''ft_parseinfo'' # t) r"

lemma msg_options_traced:
  assumes log: "logged P log" and run: "msg_options P L argc argv s = Some (r, s')"
  shows "\<exists>t. log (env s') = log (env s) @ t \<and> options_trace L t r"
  using run
proof (induction rule: msg_options_induct)
  case (ended s s1)
  then show ?case using logged_invoke [OF log] by (auto intro: options_trace.ended)
next
  case (usage s opr s1 name s2)
  have "log (env s2) = log (env s) @ [L ''getopt'', L ''ft_usage'']"
    using logged_invoke [OF log usage(1)] logged_invoke_void [OF log usage(3)] by simp
  then show ?case by (auto intro: options_trace.usage)
next
  case (parsed s opr s1 arg s2 arg2 h s3 r s')
  have l: "log (env s3) = log (env s) @ [L ''getopt'', L ''ft_parse_addr_opts'', L ''ft_parseinfo'']"
    using logged_invoke [OF log parsed(1)] logged_invoke_void [OF log parsed(3)]
      logged_invoke_void [OF log parsed(4)] by simp
  from parsed.IH obtain t where "log (env s') = log (env s3) @ t" "options_trace L t r" by blast
  with l show ?case by (auto intro: options_trace.parsed)
qed

lemma options_trace_fresh:
  "options_trace L t r \<Longrightarrow> f \<notin> {L ''getopt'', L ''ft_usage'', L ''ft_parse_addr_opts'', L ''ft_parseinfo''} \<Longrightarrow>
    f \<notin> set t"
  by (induction rule: options_trace.induct) auto

lemma options_trace_exit: "options_trace L t (Some code) \<Longrightarrow> code = EXIT_FAILURE"
  by (induction t "Some code" rule: options_trace.induct) auto

lemma msg_options_stable:
  assumes st: "stable P I" and run: "msg_options P L argc argv s = Some (r, s')" and inv: "I s"
  shows "I s'"
  using run inv
proof (induction rule: msg_options_induct)
  case (ended s s1)
  then show ?case using stable_invoke [OF st] by blast
next
  case (usage s opr s1 name s2)
  then show ?case using stable_invoke [OF st] stable_invoke_void [OF st] by blast
next
  case (parsed s opr s1 arg s2 arg2 h s3 r s')
  then show ?case using stable_invoke [OF st] stable_invoke_void [OF st] by blast
qed

text \<open>What the option loop needs of its environment to return: the variables can be read while it
  runs, \<open>getopt\<close> comes to an end (a measure of what is left of the command line goes down at
  every option it returns), and the functions that take an option return.\<close>

definition options_env :: "'p provider \<Rightarrow> linkage \<Rightarrow> u32 \<Rightarrow> ptr \<Rightarrow> ('p machine \<Rightarrow> bool) \<Rightarrow> ('p machine \<Rightarrow> nat) \<Rightarrow> bool" where
  "options_env P L argc argv I left \<longleftrightarrow>
     (\<forall>s. I s \<longrightarrow> deref64 s argv \<noteq> None \<and> deref64 s (L ''optarg'') \<noteq> None \<and> deref64 s (L ''hints'') \<noteq> None) \<and>
     (\<forall>s. I s \<longrightarrow> (\<exists>opr s'. P (L ''getopt'') [V32 argc, V64 argv, V64 (L ''.str.optstring'')] s = Some (V32 opr, s') \<and>
        I s' \<and> (opr = - 1 \<or> left s' < left s))) \<and>
     (\<forall>s f args. I s \<longrightarrow> f \<in> {L ''ft_usage'', L ''ft_parse_addr_opts'', L ''ft_parseinfo''} \<longrightarrow>
        (\<exists>v s'. P f args s = Some (v, s') \<and> I s' \<and> left s' \<le> left s))"

lemma options_env_step:
  assumes "options_env P L argc argv I left" and "I s"
  shows "\<exists>opr s'. invoke P (L ''getopt'') 4 [V32 argc, V64 argv, V64 (L ''.str.optstring'')] s = Some (V32 opr, s') \<and>
    I s' \<and> (opr = - 1 \<or> left s' < left s)"
proof -
  from assms obtain opr s' where
    "P (L ''getopt'') [V32 argc, V64 argv, V64 (L ''.str.optstring'')] s = Some (V32 opr, s')"
    "I s'" "opr = - 1 \<or> left s' < left s"
    unfolding options_env_def by blast
  then show ?thesis by (auto simp: invoke_def)
qed

lemma options_env_call:
  assumes "options_env P L argc argv I left" and "I s"
    and "f \<in> {L ''ft_usage'', L ''ft_parse_addr_opts'', L ''ft_parseinfo''}"
  shows "\<exists>s'. invoke_void P f args s = Some s' \<and> I s' \<and> left s' \<le> left s"
proof -
  from assms obtain v s' where "P f args s = Some (v, s')" "I s'" "left s' \<le> left s"
    unfolding options_env_def by blast
  then show ?thesis by (auto simp: invoke_void_def)
qed

lemma msg_options_returns:
  assumes env: "options_env P L argc argv I left" and "I s"
  shows "\<exists>r s'. msg_options P L argc argv s = Some (r, s') \<and> I s'"
  using assms(2)
proof (induction "left s" arbitrary: s rule: less_induct)
  case less
  have vars: "I s \<Longrightarrow> \<exists>a b c. deref64 s argv = Some a \<and> deref64 s (L ''optarg'') = Some b \<and> deref64 s (L ''hints'') = Some c" for s
    using env unfolding options_env_def by blast
  obtain opr s1 where g: "invoke P (L ''getopt'') 4 [V32 argc, V64 argv, V64 (L ''.str.optstring'')] s = Some (V32 opr, s1)"
      "I s1" "opr = - 1 \<or> left s1 < left s"
    using options_env_step [OF env less.prems] by blast
  note call = options_env_call [OF env]
  consider "opr = - 1" | "opr \<noteq> - 1" "opr = op_unknown \<or> opr = op_help" | "opr \<notin> {- 1, op_unknown, op_help}"
    by blast
  then show ?case
  proof cases
    case 1
    then show ?thesis using g by (subst msg_options.simps) auto
  next
    case 2
    obtain name where "deref64 s1 argv = Some name" using vars [OF g(2)] by blast
    then show ?thesis using 2 g(1) call [OF g(2), of "L ''ft_usage''" "[V64 name, V64 (L ''.str.usage'')]"]
      by (subst msg_options.simps) auto
  next
    case 3
    obtain arg where a: "deref64 s1 (L ''optarg'') = Some arg" using vars [OF g(2)] by blast
    obtain s2 where s2: "invoke_void P (L ''ft_parse_addr_opts'') [V32 opr, V64 arg, V64 (L ''opts'')] s1 = Some s2"
        "I s2" "left s2 \<le> left s1"
      using call [OF g(2)] by blast
    obtain arg2 h where b: "deref64 s2 (L ''optarg'') = Some arg2" "deref64 s2 (L ''hints'') = Some h"
      using vars [OF s2(2)] by blast
    obtain s3 where s3: "invoke_void P (L ''ft_parseinfo'') [V32 opr, V64 arg2, V64 h, V64 (L ''opts'')] s2 = Some s3"
        "I s3" "left s3 \<le> left s2"
      using call [OF s2(2)] by blast
    have "left s3 < left s" using 3 g(3) s2(3) s3(3) by auto
    from less.hyps [OF this s3(2)] show ?thesis
      using 3 g(1) a b s2(1) s3(1) by (subst msg_options.simps) auto
  qed
qed

subsection \<open>The whole program\<close>

inductive msg_trace :: "linkage \<Rightarrow> ptr \<Rightarrow> ptr list \<Rightarrow> u32 \<Rightarrow> bool" for L shut where
  no_memory: "msg_trace L shut [L ''fi_dupinfo''] EXIT_FAILURE"
| usage: "options_trace L t (Some code) \<Longrightarrow> msg_trace L shut (L ''fi_dupinfo'' # t) code"
| ran: "options_trace L t None \<Longrightarrow> run_trace L shut dst u ret \<Longrightarrow> ft_exit_code ret = Some code \<Longrightarrow>
    msg_trace L shut (L ''fi_dupinfo'' # t @ u @ [L ''ft_free_res'']) code"

lemma msg_init_env: "msg_init L argc argv s = Some s' \<Longrightarrow> env s' = env s"
  by (auto simp: msg_init_def bind_Some_iff dest!: assign_struct_env put_env)

lemma msg_configure_env: "msg_configure L argc argv s = Some s' \<Longrightarrow> env s' = env s"
  by (auto simp: msg_configure_def bind_Some_iff dest!: put_env split: if_splits)

lemma msg_traced:
  assumes log: "logged P log" and env: "run_env P L shut" and run: "msg P L argc argv s = Some (code, s')"
  shows "\<exists>t. log (env s') = log (env s) @ t \<and> msg_trace L shut t code"
proof -
  from run obtain s1 h s2 s3 hints where s1: "msg_init L argc argv s = Some s1"
      and a: "fi_allocinfo P L s1 = Some (h, s2)" and s3: "assign (L ''hints'') h s2 = Some s3"
      and rest: "(if hints = NULL then Some (EXIT_FAILURE, s3)
        else do {
          (exit, s4) \<leftarrow> msg_options P L argc argv s3;
          case exit of
            Some code \<Rightarrow> Some (code, s4)
          | None \<Rightarrow> do {
              s5 \<leftarrow> msg_configure L argc argv s4;
              (ret, s6) \<leftarrow> run P L s5;
              s7 \<leftarrow> invoke_void P (L ''ft_free_res'') [] s6;
              code \<leftarrow> ft_exit_code ret;
              Some (code, s7) } }) = Some (code, s')"
    by (auto simp: msg_def bind_Some_iff)
  have l3: "log (env s3) = log (env s) @ [L ''fi_dupinfo'']"
    using a s3 msg_init_env [OF s1] logged_invoke [OF log, of "L ''fi_dupinfo''"] assign_env [OF s3]
    by (simp add: fi_allocinfo_def)
  show ?thesis
  proof (cases "hints = NULL")
    case True
    with rest l3 show ?thesis by (auto intro: msg_trace.no_memory)
  next
    case False
    with rest obtain exit s4 where o: "msg_options P L argc argv s3 = Some (exit, s4)"
      by (auto simp: bind_Some_iff)
    obtain t where t: "log (env s4) = log (env s3) @ t" "options_trace L t exit"
      using msg_options_traced [OF log o] by blast
    show ?thesis
    proof (cases exit)
      case (Some c)
      with False rest o t l3 show ?thesis by (auto intro: msg_trace.usage)
    next
      case None
      with False rest o obtain s5 ret s6 where s5: "msg_configure L argc argv s4 = Some s5"
          and r: "run P L s5 = Some (ret, s6)" and f: "invoke_void P (L ''ft_free_res'') [] s6 = Some s'"
          and c: "ft_exit_code ret = Some code"
        by (auto simp: bind_Some_iff)
      obtain dst u where u: "log (env s6) = log (env s5) @ u" "run_trace L shut dst u ret"
        using run_traced [OF log env r] by blast
      have "log (env s') = log (env s) @ L ''fi_dupinfo'' # t @ u @ [L ''ft_free_res'']"
        using logged_invoke_void [OF log f] u(1) msg_configure_env [OF s5] t(1) l3 by simp
      with msg_trace.ran [OF t(2) [unfolded None] u(2) c] show ?thesis by blast
    qed
  qed
qed

subsection \<open>What the traces say\<close>

definition library_symbols :: "string list" where
  "library_symbols = [''fi_dupinfo'', ''getopt'', ''ft_usage'', ''ft_parse_addr_opts'', ''ft_parseinfo'',
     ''ft_start_server'', ''ft_server_connect'', ''ft_client_connect'', ''ft_send_recv_greeting'', ''ft_free_res'',
     ''fi_freeinfo'']"

definition symbols_distinct :: "linkage \<Rightarrow> ptr \<Rightarrow> bool" where
  "symbols_distinct L shut \<longleftrightarrow> distinct (shut # map L library_symbols)"

lemma options_trace_set:
  "options_trace L t r \<Longrightarrow>
    set t \<subseteq> {L ''getopt'', L ''ft_usage'', L ''ft_parse_addr_opts'', L ''ft_parseinfo''} \<and>
    (r \<noteq> None \<longrightarrow> L ''ft_usage'' \<in> set t)"
  by (induction rule: options_trace.induct) auto

lemma options_trace_ended:
  "options_trace L t r \<Longrightarrow> r = None \<Longrightarrow>
    set t \<subseteq> {L ''getopt'', L ''ft_parse_addr_opts'', L ''ft_parseinfo''}"
  by (induction rule: options_trace.induct) auto

lemma run_trace_set:
  "run_trace L shut dst t ret \<Longrightarrow>
    set t \<subseteq> {L ''ft_start_server'', L ''ft_server_connect'', L ''ft_client_connect'', L ''ft_send_recv_greeting'', shut}"
  by (induction rule: run_trace.induct) (auto simp: connect_trace_iff)

lemma run_trace_success:
  "run_trace L shut dst t ret \<Longrightarrow> ret = 0 \<Longrightarrow>
    t = (if dst \<noteq> NULL then [L ''ft_client_connect''] else [L ''ft_start_server'', L ''ft_server_connect'']) @
      [L ''ft_send_recv_greeting'', shut]"
  by (induction rule: run_trace.induct) (auto simp: connect_trace_iff)

lemma symbols_distinctD:
  assumes "symbols_distinct L shut"
  shows "L ''ft_free_res'' \<notin> {L ''fi_dupinfo'', L ''getopt'', L ''ft_usage'', L ''ft_parse_addr_opts'', L ''ft_parseinfo'',
      L ''ft_start_server'', L ''ft_server_connect'', L ''ft_client_connect'', L ''ft_send_recv_greeting'', shut}"
    and "L ''ft_usage'' \<notin> {L ''fi_dupinfo'', L ''getopt'', L ''ft_parse_addr_opts'', L ''ft_parseinfo'',
      L ''ft_start_server'', L ''ft_server_connect'', L ''ft_client_connect'', L ''ft_send_recv_greeting'', shut,
      L ''ft_free_res''}"
proof -
  have mid: "distinct (xs @ y # ys) \<Longrightarrow> y \<notin> set (xs @ ys)" for xs ys and y :: ptr by simp
  have "distinct ([shut, L ''fi_dupinfo'', L ''getopt'', L ''ft_usage'', L ''ft_parse_addr_opts'', L ''ft_parseinfo'',
      L ''ft_start_server'', L ''ft_server_connect'', L ''ft_client_connect'', L ''ft_send_recv_greeting''] @
      L ''ft_free_res'' # [L ''fi_freeinfo''])"
    and "distinct ([shut, L ''fi_dupinfo'', L ''getopt''] @ L ''ft_usage'' # [L ''ft_parse_addr_opts'', L ''ft_parseinfo'',
      L ''ft_start_server'', L ''ft_server_connect'', L ''ft_client_connect'', L ''ft_send_recv_greeting'',
      L ''ft_free_res'', L ''fi_freeinfo''])"
    using assms by (simp_all only: symbols_distinct_def library_symbols_def list.map append.simps)
  from this [THEN mid]
  show "L ''ft_free_res'' \<notin> {L ''fi_dupinfo'', L ''getopt'', L ''ft_usage'', L ''ft_parse_addr_opts'', L ''ft_parseinfo'',
      L ''ft_start_server'', L ''ft_server_connect'', L ''ft_client_connect'', L ''ft_send_recv_greeting'', shut}"
    and "L ''ft_usage'' \<notin> {L ''fi_dupinfo'', L ''getopt'', L ''ft_parse_addr_opts'', L ''ft_parseinfo'',
      L ''ft_start_server'', L ''ft_server_connect'', L ''ft_client_connect'', L ''ft_send_recv_greeting'', shut,
      L ''ft_free_res''}"
    unfolding append.simps list.set insert_iff empty_iff by blast+
qed

text \<open>How a trace of the program releases resources: the released trace ends with the release and
  has no other, the others have none.\<close>

lemma msg_trace_release:
  assumes "msg_trace L shut t code" and d: "symbols_distinct L shut"
  shows "count_list t (L ''ft_free_res'') = (if L ''ft_usage'' \<in> set t \<or> length t = 1 then 0 else 1) \<and>
    (L ''ft_usage'' \<in> set t \<or> length t = 1 \<or> last t = L ''ft_free_res'')"
  using assms(1)
proof cases
  case no_memory
  then show ?thesis using symbols_distinctD [OF d] by auto
next
  case (usage o1)
  have "L ''ft_free_res'' \<notin> set t" "L ''ft_usage'' \<in> set t"
    using options_trace_set [OF usage(2)] symbols_distinctD(1) [OF d] usage(1) by auto
  then show ?thesis by (simp add: count_notin)
next
  case (ran o1 dst u ret)
  have "L ''ft_usage'' \<notin> set t"
    using options_trace_ended [OF ran(2)] run_trace_set [OF ran(3)] symbols_distinctD(2) [OF d] ran(1) by auto
  moreover have "L ''ft_free_res'' \<notin> set o1" "L ''ft_free_res'' \<notin> set u" "L ''ft_free_res'' \<noteq> L ''fi_dupinfo''"
    using options_trace_ended [OF ran(2)] run_trace_set [OF ran(3)] symbols_distinctD(1) [OF d] by auto
  moreover have "t = (L ''fi_dupinfo'' # o1 @ u) @ [L ''ft_free_res'']" using ran(1) by simp
  moreover have "count_list (xs @ [y]) y = 1" if "y \<notin> set xs" for xs :: "ptr list" and y
    using that by (simp add: count_notin)
  ultimately show ?thesis by (simp add: count_notin)
qed

lemma msg_trace_usage:
  assumes "msg_trace L shut t code" and d: "symbols_distinct L shut" and u: "L ''ft_usage'' \<in> set t"
  shows "code = EXIT_FAILURE \<and>
    set t \<subseteq> {L ''fi_dupinfo'', L ''getopt'', L ''ft_usage'', L ''ft_parse_addr_opts'', L ''ft_parseinfo''}"
  using assms(1)
proof cases
  case no_memory
  then show ?thesis using symbols_distinctD(2) [OF d] u by simp
next
  case (usage o1)
  then show ?thesis using options_trace_set [OF usage(2)] options_trace_exit [OF usage(2)] by auto
next
  case (ran o1 dst w ret)
  then have "L ''ft_usage'' \<notin> set t"
    using options_trace_ended [OF ran(2)] run_trace_set [OF ran(3)] symbols_distinctD(2) [OF d] by auto
  with u show ?thesis by blast
qed

lemma msg_trace_success:
  assumes "msg_trace L shut t EXIT_SUCCESS"
  shows "\<exists>o1 dst. options_trace L o1 None \<and> t = L ''fi_dupinfo'' # o1 @
      (if dst \<noteq> NULL then [L ''ft_client_connect''] else [L ''ft_start_server'', L ''ft_server_connect'']) @
      [L ''ft_send_recv_greeting'', shut, L ''ft_free_res'']"
  using assms
proof cases
  case no_memory
  then show ?thesis by (simp add: EXIT_SUCCESS_def EXIT_FAILURE_def)
next
  case (usage o1)
  then show ?thesis using options_trace_exit [OF usage(2)] by (simp add: EXIT_SUCCESS_def EXIT_FAILURE_def)
next
  case (ran o1 dst u ret)
  have "ret = 0" using ft_exit_code_success [OF ran(4)] .
  from run_trace_success [OF ran(3) this] ran(1,2) show ?thesis
    by (intro exI [of _ o1] exI [of _ dst]) auto
qed

subsection \<open>Options and hints\<close>

lemma msg_init_options:
  assumes "mapped s (L ''opts'') struct_ft_opts"
  shows "\<exists>s1. msg_init L argc argv s = Some s1 \<and> mapped s1 (L ''opts'') struct_ft_opts \<and>
    (\<forall>n a t. member struct_ft_opts n = Some (a, t) \<longrightarrow> scalar t \<longrightarrow>
      get s1 (L ''opts'') struct_ft_opts n =
        Some (if n = ''options'' then V32 (FT_OPT_RX_CQ OR FT_OPT_TX_CQ OR FT_OPT_SIZE)
              else case map_of (INIT_OPTS argc argv) n of Some v \<Rightarrow> v | None \<Rightarrow> zero_cval (sizeof t)))"
proof -
  let ?o = "L ''opts''"
  have ok: "member_ok struct_ft_opts ''options'' (V32 w)" for w by (simp add: member_ok_def structs)
  have nn: "?o \<noteq> NULL" using assms by (simp add: mapped_def)
  obtain s0 where s0: "assign_struct ?o struct_ft_opts (INIT_OPTS argc argv) s = Some s0" "mapped s0 ?o struct_ft_opts"
      "\<forall>n a t. member struct_ft_opts n = Some (a, t) \<longrightarrow> scalar t \<longrightarrow>
        get s0 ?o struct_ft_opts n = Some (case map_of (INIT_OPTS argc argv) n of Some v \<Rightarrow> v | None \<Rightarrow> zero_cval (sizeof t))"
    using assign_struct_get [OF assms small_ft_opts init_opts_ok init_opts_distinct] by blast
  have "map_of struct_ft_opts ''options'' = Some CInt" by (simp add: structs)
  then obtain a where "member struct_ft_opts ''options'' = Some (a, CInt)"
    using member_type [of struct_ft_opts "''options''"] by auto
  moreover have "map_of (INIT_OPTS argc argv) ''options'' = Some (V32 (FT_OPT_RX_CQ OR FT_OPT_TX_CQ))"
    by (simp add: INIT_OPTS_def)
  ultimately have o1: "get32 s0 ?o struct_ft_opts ''options'' = Some (FT_OPT_RX_CQ OR FT_OPT_TX_CQ)"
    using s0(3) by (simp add: get32_def)
  define s1 where "s1 = upd ?o struct_ft_opts ''options'' (V32 ((FT_OPT_RX_CQ OR FT_OPT_TX_CQ) OR FT_OPT_SIZE)) s0"
  have "msg_init L argc argv s = Some s1"
    unfolding msg_init_def s1_def by (simp add: s0(1) o1 mapped_put [OF s0(2) ok])
  moreover have "mapped s1 ?o struct_ft_opts" unfolding s1_def by (rule mapped_upd [OF s0(2) ok small_ft_opts])
  moreover have "get s1 ?o struct_ft_opts n = (if n = ''options'' then Some (V32 (FT_OPT_RX_CQ OR FT_OPT_TX_CQ OR FT_OPT_SIZE))
      else get s0 ?o struct_ft_opts n)" for n
    unfolding s1_def get_upd [OF nn ok small_ft_opts] by (simp add: or.assoc)
  ultimately show ?thesis using s0(3) by (intro exI [of _ s1]) auto
qed

text \<open>A store into a struct leaves another variable as it was.\<close>

lemma deref_upd:
  assumes "member_ok fs n v" and "a \<notin> set (addrs p fs)"
  shows "deref64 (upd p fs n v s) a = deref64 s a" "deref32 (upd p fs n v s) a = deref32 s a"
proof -
  obtain b t where "member fs n = Some (b, t)" "scalar t" using member_ok_member [OF assms(1)] by blast
  from addr_of_in_addrs [OF this, of p] assms(2) have "a \<noteq> addr_of p fs n" by blast
  then show "deref64 (upd p fs n v s) a = deref64 s a" "deref32 (upd p fs n v s) a = deref32 s a"
    by (simp_all add: deref64_def deref32_def ld_upd_other)
qed

text \<open>The objects \<open>msg\<close> stores into: the options, the hints, their endpoint and domain attributes,
  all mapped and apart from each other and from the variable \<open>hints\<close>.\<close>

definition msg_objects :: "linkage \<Rightarrow> ptr \<Rightarrow> ptr \<Rightarrow> ptr \<Rightarrow> 'p machine \<Rightarrow> bool" where
  "msg_objects L h e d s \<longleftrightarrow>
     deref64 s (L ''hints'') = Some h \<and>
     get64 s h struct_fi_info ''ep_attr'' = Some e \<and> get64 s h struct_fi_info ''domain_attr'' = Some d \<and>
     mapped s (L ''opts'') struct_ft_opts \<and> mapped s h struct_fi_info \<and>
     mapped s e struct_fi_ep_attr \<and> mapped s d struct_fi_domain_attr \<and>
     distinct (L ''hints'' # addrs (L ''opts'') struct_ft_opts @ addrs h struct_fi_info @
       addrs e struct_fi_ep_attr @ addrs d struct_fi_domain_attr)"

lemma msg_configure_effect:
  assumes obj: "msg_objects L h e d s" and i: "deref32 s (L ''optind'') = Some i"
    and arg: "i <s argc \<longrightarrow> deref64 s (argv + 8 * scast i) = Some arg"
    and dst: "get64 s (L ''opts'') struct_ft_opts ''dst_addr'' = Some dst"
  shows "\<exists>s'. msg_configure L argc argv s = Some s' \<and>
    get64 s' (L ''opts'') struct_ft_opts ''dst_addr'' = Some (if i <s argc then arg else dst) \<and>
    get32 s' e struct_fi_ep_attr ''type'' = Some (fi_ep_type_val FI_EP_MSG) \<and>
    get64 s' h struct_fi_info ''caps'' = Some FI_MSG \<and>
    get32 s' d struct_fi_domain_attr ''mr_mode'' = Some (FI_MR_LOCAL OR OFI_MR_BASIC_MAP)"
proof -
  let ?o = "L ''opts''"
  have okd: "member_ok struct_ft_opts ''dst_addr'' (V64 w)" for w by (simp add: member_ok_def structs)
  have oke: "member_ok struct_fi_ep_attr ''type'' (V32 w)" for w by (simp add: member_ok_def structs)
  have okh: "member_ok struct_fi_info ''caps'' (V64 w)" for w by (simp add: member_ok_def structs)
  have okm: "member_ok struct_fi_domain_attr ''mr_mode'' (V32 w)" for w by (simp add: member_ok_def structs)
  note small = small_ft_opts small_structs
  note ob = obj [unfolded msg_objects_def]
  have mapped: "mapped s ?o struct_ft_opts" "mapped s h struct_fi_info" "mapped s e struct_fi_ep_attr"
    "mapped s d struct_fi_domain_attr" using ob by blast+
  then have nn: "?o \<noteq> NULL" "h \<noteq> NULL" "e \<noteq> NULL" "d \<noteq> NULL" by (simp_all add: mapped_def)
  have dis: "distinct (L ''hints'' # addrs ?o struct_ft_opts @ addrs h struct_fi_info @ addrs e struct_fi_ep_attr @
      addrs d struct_fi_domain_attr)" using ob by blast
  have sep: "separate (addrs ?o struct_ft_opts) (addrs h struct_fi_info)" "separate (addrs ?o struct_ft_opts) (addrs e struct_fi_ep_attr)"
    "separate (addrs ?o struct_ft_opts) (addrs d struct_fi_domain_attr)"
    "separate (addrs h struct_fi_info) (addrs ?o struct_ft_opts)" "separate (addrs h struct_fi_info) (addrs e struct_fi_ep_attr)"
    "separate (addrs h struct_fi_info) (addrs d struct_fi_domain_attr)"
    "separate (addrs e struct_fi_ep_attr) (addrs ?o struct_ft_opts)" "separate (addrs e struct_fi_ep_attr) (addrs h struct_fi_info)"
    "separate (addrs e struct_fi_ep_attr) (addrs d struct_fi_domain_attr)"
    "separate (addrs d struct_fi_domain_attr) (addrs ?o struct_ft_opts)" "separate (addrs d struct_fi_domain_attr) (addrs h struct_fi_info)"
    "separate (addrs d struct_fi_domain_attr) (addrs e struct_fi_ep_attr)"
    using dis by (auto simp: separate_def list_all_iff)
  have var: "L ''hints'' \<notin> set (addrs ?o struct_ft_opts)" "L ''hints'' \<notin> set (addrs h struct_fi_info)"
    "L ''hints'' \<notin> set (addrs e struct_fi_ep_attr)" using dis by auto
  define s1 where "s1 = (if i <s argc then upd ?o struct_ft_opts ''dst_addr'' (V64 arg) s else s)"
  define s2 where "s2 = upd e struct_fi_ep_attr ''type'' (V32 (fi_ep_type_val FI_EP_MSG)) s1"
  define s3 where "s3 = upd h struct_fi_info ''caps'' (V64 FI_MSG) s2"
  define s4 where "s4 = upd d struct_fi_domain_attr ''mr_mode'' (V32 (FI_MR_LOCAL OR OFI_MR_BASIC_MAP)) s3"
  have p1: "(if i <s argc then do {
        arg \<leftarrow> deref64 s (argv + 8 * scast i); put ?o struct_ft_opts ''dst_addr'' (V64 arg) s }
      else Some s) = Some s1"
    using arg by (simp add: s1_def mapped_put [OF mapped(1) okd])
  have m1: "mapped s1 q gs" if "mapped s q gs" "separate (addrs ?o struct_ft_opts) (addrs q gs)" for q gs
    by (simp add: s1_def that(1) mapped_upd_separate [OF that okd])
  have g1: "get64 s1 q gs n = get64 s q gs n" if "separate (addrs ?o struct_ft_opts) (addrs q gs)" for q gs n
    by (simp add: s1_def get64_upd_separate [OF that okd])
  have v1: "deref64 s1 (L ''hints'') = Some h" using ob by (simp add: s1_def deref_upd(1) [OF okd var(1)])
  have d1: "get64 s1 ?o struct_ft_opts ''dst_addr'' = Some (if i <s argc then arg else dst)"
    by (simp add: s1_def dst get64_upd [OF nn(1) okd small(1)])
  have m2: "mapped s2 q gs" if "mapped s1 q gs" "separate (addrs e struct_fi_ep_attr) (addrs q gs)" for q gs
    unfolding s2_def by (rule mapped_upd_separate [OF that oke])
  have p2: "put e struct_fi_ep_attr ''type'' (V32 (fi_ep_type_val FI_EP_MSG)) s1 = Some s2"
    unfolding s2_def by (rule mapped_put [OF m1 [OF mapped(3) sep(2)] oke])
  have mh: "mapped s2 h struct_fi_info" by (rule m2 [OF m1 [OF mapped(2) sep(1)] sep(8)])
  have p3: "put h struct_fi_info ''caps'' (V64 FI_MSG) s2 = Some s3"
    unfolding s3_def by (rule mapped_put [OF mh okh])
  have "mapped s2 d struct_fi_domain_attr" by (rule m2 [OF m1 [OF mapped(4) sep(3)] sep(9)])
  then have "mapped s3 d struct_fi_domain_attr" unfolding s3_def by (rule mapped_upd_separate [OF _ sep(6) okh])
  then have p4: "put d struct_fi_domain_attr ''mr_mode'' (V32 (FI_MR_LOCAL OR OFI_MR_BASIC_MAP)) s3 = Some s4"
    unfolding s4_def by (rule mapped_put [OF _ okm])
  have v2: "deref64 s2 (L ''hints'') = Some h" unfolding s2_def deref_upd(1) [OF oke var(3)] by (rule v1)
  have v3: "deref64 s3 (L ''hints'') = Some h" unfolding s3_def deref_upd(1) [OF okh var(2)] by (rule v2)
  have e1: "get64 s1 h struct_fi_info ''ep_attr'' = Some e" using g1 [OF sep(1)] ob by simp
  have dd: "get64 s3 h struct_fi_info ''domain_attr'' = Some d"
    unfolding s3_def get64_upd [OF nn(2) okh small(2)] s2_def get64_upd_separate [OF sep(8) oke] g1 [OF sep(1)]
    using ob by simp
  have conf: "msg_configure L argc argv s = Some s4"
    unfolding msg_configure_def i by (simp only: bind.bind_lunit p1 v1 e1 p2 v2 p3 v3 dd p4)
  have "get64 s4 ?o struct_ft_opts ''dst_addr'' = Some (if i <s argc then arg else dst)"
    unfolding s4_def get64_upd_separate [OF sep(10) okm] s3_def get64_upd_separate [OF sep(4) okh]
      s2_def get64_upd_separate [OF sep(7) oke] by (rule d1)
  moreover have "get32 s4 e struct_fi_ep_attr ''type'' = Some (fi_ep_type_val FI_EP_MSG)"
    unfolding s4_def get32_upd_separate [OF sep(12) okm] s3_def get32_upd_separate [OF sep(5) okh]
      s2_def get32_upd [OF nn(3) oke small(3)] by simp
  moreover have "get64 s4 h struct_fi_info ''caps'' = Some FI_MSG"
    unfolding s4_def get64_upd_separate [OF sep(11) okm] s3_def get64_upd [OF nn(2) okh small(2)] by simp
  moreover have "get32 s4 d struct_fi_domain_attr ''mr_mode'' = Some (FI_MR_LOCAL OR OFI_MR_BASIC_MAP)"
    unfolding s4_def get32_upd [OF nn(4) okm small(4)] by simp
  ultimately show ?thesis using conf by blast
qed

subsection \<open>Properties\<close>

text \<open>An environment for the examples: the symbols at fixed addresses, options, hints and a connected
  endpoint in memory, and a provider that logs the functions called, lets \<open>getopt\<close> return \<open>opr\<close>
  and every other function succeed; the greeting returns only on a connected endpoint.\<close>

definition example_syms :: linkage where
  "example_syms nm = (case map_of (zip library_symbols [0x301, 0x302, 0x303, 0x304, 0x305, 0x306, 0x307, 0x308, 0x309,
       0x30A, 0x30B]) nm of
     Some a \<Rightarrow> a
   | None \<Rightarrow> (if nm = ''opts'' then 0x5000 else if nm = ''hints'' then 0x2010 else if nm = ''ep'' then 0x2018
              else if nm = ''optarg'' then 0x2020 else if nm = ''optind'' then 0x2028 else 0x2030))"

definition example_program :: "u32 \<Rightarrow> ptr list provider" where
  "example_program opr f args s =
     (if f = 0x301 then Some (V64 0x3000, s\<lparr>env := env s @ [f]\<rparr>)
      else if f = 0x302 then Some (V32 opr, s\<lparr>env := env s @ [f]\<rparr>)
      else if f = 0x309 then
        (case deref64 s 0x2018 of
           None \<Rightarrow> None
         | Some e \<Rightarrow> (if meth s e struct_fid_ep ''cm'' struct_fi_ops_cm ''shutdown'' = Some 0x77
                     then Some (V32 0, s\<lparr>env := env s @ [f]\<rparr>) else None))
      else Some (V32 0, s\<lparr>env := env s @ [f]\<rparr>))"

definition example_process :: "ptr list machine" where
  "example_process = boot (zero_object 0x5000 struct_ft_opts @
     [(0x2010, V64 0), (0x2018, V64 0x6000), (0x2020, V64 0), (0x2028, V32 1), (0x2100, V64 0x2200), (0x2108, V64 0x2300)] @
     object 0x3000 struct_fi_info [(''ep_attr'', V64 0x4000), (''domain_attr'', V64 0x4200), (''caps'', V64 0)] @
     object 0x4000 struct_fi_ep_attr [(''type'', V32 0)] @ object 0x4200 struct_fi_domain_attr [(''mr_mode'', V32 0)] @
     object 0x6000 struct_fid_ep [(''cm'', V64 0x7000)] @ object 0x7000 struct_fi_ops_cm [(''shutdown'', V64 0x77)])
     0x9000 []"

lemma example_syms_values:
  "example_syms ''fi_dupinfo'' = 0x301" "example_syms ''getopt'' = 0x302" "example_syms ''ft_usage'' = 0x303"
  "example_syms ''ft_parse_addr_opts'' = 0x304" "example_syms ''ft_parseinfo'' = 0x305"
  "example_syms ''ft_start_server'' = 0x306" "example_syms ''ft_server_connect'' = 0x307"
  "example_syms ''ft_client_connect'' = 0x308" "example_syms ''ft_send_recv_greeting'' = 0x309"
  "example_syms ''ft_free_res'' = 0x30A" "example_syms ''opts'' = 0x5000" "example_syms ''hints'' = 0x2010"
  "example_syms ''ep'' = 0x2018" "example_syms ''optarg'' = 0x2020" "example_syms ''optind'' = 0x2028"
  by code_simp+

lemma example_sizes: "sizeof (Struct struct_ft_opts) \<le> 0x200" "sizeof (Struct struct_fi_info) \<le> 0x100"
  "sizeof (Struct struct_fi_ep_attr) \<le> 0x100" "sizeof (Struct struct_fi_domain_attr) \<le> 0x200"
  by code_simp+

lemma example_program_ok: "logged (example_program opr) (\<lambda>e. e)" "run_env (example_program opr) example_syms 0x77"
proof -
  show "logged (example_program opr) (\<lambda>e. e)"
    by (auto simp: logged_def example_program_def split: if_splits option.splits)
  have cong: "get64 (s\<lparr>env := e\<rparr>) p fs n = get64 s p fs n" "deref64 (s\<lparr>env := e\<rparr>) p = deref64 s p"
    "meth (s\<lparr>env := e\<rparr>) p fs tab tfs n = meth s p fs tab tfs n" for s :: "ptr list machine" and e p fs n tab tfs
    by (rule get64_mem_cong deref64_mem_cong meth_mem_cong, simp)+
  have start: "example_program opr 0x306 args s = Some (V32 0, s\<lparr>env := env s @ [0x306]\<rparr>)" for args s
    by (simp add: example_program_def)
  have greet: "\<exists>e. deref64 s 0x2018 = Some e \<and> s' = s\<lparr>env := env s @ [0x309]\<rparr> \<and>
      meth s e struct_fid_ep ''cm'' struct_fi_ops_cm ''shutdown'' = Some 0x77"
    if "example_program opr 0x309 args s = Some (v, s')" for args s v s'
    using that by (simp add: example_program_def split: option.splits if_splits)
  show "run_env (example_program opr) example_syms 0x77"
    unfolding run_env_def example_syms_values
  proof (intro conjI allI impI)
    fix args s v s' assume "example_program opr 0x306 args s = Some (v, s')"
    then have "s' = s\<lparr>env := env s @ [0x306]\<rparr>" unfolding start by simp
    then show "get64 s' 0x5000 struct_ft_opts ''dst_addr'' = get64 s 0x5000 struct_ft_opts ''dst_addr''"
      by (simp only: cong)
  next
    fix args s v s' e f
    assume "example_program opr 0x309 args s = Some (v, s')" and e: "deref64 s' 0x2018 = Some e"
      and f: "meth s' e struct_fid_ep ''cm'' struct_fi_ops_cm ''shutdown'' = Some f"
    from greet [OF this(1)] obtain e' where s': "s' = s\<lparr>env := env s @ [0x309]\<rparr>" and
      e': "deref64 s 0x2018 = Some e'" "meth s e' struct_fid_ep ''cm'' struct_fi_ops_cm ''shutdown'' = Some 0x77"
      by blast
    from e f e' show "f = 0x77" unfolding s' cong by (metis option.inject)
  qed
qed

lemma example_run:
  obtains s' where "msg (example_program (- 1)) example_syms 1 0x2100 example_process = Some (EXIT_SUCCESS, s')"
    and "env s' = [0x301, 0x302, 0x306, 0x307, 0x309, 0x77, 0x30A]"
proof -
  have "map_option (\<lambda>(c, s). (c, env s)) (msg (example_program (- 1)) example_syms 1 0x2100 example_process) =
      Some (EXIT_SUCCESS, [0x301, 0x302, 0x306, 0x307, 0x309, 0x77, 0x30A])" by code_simp
  then show ?thesis using that by auto
qed

lemma example_log: "env example_process = []"
  by (simp add: example_process_def boot_def)

lemma example_syms_distinct: "symbols_distinct example_syms 0x77"
  by code_simp

text \<open>C5. The calls of the program: every run makes one of the sequences of \<open>msg_trace\<close>, and with
  distinct symbols the resources are released exactly once, as the last call, unless the
  allocation of the hints failed or the usage was printed, when they are not released at all.\<close>

theorem resources_released_once:
  assumes "logged P log" and "run_env P L shut" and "symbols_distinct L shut"
    and "msg P L argc argv s = Some (code, s')"
  shows "\<exists>t. log (env s') = log (env s) @ t \<and> msg_trace L shut t code \<and>
    count_list t (L ''ft_free_res'') = (if L ''ft_usage'' \<in> set t \<or> length t = 1 then 0 else 1) \<and>
    (L ''ft_usage'' \<in> set t \<or> length t = 1 \<or> last t = L ''ft_free_res'')"
  using msg_traced [OF assms(1,2,4)] msg_trace_release [OF _ assms(3)] by blast

theorem resources_released_once_witness:
  "\<exists>s'. msg (example_program (- 1)) example_syms 1 0x2100 example_process = Some (EXIT_SUCCESS, s') \<and>
    count_list (env s') 0x30A = 1 \<and> last (env s') = 0x30A"
proof -
  obtain s' where m: "msg (example_program (- 1)) example_syms 1 0x2100 example_process = Some (EXIT_SUCCESS, s')"
    "env s' = [0x301, 0x302, 0x306, 0x307, 0x309, 0x77, 0x30A]" by (rule example_run)
  with resources_released_once [OF example_program_ok example_syms_distinct m(1)]
  show ?thesis by (auto simp: example_syms_values example_log)
qed

text \<open>C39. The usage path leaks: when the program prints its usage it has called nothing but
  \<open>fi_dupinfo\<close>, which allocated the hints, \<open>getopt\<close>, the option parsers and \<open>ft_usage\<close>; neither
  \<open>ft_free_res\<close> nor \<open>fi_freeinfo\<close> is called, and the exit code is \<open>EXIT_FAILURE\<close>.\<close>

theorem usage_leaks_hints:
  assumes "logged P log" and "run_env P L shut" and "symbols_distinct L shut"
    and "msg P L argc argv s = Some (code, s')" and "L ''ft_usage'' \<in> set (drop (length (log (env s))) (log (env s')))"
  shows "code = EXIT_FAILURE \<and>
    set (drop (length (log (env s))) (log (env s'))) \<subseteq>
      {L ''fi_dupinfo'', L ''getopt'', L ''ft_usage'', L ''ft_parse_addr_opts'', L ''ft_parseinfo''}"
proof -
  from msg_traced [OF assms(1,2,4)] obtain t where t: "log (env s') = log (env s) @ t" "msg_trace L shut t code" by blast
  with msg_trace_usage [OF t(2) assms(3)] assms(5) show ?thesis by simp
qed

theorem usage_leaks_hints_witness:
  "\<exists>s'. msg (example_program op_help) example_syms 1 0x2100 example_process = Some (EXIT_FAILURE, s') \<and>
    set (env s') \<subseteq> {0x301, 0x302, 0x303, 0x304, 0x305}"
proof -
  have "map_option (\<lambda>(c, s). (c, env s)) (msg (example_program op_help) example_syms 1 0x2100 example_process) =
      Some (1, [0x301, 0x302, 0x303])" by code_simp
  then obtain s' where m: "msg (example_program op_help) example_syms 1 0x2100 example_process = Some (1, s')"
    "env s' = [0x301, 0x302, 0x303]" by auto
  have "(1 :: u32) = EXIT_FAILURE \<and>
      set (drop (length (env example_process)) (env s')) \<subseteq> {0x301, 0x302, 0x303, 0x304, 0x305}"
    using usage_leaks_hints [OF example_program_ok example_syms_distinct m(1)] unfolding example_syms_values m(2) example_log by simp
  then show ?thesis using m(1) by (auto simp: example_log)
qed





text \<open>C26. The option loop returns: when \<open>getopt\<close> uses up the command line and the functions it hands
  the options to return, the loop ends after finitely many options, with the environment intact.\<close>

theorem option_loop_returns:
  assumes "options_env P L argc argv I left" and "I s"
  shows "\<exists>r s'. msg_options P L argc argv s = Some (r, s') \<and> I s'"
  by (rule msg_options_returns) (fact assms)+

text \<open>\<open>getopt\<close> returns the option \<open>p\<close> as often as the provider's state says, then ends.\<close>

definition counting :: "nat provider" where
  "counting f args s =
     (if f = 0x302
      then (if env s = 0 then Some (V32 (- 1), s) else Some (V32 112, s\<lparr>env := env s - 1\<rparr>))
      else Some (V32 0, s))"

definition example_args :: "nat machine" where
  "example_args = boot [(0x2010, V64 0x3000), (0x2020, V64 0), (0x2100, V64 0x2200)] 0x9000 3"

theorem option_loop_returns_witness:
  "\<exists>r s'. msg_options counting example_syms 4 0x2100 example_args = Some (r, s') \<and> mem s' = mem example_args"
proof -
  have "options_env counting example_syms 4 0x2100 (\<lambda>s. mem s = mem example_args) env"
  proof -
    have vars: "deref64 s 0x2100 \<noteq> None \<and> deref64 s 0x2020 \<noteq> None \<and> deref64 s 0x2010 \<noteq> None"
      if "mem s = mem example_args" for s :: "nat machine"
    proof -
      have "deref64 example_args 0x2100 \<noteq> None \<and> deref64 example_args 0x2020 \<noteq> None \<and>
          deref64 example_args 0x2010 \<noteq> None" by code_simp
      then show ?thesis using deref64_mem_cong [OF that] by simp
    qed
    show ?thesis
      unfolding options_env_def example_syms_values using vars by (auto simp: counting_def)
  qed
  from option_loop_returns [OF this] show ?thesis by simp
qed



text \<open>C38. Before \<open>run\<close> the hints ask for a message endpoint with message capability and the memory
  registration modes of the test programs, and the first argument that is not an option, if
  there is one, is the destination.\<close>

theorem hints_configured:
  assumes "msg_objects L h e d s" and "deref32 s (L ''optind'') = Some i"
    and "i <s argc \<longrightarrow> deref64 s (argv + 8 * scast i) = Some arg"
    and "get64 s (L ''opts'') struct_ft_opts ''dst_addr'' = Some dst"
  shows "\<exists>s'. msg_configure L argc argv s = Some s' \<and>
    get64 s' (L ''opts'') struct_ft_opts ''dst_addr'' = Some (if i <s argc then arg else dst) \<and>
    get32 s' e struct_fi_ep_attr ''type'' = Some (fi_ep_type_val FI_EP_MSG) \<and>
    get64 s' h struct_fi_info ''caps'' = Some FI_MSG \<and>
    get32 s' d struct_fi_domain_attr ''mr_mode'' = Some (FI_MR_LOCAL OR OFI_MR_BASIC_MAP)"
  by (rule msg_configure_effect) (fact assms)+

text \<open>The memory after the options, with a connected endpoint.\<close>

definition example_parsed :: "unit machine" where
  "example_parsed = boot ([(0x2010, V64 0x3000), (0x2018, V64 0x6000), (0x2020, V64 0), (0x2028, V32 1),
     (0x2100, V64 0x2200), (0x2108, V64 0x2300), (0x2110, V64 0)] @
     object 0x3000 struct_fi_info [(''ep_attr'', V64 0x4000), (''domain_attr'', V64 0x4200)] @
     zero_object 0x5000 struct_ft_opts @ zero_object 0x3000 struct_fi_info @ zero_object 0x4000 struct_fi_ep_attr @
     zero_object 0x4200 struct_fi_domain_attr @ object 0x6000 struct_fid_ep [(''cm'', V64 0x7000)] @
     object 0x7000 struct_fi_ops_cm [(''shutdown'', V64 0x77)]) 0x9000 ()"

text \<open>Where the objects of the example are.\<close>

lemma example_below: "unat a < 0x3000 \<Longrightarrow> 0x3000 \<le> unat p \<Longrightarrow> unat p < 2 ^ 63 \<Longrightarrow> sizeof (Struct fs) \<le> 0x200 \<Longrightarrow>
    a \<notin> set (addrs p fs)"
  using addrs_span [of a p fs] by auto

lemma example_apart:
  "set (addrs 0x3000 struct_fi_info) \<inter> set (addrs 0x4000 struct_fi_ep_attr) = {}"
  "set (addrs 0x3000 struct_fi_info) \<inter> set (addrs 0x4200 struct_fi_domain_attr) = {}"
  "set (addrs 0x4000 struct_fi_ep_attr) \<inter> set (addrs 0x4200 struct_fi_domain_attr) = {}"
  "set (addrs 0x3000 struct_fi_info) \<inter> set (addrs 0x5000 struct_ft_opts) = {}"
  "set (addrs 0x4000 struct_fi_ep_attr) \<inter> set (addrs 0x5000 struct_ft_opts) = {}"
  "set (addrs 0x4200 struct_fi_domain_attr) \<inter> set (addrs 0x5000 struct_ft_opts) = {}"
  by (rule addrs_disjoint; use example_sizes in \<open>simp del: sizeof.simps\<close>)+

lemma example_info_members:
  "addr_of 0x3000 struct_fi_info ''ep_attr'' \<in> set (addrs 0x3000 struct_fi_info)"
  "addr_of 0x3000 struct_fi_info ''domain_attr'' \<in> set (addrs 0x3000 struct_fi_info)"
  using member_type [of struct_fi_info "''ep_attr''"] member_type [of struct_fi_info "''domain_attr''"]
  by (auto simp: structs intro: addr_of_in_addrs)

lemma example_mapped:
  "mapped example_parsed 0x5000 struct_ft_opts" "mapped example_parsed 0x3000 struct_fi_info"
  "mapped example_parsed 0x4000 struct_fi_ep_attr" "mapped example_parsed 0x4200 struct_fi_domain_attr"
proof -
  have small: "small struct_ft_opts" "small struct_fi_ep_attr" "small struct_fi_domain_attr"
    using example_sizes by (simp_all add: small_def del: sizeof.simps)
  let ?vars = "[(0x2010, V64 0x3000), (0x2018, V64 0x6000), (0x2020, V64 0), (0x2028, V32 1),
     (0x2100, V64 0x2200), (0x2108, V64 0x2300), (0x2110, V64 0)] @
     object 0x3000 struct_fi_info [(''ep_attr'', V64 0x4000), (''domain_attr'', V64 0x4200)]"
  let ?opts = "zero_object 0x5000 struct_ft_opts" and ?info = "zero_object 0x3000 struct_fi_info"
    and ?ep = "zero_object 0x4000 struct_fi_ep_attr"
  have vars: "set (map fst ?vars) \<inter> set (addrs p fs) = {}"
    if "0x3000 \<le> unat p" "unat p < 2 ^ 63" "sizeof (Struct fs) \<le> 0x200" "set (addrs 0x3000 struct_fi_info) \<inter> set (addrs p fs) = {}"
    for p fs
    using example_below [OF _ that(1-3)] that(4) example_info_members by (auto simp: object_def simp del: sizeof.simps)
  have sep: "set (addrs 0x5000 struct_ft_opts) \<inter> set (addrs 0x4000 struct_fi_ep_attr) = {}"
    "set (addrs 0x5000 struct_ft_opts) \<inter> set (addrs 0x4200 struct_fi_domain_attr) = {}"
    using example_apart(5,6) by (simp_all only: Int_commute)
  let ?dom = "zero_object 0x4200 struct_fi_domain_attr"
    and ?rest = "object 0x6000 struct_fid_ep [(''cm'', V64 0x7000)] @ object 0x7000 struct_fi_ops_cm [(''shutdown'', V64 0x77)]"
  have split: "example_parsed = boot (?vars @ ?opts @ (?info @ ?ep @ ?dom @ ?rest)) 0x9000 ()"
    "example_parsed = boot ((?vars @ ?opts @ ?info) @ ?ep @ (?dom @ ?rest)) 0x9000 ()"
    "example_parsed = boot ((?vars @ ?opts @ ?info @ ?ep) @ ?dom @ ?rest) 0x9000 ()"
    by (simp_all only: example_parsed_def append_assoc)
  have v: "set (map fst ?vars) \<inter> set (addrs 0x5000 struct_ft_opts) = {}"
    "set (map fst ?vars) \<inter> set (addrs 0x4000 struct_fi_ep_attr) = {}"
    "set (map fst ?vars) \<inter> set (addrs 0x4200 struct_fi_domain_attr) = {}"
    by (rule vars; use example_sizes example_apart in \<open>simp del: sizeof.simps\<close>)+
  show "mapped example_parsed 0x5000 struct_ft_opts"
    unfolding split(1) by (rule mapped_zero_object [OF v(1) _ small(1)]) simp
  show "mapped example_parsed 0x3000 struct_fi_info" by code_simp
  show "mapped example_parsed 0x4000 struct_fi_ep_attr"
    unfolding split(2) using v(2) sep(1) example_apart(1)
    by (intro mapped_zero_object small(2)) (simp_all only: map_append set_append zero_object_fst Int_Un_distrib2 Un_empty simp_thms, simp)
  show "mapped example_parsed 0x4200 struct_fi_domain_attr"
    unfolding split(3) using v(3) sep(2) example_apart(2,3)
    by (intro mapped_zero_object small(3)) (simp_all only: map_append set_append zero_object_fst Int_Un_distrib2 Un_empty simp_thms, simp)
qed

lemma example_objects: "msg_objects example_syms 0x3000 0x4000 0x4200 example_parsed"
proof -
  have "deref64 example_parsed 0x2010 = Some 0x3000" by code_simp
  moreover have "get64 example_parsed 0x3000 struct_fi_info ''ep_attr'' = Some 0x4000" by code_simp
  moreover have "get64 example_parsed 0x3000 struct_fi_info ''domain_attr'' = Some 0x4200" by code_simp
  moreover have "distinct (0x2010 # addrs 0x5000 struct_ft_opts @ addrs 0x3000 struct_fi_info @ addrs 0x4000 struct_fi_ep_attr @
    addrs 0x4200 struct_fi_domain_attr)"
    using example_sizes example_apart
    by (simp add: addrs_distinct small_def example_below Int_commute Int_Un_distrib del: sizeof.simps)
  ultimately show ?thesis using example_mapped unfolding msg_objects_def example_syms_values by blast
qed

lemma example_parsed_reads:
  "deref32 example_parsed 0x2028 = Some 1" "deref64 example_parsed 0x2108 = Some 0x2300"
  "get64 example_parsed 0x5000 struct_ft_opts ''dst_addr'' = Some 0"
  by code_simp+

theorem hints_configured_witness:
  "\<exists>s'. msg_configure example_syms 2 0x2100 example_parsed = Some s' \<and>
    get64 s' 0x5000 struct_ft_opts ''dst_addr'' = Some 0x2300 \<and>
    get32 s' 0x4000 struct_fi_ep_attr ''type'' = Some (fi_ep_type_val FI_EP_MSG)"
proof -
  have "deref64 example_parsed (0x2100 + 8 * scast (1 :: u32)) = Some 0x2300"
    using example_parsed_reads(2) by simp
  moreover have "(1 :: u32) <s 2" by (simp add: word_sless_alt)
  ultimately show ?thesis
    using hints_configured [OF example_objects, of 1 2 "0x2100" "0x2300" 0] example_parsed_reads
    unfolding example_syms_values by auto
qed

end
