(* ===== verification/Shared_Variables.thy ===== *)
theory Shared_Variables
  imports Shared
begin

section \<open>The variables of shared.h\<close>

text \<open>
  The variables the header declares and the test library defines, with their types. \<open>test_size\<close>,
  whose length the declaration leaves open, is not in the lists. \<open>placed L vs s\<close>: the linker has
  given every variable of \<open>vs\<close> cells of its type in \<open>s\<close>, no two in the same place; the lemmas
  derive from it what \<open>msg\<close> needs of the variables it uses.
\<close>

definition struct_timespec :: fields where [structs]:
  "struct_timespec = [(''tv_sec'', U64), (''tv_nsec'', U64)]"

definition shared_object_variables :: "(string \<times> ctype) list" where
  "shared_object_variables = [
     (''fi_pep'', Ptr), (''fi'', Ptr), (''hints'', Ptr), (''fabric'', Ptr), (''waitset'', Ptr), (''domain'', Ptr),
     (''pollset'', Ptr), (''pep'', Ptr), (''ep'', Ptr), (''alias_ep'', Ptr), (''txcq'', Ptr), (''rxcq'', Ptr),
     (''txcntr'', Ptr), (''rxcntr'', Ptr), (''mr'', Ptr), (''no_mr'', Struct struct_fid_mr), (''mr_desc'', Ptr),
     (''av'', Ptr), (''eq'', Ptr), (''mc'', Ptr)]"

definition shared_buffer_variables :: "(string \<times> ctype) list" where
  "shared_buffer_variables = [
     (''remote_fi_addr'', FiAddrT), (''buf'', Ptr), (''tx_buf'', Ptr), (''rx_buf'', Ptr), (''tx_ctx_arr'', Ptr),
     (''rx_ctx_arr'', Ptr), (''tx_mr_bufs'', Ptr), (''rx_mr_bufs'', Ptr), (''buf_size'', SizeT), (''tx_size'', SizeT),
     (''rx_size'', SizeT), (''tx_mr_size'', SizeT), (''rx_mr_size'', SizeT), (''tx_fd'', CInt), (''rx_fd'', CInt),
     (''timeout'', CInt)]"

definition shared_state_variables :: "(string \<times> ctype) list" where
  "shared_state_variables = [
     (''tx_ctx'', Struct struct_fi_context), (''rx_ctx'', Struct struct_fi_context), (''remote_cq_data'', U64),
     (''tx_seq'', U64), (''rx_seq'', U64), (''tx_cq_cntr'', U64), (''rx_cq_cntr'', U64),
     (''av_attr'', Struct struct_fi_av_attr), (''eq_attr'', Struct struct_fi_eq_attr),
     (''cq_attr'', Struct struct_fi_cq_attr), (''cntr_attr'', Struct struct_fi_cntr_attr),
     (''remote'', Struct struct_fi_rma_iov), (''test_name'', Arr U8 50), (''start'', Struct struct_timespec),
     (''end'', Struct struct_timespec), (''opts'', Struct struct_ft_opts)]"

definition shared_process_variables :: "(string \<times> ctype) list" where
  "shared_process_variables = [
     (''ft_mr_alloc_func'', Fn CInt []), (''ft_tag'', U64), (''ft_parent_proc'', CInt), (''ft_socket_pair'', Arr CInt 2),
     (''sock'', CInt), (''listen_sock'', CInt), (''default_port'', Arr U8 8)]"

definition shared_variables :: "(string \<times> ctype) list" where
  "shared_variables = (''test_cnt'', U32) # shared_object_variables @ shared_buffer_variables @
     shared_state_variables @ shared_process_variables"

lemma shared_variables_distinct: "distinct (map fst shared_variables)"
  by (simp add: shared_variables_def shared_object_variables_def shared_buffer_variables_def
      shared_state_variables_def shared_process_variables_def)

subsection \<open>Variables in memory\<close>

definition var_cells :: "linkage \<Rightarrow> string \<times> ctype \<Rightarrow> ptr list" where
  "var_cells L v = map (\<lambda>(a, k). L (fst v) + of_nat a) (leaves (snd v))"

definition placed :: "linkage \<Rightarrow> (string \<times> ctype) list \<Rightarrow> 'p machine \<Rightarrow> bool" where
  "placed L vs s \<longleftrightarrow> distinct (concat (map (var_cells L) vs)) \<and>
     list_all (\<lambda>(n, t). L n \<noteq> NULL \<and>
       list_all (\<lambda>(a, k). map_option cell_bytes (mem s (L n + of_nat a)) = Some k) (leaves t)) vs"

lemma placed_struct:
  assumes "placed L vs s" and "(n, Struct fs) \<in> set vs"
  shows "mapped s (L n) fs"
  using assms by (fastforce simp: placed_def mapped_def list_all_iff)

lemma placed_scalar:
  assumes "placed L vs s" and "(n, t) \<in> set vs" and "scalar t"
  shows "L n \<noteq> NULL \<and> map_option cell_bytes (mem s (L n)) = Some (sizeof t)"
  using assms leaves_scalar [OF assms(3)] by (fastforce simp: placed_def list_all_iff)

lemma concat_disjoint:
  "distinct (concat (map f xs)) \<Longrightarrow> x \<in> set xs \<Longrightarrow> y \<in> set xs \<Longrightarrow> x \<noteq> y \<Longrightarrow> set (f x) \<inter> set (f y) = {}"
  by (induction xs) auto

lemma placed_separate:
  assumes "placed L vs s" and "(n, Struct fs) \<in> set vs" and "(m, t) \<in> set vs" and "scalar t"
  shows "L m \<notin> set (addrs (L n) fs)"
proof -
  have ne: "t \<noteq> Struct fs" using assms(4) by (cases t) simp_all
  have "L m \<in> set (var_cells L (m, t))" by (simp add: var_cells_def leaves_scalar [OF assms(4)])
  moreover have "set (var_cells L (n, Struct fs)) \<inter> set (var_cells L (m, t)) = {}"
    using concat_disjoint [of "var_cells L" vs] assms(1-3) ne by (simp add: placed_def)
  moreover have "set (var_cells L (n, Struct fs)) = set (addrs (L n) fs)"
    by (simp add: var_cells_def addrs_def)
  ultimately show ?thesis by blast
qed

text \<open>The variables of the header that \<open>msg\<close> uses.\<close>

lemma msg_variables:
  "(''opts'', Struct struct_ft_opts) \<in> set shared_variables" "(''hints'', Ptr) \<in> set shared_variables"
  "(''ep'', Ptr) \<in> set shared_variables"
  by (simp_all add: shared_variables_def shared_object_variables_def shared_state_variables_def)

lemma placed_msg_variables:
  assumes "placed L shared_variables s"
  shows "mapped s (L ''opts'') struct_ft_opts"
    and "L ''hints'' \<noteq> NULL" and "map_option cell_bytes (mem s (L ''hints'')) = Some 8"
    and "map_option cell_bytes (mem s (L ''ep'')) = Some 8"
    and "separate [L ''hints'', L ''ep''] (addrs (L ''opts'') struct_ft_opts)"
  using placed_struct [OF assms msg_variables(1)] placed_scalar [OF assms msg_variables(2)]
    placed_scalar [OF assms msg_variables(3)] placed_separate [OF assms msg_variables(1,2)]
    placed_separate [OF assms msg_variables(1,3)]
  by (simp_all add: separate_def)

lemma placed_apart:
  assumes "placed L vs s" and "(n, t) \<in> set vs" and "(m, u) \<in> set vs" and "scalar t" and "scalar u" and "n \<noteq> m"
  shows "L n \<noteq> L m"
proof -
  have "set (var_cells L (n, t)) \<inter> set (var_cells L (m, u)) = {}"
    using concat_disjoint [of "var_cells L" vs] assms(1-3,6) by (simp add: placed_def)
  then show ?thesis by (simp add: var_cells_def leaves_scalar [OF assms(4)] leaves_scalar [OF assms(5)])
qed

end
