(* ===== verification/Msg_Total.thy ===== *)
theory Msg_Total
  imports Msg Shared_Variables
begin

section \<open>msg returns\<close>

text \<open>
  Liveness of the program. The functions of the test library and \<open>getopt\<close> are not in the
  repository; \<open>library\<close> states what \<open>msg\<close> relies on: started in a state where the variables and
  objects the program uses exist, each of them returns, with a result of its declared type, in
  such a state again. \<open>msg\<close> then returns an exit code, whatever the library did in between.
\<close>

subsection \<open>Stores\<close>

text \<open>\<open>stores A s s'\<close>: \<open>s'\<close> is \<open>s\<close> after stores to cells in \<open>A\<close> only, each of the cell's width.\<close>

definition stores :: "ptr set \<Rightarrow> 'p machine \<Rightarrow> 'p machine \<Rightarrow> bool" where
  "stores A s s' \<longleftrightarrow> env s' = env s \<and> sp s' = sp s \<and> (\<forall>a. a \<notin> A \<longrightarrow> mem s' a = mem s a) \<and>
     (\<forall>a. map_option cell_bytes (mem s' a) = map_option cell_bytes (mem s a))"

lemma stores_refl: "stores A s s"
  by (simp add: stores_def)

lemma stores_trans: "stores A s s' \<Longrightarrow> stores A s' s'' \<Longrightarrow> stores A s s''"
  by (simp add: stores_def)

lemma stores_mono: "stores A s s' \<Longrightarrow> A \<subseteq> B \<Longrightarrow> stores B s s'"
  by (auto simp: stores_def)

lemma st_stores: "st a v s = Some s' \<Longrightarrow> stores {a} s s'"
  by (auto simp: st_def stores_def split: option.splits if_splits)

lemma assign_stores: "assign p v s = Some s' \<Longrightarrow> stores {p} s s'"
  by (auto simp: assign_def dest: st_stores split: if_splits)

lemma put_stores: "put p fs n v s = Some s' \<Longrightarrow> stores {addr_of p fs n} s s'"
  by (auto simp: put_def dest: st_stores split: option.splits if_splits)

lemma put_stores_object: "put p fs n v s = Some s' \<Longrightarrow> stores (set (addrs p fs)) s s'"
proof -
  assume p: "put p fs n v s = Some s'"
  then obtain a t where "member fs n = Some (a, t)" "scalar t"
    by (auto simp: put_def split: option.splits if_splits)
  from addr_of_in_addrs [OF this] stores_mono [OF put_stores [OF p]] show ?thesis by blast
qed

lemma puts_stores: "puts p fs as s = Some s' \<Longrightarrow> stores (set (addrs p fs)) s s'"
proof (induction as arbitrary: s)
  case Nil
  then show ?case by (simp add: stores_refl)
next
  case (Cons a as)
  then show ?case by (auto simp: bind_Some_iff dest!: put_stores_object intro: stores_trans)
qed

lemma memset0_stores:
  assumes "memset0 p fs s = Some s'"
  shows "stores (set (addrs p fs)) s s'"
proof -
  let ?ls = "leaves (Struct fs)"
  let ?z = "map (\<lambda>(a, n). (p + of_nat a :: ptr, Init (zero_cval n))) ?ls"
  from assms have w: "\<forall>(a, n) \<in> set ?ls. map_option cell_bytes (mem s (p + of_nat a)) = Some n"
    and s': "s' = s\<lparr>mem := mem s ++ map_of ?z\<rparr>"
    by (auto simp: memset0_def list_all_iff split: if_splits)
  have "map_option cell_bytes (mem s' b) = map_option cell_bytes (mem s b)" for b
  proof (cases "map_of ?z b")
    case None
    then show ?thesis by (simp add: s' map_add_def)
  next
    case (Some c)
    then obtain a n where "(a, n) \<in> set ?ls" "b = p + of_nat a" "c = Init (zero_cval n)"
      by (auto dest!: map_of_SomeD)
    then show ?thesis using w leaf_width Some by (fastforce simp: s' map_add_def)
  qed
  moreover have "fst ` set ?z = set (addrs p fs)" by (force simp: addrs_def)
  then have "mem s' a = mem s a" if "a \<notin> set (addrs p fs)" for a
    using that by (simp add: s' map_add_dom_app_simps(3) dom_map_of_conv_image_fst)
  ultimately show ?thesis by (simp add: stores_def s')
qed

lemma assign_struct_stores: "assign_struct p fs as s = Some s' \<Longrightarrow> stores (set (addrs p fs)) s s'"
  by (auto simp: assign_struct_def bind_Some_iff dest!: memset0_stores puts_stores intro: stores_trans)

lemma stores_mapped: "stores A s s' \<Longrightarrow> mapped s q gs \<Longrightarrow> mapped s' q gs"
  by (simp add: stores_def mapped_def)

lemma stores_ld: "stores A s s' \<Longrightarrow> a \<notin> A \<Longrightarrow> ld s' a n = ld s a n"
  by (simp add: stores_def ld_def)

lemma stores_deref64: "stores A s s' \<Longrightarrow> a \<notin> A \<Longrightarrow> deref64 s' a = deref64 s a"
  by (simp add: deref64_def stores_ld)

lemma stores_deref32: "stores A s s' \<Longrightarrow> a \<notin> A \<Longrightarrow> deref32 s' a = deref32 s a"
  by (simp add: deref32_def stores_ld)

lemma stores_get64: "stores A s s' \<Longrightarrow> addr_of p fs n \<notin> A \<Longrightarrow> get64 s' p fs n = get64 s p fs n"
  by (simp add: get64_def get_def stores_ld split: option.splits)

subsection \<open>The state the program works on\<close>

text \<open>The variables \<open>msg\<close> reads but does not own: \<open>optind\<close>, \<open>optarg\<close>, \<open>ep\<close> and the argument vector
  with its null terminator.\<close>

definition arg_cells :: "u32 \<Rightarrow> ptr \<Rightarrow> ptr list" where
  "arg_cells argc argv = map (\<lambda>k. argv + 8 * of_nat k) [0..<Suc (nat (sint argc))]"

definition variables :: "linkage \<Rightarrow> u32 \<Rightarrow> ptr \<Rightarrow> ptr list" where
  "variables L argc argv = [L ''optind'', L ''optarg'', L ''ep''] @ arg_cells argc argv"

definition variables_ok :: "linkage \<Rightarrow> u32 \<Rightarrow> ptr \<Rightarrow> 'p machine \<Rightarrow> bool" where
  "variables_ok L argc argv s \<longleftrightarrow>
     pred_option (\<lambda>i. 0 \<le> sint i) (deref32 s (L ''optind'')) \<and> deref32 s (L ''optind'') \<noteq> None \<and>
     deref64 s (L ''optarg'') \<noteq> None \<and> deref64 s (L ''ep'') \<noteq> None \<and>
     list_all (\<lambda>a. deref64 s a \<noteq> None) (arg_cells argc argv)"

text \<open>Before the hints are allocated, and with hints \<open>h\<close> whose attributes are \<open>e\<close> and \<open>d\<close>.\<close>

definition base :: "linkage \<Rightarrow> u32 \<Rightarrow> ptr \<Rightarrow> 'p machine \<Rightarrow> bool" where
  "base L argc argv s \<longleftrightarrow> variables_ok L argc argv s \<and> mapped s (L ''opts'') struct_ft_opts \<and>
     L ''hints'' \<noteq> NULL \<and> map_option cell_bytes (mem s (L ''hints'')) = Some 8 \<and>
     separate (L ''hints'' # variables L argc argv) (addrs (L ''opts'') struct_ft_opts) \<and>
     L ''hints'' \<notin> set (variables L argc argv) \<and>
     get64 s (L ''opts'') struct_ft_opts ''dst_addr'' \<noteq> None"

text \<open>A program that is linked and started is in such a state: the variables of the header are
  placed, \<open>opts\<close> is initialised, and the variables of the C library and the argument vector are
  elsewhere.\<close>

lemma base_started:
  assumes "placed L shared_variables s" and "variables_ok L argc argv s"
    and "separate (L ''optind'' # L ''optarg'' # arg_cells argc argv) (L ''hints'' # addrs (L ''opts'') struct_ft_opts)"
    and "get64 s (L ''opts'') struct_ft_opts ''dst_addr'' \<noteq> None"
  shows "base L argc argv s"
proof -
  note vars = placed_msg_variables [OF assms(1)]
  have "L ''hints'' \<noteq> L ''ep''" by (rule placed_apart [OF assms(1) msg_variables(2,3)]) simp_all
  then have "L ''hints'' \<notin> set (variables L argc argv)"
    using assms(3) by (auto simp: variables_def separate_def list_all_iff)
  moreover have "separate (L ''hints'' # variables L argc argv) (addrs (L ''opts'') struct_ft_opts)"
    using assms(3) vars(5) by (auto simp: variables_def separate_def list_all_iff)
  ultimately show ?thesis using vars(1-3) assms(2,4) by (simp add: base_def)
qed

definition hinted :: "linkage \<Rightarrow> u32 \<Rightarrow> ptr \<Rightarrow> ptr \<Rightarrow> ptr \<Rightarrow> ptr \<Rightarrow> 'p machine \<Rightarrow> bool" where
  "hinted L argc argv h e d s \<longleftrightarrow> variables_ok L argc argv s \<and> msg_objects L h e d s \<and>
     get64 s (L ''opts'') struct_ft_opts ''dst_addr'' \<noteq> None \<and>
     separate (variables L argc argv) (addrs (L ''opts'') struct_ft_opts @ addrs h struct_fi_info @
       addrs e struct_fi_ep_attr @ addrs d struct_fi_domain_attr)"

definition ready :: "linkage \<Rightarrow> u32 \<Rightarrow> ptr \<Rightarrow> 'p machine \<Rightarrow> bool" where
  "ready L argc argv s \<longleftrightarrow> (\<exists>h e d. hinted L argc argv h e d s)"

lemma variables_ok_stores:
  assumes "stores A s s'" and "separate (variables L argc argv) xs" and "A \<subseteq> set xs" and "variables_ok L argc argv s"
  shows "variables_ok L argc argv s'"
proof -
  have "a \<notin> A" if "a \<in> set (variables L argc argv)" for a
    using assms(2,3) that by (auto simp: separate_def list_all_iff)
  then show ?thesis
    using assms(4) stores_deref32 [OF assms(1)] stores_deref64 [OF assms(1)]
    by (simp add: variables_ok_def variables_def list_all_iff)
qed

lemma put_get: "put p fs n v s = Some s' \<Longrightarrow> get s' p fs n = Some v"
  by (auto simp: put_def st_def get_def ld_def split: option.splits if_splits)

text \<open>The members the program assigns are none of the pointers between the objects.\<close>

lemma put_hinted:
  assumes h: "hinted L argc argv h e d s" and p: "put p fs n v s = Some s'"
    and m: "(p, fs, n) \<in> {(L ''opts'', struct_ft_opts, ''dst_addr''), (e, struct_fi_ep_attr, ''type''),
      (h, struct_fi_info, ''caps''), (d, struct_fi_domain_attr, ''mr_mode'')}"
  shows "hinted L argc argv h e d s'"
proof -
  let ?o = "L ''opts''"
  let ?all = "addrs ?o struct_ft_opts @ addrs h struct_fi_info @ addrs e struct_fi_ep_attr @ addrs d struct_fi_domain_attr"
  note st = put_stores [OF p]
  have obj: "deref64 s (L ''hints'') = Some h" "get64 s h struct_fi_info ''ep_attr'' = Some e"
      "get64 s h struct_fi_info ''domain_attr'' = Some d" and
    mapped: "mapped s ?o struct_ft_opts" "mapped s h struct_fi_info" "mapped s e struct_fi_ep_attr" "mapped s d struct_fi_domain_attr" and
    dis: "distinct (L ''hints'' # ?all)" and vars: "variables_ok L argc argv s" and
    sep: "separate (variables L argc argv) ?all" and dst: "get64 s ?o struct_ft_opts ''dst_addr'' \<noteq> None"
    using h by (simp_all add: hinted_def msg_objects_def)
  obtain a1 a2 a3 a4 a5 a6 where mem: "member struct_ft_opts ''dst_addr'' = Some (a1, Ptr)"
    "member struct_fi_ep_attr ''type'' = Some (a2, CEnum)" "member struct_fi_info ''caps'' = Some (a3, U64)"
    "member struct_fi_domain_attr ''mr_mode'' = Some (a4, CInt)" "member struct_fi_info ''ep_attr'' = Some (a5, Ptr)"
    "member struct_fi_info ''domain_attr'' = Some (a6, Ptr)"
    using member_type [of struct_ft_opts "''dst_addr''"] member_type [of struct_fi_ep_attr "''type''"]
      member_type [of struct_fi_info "''caps''"] member_type [of struct_fi_domain_attr "''mr_mode''"]
      member_type [of struct_fi_info "''ep_attr''"] member_type [of struct_fi_info "''domain_attr''"]
    by (auto simp: structs)
  have inobj: "addr_of p fs n \<in> set (addrs p fs)"
    using m mem by (auto intro: addr_of_in_addrs)
  have inall: "addr_of p fs n \<in> set ?all" using m inobj by auto
  have info: "addr_of h struct_fi_info ''ep_attr'' \<in> set (addrs h struct_fi_info)"
    "addr_of h struct_fi_info ''domain_attr'' \<in> set (addrs h struct_fi_info)"
    "addr_of ?o struct_ft_opts ''dst_addr'' \<in> set (addrs ?o struct_ft_opts)"
    using mem by (auto intro: addr_of_in_addrs)
  have ne: "addr_of h struct_fi_info ''caps'' \<noteq> addr_of h struct_fi_info ''ep_attr''"
    "addr_of h struct_fi_info ''caps'' \<noteq> addr_of h struct_fi_info ''domain_attr''"
    using addr_of_inj [OF mem(3,5) _ _ small_structs(1)] addr_of_inj [OF mem(3,6) _ _ small_structs(1)] by simp_all
  have "L ''hints'' \<notin> set ?all" using dis unfolding distinct.simps by (rule conjunct1)
  with inall have out1: "addr_of p fs n \<noteq> L ''hints''" by metis
  have dish: "set (addrs ?o struct_ft_opts) \<inter> set (addrs h struct_fi_info) = {}"
    "set (addrs h struct_fi_info) \<inter> set (addrs e struct_fi_ep_attr @ addrs d struct_fi_domain_attr) = {}"
    using dis unfolding distinct.simps distinct_append set_append Int_Un_distrib Un_empty by simp_all
  have out2: "addr_of p fs n \<noteq> addr_of h struct_fi_info ''ep_attr'' \<and> addr_of p fs n \<noteq> addr_of h struct_fi_info ''domain_attr''"
  proof (cases "(p, fs, n) = (h, struct_fi_info, ''caps'')")
    case True
    then show ?thesis using ne by simp
  next
    case False
    then have "(p, fs) \<in> {(?o, struct_ft_opts), (e, struct_fi_ep_attr), (d, struct_fi_domain_attr)}" using m by blast
    then have "set (addrs p fs) \<subseteq> set (addrs ?o struct_ft_opts) \<union> set (addrs e struct_fi_ep_attr @ addrs d struct_fi_domain_attr)"
      unfolding insert_iff empty_iff prod.inject set_append by blast
    with dish have "set (addrs p fs) \<inter> set (addrs h struct_fi_info) = {}" by blast
    then show ?thesis using info(1,2) inobj by (metis disjoint_iff)
  qed
  have "get64 s' ?o struct_ft_opts ''dst_addr'' \<noteq> None"
  proof (cases "(p, fs, n) = (?o, struct_ft_opts, ''dst_addr'')")
    case True
    then show ?thesis using put_get [OF p] mem(1) p bytes8_V64 [of v] by (auto simp: get64_def put_def split: if_splits)
  next
    case False
    then have "(p, fs) \<in> {(e, struct_fi_ep_attr), (h, struct_fi_info), (d, struct_fi_domain_attr)}"
      using m by blast
    then have "set (addrs p fs) \<subseteq> set (addrs h struct_fi_info @ addrs e struct_fi_ep_attr @ addrs d struct_fi_domain_attr)"
      unfolding insert_iff empty_iff prod.inject set_append by blast
    with inobj have "addr_of p fs n \<in> set (addrs h struct_fi_info @ addrs e struct_fi_ep_attr @ addrs d struct_fi_domain_attr)"
      by blast
    moreover have "set (addrs ?o struct_ft_opts) \<inter>
        set (addrs h struct_fi_info @ addrs e struct_fi_ep_attr @ addrs d struct_fi_domain_attr) = {}"
      using dis by (simp only: distinct.simps distinct_append)
    ultimately have "addr_of p fs n \<noteq> addr_of ?o struct_ft_opts ''dst_addr''" using info(3) by (metis disjoint_iff)
    then show ?thesis using dst stores_get64 [OF st] by simp
  qed
  moreover have "variables_ok L argc argv s'"
    by (rule variables_ok_stores [OF st sep _ vars]) (use inall in simp)
  moreover have "deref64 s' (L ''hints'') = Some h" "get64 s' h struct_fi_info ''ep_attr'' = Some e"
    "get64 s' h struct_fi_info ''domain_attr'' = Some d"
    using out1 out2 obj by (auto simp: stores_deref64 [OF st] stores_get64 [OF st])
  ultimately show ?thesis
    using dis sep mapped [THEN stores_mapped [OF st]] unfolding hinted_def msg_objects_def by blast
qed

subsection \<open>What the library is relied on for\<close>

text \<open>\<open>connected\<close> is what a connect function that succeeds establishes; \<open>left\<close> counts the options
  that are left on the command line.\<close>

definition library :: "'p provider \<Rightarrow> linkage \<Rightarrow> u32 \<Rightarrow> ptr \<Rightarrow> ('p machine \<Rightarrow> nat) \<Rightarrow> ('p machine \<Rightarrow> bool) \<Rightarrow> bool" where
  "library P L argc argv left connected \<longleftrightarrow>
     (\<forall>s. base L argc argv s \<longrightarrow>
        (\<exists>h s'. P (L ''fi_dupinfo'') [V64 NULL] s = Some (V64 h, s') \<and>
           map_option cell_bytes (mem s' (L ''hints'')) = Some 8 \<and>
           (\<forall>s''. h \<noteq> NULL \<longrightarrow> assign (L ''hints'') (V64 h) s' = Some s'' \<longrightarrow> ready L argc argv s''))) \<and>
     options_env P L argc argv (ready L argc argv) left \<and>
     (\<forall>s. ready L argc argv s \<longrightarrow>
        (\<exists>r s'. P (L ''ft_start_server'') [] s = Some (V32 r, s') \<and> r \<noteq> INT_MIN \<and> ready L argc argv s')) \<and>
     (\<forall>s f. ready L argc argv s \<longrightarrow> f \<in> {L ''ft_server_connect'', L ''ft_client_connect''} \<longrightarrow>
        (\<exists>r s'. P f [] s = Some (V32 r, s') \<and> r \<noteq> INT_MIN \<and> ready L argc argv s' \<and> (r = 0 \<longrightarrow> connected s'))) \<and>
     (\<forall>s e. ready L argc argv s \<longrightarrow> connected s \<longrightarrow> deref64 s (L ''ep'') = Some e \<longrightarrow>
        (\<exists>r s' f v s''. P (L ''ft_send_recv_greeting'') [V64 e] s = Some (V32 r, s') \<and> r \<noteq> INT_MIN \<and>
           deref64 s' (L ''ep'') = Some e \<and>
           meth s' e struct_fid_ep ''cm'' struct_fi_ops_cm ''shutdown'' = Some f \<and> f \<noteq> NULL \<and>
           P f [V64 e, V64 0] s' = Some (V32 v, s''))) \<and>
     (\<forall>s. P (L ''ft_free_res'') [] s \<noteq> None)"

lemma libraryD:
  assumes "library P L argc argv left connected"
  shows "base L argc argv s \<Longrightarrow> \<exists>h s'. P (L ''fi_dupinfo'') [V64 NULL] s = Some (V64 h, s') \<and>
      map_option cell_bytes (mem s' (L ''hints'')) = Some 8 \<and>
      (\<forall>s''. h \<noteq> NULL \<longrightarrow> assign (L ''hints'') (V64 h) s' = Some s'' \<longrightarrow> ready L argc argv s'')"
    and "options_env P L argc argv (ready L argc argv) left"
    and "ready L argc argv s \<Longrightarrow> \<exists>r s'. P (L ''ft_start_server'') [] s = Some (V32 r, s') \<and> r \<noteq> INT_MIN \<and> ready L argc argv s'"
    and "ready L argc argv s \<Longrightarrow> f \<in> {L ''ft_server_connect'', L ''ft_client_connect''} \<Longrightarrow>
      \<exists>r s'. P f [] s = Some (V32 r, s') \<and> r \<noteq> INT_MIN \<and> ready L argc argv s' \<and> (r = 0 \<longrightarrow> connected s')"
    and "ready L argc argv s \<Longrightarrow> connected s \<Longrightarrow> deref64 s (L ''ep'') = Some e \<Longrightarrow>
      \<exists>r s' f v s''. P (L ''ft_send_recv_greeting'') [V64 e] s = Some (V32 r, s') \<and> r \<noteq> INT_MIN \<and>
        deref64 s' (L ''ep'') = Some e \<and>
        meth s' e struct_fid_ep ''cm'' struct_fi_ops_cm ''shutdown'' = Some f \<and> f \<noteq> NULL \<and>
        P f [V64 e, V64 0] s' = Some (V32 v, s'')"
    and "\<exists>v s'. P (L ''ft_free_res'') [] s = Some (v, s')"
proof -
  note l = assms [unfolded library_def]
  show "\<exists>h s'. P (L ''fi_dupinfo'') [V64 NULL] s = Some (V64 h, s') \<and>
      map_option cell_bytes (mem s' (L ''hints'')) = Some 8 \<and>
      (\<forall>s''. h \<noteq> NULL \<longrightarrow> assign (L ''hints'') (V64 h) s' = Some s'' \<longrightarrow> ready L argc argv s'')"
    if "base L argc argv s" using l [THEN conjunct1] that by simp
  show "options_env P L argc argv (ready L argc argv) left" using l by simp
  show "\<exists>r s'. P (L ''ft_start_server'') [] s = Some (V32 r, s') \<and> r \<noteq> INT_MIN \<and> ready L argc argv s'"
    if "ready L argc argv s" using l [THEN conjunct2, THEN conjunct2, THEN conjunct1] that by simp
  show "\<exists>r s'. P f [] s = Some (V32 r, s') \<and> r \<noteq> INT_MIN \<and> ready L argc argv s' \<and> (r = 0 \<longrightarrow> connected s')"
    if "ready L argc argv s" "f \<in> {L ''ft_server_connect'', L ''ft_client_connect''}"
    by (rule l [THEN conjunct2, THEN conjunct2, THEN conjunct2, THEN conjunct1, THEN spec, THEN spec, THEN mp, THEN mp, OF that])
  show "\<exists>r s' f v s''. P (L ''ft_send_recv_greeting'') [V64 e] s = Some (V32 r, s') \<and> r \<noteq> INT_MIN \<and>
        deref64 s' (L ''ep'') = Some e \<and>
        meth s' e struct_fid_ep ''cm'' struct_fi_ops_cm ''shutdown'' = Some f \<and> f \<noteq> NULL \<and>
        P f [V64 e, V64 0] s' = Some (V32 v, s'')"
    if "ready L argc argv s" "connected s" "deref64 s (L ''ep'') = Some e"
    by (rule l [THEN conjunct2, THEN conjunct2, THEN conjunct2, THEN conjunct2, THEN conjunct1, THEN spec, THEN spec,
          THEN mp, THEN mp, THEN mp, OF that])
  have "P (L ''ft_free_res'') [] s \<noteq> None"
    by (rule l [THEN conjunct2, THEN conjunct2, THEN conjunct2, THEN conjunct2, THEN conjunct2, THEN spec])
  then show "\<exists>v s'. P (L ''ft_free_res'') [] s = Some (v, s')" by auto
qed

subsection \<open>Each part returns\<close>

lemma arg_cell:
  assumes "0 \<le> sint i" and "i <s argc"
  shows "argv + 8 * scast i \<in> set (arg_cells argc argv)"
proof -
  have "scast i = (of_nat (nat (sint i)) :: ptr)" using assms(1) by (simp add: of_nat_nat)
  moreover have "nat (sint i) \<in> set [0..<Suc (nat (sint argc))]" using assms by (simp add: word_sless_alt)
  ultimately show ?thesis unfolding arg_cells_def set_map by (intro image_eqI [of _ _ "nat (sint i)"]) simp_all
qed

lemma configure_returns:
  assumes "ready L argc argv s"
  shows "\<exists>s'. msg_configure L argc argv s = Some s' \<and> ready L argc argv s'"
proof -
  from assms obtain h e d where h: "hinted L argc argv h e d s" by (auto simp: ready_def)
  let ?o = "L ''opts''"
  have ok: "member_ok struct_ft_opts ''dst_addr'' (V64 w)" "member_ok struct_fi_ep_attr ''type'' (V32 w')"
    "member_ok struct_fi_info ''caps'' (V64 w)" "member_ok struct_fi_domain_attr ''mr_mode'' (V32 w')" for w w'
    by (simp_all add: member_ok_def structs)
  have obj: "deref64 s (L ''hints'') = Some h" "get64 s h struct_fi_info ''ep_attr'' = Some e"
    "get64 s h struct_fi_info ''domain_attr'' = Some d" "mapped s ?o struct_ft_opts" "mapped s h struct_fi_info"
    "mapped s e struct_fi_ep_attr" "mapped s d struct_fi_domain_attr" if "hinted L argc argv h e d s" for s :: "'a machine"
    using that by (simp_all add: hinted_def msg_objects_def)
  from h obtain i where i: "deref32 s (L ''optind'') = Some i" "0 \<le> sint i"
    by (auto simp: hinted_def variables_ok_def)
  have "\<exists>s1. (if i <s argc then do { arg \<leftarrow> deref64 s (argv + 8 * scast i); put ?o struct_ft_opts ''dst_addr'' (V64 arg) s }
      else Some s) = Some s1 \<and> hinted L argc argv h e d s1"
  proof (cases "i <s argc")
    case True
    have "list_all (\<lambda>a. deref64 s a \<noteq> None) (arg_cells argc argv)" using h by (simp add: hinted_def variables_ok_def)
    with arg_cell [OF i(2) True] obtain arg where "deref64 s (argv + 8 * scast i) = Some arg"
      unfolding list_all_iff by blast
    moreover obtain s1 where s1: "put ?o struct_ft_opts ''dst_addr'' (V64 arg) s = Some s1"
      using mapped_put [OF obj(4) [OF h] ok(1)] by blast
    moreover have "hinted L argc argv h e d s1" by (rule put_hinted [OF h s1]) simp
    ultimately show ?thesis using True by simp
  qed (use h in simp)
  then obtain s1 where s1: "(if i <s argc then do { arg \<leftarrow> deref64 s (argv + 8 * scast i); put ?o struct_ft_opts ''dst_addr'' (V64 arg) s }
      else Some s) = Some s1" "hinted L argc argv h e d s1" by blast
  obtain s2 where s2: "put e struct_fi_ep_attr ''type'' (V32 (fi_ep_type_val FI_EP_MSG)) s1 = Some s2" "hinted L argc argv h e d s2"
    using mapped_put [OF obj(6) [OF s1(2)] ok(2)] put_hinted [OF s1(2)] by blast
  obtain s3 where s3: "put h struct_fi_info ''caps'' (V64 FI_MSG) s2 = Some s3" "hinted L argc argv h e d s3"
    using mapped_put [OF obj(5) [OF s2(2)] ok(3)] put_hinted [OF s2(2)] by blast
  obtain s4 where s4: "put d struct_fi_domain_attr ''mr_mode'' (V32 (FI_MR_LOCAL OR OFI_MR_BASIC_MAP)) s3 = Some s4"
      "hinted L argc argv h e d s4"
    using mapped_put [OF obj(7) [OF s3(2)] ok(4)] put_hinted [OF s3(2)] by blast
  have "msg_configure L argc argv s = Some s4"
    unfolding msg_configure_def i by (simp only: bind.bind_lunit s1(1) obj(1,2) [OF s1(2)] s2(1) obj(1) [OF s2(2)] s3(1)
        obj(1,3) [OF s3(2)] s4(1))
  with s4(2) show ?thesis by (auto simp: ready_def)
qed

lemma init_returns:
  assumes "base L argc argv s"
  shows "\<exists>s'. msg_init L argc argv s = Some s' \<and> base L argc argv s'"
proof -
  let ?o = "L ''opts''"
  have b: "variables_ok L argc argv s" "mapped s ?o struct_ft_opts" "L ''hints'' \<noteq> NULL"
    "map_option cell_bytes (mem s (L ''hints'')) = Some 8"
    "separate (L ''hints'' # variables L argc argv) (addrs ?o struct_ft_opts)" "L ''hints'' \<notin> set (variables L argc argv)"
    using assms by (simp_all add: base_def)
  obtain s1 where s1: "msg_init L argc argv s = Some s1" "mapped s1 ?o struct_ft_opts"
      "\<forall>n a t. member struct_ft_opts n = Some (a, t) \<longrightarrow> scalar t \<longrightarrow> get s1 ?o struct_ft_opts n =
        Some (if n = ''options'' then V32 (FT_OPT_RX_CQ OR FT_OPT_TX_CQ OR FT_OPT_SIZE)
              else case map_of (INIT_OPTS argc argv) n of Some v \<Rightarrow> v | None \<Rightarrow> zero_cval (sizeof t))"
    using msg_init_options [of s L argc argv] b(2) by blast
  have st: "stores (set (addrs ?o struct_ft_opts)) s s1"
    using s1(1) by (auto simp: msg_init_def bind_Some_iff dest!: assign_struct_stores put_stores_object intro: stores_trans)
  obtain a where "member struct_ft_opts ''dst_addr'' = Some (a, Ptr)"
    using member_type [of struct_ft_opts "''dst_addr''"] by (auto simp: structs)
  with s1(3) have "get s1 ?o struct_ft_opts ''dst_addr'' = Some (V64 0)" by (simp add: INIT_OPTS_def)
  then have "get64 s1 ?o struct_ft_opts ''dst_addr'' \<noteq> None" by (simp add: get64_def)
  moreover have "separate (variables L argc argv) (addrs ?o struct_ft_opts)" using b(5) by (simp add: separate_def)
  then have "variables_ok L argc argv s1" by (rule variables_ok_stores [OF st _ subset_refl b(1)])
  moreover have "map_option cell_bytes (mem s1 (L ''hints'')) = Some 8" using st b(4) by (simp add: stores_def)
  ultimately show ?thesis using s1(1,2) b(3,5,6) by (auto simp: base_def)
qed

text \<open>The values \<open>run\<close> may return; none is the smallest \<open>int\<close>.\<close>

lemma connect_returns:
  assumes lib: "library P L argc argv left connected" and "ready L argc argv s"
  shows "\<exists>r s'. run_connect P L s = Some (r, s') \<and> r \<noteq> INT_MIN"
proof -
  have ep: "\<exists>e. deref64 s (L ''ep'') = Some e" and dst: "\<exists>d. get64 s (L ''opts'') struct_ft_opts ''dst_addr'' = Some d"
    if "ready L argc argv s" for s :: "'a machine"
    using that by (auto simp: ready_def hinted_def variables_ok_def)
  obtain d where d: "get64 s (L ''opts'') struct_ft_opts ''dst_addr'' = Some d" using dst [OF assms(2)] by blast
  let ?f = "if d \<noteq> NULL then L ''ft_client_connect'' else L ''ft_server_connect''"
  obtain r s1 where c: "P ?f [] s = Some (V32 r, s1)" "r \<noteq> INT_MIN" "ready L argc argv s1" "r = 0 \<longrightarrow> connected s1"
  proof -
    have "?f \<in> {L ''ft_server_connect'', L ''ft_client_connect''}" by simp
    from libraryD(4) [OF lib assms(2) this] that show ?thesis by blast
  qed
  have inv: "(if d \<noteq> NULL then invoke P (L ''ft_client_connect'') 4 [] s
      else invoke P (L ''ft_server_connect'') 4 [] s) = Some (V32 r, s1)"
    using c(1) by (simp add: invoke_def split: if_splits)
  show ?thesis
  proof (cases "r = 0")
    case False
    then show ?thesis using c(2) d inv by (auto simp: run_connect_def)
  next
    case True
    obtain e where e: "deref64 s1 (L ''ep'') = Some e" using ep [OF c(3)] by blast
    obtain r2 s2 f v s3 where g: "P (L ''ft_send_recv_greeting'') [V64 e] s1 = Some (V32 r2, s2)" "r2 \<noteq> INT_MIN"
        "deref64 s2 (L ''ep'') = Some e" and
      sh: "meth s2 e struct_fid_ep ''cm'' struct_fi_ops_cm ''shutdown'' = Some f" "f \<noteq> NULL"
        "P f [V64 e, V64 0] s2 = Some (V32 v, s3)"
      using libraryD(5) [OF lib c(3) _ e] c(4) True by blast
    have "fi_shutdown P e 0 s2 = Some (V32 v, s3)"
      using sh by (simp add: fi_shutdown_def vcall_meth call_def proto_map_of structs)
    then have "run_connect P L s = Some (r2, s3)"
      using True d inv e g(1,3) by (simp add: run_connect_def invoke_def)
    then show ?thesis using g(2) by blast
  qed
qed

lemma run_returns:
  assumes lib: "library P L argc argv left connected" and "ready L argc argv s"
  shows "\<exists>r s'. run P L s = Some (r, s') \<and> r \<noteq> INT_MIN"
proof -
  from assms(2) obtain d where d: "get64 s (L ''opts'') struct_ft_opts ''dst_addr'' = Some d"
    by (auto simp: ready_def hinted_def)
  show ?thesis
  proof (cases "d = NULL")
    case False
    then show ?thesis using d connect_returns [OF assms] by (simp add: run_def)
  next
    case True
    obtain r s1 where r: "P (L ''ft_start_server'') [] s = Some (V32 r, s1)" "r \<noteq> INT_MIN" "ready L argc argv s1"
      using libraryD(3) [OF assms] by blast
    then have "run P L s = (if r \<noteq> 0 then Some (r, s1) else run_connect P L s1)"
      using d True by (simp add: run_def invoke_def)
    then show ?thesis using r(2) connect_returns [OF lib r(3)] by auto
  qed
qed

lemma exit_code_defined: "r \<noteq> INT_MIN \<Longrightarrow> \<exists>c. ft_exit_code r = Some c"
  by (simp add: ft_exit_code_def Let_def)


subsection \<open>A library\<close>

text \<open>A library for the example: \<open>fi_dupinfo\<close> and the connect functions leave the memory of
  \<open>example_parsed\<close>, there are no options, and every other function succeeds at once.\<close>

definition example_library :: "unit provider" where
  "example_library f args s =
     (if f = 0x301 then Some (V64 0x3000, s\<lparr>mem := mem example_parsed\<rparr>)
      else if f = 0x302 then Some (V32 (- 1), s)
      else if f = 0x307 \<or> f = 0x308 then Some (V32 0, s\<lparr>mem := mem example_parsed\<rparr>)
      else Some (V32 0, s))"

lemma hinted_mem: "mem s' = mem s \<Longrightarrow> hinted L argc argv h e d s' = hinted L argc argv h e d s"
proof -
  assume m: "mem s' = mem s"
  have "mapped s' p fs = mapped s p fs" for p fs by (simp add: mapped_def m)
  moreover have "deref32 s' p = deref32 s p" for p by (simp add: deref32_def ld_mem_cong [OF m])
  ultimately show ?thesis
    unfolding hinted_def msg_objects_def variables_ok_def by (simp only: get64_mem_cong [OF m] deref64_mem_cong [OF m])
qed

lemma example_variables:
  "variables_ok example_syms 2 0x2100 example_parsed"
  "separate (variables example_syms 2 0x2100) (addrs 0x5000 struct_ft_opts @ addrs 0x3000 struct_fi_info @
     addrs 0x4000 struct_fi_ep_attr @ addrs 0x4200 struct_fi_domain_attr)"
  "example_syms ''hints'' \<notin> set (variables example_syms 2 0x2100)"
proof -
  have args: "arg_cells 2 0x2100 = [0x2100, 0x2108, 0x2110]"
    by (simp add: arg_cells_def upt_rec)
  have vars: "variables example_syms 2 0x2100 = [0x2028, 0x2020, 0x2018, 0x2100, 0x2108, 0x2110]"
    unfolding variables_def args example_syms_values by simp
  have "deref64 example_parsed 0x2020 = Some 0" "deref64 example_parsed 0x2018 = Some 0x6000"
    "deref64 example_parsed 0x2100 = Some 0x2200" "deref64 example_parsed 0x2110 = Some 0" by code_simp+
  then show "variables_ok example_syms 2 0x2100 example_parsed"
    unfolding variables_ok_def args example_syms_values using example_parsed_reads by simp
  show "separate (variables example_syms 2 0x2100) (addrs 0x5000 struct_ft_opts @ addrs 0x3000 struct_fi_info @
     addrs 0x4000 struct_fi_ep_attr @ addrs 0x4200 struct_fi_domain_attr)"
    unfolding vars separate_def set_append Un_iff using example_sizes by (simp add: example_below del: sizeof.simps)
  show "example_syms ''hints'' \<notin> set (variables example_syms 2 0x2100)"
    unfolding vars example_syms_values by simp
qed

lemma example_ready: "mem s = mem example_parsed \<Longrightarrow> ready example_syms 2 0x2100 s"
proof -
  assume m: "mem s = mem example_parsed"
  have "hinted example_syms 2 0x2100 0x3000 0x4000 0x4200 example_parsed"
    unfolding hinted_def using example_variables(1,2) example_objects example_parsed_reads(3)
    unfolding example_syms_values by simp
  with hinted_mem [OF m] show ?thesis by (auto simp: ready_def)
qed

lemma example_base: "base example_syms 2 0x2100 example_parsed"
proof -
  have "map_option cell_bytes (mem example_parsed 0x2010) = Some 8" by code_simp
  moreover have "mapped example_parsed 0x5000 struct_ft_opts" "0x2010 \<notin> set (addrs 0x5000 struct_ft_opts)"
    using example_objects unfolding msg_objects_def example_syms_values by simp_all
  moreover have "separate (variables example_syms 2 0x2100) (addrs 0x5000 struct_ft_opts)"
    using example_variables(2) by (simp add: separate_def list_all_iff)
  ultimately show ?thesis
    using example_variables(1,3) example_parsed_reads(3) unfolding base_def example_syms_values
    by (simp add: separate_def)
qed

lemma example_library_ok:
  "library example_library example_syms 2 0x2100 (\<lambda>_. 0) (\<lambda>s. mem s = mem example_parsed)"
proof -
  let ?r = "ready example_syms 2 0x2100 :: unit machine \<Rightarrow> bool"
  have hints: "mem example_parsed 0x2010 = Some (Init (V64 0x3000))" by code_simp
  have "mem s'' = mem example_parsed"
    if "assign 0x2010 (V64 0x3000) (s\<lparr>mem := mem example_parsed\<rparr>) = Some s''" for s s'' :: "unit machine"
    using that hints by (auto simp: assign_def st_def split: if_splits)
  then have "?r s''" if "assign 0x2010 (V64 0x3000) (s\<lparr>mem := mem example_parsed\<rparr>) = Some s''" for s s''
    using that example_ready by blast
  moreover have "options_env example_library example_syms 2 0x2100 ?r (\<lambda>_. 0)"
  proof -
    have "deref64 s 0x2100 \<noteq> None \<and> deref64 s 0x2020 \<noteq> None \<and> deref64 s 0x2010 \<noteq> None" if "?r s" for s
    proof -
      have "0x2100 \<in> set (arg_cells 2 0x2100)" by (simp add: arg_cells_def upt_rec)
      then show ?thesis using that
        unfolding ready_def hinted_def variables_ok_def msg_objects_def example_syms_values list_all_iff by auto
    qed
    then show ?thesis
      unfolding options_env_def example_syms_values by (simp add: example_library_def)
  qed
  moreover have "meth s 0x6000 struct_fid_ep ''cm'' struct_fi_ops_cm ''shutdown'' = Some 0x77"
    "deref64 s 0x2018 = Some 0x6000" if "mem s = mem example_parsed" for s :: "unit machine"
  proof -
    have "meth example_parsed 0x6000 struct_fid_ep ''cm'' struct_fi_ops_cm ''shutdown'' = Some 0x77"
      "deref64 example_parsed 0x2018 = Some 0x6000" by code_simp+
    then show "meth s 0x6000 struct_fid_ep ''cm'' struct_fi_ops_cm ''shutdown'' = Some 0x77" "deref64 s 0x2018 = Some 0x6000"
      unfolding meth_mem_cong [OF that] deref64_mem_cong [OF that] .
  qed
  moreover have "(INT_MIN :: u32) \<noteq> 0" by (simp add: INT_MIN_def)
  ultimately show ?thesis
    unfolding library_def example_syms_values by (auto simp: example_library_def hints example_ready)
qed


end
