(* ===== verification/Msg_Frame.thy ===== *)
theory Msg_Frame
  imports Msg_Total
begin

section \<open>What msg writes\<close>

text \<open>
  The memory \<open>msg.c\<close> changes by itself: the options, the pointer to the hints and three members of the
  hints. Everything else that changes is changed by the functions it calls.
\<close>

definition unchanged :: "ptr set \<Rightarrow> 'p machine \<Rightarrow> 'p machine \<Rightarrow> bool" where
  "unchanged A s s' \<longleftrightarrow> (\<forall>a. a \<notin> A \<longrightarrow> mem s' a = mem s a)"

text \<open>The functions outside the repository write in \<open>R\<close> only.\<close>

definition writes_within :: "'p provider \<Rightarrow> ptr set \<Rightarrow> bool" where
  "writes_within P R \<longleftrightarrow> (\<forall>f args s v s'. P f args s = Some (v, s') \<longrightarrow> unchanged R s s')"

lemma unchanged_refl: "unchanged A s s"
  by (simp add: unchanged_def)

lemma unchanged_trans: "unchanged A s s' \<Longrightarrow> unchanged B s' s'' \<Longrightarrow> A \<subseteq> C \<Longrightarrow> B \<subseteq> C \<Longrightarrow> unchanged C s s''"
  unfolding unchanged_def by (metis subset_iff)

lemma unchanged_mono: "unchanged A s s' \<Longrightarrow> A \<subseteq> B \<Longrightarrow> unchanged B s s'"
  by (auto simp: unchanged_def)

lemma unchanged_stores: "stores A s s' \<Longrightarrow> unchanged A s s'"
  by (simp add: stores_def unchanged_def)

text \<open>A state reached from one that differs from the first in \<open>A\<close> only.\<close>

lemma reached: "unchanged A s s1 \<Longrightarrow> unchanged B s1 s2 \<Longrightarrow> unchanged (A \<union> B) s s2"
  by (simp add: unchanged_def)

lemma invoke_unchanged: "writes_within P R \<Longrightarrow> invoke P f n args s = Some (v, s') \<Longrightarrow> unchanged R s s'"
  by (auto simp: writes_within_def invoke_def bind_Some_iff split: if_splits)

lemma invoke_void_unchanged: "writes_within P R \<Longrightarrow> invoke_void P f args s = Some s' \<Longrightarrow> unchanged R s s'"
  by (auto simp: writes_within_def invoke_void_def bind_Some_iff)

lemma shutdown_unchanged: "writes_within P R \<Longrightarrow> fi_shutdown P ep flags s = Some (v, s') \<Longrightarrow> unchanged R s s'"
  by (auto simp: writes_within_def fi_shutdown_def vcall_def call_def bind_Some_iff split: if_splits)

lemmas call_unchanged = invoke_unchanged invoke_void_unchanged shutdown_unchanged

lemma options_unchanged:
  assumes "writes_within P R" and "msg_options P L argc argv s = Some (r, s')"
  shows "unchanged R s s'"
  using assms(2)
proof (induction rule: msg_options_induct)
  case (ended s s1)
  then show ?case by (rule invoke_unchanged [OF assms(1)])
next
  case (usage s opr s1 name s2)
  from reached [OF invoke_unchanged [OF assms(1) usage(1)] invoke_void_unchanged [OF assms(1) usage(3)]]
  show ?case by simp
next
  case (parsed s opr s1 arg s2 arg2 h s3 r s')
  note calls = invoke_unchanged [OF assms(1) parsed(1)] parsed(3,4) [THEN invoke_void_unchanged [OF assms(1)]]
  from reached [OF reached [OF reached [OF calls(1,2)] calls(3)] parsed(5)] show ?case by simp
qed

lemma connect_unchanged:
  assumes "writes_within P R" and "run_connect P L s = Some (ret, s')"
  shows "unchanged R s s'"
proof -
  obtain f v s1 where s1: "invoke P f 4 [] s = Some (v, s1)"
    and rest: "do { ret \<leftarrow> the32 v;
      if ret \<noteq> 0 then Some (ret, s1)
      else do {
        ep \<leftarrow> deref64 s1 (L ''ep'');
        (v, s2) \<leftarrow> invoke P (L ''ft_send_recv_greeting'') 4 [V64 ep] s1;
        ret \<leftarrow> the32 v;
        ep \<leftarrow> deref64 s2 (L ''ep'');
        (_, s3) \<leftarrow> fi_shutdown P ep 0 s2;
        Some (ret, s3) } } = Some (ret, s')"
    using assms(2) by (auto simp: run_connect_def bind_Some_iff split: if_splits)
  note u = invoke_unchanged [OF assms(1) s1]
  from rest consider "s' = s1" | e w s2 v3 where "invoke P (L ''ft_send_recv_greeting'') 4 [V64 e] s1 = Some (w, s2)"
      "\<exists>ep. fi_shutdown P ep 0 s2 = Some (v3, s')"
    by (auto simp: bind_Some_iff split: if_splits) blast
  then show ?thesis
  proof cases
    case 1
    with u show ?thesis by simp
  next
    case 2
    then obtain ep where "fi_shutdown P ep 0 s2 = Some (v3, s')" by blast
    from reached [OF reached [OF u invoke_unchanged [OF assms(1) 2(1)]] shutdown_unchanged [OF assms(1) this]]
    show ?thesis by simp
  qed
qed

lemma run_unchanged:
  assumes "writes_within P R" and "run P L s = Some (ret, s')"
  shows "unchanged R s s'"
proof -
  from assms(2) consider "run_connect P L s = Some (ret, s')"
    | v s1 where "invoke P (L ''ft_start_server'') 4 [] s = Some (v, s1)" "s' = s1 \<or> run_connect P L s1 = Some (ret, s')"
    by (auto simp: run_def bind_Some_iff split: if_splits)
  then show ?thesis
  proof cases
    case 1
    then show ?thesis by (rule connect_unchanged [OF assms(1)])
  next
    case 2
    note u = invoke_unchanged [OF assms(1) 2(1)]
    from 2(2) u reached [OF u connect_unchanged [OF assms(1)], of L ret s'] show ?thesis by auto
  qed
qed

text \<open>The members of the hints that \<open>msg\<close> sets.\<close>

definition hint_cells :: "ptr \<Rightarrow> ptr \<Rightarrow> ptr \<Rightarrow> ptr set" where
  "hint_cells h e d = {addr_of e struct_fi_ep_attr ''type'', addr_of h struct_fi_info ''caps'',
     addr_of d struct_fi_domain_attr ''mr_mode''}"

lemma init_unchanged:
  assumes "msg_init L argc argv s = Some s'"
  shows "unchanged (set (addrs (L ''opts'') struct_ft_opts)) s s'"
proof -
  obtain s1 v where "assign_struct (L ''opts'') struct_ft_opts (INIT_OPTS argc argv) s = Some s1"
      "put (L ''opts'') struct_ft_opts ''options'' v s1 = Some s'"
    using assms by (auto simp: msg_init_def bind_Some_iff)
  then show ?thesis by (intro unchanged_stores) (blast intro: stores_trans dest: assign_struct_stores put_stores_object)
qed

lemma configure_unchanged:
  assumes "msg_configure L argc argv s = Some s'"
  shows "\<exists>h e d. unchanged (set (addrs (L ''opts'') struct_ft_opts) \<union> hint_cells h e d) s s'"
proof -
  let ?O = "set (addrs (L ''opts'') struct_ft_opts)"
  from assms obtain s1 e s2 h s3 d where
    s1: "s1 = s \<or> (\<exists>arg. put (L ''opts'') struct_ft_opts ''dst_addr'' (V64 arg) s = Some s1)" and
    puts: "put e struct_fi_ep_attr ''type'' (V32 (fi_ep_type_val FI_EP_MSG)) s1 = Some s2"
      "put h struct_fi_info ''caps'' (V64 FI_MSG) s2 = Some s3"
      "put d struct_fi_domain_attr ''mr_mode'' (V32 (FI_MR_LOCAL OR OFI_MR_BASIC_MAP)) s3 = Some s'"
    unfolding msg_configure_def by (auto simp: bind_Some_iff split: if_splits) blast+
  have "unchanged ?O s s1" using s1 by (auto intro: unchanged_refl unchanged_stores put_stores_object)
  note all = reached [OF reached [OF reached [OF this unchanged_stores [OF put_stores [OF puts(1)]]]
        unchanged_stores [OF put_stores [OF puts(2)]]] unchanged_stores [OF put_stores [OF puts(3)]]]
  have "unchanged (?O \<union> hint_cells h e d) s s'"
    by (rule unchanged_mono [OF all]) (auto simp: hint_cells_def)
  then show ?thesis by blast
qed

subsection \<open>Properties\<close>



end
