(* ===== verification/Declarations.thy ===== *)
theory Declarations
  imports C_Link
begin

section \<open>Declared functions\<close>

text \<open>
  The functions the headers declare and the repository does not define: those of libfabric and of
  the test library. A declaration has the type of the result, \<open>None\<close> for \<open>void\<close>, and the types of
  the parameters, \<open>None\<close> where the header writes \<open>()\<close> and so leaves them open. \<open>checked L P\<close> is the
  provider \<open>P\<close> with the declarations enforced: at the address of a declared function it refuses a
  call with other argument types, and a result of another type. Code that behaves the same with
  \<open>checked L P\<close> as with \<open>P\<close> makes no ill-typed call.
\<close>

record prototype =
  result_type :: "ctype option"
  arg_types :: "ctype list option"

definition shared_option_prototypes :: "(string \<times> prototype) list" where
  "shared_option_prototypes = [
    (''ft_parseinfo'', \<lparr>result_type = None, arg_types = Some [CInt, Ptr, Ptr, Ptr]\<rparr>),
    (''ft_parse_addr_opts'', \<lparr>result_type = None, arg_types = Some [CInt, Ptr, Ptr]\<rparr>),
    (''ft_parsecsopts'', \<lparr>result_type = None, arg_types = Some [CInt, Ptr, Ptr]\<rparr>),
    (''ft_parse_rma_opts'', \<lparr>result_type = Some CInt, arg_types = Some [CInt, Ptr, Ptr, Ptr]\<rparr>),
    (''ft_addr_usage'', \<lparr>result_type = None, arg_types = None\<rparr>),
    (''ft_usage'', \<lparr>result_type = None, arg_types = Some [Ptr, Ptr]\<rparr>),
    (''ft_mcusage'', \<lparr>result_type = None, arg_types = Some [Ptr, Ptr]\<rparr>),
    (''ft_csusage'', \<lparr>result_type = None, arg_types = Some [Ptr, Ptr]\<rparr>)]"

definition shared_socket_prototypes :: "(string \<times> prototype) list" where
  "shared_socket_prototypes = [
    (''ft_fill_buf'', \<lparr>result_type = None, arg_types = Some [Ptr, CInt]\<rparr>),
    (''ft_check_buf'', \<lparr>result_type = Some CInt, arg_types = Some [Ptr, CInt]\<rparr>),
    (''ft_check_opts'', \<lparr>result_type = Some CInt, arg_types = Some [U64]\<rparr>),
    (''ft_init_cq_data'', \<lparr>result_type = Some U64, arg_types = Some [Ptr]\<rparr>),
    (''ft_sock_listen'', \<lparr>result_type = Some CInt, arg_types = Some [Ptr, Ptr]\<rparr>),
    (''ft_sock_connect'', \<lparr>result_type = Some CInt, arg_types = Some [Ptr, Ptr]\<rparr>),
    (''ft_sock_accept'', \<lparr>result_type = Some CInt, arg_types = None\<rparr>),
    (''ft_sock_send'', \<lparr>result_type = Some CInt, arg_types = Some [CInt, Ptr, SizeT]\<rparr>),
    (''ft_sock_recv'', \<lparr>result_type = Some CInt, arg_types = Some [CInt, Ptr, SizeT]\<rparr>),
    (''ft_sock_sync'', \<lparr>result_type = Some CInt, arg_types = Some [CInt]\<rparr>),
    (''ft_sock_shutdown'', \<lparr>result_type = None, arg_types = Some [CInt]\<rparr>)]"

definition shared_size_prototypes :: "(string \<times> prototype) list" where
  "shared_size_prototypes = [
    (''ft_getsrcaddr'', \<lparr>result_type = Some CInt, arg_types = Some [Ptr, Ptr, Ptr]\<rparr>),
    (''ft_read_addr_opts'', \<lparr>result_type = Some CInt, arg_types = Some [Ptr, Ptr, Ptr, Ptr, Ptr]\<rparr>),
    (''size_str'', \<lparr>result_type = Some Ptr, arg_types = Some [Ptr, U64]\<rparr>),
    (''cnt_str'', \<lparr>result_type = Some Ptr, arg_types = Some [Ptr, U64]\<rparr>),
    (''size_to_count'', \<lparr>result_type = Some CInt, arg_types = Some [CInt]\<rparr>),
    (''datatype_to_size'', \<lparr>result_type = Some SizeT, arg_types = Some [CEnum]\<rparr>)]"

definition shared_setup_prototypes :: "(string \<times> prototype) list" where
  "shared_setup_prototypes = [
    (''ft_alloc_bufs'', \<lparr>result_type = Some CInt, arg_types = None\<rparr>),
    (''ft_open_fabric_res'', \<lparr>result_type = Some CInt, arg_types = None\<rparr>),
    (''ft_getinfo'', \<lparr>result_type = Some CInt, arg_types = Some [Ptr, Ptr]\<rparr>),
    (''ft_init_fabric'', \<lparr>result_type = Some CInt, arg_types = None\<rparr>),
    (''ft_init_oob'', \<lparr>result_type = Some CInt, arg_types = None\<rparr>),
    (''ft_start_server'', \<lparr>result_type = Some CInt, arg_types = None\<rparr>),
    (''ft_server_connect'', \<lparr>result_type = Some CInt, arg_types = None\<rparr>),
    (''ft_client_connect'', \<lparr>result_type = Some CInt, arg_types = None\<rparr>),
    (''ft_init_fabric_cm'', \<lparr>result_type = Some CInt, arg_types = Some []\<rparr>),
    (''ft_complete_connect'', \<lparr>result_type = Some CInt, arg_types = Some [Ptr, Ptr]\<rparr>),
    (''ft_retrieve_conn_req'', \<lparr>result_type = Some CInt, arg_types = Some [Ptr, Ptr]\<rparr>),
    (''ft_accept_connection'', \<lparr>result_type = Some CInt, arg_types = Some [Ptr, Ptr]\<rparr>),
    (''ft_connect_ep'', \<lparr>result_type = Some CInt, arg_types = Some [Ptr, Ptr, Ptr]\<rparr>),
    (''ft_alloc_ep_res'', \<lparr>result_type = Some CInt, arg_types = Some [Ptr]\<rparr>),
    (''ft_alloc_active_res'', \<lparr>result_type = Some CInt, arg_types = Some [Ptr]\<rparr>),
    (''ft_enable_ep_recv'', \<lparr>result_type = Some CInt, arg_types = Some []\<rparr>),
    (''ft_enable_ep'', \<lparr>result_type = Some CInt, arg_types = Some [Ptr, Ptr, Ptr, Ptr, Ptr, Ptr, Ptr]\<rparr>),
    (''ft_init_alias_ep'', \<lparr>result_type = Some CInt, arg_types = Some [U64]\<rparr>),
    (''ft_av_insert'', \<lparr>result_type = Some CInt, arg_types = Some [Ptr, Ptr, SizeT, Ptr, U64, Ptr]\<rparr>),
    (''ft_init_av'', \<lparr>result_type = Some CInt, arg_types = Some []\<rparr>),
    (''ft_join_mc'', \<lparr>result_type = Some CInt, arg_types = Some []\<rparr>),
    (''ft_init_av_dst_addr'', \<lparr>result_type = Some CInt, arg_types = Some [Ptr, Ptr, Ptr]\<rparr>),
    (''ft_init_av_addr'', \<lparr>result_type = Some CInt, arg_types = Some [Ptr, Ptr, Ptr]\<rparr>),
    (''ft_exchange_keys'', \<lparr>result_type = Some CInt, arg_types = Some [Ptr]\<rparr>),
    (''ft_free_res'', \<lparr>result_type = None, arg_types = None\<rparr>),
    (''init_test'', \<lparr>result_type = None, arg_types = Some [Ptr, Ptr, SizeT]\<rparr>)]"

definition shared_transfer_prototypes :: "(string \<times> prototype) list" where
  "shared_transfer_prototypes = [
    (''ft_sync'', \<lparr>result_type = Some CInt, arg_types = Some []\<rparr>),
    (''ft_sync_pair'', \<lparr>result_type = Some CInt, arg_types = Some [CInt]\<rparr>),
    (''ft_fork_and_pair'', \<lparr>result_type = Some CInt, arg_types = Some []\<rparr>),
    (''ft_wait_child'', \<lparr>result_type = Some CInt, arg_types = Some []\<rparr>),
    (''ft_finalize'', \<lparr>result_type = Some CInt, arg_types = Some []\<rparr>),
    (''ft_finalize_ep'', \<lparr>result_type = Some CInt, arg_types = Some [Ptr]\<rparr>),
    (''ft_rx_prefix_size'', \<lparr>result_type = Some SizeT, arg_types = Some []\<rparr>),
    (''ft_tx_prefix_size'', \<lparr>result_type = Some SizeT, arg_types = Some []\<rparr>),
    (''ft_post_rx'', \<lparr>result_type = Some SsizeT, arg_types = Some [Ptr, SizeT, Ptr]\<rparr>),
    (''ft_post_rx_buf'', \<lparr>result_type = Some SsizeT, arg_types = Some [Ptr, SizeT, Ptr, Ptr, Ptr, U64]\<rparr>),
    (''ft_post_tx'', \<lparr>result_type = Some SsizeT, arg_types = Some [Ptr, FiAddrT, SizeT, U64, Ptr]\<rparr>),
    (''ft_post_tx_buf'', \<lparr>result_type = Some SsizeT, arg_types = Some [Ptr, FiAddrT, SizeT, U64, Ptr, Ptr, Ptr, U64]\<rparr>),
    (''ft_rx'', \<lparr>result_type = Some SsizeT, arg_types = Some [Ptr, SizeT]\<rparr>),
    (''ft_tx'', \<lparr>result_type = Some SsizeT, arg_types = Some [Ptr, FiAddrT, SizeT, Ptr]\<rparr>),
    (''ft_inject'', \<lparr>result_type = Some SsizeT, arg_types = Some [Ptr, FiAddrT, SizeT]\<rparr>),
    (''ft_post_rma'', \<lparr>result_type = Some SsizeT, arg_types = Some [CEnum, Ptr, SizeT, Ptr, Ptr]\<rparr>),
    (''ft_rma'', \<lparr>result_type = Some SsizeT, arg_types = Some [CEnum, Ptr, SizeT, Ptr, Ptr]\<rparr>),
    (''ft_post_rma_inject'', \<lparr>result_type = Some SsizeT, arg_types = Some [CEnum, Ptr, SizeT, Ptr]\<rparr>),
    (''ft_post_atomic'', \<lparr>result_type = Some SsizeT, arg_types = Some [CEnum, Ptr, Ptr, Ptr, Ptr, Ptr, Ptr, CEnum, CEnum, Ptr]\<rparr>),
    (''check_base_atomic_op'', \<lparr>result_type = Some CInt, arg_types = Some [Ptr, CEnum, CEnum, Ptr]\<rparr>),
    (''check_fetch_atomic_op'', \<lparr>result_type = Some CInt, arg_types = Some [Ptr, CEnum, CEnum, Ptr]\<rparr>),
    (''check_compare_atomic_op'', \<lparr>result_type = Some CInt, arg_types = Some [Ptr, CEnum, CEnum, Ptr]\<rparr>),
    (''ft_cq_readerr'', \<lparr>result_type = Some CInt, arg_types = Some [Ptr]\<rparr>),
    (''ft_get_rx_comp'', \<lparr>result_type = Some CInt, arg_types = Some [U64]\<rparr>),
    (''ft_get_tx_comp'', \<lparr>result_type = Some CInt, arg_types = Some [U64]\<rparr>),
    (''ft_recvmsg'', \<lparr>result_type = Some CInt, arg_types = Some [Ptr, FiAddrT, SizeT, Ptr, CInt]\<rparr>),
    (''ft_sendmsg'', \<lparr>result_type = Some CInt, arg_types = Some [Ptr, FiAddrT, SizeT, Ptr, CInt]\<rparr>),
    (''ft_cq_read_verify'', \<lparr>result_type = Some CInt, arg_types = Some [Ptr, Ptr]\<rparr>),
    (''eq_readerr'', \<lparr>result_type = None, arg_types = Some [Ptr, Ptr]\<rparr>),
    (''get_elapsed'', \<lparr>result_type = Some U64, arg_types = Some [Ptr, Ptr, CEnum]\<rparr>),
    (''show_perf'', \<lparr>result_type = None, arg_types = Some [Ptr, SizeT, CInt, Ptr, Ptr, CInt]\<rparr>),
    (''show_perf_mr'', \<lparr>result_type = None, arg_types = Some [SizeT, CInt, Ptr, Ptr, CInt, CInt, Ptr]\<rparr>),
    (''ft_send_recv_greeting'', \<lparr>result_type = Some CInt, arg_types = Some [Ptr]\<rparr>),
    (''ft_send_greeting'', \<lparr>result_type = Some CInt, arg_types = Some [Ptr]\<rparr>),
    (''ft_recv_greeting'', \<lparr>result_type = Some CInt, arg_types = Some [Ptr]\<rparr>),
    (''ft_accept_next_client'', \<lparr>result_type = Some CInt, arg_types = None\<rparr>),
    (''check_recv_msg'', \<lparr>result_type = Some CInt, arg_types = Some [Ptr]\<rparr>),
    (''ft_info_to_mr_access'', \<lparr>result_type = Some U64, arg_types = Some [Ptr]\<rparr>),
    (''ft_alloc_bit_combo'', \<lparr>result_type = Some CInt, arg_types = Some [U64, U64, Ptr, Ptr]\<rparr>),
    (''ft_free_bit_combo'', \<lparr>result_type = None, arg_types = Some [Ptr]\<rparr>),
    (''ft_cntr_open'', \<lparr>result_type = Some CInt, arg_types = Some [Ptr]\<rparr>),
    (''ft_util_name'', \<lparr>result_type = Some Ptr, arg_types = Some [Ptr, Ptr]\<rparr>),
    (''ft_core_name'', \<lparr>result_type = Some Ptr, arg_types = Some [Ptr, Ptr]\<rparr>),
    (''ft_split_and_alloc'', \<lparr>result_type = Some Ptr, arg_types = Some [Ptr, Ptr, Ptr]\<rparr>),
    (''ft_free_string_array'', \<lparr>result_type = None, arg_types = Some [Ptr]\<rparr>)]"

definition version_prototypes :: "(string \<times> prototype) list" where
  "version_prototypes = [
    (''fi_version'', \<lparr>result_type = Some U32, arg_types = Some []\<rparr>)]"

definition info_prototypes :: "(string \<times> prototype) list" where
  "info_prototypes = [
    (''fi_getinfo'', \<lparr>result_type = Some CInt, arg_types = Some [U32, Ptr, Ptr, U64, Ptr, Ptr]\<rparr>),
    (''fi_freeinfo'', \<lparr>result_type = None, arg_types = Some [Ptr]\<rparr>),
    (''fi_dupinfo'', \<lparr>result_type = Some Ptr, arg_types = Some [Ptr]\<rparr>)]"

definition open_prototypes :: "(string \<times> prototype) list" where
  "open_prototypes = [
    (''fi_fabric'', \<lparr>result_type = Some CInt, arg_types = Some [Ptr, Ptr, Ptr]\<rparr>)]"

definition tostr_prototypes :: "(string \<times> prototype) list" where
  "tostr_prototypes = [
    (''fi_tostr'', \<lparr>result_type = Some Ptr, arg_types = Some [Ptr, CEnum]\<rparr>)]"

definition param_prototypes :: "(string \<times> prototype) list" where
  "param_prototypes = [
    (''fi_getparams'', \<lparr>result_type = Some CInt, arg_types = Some [Ptr, Ptr]\<rparr>),
    (''fi_freeparams'', \<lparr>result_type = None, arg_types = Some [Ptr]\<rparr>)]"

definition error_prototypes :: "(string \<times> prototype) list" where
  "error_prototypes = [
    (''fi_strerror'', \<lparr>result_type = Some Ptr, arg_types = Some [CInt]\<rparr>)]"

text \<open>From \<open>getopt.h\<close>.\<close>

definition libc_prototypes :: "(string \<times> prototype) list" where
  "libc_prototypes = [(''getopt'', \<lparr>result_type = Some CInt, arg_types = Some [CInt, Ptr, Ptr]\<rparr>)]"

definition declared :: "(string \<times> prototype) list" where
  "declared = libc_prototypes @ error_prototypes @ version_prototypes @ info_prototypes @ open_prototypes @
     tostr_prototypes @ param_prototypes @ shared_option_prototypes @ shared_socket_prototypes @
     shared_size_prototypes @ shared_setup_prototypes @ shared_transfer_prototypes"

lemmas declared_defs = declared_def libc_prototypes_def shared_option_prototypes_def
  shared_socket_prototypes_def
  shared_size_prototypes_def
  shared_setup_prototypes_def
  shared_transfer_prototypes_def
  version_prototypes_def
  info_prototypes_def
  open_prototypes_def
  tostr_prototypes_def
  param_prototypes_def
  error_prototypes_def

subsection \<open>Enforcing the declarations\<close>

definition args_ok :: "prototype \<Rightarrow> cval list \<Rightarrow> bool" where
  "args_ok pr args \<longleftrightarrow> pred_option (\<lambda>ts. map bytes args = map sizeof ts) (arg_types pr)"

definition result_ok :: "prototype \<Rightarrow> cval \<Rightarrow> bool" where
  "result_ok pr v \<longleftrightarrow> pred_option (\<lambda>t. bytes v = sizeof t) (result_type pr)"

definition checked :: "linkage \<Rightarrow> 'p provider \<Rightarrow> 'p provider" where
  "checked L P f args s = (case find (\<lambda>(n, pr). L n = f) declared of
     None \<Rightarrow> P f args s
   | Some (n, pr) \<Rightarrow>
       if args_ok pr args
       then do { (v, s') \<leftarrow> P f args s; if result_ok pr v then Some (v, s') else None }
       else None)"

text \<open>The address of a called function is that of no other declared function.\<close>

definition resolved :: "linkage \<Rightarrow> string list \<Rightarrow> bool" where
  "resolved L called \<longleftrightarrow> list_all (\<lambda>n. list_all (\<lambda>(m, pr). L m = L n \<longrightarrow> m = n) declared) called"

lemma find_resolved:
  "list_all (\<lambda>(m, pr). L m = L n \<longrightarrow> m = n) ds \<Longrightarrow> map_of ds n = Some pr \<Longrightarrow>
    find (\<lambda>(m, pr). L m = L n) ds = Some (n, pr)"
proof (induction ds)
  case (Cons d ds)
  obtain m q where d: "d = (m, q)" by force
  show ?case
  proof (cases "m = n")
    case True
    then show ?thesis using Cons.prems(2) by (simp add: d)
  next
    case False
    moreover from this have "L m \<noteq> L n" using Cons.prems(1) by (simp add: d)
    ultimately show ?thesis using Cons by (simp add: d)
  qed
qed simp

lemma checked_symbol:
  assumes "resolved L called" and "n \<in> set called" and "map_of declared n = Some pr"
  shows "checked L P (L n) args s =
    (if args_ok pr args then do { (v, s') \<leftarrow> P (L n) args s; if result_ok pr v then Some (v, s') else None } else None)"
proof -
  have "list_all (\<lambda>(m, pr). L m = L n \<longrightarrow> m = n) declared"
    using assms(1,2) by (simp add: resolved_def list_all_iff)
  from find_resolved [OF this assms(3)] show ?thesis by (simp add: checked_def)
qed

lemma checked_other: "f \<notin> L ` fst ` set declared \<Longrightarrow> checked L P f args s = P f args s"
proof -
  assume "f \<notin> L ` fst ` set declared"
  then have "find (\<lambda>(n, pr). L n = f) declared = None" by (force simp: find_None_iff)
  then show ?thesis by (simp add: checked_def)
qed

lemma invoke_checked:
  assumes "resolved L called" and "n \<in> set called" and "map_of declared n = Some pr"
    and "args_ok pr args" and "result_type pr = Some t" and "sizeof t = k"
  shows "invoke (checked L P) (L n) k args s = invoke P (L n) k args s"
  unfolding invoke_def checked_symbol [OF assms(1-3)]
  using assms(4-6) by (cases "P (L n) args s") (simp_all add: result_ok_def split: prod.split)

lemma invoke_void_checked:
  assumes "resolved L called" and "n \<in> set called" and "map_of declared n = Some pr"
    and "args_ok pr args" and "result_type pr = None"
  shows "invoke_void (checked L P) (L n) args s = invoke_void P (L n) args s"
  unfolding invoke_void_def checked_symbol [OF assms(1-3)]
  using assms(4,5) by (cases "P (L n) args s") (simp_all add: result_ok_def split: prod.split)

end
