(* ===== verification/Msg_Types.thy ===== *)
theory Msg_Types
  imports Msg Declarations
begin

section \<open>msg calls the library as declared\<close>

text \<open>
  \<open>msg.c\<close> and the declarations it is compiled against, put together: every call of a declared
  function passes arguments of the declared types and reads a result of the declared type.
\<close>

text \<open>The declarations of the functions \<open>msg\<close> calls.\<close>

lemma msg_declared:
  "map_of declared ''getopt'' = Some \<lparr>result_type = Some CInt, arg_types = Some [CInt, Ptr, Ptr]\<rparr>"
  "map_of declared ''ft_usage'' = Some \<lparr>result_type = None, arg_types = Some [Ptr, Ptr]\<rparr>"
  "map_of declared ''ft_parse_addr_opts'' = Some \<lparr>result_type = None, arg_types = Some [CInt, Ptr, Ptr]\<rparr>"
  "map_of declared ''ft_parseinfo'' = Some \<lparr>result_type = None, arg_types = Some [CInt, Ptr, Ptr, Ptr]\<rparr>"
  "map_of declared ''fi_dupinfo'' = Some \<lparr>result_type = Some Ptr, arg_types = Some [Ptr]\<rparr>"
  "map_of declared ''ft_start_server'' = Some \<lparr>result_type = Some CInt, arg_types = None\<rparr>"
  "map_of declared ''ft_server_connect'' = Some \<lparr>result_type = Some CInt, arg_types = None\<rparr>"
  "map_of declared ''ft_client_connect'' = Some \<lparr>result_type = Some CInt, arg_types = None\<rparr>"
  "map_of declared ''ft_send_recv_greeting'' = Some \<lparr>result_type = Some CInt, arg_types = Some [Ptr]\<rparr>"
  "map_of declared ''ft_free_res'' = Some \<lparr>result_type = None, arg_types = None\<rparr>"
  by (simp_all add: declared_defs)

lemma checked_calls_same:
  assumes r: "resolved L library_symbols"
  shows "invoke (checked L P) (L ''getopt'') 4 [V32 a, V64 b, V64 c] s = invoke P (L ''getopt'') 4 [V32 a, V64 b, V64 c] s"
    and "invoke_void (checked L P) (L ''ft_usage'') [V64 b, V64 c] s = invoke_void P (L ''ft_usage'') [V64 b, V64 c] s"
    and "invoke_void (checked L P) (L ''ft_parse_addr_opts'') [V32 a, V64 b, V64 c] s =
      invoke_void P (L ''ft_parse_addr_opts'') [V32 a, V64 b, V64 c] s"
    and "invoke_void (checked L P) (L ''ft_parseinfo'') [V32 a, V64 b, V64 c, V64 d] s =
      invoke_void P (L ''ft_parseinfo'') [V32 a, V64 b, V64 c, V64 d] s"
    and "invoke (checked L P) (L ''fi_dupinfo'') 8 [V64 b] s = invoke P (L ''fi_dupinfo'') 8 [V64 b] s"
    and "invoke (checked L P) (L ''ft_start_server'') 4 [] s = invoke P (L ''ft_start_server'') 4 [] s"
    and "invoke (checked L P) (L ''ft_server_connect'') 4 [] s = invoke P (L ''ft_server_connect'') 4 [] s"
    and "invoke (checked L P) (L ''ft_client_connect'') 4 [] s = invoke P (L ''ft_client_connect'') 4 [] s"
    and "invoke (checked L P) (L ''ft_send_recv_greeting'') 4 [V64 b] s = invoke P (L ''ft_send_recv_greeting'') 4 [V64 b] s"
    and "invoke_void (checked L P) (L ''ft_free_res'') [] s = invoke_void P (L ''ft_free_res'') [] s"
proof -
  note lib = library_symbols_def and ok = args_ok_def
  show "invoke (checked L P) (L ''getopt'') 4 [V32 a, V64 b, V64 c] s = invoke P (L ''getopt'') 4 [V32 a, V64 b, V64 c] s"
    by (rule invoke_checked [OF r _ msg_declared(1), where t = CInt]) (simp_all add: lib ok)
  show "invoke_void (checked L P) (L ''ft_usage'') [V64 b, V64 c] s = invoke_void P (L ''ft_usage'') [V64 b, V64 c] s"
    by (rule invoke_void_checked [OF r _ msg_declared(2)]) (simp_all add: lib ok)
  show "invoke_void (checked L P) (L ''ft_parse_addr_opts'') [V32 a, V64 b, V64 c] s =
      invoke_void P (L ''ft_parse_addr_opts'') [V32 a, V64 b, V64 c] s"
    by (rule invoke_void_checked [OF r _ msg_declared(3)]) (simp_all add: lib ok)
  show "invoke_void (checked L P) (L ''ft_parseinfo'') [V32 a, V64 b, V64 c, V64 d] s =
      invoke_void P (L ''ft_parseinfo'') [V32 a, V64 b, V64 c, V64 d] s"
    by (rule invoke_void_checked [OF r _ msg_declared(4)]) (simp_all add: lib ok)
  show "invoke (checked L P) (L ''fi_dupinfo'') 8 [V64 b] s = invoke P (L ''fi_dupinfo'') 8 [V64 b] s"
    by (rule invoke_checked [OF r _ msg_declared(5), where t = Ptr]) (simp_all add: lib ok)
  show "invoke (checked L P) (L ''ft_start_server'') 4 [] s = invoke P (L ''ft_start_server'') 4 [] s"
    by (rule invoke_checked [OF r _ msg_declared(6), where t = CInt]) (simp_all add: lib ok)
  show "invoke (checked L P) (L ''ft_server_connect'') 4 [] s = invoke P (L ''ft_server_connect'') 4 [] s"
    by (rule invoke_checked [OF r _ msg_declared(7), where t = CInt]) (simp_all add: lib ok)
  show "invoke (checked L P) (L ''ft_client_connect'') 4 [] s = invoke P (L ''ft_client_connect'') 4 [] s"
    by (rule invoke_checked [OF r _ msg_declared(8), where t = CInt]) (simp_all add: lib ok)
  show "invoke (checked L P) (L ''ft_send_recv_greeting'') 4 [V64 b] s = invoke P (L ''ft_send_recv_greeting'') 4 [V64 b] s"
    by (rule invoke_checked [OF r _ msg_declared(9), where t = CInt]) (simp_all add: lib ok)
  show "invoke_void (checked L P) (L ''ft_free_res'') [] s = invoke_void P (L ''ft_free_res'') [] s"
    by (rule invoke_void_checked [OF r _ msg_declared(10)]) (simp_all add: lib ok)
qed

text \<open>\<open>shutdown\<close> is called through the table of the endpoint and not by name.\<close>

lemma run_checked:
  assumes r: "resolved L library_symbols" and env: "run_env P L shut" and shut: "shut \<notin> L ` fst ` set declared"
  shows "run (checked L P) L s = run P L s"
proof -
  have sh: "fi_shutdown (checked L P) e 0 s2 = fi_shutdown P e 0 s2"
    if "invoke P (L ''ft_send_recv_greeting'') 4 [V64 b] s1 = Some (v, s2)" "deref64 s2 (L ''ep'') = Some e" for b s1 v s2 e
  proof -
    have "checked L P f args s2 = P f args s2"
      if "meth s2 e struct_fid_ep ''cm'' struct_fi_ops_cm ''shutdown'' = Some f" for f args
      using run_env_greeting [OF env \<open>invoke P _ _ _ _ = _\<close> \<open>deref64 _ _ = _\<close> that] shut by (simp add: checked_other)
    then show ?thesis
      by (cases "meth s2 e struct_fid_ep ''cm'' struct_fi_ops_cm ''shutdown''")
        (simp_all add: fi_shutdown_def vcall_meth call_def proto_map_of structs)
  qed
  have rest: "(do { (v, s2) \<leftarrow> invoke P (L ''ft_send_recv_greeting'') 4 [V64 b] s1;
         ret \<leftarrow> the32 v; e \<leftarrow> deref64 s2 (L ''ep''); (_, s3) \<leftarrow> fi_shutdown (checked L P) e 0 s2; Some (ret, s3) }) =
      (do { (v, s2) \<leftarrow> invoke P (L ''ft_send_recv_greeting'') 4 [V64 b] s1;
         ret \<leftarrow> the32 v; e \<leftarrow> deref64 s2 (L ''ep''); (_, s3) \<leftarrow> fi_shutdown P e 0 s2; Some (ret, s3) })" for b s1
  proof (cases "invoke P (L ''ft_send_recv_greeting'') 4 [V64 b] s1")
    case (Some p)
    obtain v s2 where p: "p = (v, s2)" by force
    show ?thesis
      using sh [OF Some [unfolded p]] by (cases "deref64 s2 (L ''ep'')") (simp_all add: Some p)
  qed simp
  have conn: "run_connect (checked L P) L s = run_connect P L s" for s
    unfolding run_connect_def checked_calls_same [OF r] rest ..
  show ?thesis unfolding run_def checked_calls_same [OF r] conn ..
qed

text \<open>The option loop depends on nothing but the functions it calls.\<close>

lemma options_agree:
  assumes run: "msg_options P L argc argv s = Some y"
    and getopt: "\<And>s a b c. invoke P (L ''getopt'') 4 [V32 a, V64 b, V64 c] s = invoke R (L ''getopt'') 4 [V32 a, V64 b, V64 c] s"
    and usage: "\<And>s b c. invoke_void P (L ''ft_usage'') [V64 b, V64 c] s = invoke_void R (L ''ft_usage'') [V64 b, V64 c] s"
    and addr: "\<And>s a b c. invoke_void P (L ''ft_parse_addr_opts'') [V32 a, V64 b, V64 c] s =
      invoke_void R (L ''ft_parse_addr_opts'') [V32 a, V64 b, V64 c] s"
    and info: "\<And>s a b c d. invoke_void P (L ''ft_parseinfo'') [V32 a, V64 b, V64 c, V64 d] s =
      invoke_void R (L ''ft_parseinfo'') [V32 a, V64 b, V64 c, V64 d] s"
  shows "msg_options R L argc argv s = Some y"
proof -
  let ?Pa = "\<lambda>((((P', L'), argc'), argv'), s) y.
    P' = P \<longrightarrow> L' = L \<longrightarrow> msg_options R L argc' argv' s = Some y"
  have ne: "op_unknown \<noteq> - 1" "op_help \<noteq> - 1" by (simp_all add: op_unknown_def op_help_def)
  have "?Pa ((((P, L), argc), argv), s) y"
  proof (rule msg_options.raw_induct [where Pa = ?Pa, OF _ run], goal_cases)
    case (1 rec P' L' argc argv s y)
    have "msg_options R L argc argv s = Some y" if eqs: "P' = P" "L' = L"
    proof -
      from 1(1) [of P L argc argv] have IH: "rec P L argc argv s = Some y \<Longrightarrow> msg_options R L argc argv s = Some y" for s y by simp
      from 1(2) [unfolded eqs getopt usage addr info] show ?thesis
        by (subst msg_options.simps) (auto simp: bind_Some_iff ne split: if_splits dest!: IH)
    qed
    then show ?case by simp
  qed
  then show ?thesis by simp
qed

lemma options_checked:
  assumes r: "resolved L library_symbols"
  shows "msg_options (checked L P) L argc argv s = msg_options P L argc argv s"
proof (cases "msg_options P L argc argv s")
  case (Some y)
  then have "msg_options (checked L P) L argc argv s = Some y"
    by (rule options_agree) (simp_all only: checked_calls_same [OF r])
  with Some show ?thesis by simp
next
  case None
  have "msg_options (checked L P) L argc argv s = None"
  proof (rule ccontr)
    assume "msg_options (checked L P) L argc argv s \<noteq> None"
    then obtain y where "msg_options (checked L P) L argc argv s = Some y" by blast
    then have "msg_options P L argc argv s = Some y"
      by (rule options_agree) (simp_all only: checked_calls_same [OF r])
    with None show False by simp
  qed
  with None show ?thesis by simp
qed


text \<open>The addresses of the example belong to one name each.\<close>

lemma example_syms_iff:
  "example_syms m = 0x301 \<longleftrightarrow> m = ''fi_dupinfo''"
  "example_syms m = 0x302 \<longleftrightarrow> m = ''getopt''"
  "example_syms m = 0x303 \<longleftrightarrow> m = ''ft_usage''"
  "example_syms m = 0x304 \<longleftrightarrow> m = ''ft_parse_addr_opts''"
  "example_syms m = 0x305 \<longleftrightarrow> m = ''ft_parseinfo''"
  "example_syms m = 0x306 \<longleftrightarrow> m = ''ft_start_server''"
  "example_syms m = 0x307 \<longleftrightarrow> m = ''ft_server_connect''"
  "example_syms m = 0x308 \<longleftrightarrow> m = ''ft_client_connect''"
  "example_syms m = 0x309 \<longleftrightarrow> m = ''ft_send_recv_greeting''"
  "example_syms m = 0x30A \<longleftrightarrow> m = ''ft_free_res''"
  "example_syms m = 0x30B \<longleftrightarrow> m = ''fi_freeinfo''"
  "example_syms m \<noteq> 0x77"
  by (simp_all add: example_syms_def library_symbols_def)

lemma example_resolved: "resolved example_syms library_symbols"
proof -
  have "list_all (\<lambda>n. \<forall>m. example_syms m = example_syms n \<longrightarrow> m = n) library_symbols"
    by (simp add: library_symbols_def example_syms_values example_syms_iff example_syms_iff(11) [THEN iffD2, OF refl])
  then show ?thesis by (simp add: resolved_def list_all_iff)
qed


end
