(* ===== verification/Hs_Types.thy ===== *)
theory Hs_Types
  imports Fi_Objects C_Objects
begin

section \<open>The types of the Haskell bindings\<close>

text \<open>
  The \<open>.hsc\<close> files declare the C interface to Haskell line by line: \<open>#starttype struct x\<close> opens a record
  whose \<open>#field n , t\<close> lines give a member of the C struct and the Haskell type it is read and
  written with, \<open>#array_field\<close> the element type of an array member, and \<open>#cinline f , t\<close> imports the stub
  of the inline function \<open>f\<close> at the type \<open>t\<close>. The preprocessor and the macros are not in the repository;
  their documented meaning is used: a field is accessed at the offset the C compiler gives the member
  and with the size of its Haskell type, and the \<open>Storable\<close> instance of the record reads (\<open>peek\<close>) and
  writes (\<open>poke\<close>) every \<open>#field\<close> and \<open>#array_field\<close>, in order.
\<close>

subsection \<open>Types\<close>

text \<open>\<open>Ptr t\<close>, \<open>CString\<close> and \<open>fid_t\<close> are \<open>H_ptr\<close>, \<open>FunPtr (t1 -> .. -> r)\<close> is \<open>H_fun\<close>; \<open>H_enum\<close> is the integral type
  of a C enumeration, \<open>H_rec fs bs\<close> the record \<open>bs\<close> for the struct with members \<open>fs\<close>.\<close>

datatype hs_type =
    H_ptr | H_int | H_uint | H_long | H_ulong | H_size | H_short | H_ushort | H_uchar | H_enum
  | H_fun "hs_type list" hs_type
  | H_array hs_type
  | H_rec fields "(string list \<times> hs_type) list"

type_synonym hs_record = "(string list \<times> hs_type) list"

text \<open>The size of a value; of an array, that of an element.\<close>

primrec hs_width :: "hs_type \<Rightarrow> nat" where
  "hs_width H_ptr = 8"
| "hs_width H_int = 4"
| "hs_width H_uint = 4"
| "hs_width H_long = 8"
| "hs_width H_ulong = 8"
| "hs_width H_size = 8"
| "hs_width H_short = 2"
| "hs_width H_ushort = 2"
| "hs_width H_uchar = 1"
| "hs_width H_enum = 4"
| "hs_width (H_fun ts r) = 8"
| "hs_width (H_array t) = hs_width t"
| "hs_width (H_rec fs bs) = sizeof (Struct fs)"

definition hs_signed :: "hs_type \<Rightarrow> bool" where
  "hs_signed t \<longleftrightarrow> t = H_int \<or> t = H_long \<or> t = H_short"

text \<open>The Haskell type of a field is one for the C type of the member.\<close>

primrec agrees :: "ctype \<Rightarrow> hs_type \<Rightarrow> bool" where
  "agrees U8 h \<longleftrightarrow> h = H_uchar"
| "agrees U16 h \<longleftrightarrow> h = H_short \<or> h = H_ushort"
| "agrees U32 h \<longleftrightarrow> h = H_int \<or> h = H_uint \<or> h = H_enum"
| "agrees U64 h \<longleftrightarrow> h = H_long \<or> h = H_ulong \<or> h = H_size"
| "agrees Ptr h \<longleftrightarrow> h = H_ptr"
| "agrees (Fn r ps) h \<longleftrightarrow>
     (case h of H_fun hs hr \<Rightarrow> map hs_width hs = map sizeof ps \<and> hs_width hr = sizeof r | _ \<Rightarrow> False)"
| "agrees (Arr t n) h \<longleftrightarrow> (case h of H_array g \<Rightarrow> agrees t g | _ \<Rightarrow> False)"
| "agrees (Struct fs) h \<longleftrightarrow> (case h of H_rec gs bs \<Rightarrow> gs = fs | _ \<Rightarrow> False)"
| "agrees (Union fs) h \<longleftrightarrow> False"

subsection \<open>Where a record reads and writes\<close>

text \<open>\<open>sub t ns\<close>: the offset and the type of \<open>x.n1.n2\<close> for an \<open>x\<close> of type \<open>t\<close>.\<close>

fun sub :: "ctype \<Rightarrow> string list \<Rightarrow> (nat \<times> ctype) option" where
  "sub t [] = Some (0, t)"
| "sub (Struct fs) (n # ns) = do { (a, t) \<leftarrow> member fs n; (b, u) \<leftarrow> sub t ns; Some (a + b, u) }"
| "sub (Union fs) (n # ns) = do { t \<leftarrow> map_of fs n; sub t ns }"
| "sub t (n # ns) = None"

text \<open>The accesses of a record, as offsets and sizes, in order.\<close>

primrec hs_cells :: "hs_type \<Rightarrow> ctype \<Rightarrow> (nat \<times> nat) list"
  and record_cells :: "(string list \<times> hs_type) list \<Rightarrow> fields \<Rightarrow> (nat \<times> nat) list"
  and field_cells :: "string list \<times> hs_type \<Rightarrow> fields \<Rightarrow> (nat \<times> nat) list" where
  "hs_cells H_ptr t = [(0, 8)]"
| "hs_cells H_int t = [(0, 4)]"
| "hs_cells H_uint t = [(0, 4)]"
| "hs_cells H_long t = [(0, 8)]"
| "hs_cells H_ulong t = [(0, 8)]"
| "hs_cells H_size t = [(0, 8)]"
| "hs_cells H_short t = [(0, 2)]"
| "hs_cells H_ushort t = [(0, 2)]"
| "hs_cells H_uchar t = [(0, 1)]"
| "hs_cells H_enum t = [(0, 4)]"
| "hs_cells (H_fun ts r) t = [(0, 8)]"
| "hs_cells (H_array h) t =
     (case t of Arr u n \<Rightarrow> concat (map (\<lambda>i. shift (i * sizeof u) (hs_cells h u)) [0..<n]) | _ \<Rightarrow> [])"
| "hs_cells (H_rec fs bs) t = record_cells bs fs"
| "record_cells [] fs = []"
| "record_cells (b # bs) fs = field_cells b fs @ record_cells bs fs"
| "field_cells (ns, h) fs =
     (case sub (Struct fs) ns of None \<Rightarrow> [] | Some (a, t) \<Rightarrow> shift a (hs_cells h t))"

subsection \<open>The Storable instance of a record\<close>

primrec peeks :: "ptr \<Rightarrow> (nat \<times> nat) list \<Rightarrow> 'p machine \<Rightarrow> cval list option" where
  "peeks p [] s = Some []"
| "peeks p (c # cs) s = do { v \<leftarrow> ld s (p + of_nat (fst c)) (snd c); vs \<leftarrow> peeks p cs s; Some (v # vs) }"

fun pokes :: "ptr \<Rightarrow> (nat \<times> nat) list \<Rightarrow> cval list \<Rightarrow> 'p machine \<Rightarrow> 'p machine option" where
  "pokes p [] [] s = Some s"
| "pokes p (c # cs) (v # vs) s =
     (if bytes v = snd c then do { s1 \<leftarrow> st (p + of_nat (fst c)) v s; pokes p cs vs s1 } else None)"
| "pokes p _ _ s = None"

definition hs_peek :: "fields \<Rightarrow> hs_record \<Rightarrow> ptr \<Rightarrow> 'p machine \<Rightarrow> cval list option" where
  "hs_peek fs bs p s = (if p = NULL then None else peeks p (record_cells bs fs) s)"

definition hs_poke :: "fields \<Rightarrow> hs_record \<Rightarrow> ptr \<Rightarrow> cval list \<Rightarrow> 'p machine \<Rightarrow> 'p machine option" where
  "hs_poke fs bs p vs s = (if p = NULL then None else pokes p (record_cells bs fs) vs s)"

text \<open>The values of a record: one per access, of its size.\<close>

definition values_of :: "fields \<Rightarrow> hs_record \<Rightarrow> cval list \<Rightarrow> bool" where
  "values_of fs bs vs \<longleftrightarrow> map bytes vs = map snd (record_cells bs fs)"

text \<open>A run of stores leaves at every offset the last value stored there.\<close>

lemma pokes_mem:
  assumes "pokes p cs vs s = Some s'" and "\<forall>(a, n) \<in> set cs. a < 2 ^ 64" and "b < 2 ^ 64"
  shows "mem s' (p + of_nat b) =
    (case map_of (rev (zip (map fst cs) vs)) b of Some v \<Rightarrow> Some (Init v) | None \<Rightarrow> mem s (p + of_nat b))"
  using assms
proof (induction p cs vs s rule: pokes.induct)
  case (2 p c cs v vs s)
  then obtain s1 where s1: "st (p + of_nat (fst c)) v s = Some s1" "pokes p cs vs s1 = Some s'" "bytes v = snd c"
    by (auto simp: bind_Some_iff split: if_splits)
  have "fst c < 2 ^ 64" using 2(3) by auto
  then have "(p + of_nat b = p + (of_nat (fst c) :: ptr)) = (b = fst c)" using 2(4) ptr_add_eq_iff by blast
  with s1(1) have "mem s1 (p + of_nat b) = (if b = fst c then Some (Init v) else mem s (p + of_nat b))"
    by (auto simp: st_def split: option.splits if_splits)
  with 2(1) [OF s1(3,1,2)] 2(3,4) show ?case by (auto simp: map_add_def split: option.splits)
qed auto

lemma pokes_outside:
  assumes "pokes p cs vs s = Some s'" and "\<forall>(a, n) \<in> set cs. q \<noteq> p + of_nat a"
  shows "mem s' q = mem s q"
  using assms by (induction p cs vs s rule: pokes.induct)
    (auto simp: bind_Some_iff st_def split: if_splits option.splits)

lemma pokes_env: "pokes p cs vs s = Some s' \<Longrightarrow> env s' = env s \<and> sp s' = sp s"
  by (induction p cs vs s rule: pokes.induct) (auto simp: bind_Some_iff st_def split: if_splits option.splits)

text \<open>Stores of the widths of the cells there succeed.\<close>

lemma pokes_defined:
  assumes "\<forall>(a, n) \<in> set cs. map_option cell_bytes (mem s (p + of_nat a)) = Some n" and "map bytes vs = map snd cs"
  shows "\<exists>s'. pokes p cs vs s = Some s' \<and>
    (\<forall>q. map_option cell_bytes (mem s' q) = map_option cell_bytes (mem s q))"
  using assms
proof (induction cs arbitrary: vs s)
  case (Cons c cs)
  obtain v ws where vs: "vs = v # ws" "bytes v = snd c" "map bytes ws = map snd cs" using Cons.prems(2) by (cases vs) auto
  have "map_option cell_bytes (mem s (p + of_nat (fst c))) = Some (bytes v)" using Cons.prems(1) vs(2) by auto
  then obtain s1 where s1: "st (p + of_nat (fst c)) v s = Some s1"
      "\<forall>q. map_option cell_bytes (mem s1 q) = map_option cell_bytes (mem s q)"
    by (auto simp: st_def)
  with Cons.prems(1) have "\<forall>(a, n) \<in> set cs. map_option cell_bytes (mem s1 (p + of_nat a)) = Some n" by auto
  from Cons.IH [OF this vs(3)] s1 vs(1,2) show ?case by auto
qed auto

lemma peeks_map:
  assumes "\<forall>(a, n) \<in> set cs. \<exists>v. mem s (p + of_nat a) = Some (Init v) \<and> bytes v = n \<and> g a = v"
  shows "peeks p cs s = Some (map (\<lambda>c. g (fst c)) cs)"
  using assms by (induction cs) (auto simp: ld_def)

subsection \<open>Records that cover their struct\<close>

text \<open>A record that lists the members of the struct in order, each with a type that makes the accesses
  of the member, makes exactly the accesses of the struct.\<close>

fun matches :: "fields \<Rightarrow> hs_record \<Rightarrow> bool" where
  "matches [] [] \<longleftrightarrow> True"
| "matches ((n, t) # fs) ((ns, h) # bs) \<longleftrightarrow> ns = [n] \<and> agrees t h \<and> hs_cells h t = leaves t \<and> matches fs bs"
| "matches _ _ \<longleftrightarrow> False"

lemma names_of_layout: "map fst (layout off fs) = map fst fs"
  by (induction off fs rule: layout.induct) (auto simp: Let_def)

lemma matches_cells_suffix:
  assumes "matches gs bs" and "layout 0 fs = pre @ layout off gs" and "distinct (map fst fs)"
  shows "record_cells bs fs = struct_leaves gs off"
  using assms(1,2)
proof (induction gs bs arbitrary: pre off rule: matches.induct)
  case (2 n t gs ns h bs)
  let ?a = "roundup off (alignof t)"
  have m: "ns = [n]" "hs_cells h t = leaves t" "matches gs bs" using 2(2) by simp_all
  have l: "layout 0 fs = (pre @ [(n, ?a, t)]) @ layout (?a + sizeof t) gs" unfolding 2(3) by (simp add: Let_def)
  have "distinct (map fst (layout 0 fs))" using assms(3) by (simp only: names_of_layout)
  moreover have "(n, ?a, t) \<in> set (layout 0 fs)" unfolding l by simp
  ultimately have mem: "member fs n = Some (?a, t)" unfolding member_def by (rule map_of_is_SomeI)
  have "record_cells bs fs = struct_leaves gs (?a + sizeof t)" by (rule 2(1) [OF m(3) l])
  then show ?case unfolding m(1) record_cells.simps field_cells.simps sub.simps mem
    by (simp only: bind.bind_lunit prod.case option.case m(2) struct_leaves.simps Let_def align_field.simps
        field_size.simps field_leaves.simps add_0_right)
qed auto

lemma matches_cells: "matches fs bs \<Longrightarrow> distinct (map fst fs) \<Longrightarrow> record_cells bs fs = leaves (Struct fs)"
  using matches_cells_suffix [of fs bs fs "[]" 0] by simp

definition covers :: "fields \<Rightarrow> hs_record \<Rightarrow> bool" where
  "covers fs bs \<longleftrightarrow> matches fs bs \<and> distinct (map fst fs)"

lemma covers_cells: "covers fs bs \<Longrightarrow> record_cells bs fs = leaves (Struct fs)"
  by (simp only: covers_def matches_cells)

lemma matches_types: "matches fs bs \<Longrightarrow> list_all2 (\<lambda>(n, t) (ns, h). ns = [n] \<and> agrees t h) fs bs"
  by (induction fs bs rule: matches.induct) simp_all

text \<open>Writing a record and reading it back, and what the C code reads from it.\<close>

lemma exact_roundtrip:
  assumes exact: "record_cells bs fs = leaves (Struct fs)" and small: "small fs"
    and m: "mapped s p fs" and vs: "values_of fs bs vs"
  shows "\<exists>s'. hs_poke fs bs p vs s = Some s' \<and> mapped s' p fs \<and> hs_peek fs bs p s' = Some vs \<and>
    (\<forall>n a t. member fs n = Some (a, t) \<longrightarrow> scalar t \<longrightarrow> get s' p fs n = map_of (zip (map fst (leaves (Struct fs))) vs) a) \<and>
    (\<forall>q. q \<notin> set (addrs p fs) \<longrightarrow> mem s' q = mem s q)"
proof -
  let ?ls = "leaves (Struct fs)" and ?zs = "zip (map fst (leaves (Struct fs))) vs"
  have p: "p \<noteq> NULL" and cells: "\<forall>(a, n) \<in> set ?ls. map_option cell_bytes (mem s (p + of_nat a)) = Some n"
    using m by (auto simp: mapped_def list_all_iff simp del: leaves.simps)
  have bytes: "map bytes vs = map snd ?ls" using vs by (simp only: values_of_def exact)
  then have len: "length vs = length ?ls" by (metis length_map)
  obtain s' where s': "pokes p ?ls vs s = Some s'" "\<forall>q. map_option cell_bytes (mem s' q) = map_option cell_bytes (mem s q)"
    using pokes_defined [OF cells bytes] by blast
  have low: "\<forall>(a, n) \<in> set ?ls. a < 2 ^ 64"
    using leaves_bounds [of _ _ "Struct fs"] small unfolding small_def by fastforce
  have "distinct (map fst ?zs)" using leaves_distinct [of "Struct fs"] len by (simp del: leaves.simps)
  then have rev: "map_of (rev ?zs) = map_of ?zs"
    by (subst map_of_inject_set) (simp_all add: rev_map [symmetric] del: leaves.simps)
  have mem: "mem s' (p + of_nat a) = Some (Init (vs ! i)) \<and> map_of ?zs a = Some (vs ! i) \<and> bytes (vs ! i) = n"
    if "i < length ?ls" "?ls ! i = (a, n)" for i a n
  proof -
    have "a < 2 ^ 64" using low that nth_mem by fastforce
    moreover have "(a, vs ! i) \<in> set ?zs" using that len by (force simp: set_zip simp del: leaves.simps)
    then have "map_of ?zs a = Some (vs ! i)" using \<open>distinct _\<close> by (simp add: map_of_is_SomeI del: leaves.simps)
    moreover have "bytes (vs ! i) = n" using bytes that len by (metis nth_map snd_conv)
    ultimately show ?thesis using pokes_mem [OF s'(1) low] by (simp add: rev del: leaves.simps)
  qed
  have "peeks p ?ls s' = Some (map (\<lambda>c. the (map_of ?zs (fst c))) ?ls)"
    by (rule peeks_map) (use mem in \<open>fastforce simp: in_set_conv_nth simp del: leaves.simps\<close>)
  also have "map (\<lambda>c. the (map_of ?zs (fst c))) ?ls = vs"
    by (rule nth_equalityI) (use mem [OF _ surjective_pairing] len in \<open>auto simp del: leaves.simps\<close>)
  finally have "hs_peek fs bs p s' = Some vs" using p by (simp only: hs_peek_def exact if_False)
  moreover have "get s' p fs n = map_of ?zs a" if n: "member fs n = Some (a, t)" "scalar t" for n a t
  proof -
    obtain i where "i < length ?ls" "?ls ! i = (a, sizeof t)"
      using member_leaf [OF n] unfolding in_set_conv_nth by blast
    then show ?thesis using mem n p by (simp add: get_def ld_def addr_of_member del: leaves.simps)
  qed
  moreover have "mem s' q = mem s q" if "q \<notin> set (addrs p fs)" for q
    by (rule pokes_outside [OF s'(1)]) (use that in \<open>force simp: addrs_def simp del: leaves.simps\<close>)
  moreover have "mapped s' p fs" using m s'(2) by (simp add: mapped_def del: leaves.simps)
  moreover have "hs_poke fs bs p vs s = Some s'" using p s'(1) by (simp only: hs_poke_def exact if_False)
  ultimately show ?thesis by blast
qed

end
