(* ===== verification/Hs_Records.thy ===== *)
theory Hs_Records
  imports Hs_Types
begin

section \<open>The records of the bindings\<close>

text \<open>
  The records of the \<open>.hsc\<close> files, one definition each, and the lists of those, by file, that cover their
  struct exactly. \<open>fi_eq_cm_entry\<close>, the two records of triggered contexts, \<open>fi_deferred_work\<close>, \<open>fi_mr_attr\<close> and
  \<open>fi_mr_modify\<close>, which contains one, are not among them.
\<close>

text \<open>\<open>struct pollfd\<close> of POSIX.\<close>

definition struct_pollfd :: fields where [structs]:
  "struct_pollfd = [(''fd'', CInt), (''events'', U16), (''revents'', U16)]"

named_theorems hs_records \<open>the records of the bindings\<close>

subsection \<open>Fabric.hsc\<close>

definition hs_fi_ioc :: hs_record where [hs_records]:
  "hs_fi_ioc = [
     ([''addr''], H_ptr), ([''count''], H_size)]"

definition hs_fi_tx_attr :: hs_record where [hs_records]:
  "hs_fi_tx_attr = [
     ([''caps''], H_ulong), ([''mode''], H_ulong), ([''op_flags''], H_ulong), ([''msg_order''], H_ulong),
     ([''comp_order''], H_ulong), ([''inject_size''], H_size), ([''size''], H_size), ([''iov_limit''], H_size),
     ([''rma_iov_limit''], H_size), ([''tclass''], H_uint)]"

definition hs_fi_rx_attr :: hs_record where [hs_records]:
  "hs_fi_rx_attr = [
     ([''caps''], H_ulong), ([''mode''], H_ulong), ([''op_flags''], H_ulong), ([''msg_order''], H_ulong),
     ([''comp_order''], H_ulong), ([''total_buffered_recv''], H_size), ([''size''], H_size),
     ([''iov_limit''], H_size)]"

definition hs_fi_ep_attr :: hs_record where [hs_records]:
  "hs_fi_ep_attr = [
     ([''type''], H_enum), ([''protocol''], H_uint), ([''protocol_version''], H_uint),
     ([''max_msg_size''], H_size), ([''msg_prefix_size''], H_size), ([''max_order_raw_size''], H_size),
     ([''max_order_war_size''], H_size), ([''max_order_waw_size''], H_size), ([''mem_tag_format''], H_ulong),
     ([''tx_ctx_cnt''], H_size), ([''rx_ctx_cnt''], H_size), ([''auth_key_size''], H_size),
     ([''auth_key''], H_ptr)]"

definition hs_fi_domain_attr :: hs_record where [hs_records]:
  "hs_fi_domain_attr = [
     ([''domain''], H_ptr), ([''name''], H_ptr), ([''threading''], H_enum), ([''control_progress''], H_enum),
     ([''data_progress''], H_enum), ([''resource_mgmt''], H_enum), ([''av_type''], H_enum),
     ([''mr_mode''], H_int), ([''mr_key_size''], H_size), ([''cq_data_size''], H_size), ([''cq_cnt''], H_size),
     ([''ep_cnt''], H_size), ([''tx_ctx_cnt''], H_size), ([''rx_ctx_cnt''], H_size),
     ([''max_ep_tx_ctx''], H_size), ([''max_ep_rx_ctx''], H_size), ([''max_ep_stx_ctx''], H_size),
     ([''max_ep_srx_ctx''], H_size), ([''cntr_cnt''], H_size), ([''mr_iov_limit''], H_size),
     ([''caps''], H_ulong), ([''mode''], H_ulong), ([''auth_key''], H_ptr), ([''auth_key_size''], H_size),
     ([''max_err_data''], H_size), ([''mr_cnt''], H_size), ([''tclass''], H_uint)]"

definition hs_fi_fabric_attr :: hs_record where [hs_records]:
  "hs_fi_fabric_attr = [
     ([''fabric''], H_ptr), ([''name''], H_ptr), ([''prov_name''], H_ptr), ([''prov_version''], H_uint),
     ([''api_version''], H_uint)]"

definition hs_fi_info :: hs_record where [hs_records]:
  "hs_fi_info = [
     ([''next''], H_ptr), ([''caps''], H_ulong), ([''mode''], H_ulong), ([''addr_format''], H_uint),
     ([''src_addrlen''], H_size), ([''dest_addrlen''], H_size), ([''src_addr''], H_ptr),
     ([''dest_addr''], H_ptr), ([''handle''], H_ptr), ([''tx_attr''], H_ptr), ([''rx_attr''], H_ptr),
     ([''ep_attr''], H_ptr), ([''domain_attr''], H_ptr), ([''fabric_attr''], H_ptr), ([''nic''], H_ptr)]"

definition hs_fi_device_attr :: hs_record where [hs_records]:
  "hs_fi_device_attr = [
     ([''name''], H_ptr), ([''device_id''], H_ptr), ([''device_version''], H_ptr), ([''vendor_id''], H_ptr),
     ([''driver''], H_ptr), ([''firmware''], H_ptr)]"

definition hs_fi_pci_attr :: hs_record where [hs_records]:
  "hs_fi_pci_attr = [
     ([''domain_id''], H_ushort), ([''bus_id''], H_uchar), ([''device_id''], H_uchar),
     ([''function_id''], H_uchar)]"

definition hs_fi_bus_attr :: hs_record where [hs_records]:
  "hs_fi_bus_attr = [
     ([''bus_type''], H_enum), ([''attr'', ''pci''], H_rec struct_fi_pci_attr hs_fi_pci_attr)]"

definition hs_fi_link_attr :: hs_record where [hs_records]:
  "hs_fi_link_attr = [
     ([''address''], H_ptr), ([''mtu''], H_size), ([''speed''], H_size), ([''state''], H_enum),
     ([''network_type''], H_ptr)]"

definition hs_fi_ops :: hs_record where [hs_records]:
  "hs_fi_ops = [
     ([''size''], H_size), ([''close''], H_fun [H_ptr] H_int),
     ([''bind''], H_fun [H_ptr, H_ptr, H_ulong] H_int), ([''control''], H_fun [H_ptr, H_int, H_ptr] H_int),
     ([''ops_open''], H_fun [H_ptr, H_ptr, H_ulong, H_ptr, H_ptr] H_int),
     ([''tostr''], H_fun [H_ptr, H_ptr, H_size] H_int),
     ([''ops_set''], H_fun [H_ptr, H_ptr, H_ulong, H_ptr, H_ptr] H_int)]"

definition hs_fid :: hs_record where [hs_records]:
  "hs_fid = [
     ([''fclass''], H_size), ([''context''], H_ptr), ([''ops''], H_ptr)]"

definition hs_fi_ops_fabric :: hs_record where [hs_records]:
  "hs_fi_ops_fabric = [
     ([''size''], H_size), ([''domain''], H_fun [H_ptr, H_ptr, H_ptr, H_ptr] H_int),
     ([''passive_ep''], H_fun [H_ptr, H_ptr, H_ptr, H_ptr] H_int),
     ([''eq_open''], H_fun [H_ptr, H_ptr, H_ptr, H_ptr] H_int),
     ([''wait_open''], H_fun [H_ptr, H_ptr, H_ptr] H_int), ([''trywait''], H_fun [H_ptr, H_ptr, H_int] H_int)]"

definition hs_fid_fabric :: hs_record where [hs_records]:
  "hs_fid_fabric = [
     ([''fid''], H_rec struct_fid hs_fid), ([''ops''], H_ptr), ([''api_version''], H_uint)]"

definition hs_fid_nic :: hs_record where [hs_records]:
  "hs_fid_nic = [
     ([''fid''], H_rec struct_fid hs_fid), ([''device_attr''], H_ptr), ([''bus_attr''], H_ptr),
     ([''link_attr''], H_ptr), ([''prov_attr''], H_ptr)]"

definition hs_fi_alias :: hs_record where [hs_records]:
  "hs_fi_alias = [
     ([''fid''], H_ptr), ([''flags''], H_ulong)]"

definition hs_fi_mr_raw_attr :: hs_record where [hs_records]:
  "hs_fi_mr_raw_attr = [
     ([''flags''], H_ulong), ([''base_addr''], H_ptr), ([''raw_key''], H_ptr), ([''key_size''], H_ptr)]"

definition hs_fi_mr_map_raw :: hs_record where [hs_records]:
  "hs_fi_mr_map_raw = [
     ([''flags''], H_ulong), ([''base_addr''], H_ulong), ([''raw_key''], H_ptr), ([''key_size''], H_size),
     ([''key''], H_ptr)]"

definition hs_fi_param :: hs_record where [hs_records]:
  "hs_fi_param = [
     ([''name''], H_ptr), ([''type''], H_enum), ([''help_string''], H_ptr), ([''value''], H_ptr)]"

definition hs_fi_context :: hs_record where [hs_records]:
  "hs_fi_context = [
     ([''internal''], H_array H_ptr)]"

definition hs_fi_context2 :: hs_record where [hs_records]:
  "hs_fi_context2 = [
     ([''internal''], H_array H_ptr)]"

definition hs_fi_recv_context :: hs_record where [hs_records]:
  "hs_fi_recv_context = [
     ([''ep''], H_ptr), ([''context''], H_ptr)]"

definition fabric_records :: "(fields \<times> hs_record) list" where
  "fabric_records = [
     (struct_fi_ioc, hs_fi_ioc), (struct_fi_tx_attr, hs_fi_tx_attr), (struct_fi_rx_attr, hs_fi_rx_attr),
     (struct_fi_ep_attr, hs_fi_ep_attr), (struct_fi_domain_attr, hs_fi_domain_attr),
     (struct_fi_fabric_attr, hs_fi_fabric_attr), (struct_fi_info, hs_fi_info),
     (struct_fi_device_attr, hs_fi_device_attr), (struct_fi_pci_attr, hs_fi_pci_attr),
     (struct_fi_link_attr, hs_fi_link_attr), (struct_fi_ops, hs_fi_ops), (struct_fid, hs_fid),
     (struct_fi_ops_fabric, hs_fi_ops_fabric), (struct_fid_fabric, hs_fid_fabric), (struct_fid_nic, hs_fid_nic),
     (struct_fi_alias, hs_fi_alias), (struct_fi_mr_raw_attr, hs_fi_mr_raw_attr),
     (struct_fi_mr_map_raw, hs_fi_mr_map_raw), (struct_fi_param, hs_fi_param),
     (struct_fi_context, hs_fi_context), (struct_fi_context2, hs_fi_context2),
     (struct_fi_recv_context, hs_fi_recv_context)]"

subsection \<open>FiAtomic.hsc\<close>

definition hs_fi_atomic_attr :: hs_record where [hs_records]:
  "hs_fi_atomic_attr = [
     ([''count''], H_size), ([''size''], H_size)]"

definition hs_fi_msg_atomic :: hs_record where [hs_records]:
  "hs_fi_msg_atomic = [
     ([''msg_iov''], H_ptr), ([''desc''], H_ptr), ([''iov_count''], H_size), ([''addr''], H_ulong),
     ([''rma_iov''], H_ptr), ([''rma_iov_count''], H_size), ([''datatype''], H_enum), ([''op''], H_enum),
     ([''context''], H_ptr), ([''data''], H_ulong)]"

definition hs_fi_msg_fetch :: hs_record where [hs_records]:
  "hs_fi_msg_fetch = [
     ([''msg_iov''], H_ptr), ([''desc''], H_ptr), ([''iov_count''], H_size)]"

definition hs_fi_msg_compare :: hs_record where [hs_records]:
  "hs_fi_msg_compare = [
     ([''msg_iov''], H_ptr), ([''desc''], H_ptr), ([''iov_count''], H_size)]"

definition hs_fi_ops_atomic :: hs_record where [hs_records]:
  "hs_fi_ops_atomic = [
     ([''size''], H_size),
     ([''write''], H_fun [H_ptr, H_ptr, H_size, H_ptr, H_ulong, H_ulong, H_ulong, H_enum, H_enum, H_ptr] H_long),
     ([''writev''], H_fun [H_ptr, H_ptr, H_ptr, H_size, H_ulong, H_ulong, H_ulong, H_enum, H_enum, H_ptr] H_long),
     ([''writemsg''], H_fun [H_ptr, H_ptr, H_ulong] H_long),
     ([''inject''], H_fun [H_ptr, H_ptr, H_size, H_ulong, H_ulong, H_ulong, H_enum, H_enum] H_long),
     ([''readwrite''], H_fun [H_ptr, H_ptr, H_size, H_ptr, H_ptr, H_ptr, H_ulong, H_ulong, H_ulong, H_enum, H_enum, H_ptr] H_long),
     ([''readwritev''], H_fun [H_ptr, H_ptr, H_ptr, H_size, H_ptr, H_ptr, H_size, H_ulong, H_ulong, H_ulong, H_enum, H_enum, H_ptr] H_long),
     ([''readwritemsg''], H_fun [H_ptr, H_ptr, H_ptr, H_ptr, H_size, H_ulong] H_long),
     ([''compwrite''], H_fun [H_ptr, H_ptr, H_size, H_ptr, H_ptr, H_ptr, H_ptr, H_ptr, H_ulong, H_ulong, H_ulong, H_enum, H_enum, H_ptr] H_long),
     ([''compwritev''], H_fun [H_ptr, H_ptr, H_ptr, H_size, H_ptr, H_ptr, H_size, H_ptr, H_ptr, H_size, H_ulong, H_ulong, H_ulong, H_enum, H_enum, H_ptr] H_long),
     ([''compwritemsg''], H_fun [H_ptr, H_ptr, H_ptr, H_ptr, H_size, H_ptr, H_ptr, H_size, H_ulong] H_long),
     ([''writevalid''], H_fun [H_ptr, H_enum, H_enum, H_ptr] H_int),
     ([''readwritevalid''], H_fun [H_ptr, H_enum, H_enum, H_ptr] H_int),
     ([''compwritevalid''], H_fun [H_ptr, H_enum, H_enum, H_ptr] H_int)]"

definition fi_atomic_records :: "(fields \<times> hs_record) list" where
  "fi_atomic_records = [
     (struct_fi_atomic_attr, hs_fi_atomic_attr), (struct_fi_msg_atomic, hs_fi_msg_atomic),
     (struct_fi_msg_fetch, hs_fi_msg_fetch), (struct_fi_msg_compare, hs_fi_msg_compare),
     (struct_fi_ops_atomic, hs_fi_ops_atomic)]"

subsection \<open>FiCm.hsc\<close>

definition hs_fid_mc :: hs_record where [hs_records]:
  "hs_fid_mc = [
     ([''fid''], H_rec struct_fid hs_fid), ([''fi_addr''], H_ulong)]"

definition hs_fi_ops_cm :: hs_record where [hs_records]:
  "hs_fi_ops_cm = [
     ([''size''], H_size), ([''setname''], H_fun [H_ptr, H_ptr, H_size] H_int),
     ([''getname''], H_fun [H_ptr, H_ptr, H_ptr] H_int), ([''getpeer''], H_fun [H_ptr, H_ptr, H_ptr] H_int),
     ([''connect''], H_fun [H_ptr, H_ptr, H_ptr, H_size] H_int), ([''listen''], H_fun [H_ptr] H_int),
     ([''accept''], H_fun [H_ptr, H_ptr, H_size] H_int),
     ([''reject''], H_fun [H_ptr, H_ptr, H_ptr, H_size] H_int), ([''shutdown''], H_fun [H_ptr, H_ulong] H_int),
     ([''join''], H_fun [H_ptr, H_ptr, H_ulong, H_ptr, H_ptr] H_int)]"

definition fi_cm_records :: "(fields \<times> hs_record) list" where
  "fi_cm_records = [
     (struct_fid_mc, hs_fid_mc), (struct_fi_ops_cm, hs_fi_ops_cm)]"

subsection \<open>FiCollective.hsc\<close>

definition hs_fi_ops_av_set :: hs_record where [hs_records]:
  "hs_fi_ops_av_set = [
     ([''size''], H_size), ([''set_union''], H_fun [H_ptr, H_ptr] H_int),
     ([''intersect''], H_fun [H_ptr, H_ptr] H_int), ([''diff''], H_fun [H_ptr, H_ptr] H_int),
     ([''insert''], H_fun [H_ptr, H_ulong] H_int), ([''remove''], H_fun [H_ptr, H_ulong] H_int),
     ([''addr''], H_fun [H_ptr, H_ptr] H_int)]"

definition hs_fid_av_set :: hs_record where [hs_records]:
  "hs_fid_av_set = [
     ([''fid''], H_rec struct_fid hs_fid), ([''ops''], H_ptr)]"

definition hs_fi_collective_attr :: hs_record where [hs_records]:
  "hs_fi_collective_attr = [
     ([''op''], H_enum), ([''datatype''], H_enum),
     ([''datatype_attr''], H_rec struct_fi_atomic_attr hs_fi_atomic_attr), ([''max_members''], H_size),
     ([''mode''], H_ulong)]"

definition hs_fi_collective_addr :: hs_record where [hs_records]:
  "hs_fi_collective_addr = [
     ([''set''], H_ptr), ([''coll_addr''], H_ulong)]"

definition hs_fi_msg_collective :: hs_record where [hs_records]:
  "hs_fi_msg_collective = [
     ([''msg_iov''], H_ptr), ([''desc''], H_ptr), ([''iov_count''], H_size), ([''coll_addr''], H_ulong),
     ([''root_addr''], H_ulong), ([''coll''], H_enum), ([''datatype''], H_enum), ([''op''], H_enum),
     ([''context''], H_ptr)]"

definition hs_fi_ops_collective :: hs_record where [hs_records]:
  "hs_fi_ops_collective = [
     ([''size''], H_size), ([''barrier''], H_fun [H_ptr, H_ulong, H_ptr] H_long),
     ([''broadcast''], H_fun [H_ptr, H_ptr, H_size, H_ptr, H_ulong, H_ulong, H_enum, H_ulong, H_ptr] H_long),
     ([''alltoall''], H_fun [H_ptr, H_ptr, H_size, H_ptr, H_ptr, H_ptr, H_ulong, H_enum, H_ulong, H_ptr] H_long),
     ([''allreduce''], H_fun [H_ptr, H_ptr, H_size, H_ptr, H_ptr, H_ptr, H_ulong, H_enum, H_enum, H_ulong, H_ptr] H_long),
     ([''allgather''], H_fun [H_ptr, H_ptr, H_size, H_ptr, H_ptr, H_ptr, H_ulong, H_enum, H_ulong, H_ptr] H_long),
     ([''reduce_scatter''], H_fun [H_ptr, H_ptr, H_size, H_ptr, H_ptr, H_ptr, H_ulong, H_enum, H_enum, H_ulong, H_ptr] H_long),
     ([''reduce''], H_fun [H_ptr, H_ptr, H_size, H_ptr, H_ptr, H_ptr, H_ulong, H_ulong, H_enum, H_enum, H_ulong, H_ptr] H_long),
     ([''scatter''], H_fun [H_ptr, H_ptr, H_size, H_ptr, H_ptr, H_ptr, H_ulong, H_ulong, H_enum, H_ulong, H_ptr] H_long),
     ([''gather''], H_fun [H_ptr, H_ptr, H_size, H_ptr, H_ptr, H_ptr, H_ulong, H_ulong, H_enum, H_ulong, H_ptr] H_long),
     ([''msg''], H_fun [H_ptr, H_ptr, H_ptr, H_ptr, H_size, H_ulong] H_long)]"

definition fi_collective_records :: "(fields \<times> hs_record) list" where
  "fi_collective_records = [
     (struct_fi_ops_av_set, hs_fi_ops_av_set), (struct_fid_av_set, hs_fid_av_set),
     (struct_fi_collective_attr, hs_fi_collective_attr), (struct_fi_collective_addr, hs_fi_collective_addr),
     (struct_fi_msg_collective, hs_fi_msg_collective), (struct_fi_ops_collective, hs_fi_ops_collective)]"

subsection \<open>FiDomain.hsc\<close>

definition hs_fi_av_attr :: hs_record where [hs_records]:
  "hs_fi_av_attr = [
     ([''type''], H_enum), ([''rx_ctx_bits''], H_int), ([''count''], H_size), ([''ep_per_node''], H_size),
     ([''name''], H_ptr), ([''map_addr''], H_ptr), ([''flags''], H_ulong)]"

definition hs_fi_av_set_attr :: hs_record where [hs_records]:
  "hs_fi_av_set_attr = [
     ([''count''], H_size), ([''start_addr''], H_ulong), ([''end_addr''], H_ulong), ([''stride''], H_ulong),
     ([''comm_key_size''], H_size), ([''comm_key''], H_ptr), ([''flags''], H_ulong)]"

definition hs_fi_ops_av :: hs_record where [hs_records]:
  "hs_fi_ops_av = [
     ([''size''], H_size), ([''insert''], H_fun [H_ptr, H_ptr, H_size, H_ptr, H_ulong, H_ptr] H_int),
     ([''insertsvc''], H_fun [H_ptr, H_ptr, H_ptr, H_ptr, H_ulong, H_ptr] H_int),
     ([''insertsym''], H_fun [H_ptr, H_ptr, H_size, H_ptr, H_size, H_ptr, H_ulong, H_ptr] H_int),
     ([''remove''], H_fun [H_ptr, H_ptr, H_size, H_ulong] H_int),
     ([''lookup''], H_fun [H_ptr, H_ulong, H_ptr, H_ptr] H_int),
     ([''straddr''], H_fun [H_ptr, H_ptr, H_ptr, H_ptr] H_ptr),
     ([''av_set''], H_fun [H_ptr, H_ptr, H_ptr, H_ptr] H_int)]"

definition hs_fid_av :: hs_record where [hs_records]:
  "hs_fid_av = [
     ([''fid''], H_rec struct_fid hs_fid), ([''ops''], H_ptr)]"

definition hs_fid_mr :: hs_record where [hs_records]:
  "hs_fid_mr = [
     ([''fid''], H_rec struct_fid hs_fid), ([''mem_desc''], H_ptr), ([''key''], H_ulong)]"

definition hs_fi_mr_attr :: hs_record where [hs_records]:
  "hs_fi_mr_attr = [
     ([''mr_iov''], H_ptr), ([''iov_count''], H_size), ([''access''], H_ulong), ([''offset''], H_ulong),
     ([''requested_key''], H_ulong), ([''context''], H_ptr), ([''auth_key_size''], H_size),
     ([''auth_key''], H_ptr), ([''iface''], H_enum), ([''device'', ''reserved''], H_ulong),
     ([''device'', ''cuda''], H_int), ([''device'', ''ze''], H_int)]"

definition hs_fi_mr_modify :: hs_record where [hs_records]:
  "hs_fi_mr_modify = [
     ([''flags''], H_ulong), ([''attr''], H_rec struct_fi_mr_attr hs_fi_mr_attr)]"

definition hs_fi_hmem_override_ops :: hs_record where [hs_records]:
  "hs_fi_hmem_override_ops = [
     ([''size''], H_size),
     ([''copy_from_hmem_iov''], H_fun [H_ptr, H_size, H_enum, H_ulong, H_ptr, H_size, H_ulong] H_long),
     ([''copy_to_hmem_iov''], H_fun [H_enum, H_ulong, H_ptr, H_size, H_ulong, H_ptr, H_size] H_long)]"

definition hs_fi_ops_domain :: hs_record where [hs_records]:
  "hs_fi_ops_domain = [
     ([''size''], H_size), ([''av_open''], H_fun [H_ptr, H_ptr, H_ptr, H_ptr] H_int),
     ([''cq_open''], H_fun [H_ptr, H_ptr, H_ptr, H_ptr] H_int),
     ([''endpoint''], H_fun [H_ptr, H_ptr, H_ptr, H_ptr] H_int),
     ([''scalable_ep''], H_fun [H_ptr, H_ptr, H_ptr, H_ptr] H_int),
     ([''cntr_open''], H_fun [H_ptr, H_ptr, H_ptr, H_ptr] H_int),
     ([''poll_open''], H_fun [H_ptr, H_ptr, H_ptr] H_int),
     ([''stx_ctx''], H_fun [H_ptr, H_ptr, H_ptr, H_ptr] H_int),
     ([''srx_ctx''], H_fun [H_ptr, H_ptr, H_ptr, H_ptr] H_int),
     ([''query_atomic''], H_fun [H_ptr, H_enum, H_enum, H_ptr, H_ulong] H_int),
     ([''query_collective''], H_fun [H_ptr, H_enum, H_ptr, H_ulong] H_int)]"

definition hs_fi_ops_mr :: hs_record where [hs_records]:
  "hs_fi_ops_mr = [
     ([''size''], H_size),
     ([''reg''], H_fun [H_ptr, H_ptr, H_size, H_ulong, H_ulong, H_ulong, H_ulong, H_ptr, H_ptr] H_int),
     ([''regv''], H_fun [H_ptr, H_ptr, H_size, H_ulong, H_ulong, H_ulong, H_ulong, H_ptr, H_ptr] H_int),
     ([''regattr''], H_fun [H_ptr, H_ptr, H_ulong, H_ptr] H_int)]"

definition hs_fid_domain :: hs_record where [hs_records]:
  "hs_fid_domain = [
     ([''fid''], H_rec struct_fid hs_fid), ([''ops''], H_ptr), ([''mr''], H_ptr)]"

definition fi_domain_records :: "(fields \<times> hs_record) list" where
  "fi_domain_records = [
     (struct_fi_av_attr, hs_fi_av_attr), (struct_fi_av_set_attr, hs_fi_av_set_attr),
     (struct_fi_ops_av, hs_fi_ops_av), (struct_fid_av, hs_fid_av), (struct_fid_mr, hs_fid_mr),
     (struct_fi_hmem_override_ops, hs_fi_hmem_override_ops), (struct_fi_ops_domain, hs_fi_ops_domain),
     (struct_fi_ops_mr, hs_fi_ops_mr), (struct_fid_domain, hs_fid_domain)]"

subsection \<open>FiEndpoint.hsc\<close>

definition hs_fi_msg :: hs_record where [hs_records]:
  "hs_fi_msg = [
     ([''msg_iov''], H_ptr), ([''desc''], H_ptr), ([''iov_count''], H_size), ([''addr''], H_ulong),
     ([''context''], H_ptr), ([''data''], H_ulong)]"

definition hs_fi_ops_ep :: hs_record where [hs_records]:
  "hs_fi_ops_ep = [
     ([''size''], H_size), ([''cancel''], H_fun [H_ptr, H_ptr] H_long),
     ([''getopt''], H_fun [H_ptr, H_int, H_int, H_ptr, H_ptr] H_int),
     ([''setopt''], H_fun [H_ptr, H_int, H_int, H_ptr, H_size] H_int),
     ([''tx_ctx''], H_fun [H_ptr, H_int, H_ptr, H_ptr, H_ptr] H_int),
     ([''rx_ctx''], H_fun [H_ptr, H_int, H_ptr, H_ptr, H_ptr] H_int),
     ([''rx_size_left''], H_fun [H_ptr] H_long), ([''tx_size_left''], H_fun [H_ptr] H_long)]"

definition hs_fi_ops_msg :: hs_record where [hs_records]:
  "hs_fi_ops_msg = [
     ([''size''], H_size), ([''recv''], H_fun [H_ptr, H_ptr, H_size, H_ptr, H_ulong, H_ptr] H_long),
     ([''recvv''], H_fun [H_ptr, H_ptr, H_ptr, H_size, H_ulong, H_ptr] H_long),
     ([''recvmsg''], H_fun [H_ptr, H_ptr, H_ulong] H_long),
     ([''send''], H_fun [H_ptr, H_ptr, H_size, H_ptr, H_ulong, H_ptr] H_long),
     ([''sendv''], H_fun [H_ptr, H_ptr, H_ptr, H_size, H_ulong, H_ptr] H_long),
     ([''sendmsg''], H_fun [H_ptr, H_ptr, H_ulong] H_long),
     ([''inject''], H_fun [H_ptr, H_ptr, H_size, H_ulong] H_long),
     ([''senddata''], H_fun [H_ptr, H_ptr, H_size, H_ptr, H_ulong, H_ulong, H_ptr] H_long),
     ([''injectdata''], H_fun [H_ptr, H_ptr, H_size, H_ulong, H_ulong] H_long)]"

definition hs_fid_ep :: hs_record where [hs_records]:
  "hs_fid_ep = [
     ([''fid''], H_rec struct_fid hs_fid), ([''ops''], H_ptr), ([''cm''], H_ptr), ([''msg''], H_ptr),
     ([''rma''], H_ptr), ([''tagged''], H_ptr), ([''atomic''], H_ptr), ([''collective''], H_ptr)]"

definition hs_fid_pep :: hs_record where [hs_records]:
  "hs_fid_pep = [
     ([''fid''], H_rec struct_fid hs_fid), ([''ops''], H_ptr), ([''cm''], H_ptr)]"

definition hs_fid_stx :: hs_record where [hs_records]:
  "hs_fid_stx = [
     ([''fid''], H_rec struct_fid hs_fid), ([''ops''], H_ptr)]"

definition fi_endpoint_records :: "(fields \<times> hs_record) list" where
  "fi_endpoint_records = [
     (struct_fi_msg, hs_fi_msg), (struct_fi_ops_ep, hs_fi_ops_ep), (struct_fi_ops_msg, hs_fi_ops_msg),
     (struct_fid_ep, hs_fid_ep), (struct_fid_pep, hs_fid_pep), (struct_fid_stx, hs_fid_stx)]"

subsection \<open>FiEq.hsc\<close>

definition hs_pollfd :: hs_record where [hs_records]:
  "hs_pollfd = [
     ([''fd''], H_int), ([''events''], H_short), ([''revents''], H_short)]"

definition hs_fi_wait_attr :: hs_record where [hs_records]:
  "hs_fi_wait_attr = [
     ([''wait_obj''], H_enum), ([''flags''], H_ulong)]"

definition hs_fi_ops_wait :: hs_record where [hs_records]:
  "hs_fi_ops_wait = [
     ([''size''], H_size), ([''wait''], H_fun [H_ptr, H_int] H_int)]"

definition hs_fid_wait :: hs_record where [hs_records]:
  "hs_fid_wait = [
     ([''fid''], H_rec struct_fid hs_fid), ([''ops''], H_ptr)]"

definition hs_fi_mutex_cond :: hs_record where [hs_records]:
  "hs_fi_mutex_cond = [
     ([''mutex''], H_ptr), ([''cond''], H_ptr)]"

definition hs_fi_wait_pollfd :: hs_record where [hs_records]:
  "hs_fi_wait_pollfd = [
     ([''change_index''], H_ulong), ([''nfds''], H_size), ([''fd''], H_ptr)]"

definition hs_fi_poll_attr :: hs_record where [hs_records]:
  "hs_fi_poll_attr = [
     ([''flags''], H_ulong)]"

definition hs_fi_ops_poll :: hs_record where [hs_records]:
  "hs_fi_ops_poll = [
     ([''size''], H_size), ([''poll''], H_fun [H_ptr, H_ptr, H_int] H_int),
     ([''poll_add''], H_fun [H_ptr, H_ptr, H_ulong] H_int),
     ([''poll_del''], H_fun [H_ptr, H_ptr, H_ulong] H_int)]"

definition hs_fid_poll :: hs_record where [hs_records]:
  "hs_fid_poll = [
     ([''fid''], H_rec struct_fid hs_fid), ([''ops''], H_ptr)]"

definition hs_fi_eq_attr :: hs_record where [hs_records]:
  "hs_fi_eq_attr = [
     ([''size''], H_size), ([''flags''], H_ulong), ([''wait_obj''], H_enum), ([''signaling_vector''], H_int),
     ([''wait_set''], H_ptr)]"

definition hs_fi_eq_entry :: hs_record where [hs_records]:
  "hs_fi_eq_entry = [
     ([''fid''], H_ptr), ([''context''], H_ptr), ([''data''], H_ulong)]"

definition hs_fi_eq_err_entry :: hs_record where [hs_records]:
  "hs_fi_eq_err_entry = [
     ([''fid''], H_ptr), ([''context''], H_ptr), ([''data''], H_ulong), ([''err''], H_int),
     ([''prov_errno''], H_int), ([''err_data''], H_ptr), ([''err_data_size''], H_size)]"

definition hs_fi_eq_cm_entry :: hs_record where [hs_records]:
  "hs_fi_eq_cm_entry = [
     ([''fid''], H_ptr), ([''info''], H_ptr), ([''data''], H_ptr)]"

definition hs_fi_ops_eq :: hs_record where [hs_records]:
  "hs_fi_ops_eq = [
     ([''size''], H_size), ([''read''], H_fun [H_ptr, H_ptr, H_ptr, H_size, H_ulong] H_long),
     ([''readerr''], H_fun [H_ptr, H_ptr, H_ulong] H_long),
     ([''write''], H_fun [H_ptr, H_uint, H_ptr, H_size, H_ulong] H_long),
     ([''sread''], H_fun [H_ptr, H_ptr, H_ptr, H_size, H_int, H_ulong] H_long),
     ([''strerror''], H_fun [H_ptr, H_int, H_ptr, H_ptr, H_size] H_ptr)]"

definition hs_fid_eq :: hs_record where [hs_records]:
  "hs_fid_eq = [
     ([''fid''], H_rec struct_fid hs_fid), ([''ops''], H_ptr)]"

definition hs_fi_cq_entry :: hs_record where [hs_records]:
  "hs_fi_cq_entry = [
     ([''op_context''], H_ptr)]"

definition hs_fi_cq_msg_entry :: hs_record where [hs_records]:
  "hs_fi_cq_msg_entry = [
     ([''op_context''], H_ptr), ([''flags''], H_ulong), ([''len''], H_size)]"

definition hs_fi_cq_data_entry :: hs_record where [hs_records]:
  "hs_fi_cq_data_entry = [
     ([''op_context''], H_ptr), ([''flags''], H_ulong), ([''len''], H_size), ([''buf''], H_ptr),
     ([''data''], H_ulong)]"

definition hs_fi_cq_tagged_entry :: hs_record where [hs_records]:
  "hs_fi_cq_tagged_entry = [
     ([''op_context''], H_ptr), ([''flags''], H_ulong), ([''len''], H_size), ([''buf''], H_ptr),
     ([''data''], H_ulong), ([''tag''], H_ulong)]"

definition hs_fi_cq_err_entry :: hs_record where [hs_records]:
  "hs_fi_cq_err_entry = [
     ([''op_context''], H_ptr), ([''flags''], H_ulong), ([''len''], H_size), ([''buf''], H_ptr),
     ([''data''], H_ulong), ([''tag''], H_ulong), ([''olen''], H_size), ([''err''], H_int),
     ([''prov_errno''], H_int), ([''err_data''], H_ptr), ([''err_data_size''], H_size)]"

definition hs_fi_cq_attr :: hs_record where [hs_records]:
  "hs_fi_cq_attr = [
     ([''size''], H_size), ([''flags''], H_ulong), ([''format''], H_enum), ([''wait_obj''], H_enum),
     ([''signaling_vector''], H_int), ([''wait_cond''], H_enum), ([''wait_set''], H_ptr)]"

definition hs_fi_ops_cq :: hs_record where [hs_records]:
  "hs_fi_ops_cq = [
     ([''size''], H_size), ([''read''], H_fun [H_ptr, H_ptr, H_size] H_long),
     ([''readfrom''], H_fun [H_ptr, H_ptr, H_size, H_ptr] H_long),
     ([''readerr''], H_fun [H_ptr, H_ptr, H_ulong] H_long),
     ([''sread''], H_fun [H_ptr, H_ptr, H_size, H_ptr, H_int] H_long),
     ([''sreadfrom''], H_fun [H_ptr, H_ptr, H_size, H_ptr, H_ptr, H_int] H_long),
     ([''signal''], H_fun [H_ptr] H_int), ([''strerror''], H_fun [H_ptr, H_int, H_ptr, H_ptr, H_size] H_ptr)]"

definition hs_fid_cq :: hs_record where [hs_records]:
  "hs_fid_cq = [
     ([''fid''], H_rec struct_fid hs_fid), ([''ops''], H_ptr)]"

definition hs_fi_cntr_attr :: hs_record where [hs_records]:
  "hs_fi_cntr_attr = [
     ([''events''], H_enum), ([''wait_obj''], H_enum), ([''wait_set''], H_ptr), ([''flags''], H_ulong)]"

definition hs_fi_ops_cntr :: hs_record where [hs_records]:
  "hs_fi_ops_cntr = [
     ([''size''], H_size), ([''read''], H_fun [H_ptr] H_ulong), ([''readerr''], H_fun [H_ptr] H_ulong),
     ([''add''], H_fun [H_ptr, H_ulong] H_int), ([''set''], H_fun [H_ptr, H_ulong] H_int),
     ([''wait''], H_fun [H_ptr, H_ulong, H_int] H_int), ([''adderr''], H_fun [H_ptr, H_ulong] H_int),
     ([''seterr''], H_fun [H_ptr, H_ulong] H_int)]"

definition hs_fid_cntr :: hs_record where [hs_records]:
  "hs_fid_cntr = [
     ([''fid''], H_rec struct_fid hs_fid), ([''ops''], H_ptr)]"

definition fi_eq_records :: "(fields \<times> hs_record) list" where
  "fi_eq_records = [
     (struct_pollfd, hs_pollfd), (struct_fi_wait_attr, hs_fi_wait_attr), (struct_fi_ops_wait, hs_fi_ops_wait),
     (struct_fid_wait, hs_fid_wait), (struct_fi_mutex_cond, hs_fi_mutex_cond),
     (struct_fi_wait_pollfd, hs_fi_wait_pollfd), (struct_fi_poll_attr, hs_fi_poll_attr),
     (struct_fi_ops_poll, hs_fi_ops_poll), (struct_fid_poll, hs_fid_poll), (struct_fi_eq_attr, hs_fi_eq_attr),
     (struct_fi_eq_entry, hs_fi_eq_entry), (struct_fi_eq_err_entry, hs_fi_eq_err_entry),
     (struct_fi_ops_eq, hs_fi_ops_eq), (struct_fid_eq, hs_fid_eq), (struct_fi_cq_entry, hs_fi_cq_entry),
     (struct_fi_cq_msg_entry, hs_fi_cq_msg_entry), (struct_fi_cq_data_entry, hs_fi_cq_data_entry),
     (struct_fi_cq_tagged_entry, hs_fi_cq_tagged_entry), (struct_fi_cq_err_entry, hs_fi_cq_err_entry),
     (struct_fi_cq_attr, hs_fi_cq_attr), (struct_fi_ops_cq, hs_fi_ops_cq), (struct_fid_cq, hs_fid_cq),
     (struct_fi_cntr_attr, hs_fi_cntr_attr), (struct_fi_ops_cntr, hs_fi_ops_cntr),
     (struct_fid_cntr, hs_fid_cntr)]"

subsection \<open>FiRma.hsc\<close>

definition hs_fi_rma_iov :: hs_record where [hs_records]:
  "hs_fi_rma_iov = [
     ([''addr''], H_ulong), ([''len''], H_size), ([''key''], H_ulong)]"

definition hs_fi_rma_ioc :: hs_record where [hs_records]:
  "hs_fi_rma_ioc = [
     ([''addr''], H_ulong), ([''count''], H_size), ([''key''], H_ulong)]"

definition hs_fi_msg_rma :: hs_record where [hs_records]:
  "hs_fi_msg_rma = [
     ([''msg_iov''], H_ptr), ([''desc''], H_ptr), ([''iov_count''], H_size), ([''addr''], H_ulong),
     ([''rma_iov''], H_ptr), ([''rma_iov_count''], H_size), ([''context''], H_ptr), ([''data''], H_ulong)]"

definition hs_fi_ops_rma :: hs_record where [hs_records]:
  "hs_fi_ops_rma = [
     ([''size''], H_size),
     ([''read''], H_fun [H_ptr, H_ptr, H_size, H_ptr, H_ulong, H_ulong, H_ulong, H_ptr] H_long),
     ([''readv''], H_fun [H_ptr, H_ptr, H_ptr, H_size, H_ulong, H_ulong, H_ulong, H_ptr] H_long),
     ([''readmsg''], H_fun [H_ptr, H_ptr, H_ulong] H_long),
     ([''write''], H_fun [H_ptr, H_ptr, H_size, H_ptr, H_ulong, H_ulong, H_ulong, H_ptr] H_long),
     ([''writev''], H_fun [H_ptr, H_ptr, H_ptr, H_size, H_ulong, H_ulong, H_ulong, H_ptr] H_long),
     ([''writemsg''], H_fun [H_ptr, H_ptr, H_ulong] H_long),
     ([''inject''], H_fun [H_ptr, H_ptr, H_size, H_ulong, H_ulong, H_ulong] H_long),
     ([''writedata''], H_fun [H_ptr, H_ptr, H_size, H_ptr, H_ulong, H_ulong, H_ulong, H_ulong, H_ptr] H_long),
     ([''injectdata''], H_fun [H_ptr, H_ptr, H_size, H_ulong, H_ulong, H_ulong, H_ulong] H_long)]"

definition fi_rma_records :: "(fields \<times> hs_record) list" where
  "fi_rma_records = [
     (struct_fi_rma_iov, hs_fi_rma_iov), (struct_fi_rma_ioc, hs_fi_rma_ioc), (struct_fi_msg_rma, hs_fi_msg_rma),
     (struct_fi_ops_rma, hs_fi_ops_rma)]"

subsection \<open>FiTagged.hsc\<close>

definition hs_fi_msg_tagged :: hs_record where [hs_records]:
  "hs_fi_msg_tagged = [
     ([''msg_iov''], H_ptr), ([''desc''], H_ptr), ([''iov_count''], H_size), ([''addr''], H_ulong),
     ([''tag''], H_ulong), ([''ignore''], H_ulong), ([''context''], H_ptr), ([''data''], H_ulong)]"

definition hs_fi_ops_tagged :: hs_record where [hs_records]:
  "hs_fi_ops_tagged = [
     ([''size''], H_size),
     ([''recv''], H_fun [H_ptr, H_ptr, H_size, H_ptr, H_ulong, H_ulong, H_ulong, H_ptr] H_long),
     ([''recvv''], H_fun [H_ptr, H_ptr, H_ptr, H_size, H_ulong, H_ulong, H_ulong, H_ptr] H_long),
     ([''recvmsg''], H_fun [H_ptr, H_ptr, H_ulong] H_long),
     ([''send''], H_fun [H_ptr, H_ptr, H_size, H_ptr, H_ulong, H_ulong, H_ptr] H_long),
     ([''sendv''], H_fun [H_ptr, H_ptr, H_ptr, H_size, H_ulong, H_ulong, H_ptr] H_long),
     ([''sendmsg''], H_fun [H_ptr, H_ptr, H_ulong] H_long),
     ([''inject''], H_fun [H_ptr, H_ptr, H_size, H_ulong, H_ulong] H_long),
     ([''senddata''], H_fun [H_ptr, H_ptr, H_size, H_ptr, H_ulong, H_ulong, H_ulong, H_ptr] H_long),
     ([''injectdata''], H_fun [H_ptr, H_ptr, H_size, H_ulong, H_ulong, H_ulong] H_long)]"

definition fi_tagged_records :: "(fields \<times> hs_record) list" where
  "fi_tagged_records = [
     (struct_fi_msg_tagged, hs_fi_msg_tagged), (struct_fi_ops_tagged, hs_fi_ops_tagged)]"

subsection \<open>FiTrigger.hsc\<close>

definition hs_fi_trigger_threshold :: hs_record where [hs_records]:
  "hs_fi_trigger_threshold = [
     ([''cntr''], H_ptr), ([''threshold''], H_size)]"

definition hs_fi_op_msg :: hs_record where [hs_records]:
  "hs_fi_op_msg = [
     ([''ep''], H_ptr), ([''msg''], H_rec struct_fi_msg hs_fi_msg), ([''flags''], H_ulong)]"

definition hs_fi_op_tagged :: hs_record where [hs_records]:
  "hs_fi_op_tagged = [
     ([''ep''], H_ptr), ([''msg''], H_rec struct_fi_msg_tagged hs_fi_msg_tagged), ([''flags''], H_ulong)]"

definition hs_fi_op_rma :: hs_record where [hs_records]:
  "hs_fi_op_rma = [
     ([''ep''], H_ptr), ([''msg''], H_rec struct_fi_msg_rma hs_fi_msg_rma), ([''flags''], H_ulong)]"

definition hs_fi_op_atomic :: hs_record where [hs_records]:
  "hs_fi_op_atomic = [
     ([''ep''], H_ptr), ([''msg''], H_rec struct_fi_msg_atomic hs_fi_msg_atomic), ([''flags''], H_ulong)]"

definition hs_fi_op_fetch_atomic :: hs_record where [hs_records]:
  "hs_fi_op_fetch_atomic = [
     ([''ep''], H_ptr), ([''msg''], H_rec struct_fi_msg_atomic hs_fi_msg_atomic),
     ([''fetch''], H_rec struct_fi_msg_fetch hs_fi_msg_fetch), ([''flags''], H_ulong)]"

definition hs_fi_op_compare_atomic :: hs_record where [hs_records]:
  "hs_fi_op_compare_atomic = [
     ([''ep''], H_ptr), ([''msg''], H_rec struct_fi_msg_atomic hs_fi_msg_atomic),
     ([''fetch''], H_rec struct_fi_msg_fetch hs_fi_msg_fetch),
     ([''compare''], H_rec struct_fi_msg_compare hs_fi_msg_compare), ([''flags''], H_ulong)]"

definition hs_fi_op_cntr :: hs_record where [hs_records]:
  "hs_fi_op_cntr = [
     ([''cntr''], H_ptr), ([''value''], H_ulong)]"

definition hs_fi_triggered_context :: hs_record where [hs_records]:
  "hs_fi_triggered_context = [
     ([''event_type''], H_enum),
     ([''trigger'', ''threshold''], H_rec struct_fi_trigger_threshold hs_fi_trigger_threshold),
     ([''trigger'', ''internal''], H_array H_ptr)]"

definition hs_fi_triggered_context2 :: hs_record where [hs_records]:
  "hs_fi_triggered_context2 = [
     ([''event_type''], H_enum),
     ([''trigger'', ''threshold''], H_rec struct_fi_trigger_threshold hs_fi_trigger_threshold),
     ([''trigger'', ''internal''], H_array H_ptr)]"

definition hs_fi_deferred_work :: hs_record where [hs_records]:
  "hs_fi_deferred_work = [
     ([''context''], H_rec struct_fi_context2 hs_fi_context2), ([''threshold''], H_ulong),
     ([''triggering_cntr''], H_ptr), ([''completion_cntr''], H_ptr), ([''op_type''], H_enum),
     ([''op'', ''msg''], H_ptr), ([''op'', ''tagged''], H_ptr), ([''op'', ''rma''], H_ptr),
     ([''op'', ''atomic''], H_ptr), ([''op'', ''fetch_atomic''], H_ptr), ([''op'', ''compare_atomic''], H_ptr),
     ([''op'', ''cntr''], H_ptr)]"

definition fi_trigger_records :: "(fields \<times> hs_record) list" where
  "fi_trigger_records = [
     (struct_fi_trigger_threshold, hs_fi_trigger_threshold), (struct_fi_op_msg, hs_fi_op_msg),
     (struct_fi_op_tagged, hs_fi_op_tagged), (struct_fi_op_rma, hs_fi_op_rma),
     (struct_fi_op_atomic, hs_fi_op_atomic), (struct_fi_op_fetch_atomic, hs_fi_op_fetch_atomic),
     (struct_fi_op_compare_atomic, hs_fi_op_compare_atomic), (struct_fi_op_cntr, hs_fi_op_cntr)]"

definition exact_records :: "(fields \<times> hs_record) list" where
  "exact_records =
     fabric_records @ fi_atomic_records @ fi_cm_records @ fi_collective_records @ 
     fi_domain_records @ fi_endpoint_records @ fi_eq_records @ 
     fi_rma_records @ fi_tagged_records @ fi_trigger_records @
     [(struct_fi_bus_attr, hs_fi_bus_attr)]"

lemmas exact_records_defs = exact_records_def fabric_records_def fi_atomic_records_def fi_cm_records_def fi_collective_records_def fi_domain_records_def fi_endpoint_records_def fi_eq_records_def fi_rma_records_def fi_tagged_records_def fi_trigger_records_def


subsection \<open>Every record of the lists covers its struct\<close>

text \<open>The records that others contain are taken as wholes.\<close>

lemmas nested_defs =
  struct_fid_def hs_fid_def struct_fi_pci_attr_def hs_fi_pci_attr_def struct_fi_atomic_attr_def
  hs_fi_atomic_attr_def struct_fi_msg_def hs_fi_msg_def struct_fi_msg_tagged_def hs_fi_msg_tagged_def
  struct_fi_msg_rma_def hs_fi_msg_rma_def struct_fi_msg_atomic_def hs_fi_msg_atomic_def
  struct_fi_msg_fetch_def hs_fi_msg_fetch_def struct_fi_msg_compare_def hs_fi_msg_compare_def
  struct_fi_context2_def hs_fi_context2_def struct_fi_trigger_threshold_def hs_fi_trigger_threshold_def

lemma array_cells [simp]: "hs_cells h u = leaves u \<Longrightarrow> hs_cells (H_array h) (Arr u n) = leaves (Arr u n)"
  by simp

lemma nested_covers:
  "covers struct_fid hs_fid" "covers struct_fi_pci_attr hs_fi_pci_attr"
  "covers struct_fi_atomic_attr hs_fi_atomic_attr" "covers struct_fi_msg hs_fi_msg"
  "covers struct_fi_msg_tagged hs_fi_msg_tagged" "covers struct_fi_msg_rma hs_fi_msg_rma"
  "covers struct_fi_msg_atomic hs_fi_msg_atomic" "covers struct_fi_msg_fetch hs_fi_msg_fetch"
  "covers struct_fi_msg_compare hs_fi_msg_compare" "covers struct_fi_context2 hs_fi_context2"
  "covers struct_fi_trigger_threshold hs_fi_trigger_threshold"
  unfolding covers_def by (simp_all add: structs hs_records del: hs_cells.simps(12) leaves.simps(7))

lemmas nested_cells = nested_covers [THEN covers_cells, unfolded leaves.simps]

lemma files_cover:
  "list_all (\<lambda>(fs, bs). covers fs bs) fabric_records"
  "list_all (\<lambda>(fs, bs). covers fs bs) fi_atomic_records"
  "list_all (\<lambda>(fs, bs). covers fs bs) fi_cm_records"
  "list_all (\<lambda>(fs, bs). covers fs bs) fi_collective_records"
  "list_all (\<lambda>(fs, bs). covers fs bs) fi_domain_records"
  "list_all (\<lambda>(fs, bs). covers fs bs) fi_endpoint_records"
  "list_all (\<lambda>(fs, bs). covers fs bs) fi_eq_records"
  "list_all (\<lambda>(fs, bs). covers fs bs) fi_rma_records"
  "list_all (\<lambda>(fs, bs). covers fs bs) fi_tagged_records"
  "list_all (\<lambda>(fs, bs). covers fs bs) fi_trigger_records"
  unfolding fabric_records_def fi_atomic_records_def fi_cm_records_def fi_collective_records_def fi_domain_records_def fi_endpoint_records_def fi_eq_records_def fi_rma_records_def fi_tagged_records_def fi_trigger_records_def
  by (simp_all add: nested_covers, simp_all add: covers_def nested_cells structs hs_records
      del: nested_defs hs_cells.simps(12) leaves.simps(7))

lemma pci_size: "align_fields struct_fi_pci_attr = 2" "struct_end struct_fi_pci_attr 0 = 5"
  by (simp_all add: struct_fi_pci_attr_def roundup_def)

lemma files_small:
  "list_all (\<lambda>(fs, bs). small fs) fabric_records"
  "list_all (\<lambda>(fs, bs). small fs) fi_atomic_records"
  "list_all (\<lambda>(fs, bs). small fs) fi_cm_records"
  "list_all (\<lambda>(fs, bs). small fs) fi_collective_records"
  "list_all (\<lambda>(fs, bs). small fs) fi_domain_records"
  "list_all (\<lambda>(fs, bs). small fs) fi_endpoint_records"
  "list_all (\<lambda>(fs, bs). small fs) fi_eq_records"
  "list_all (\<lambda>(fs, bs). small fs) fi_rma_records"
  "list_all (\<lambda>(fs, bs). small fs) fi_tagged_records"
  "list_all (\<lambda>(fs, bs). small fs) fi_trigger_records"
  unfolding fabric_records_def fi_atomic_records_def fi_cm_records_def fi_collective_records_def fi_domain_records_def fi_endpoint_records_def fi_eq_records_def fi_rma_records_def fi_tagged_records_def fi_trigger_records_def
  by (simp_all add: small_def pci_size structs layout_simps del: struct_fi_pci_attr_def)

text \<open>A record is exact when it makes the accesses of the struct, no other and in the same order.\<close>

definition exact :: "fields \<Rightarrow> hs_record \<Rightarrow> bool" where
  "exact fs bs \<longleftrightarrow> record_cells bs fs = leaves (Struct fs) \<and> small fs"

lemma bus_exact: "exact struct_fi_bus_attr hs_fi_bus_attr"
  by (simp add: exact_def small_def struct_fi_bus_attr_def hs_fi_bus_attr_def layout_simps pci_size nested_cells
      numeral_2_eq_2 [symmetric])

lemma exactI:
  assumes "list_all (\<lambda>(fs, bs). covers fs bs) xs" and "list_all (\<lambda>(fs, bs). small fs) xs"
  shows "list_all (\<lambda>(fs, bs). exact fs bs) xs"
  using assms unfolding list_all_iff exact_def by (blast dest: covers_cells)

lemma all_exact: "list_all (\<lambda>(fs, bs). exact fs bs) exact_records"
  unfolding exact_records_def list_all_append
  by (simp add: exactI files_cover files_small bus_exact)

end
