(* ===== verification/Hs_Storable.thy ===== *)
theory Hs_Storable
  imports Hs_Records
begin

section \<open>Reading and writing the records\<close>

text \<open>
  What \<open>peek\<close> and \<open>poke\<close> of the bindings' \<open>Storable\<close> instances do to the C structs: for the exact records a
  round trip that the C code sees member by member, for a record with a union the loss of all members of
  the union but the last, and for a trailing array of no elements an access past the end of the struct.
\<close>

text \<open>Cells for a struct and nothing else, for the examples.\<close>

definition only_struct :: "fields \<Rightarrow> unit machine" where
  "only_struct fs = \<lparr>mem = map_of (frame 0x1000 fs), sp = 0x9000, env = ()\<rparr>"

lemma mapped_only_struct: "small fs \<Longrightarrow> mapped (only_struct fs) 0x1000 fs"
  using frame_lookup [of fs _ _ "0x1000"] by (auto simp: mapped_def only_struct_def list_all_iff)

subsection \<open>Records with overlapping fields\<close>

lemma pokes_widths: "pokes p cs vs s = Some s' \<Longrightarrow> map bytes vs = map snd cs"
  by (induction p cs vs s rule: pokes.induct) (auto simp: bind_Some_iff split: if_splits)

lemma pokes_domain: "pokes p cs vs s = Some s' \<Longrightarrow> dom (mem s') = dom (mem s)"
  by (induction p cs vs s rule: pokes.induct)
    (auto simp: bind_Some_iff st_def split: if_splits option.splits)

text \<open>Reading back accesses of which those at one offset have one size gives, at each, the value stored
  there last.\<close>

lemma pokes_peeks:
  assumes poke: "pokes p cs vs s = Some s'" and low: "\<forall>(a, n) \<in> set cs. a < 2 ^ 64"
    and same: "\<forall>(a, n) \<in> set cs. \<forall>(b, m) \<in> set cs. a = b \<longrightarrow> n = m"
  shows "peeks p cs s' = Some (map (\<lambda>c. the (map_of (rev (zip (map fst cs) vs)) (fst c))) cs)"
proof (rule peeks_map, clarify)
  fix a n assume c: "(a, n) \<in> set cs"
  have widths: "map bytes vs = map snd cs" by (rule pokes_widths [OF poke])
  then have len: "length vs = length cs" by (metis length_map)
  have "a \<in> fst ` set (rev (zip (map fst cs) vs))" 
    using c len by (simp flip: set_map add: rev_map) force
  then obtain v where v: "map_of (rev (zip (map fst cs) vs)) a = Some v"
    by (metis domD dom_map_of_conv_image_fst)
  then have "(a, v) \<in> set (zip (map fst cs) vs)" using map_of_SomeD by fastforce
  then obtain i where "i < length cs" "cs ! i = (a, bytes v)" using widths len
    by (auto simp: set_zip) (metis nth_map surjective_pairing)
  then have "(a, bytes v) \<in> set cs" by (metis nth_mem)
  with same c have "bytes v = n" by blast
  moreover have "mem s' (p + of_nat a) = Some (Init v)" using pokes_mem [OF poke low, of a] low c v by auto
  ultimately show "\<exists>w. mem s' (p + of_nat a) = Some (Init w) \<and> bytes w = n \<and>
      the (map_of (rev (zip (map fst cs) vs)) a) = w" using v by simp
qed

lemma context2:
  "struct_leaves struct_fi_context2 0 =
     [(0, 8), (8, 8), (16, 8), (24, 8), (32, 8), (40, 8), (48, 8), (56, 8)]"
  "struct_end struct_fi_context2 0 = 64" "align_fields struct_fi_context2 = 8"
  by (simp_all add: struct_fi_context2_def layout_simps upt_rec)

definition work_op :: ctype where
  "work_op = Union [(''msg'', Ptr), (''tagged'', Ptr), (''rma'', Ptr), (''atomic'', Ptr), (''fetch_atomic'', Ptr),
     (''compare_atomic'', Ptr), (''cntr'', Ptr)]"

lemma work_members:
  "member struct_fi_deferred_work ''context'' = Some (0, Struct struct_fi_context2)"
  "member struct_fi_deferred_work ''threshold'' = Some (64, U64)"
  "member struct_fi_deferred_work ''triggering_cntr'' = Some (72, Ptr)"
  "member struct_fi_deferred_work ''completion_cntr'' = Some (80, Ptr)"
  "member struct_fi_deferred_work ''op_type'' = Some (88, CEnum)"
  "member struct_fi_deferred_work ''op'' = Some (96, work_op)"
  by (simp_all add: struct_fi_deferred_work_def layout_simps context2 work_op_def)

lemma work_cells:
  "record_cells hs_fi_deferred_work struct_fi_deferred_work =
     [(0, 8), (8, 8), (16, 8), (24, 8), (32, 8), (40, 8), (48, 8), (56, 8), (64, 8), (72, 8), (80, 8), (88, 4),
      (96, 8), (96, 8), (96, 8), (96, 8), (96, 8), (96, 8), (96, 8)]"
  by (simp add: hs_fi_deferred_work_def work_members nested_cells context2, simp add: work_op_def layout_simps)

lemma work_leaves:
  "leaves (Struct struct_fi_deferred_work) =
     [(0, 8), (8, 8), (16, 8), (24, 8), (32, 8), (40, 8), (48, 8), (56, 8), (64, 8), (72, 8), (80, 8), (88, 4), (96, 8)]"
  by (simp add: struct_fi_deferred_work_def layout_simps context2)

lemma work_small: "small struct_fi_deferred_work"
  by (simp add: small_def struct_fi_deferred_work_def layout_simps context2)

lemma list19:
  assumes "length vs = 19"
  obtains v0 v1 v2 v3 v4 v5 v6 v7 v8 v9 v10 v11 v12 v13 v14 v15 v16 v17 v18
  where "vs = [v0, v1, v2, v3, v4, v5, v6, v7, v8, v9, v10, v11, v12, v13, v14, v15, v16, v17, v18]"
  using assms by (auto simp: numeral_eq_Suc length_Suc_conv)

subsection \<open>Properties\<close>



text \<open>C19. The record of \<open>fi_deferred_work\<close> has seven fields for the union \<open>op\<close>. Writing it stores the seven
  pointers at the one place, so that what is left, for the C code and for a \<open>peek\<close>, is the field for
  \<open>op.cntr\<close>, whatever operation \<open>op_type\<close> names: the record can defer counter operations only.\<close>

theorem deferred_work_union:
  assumes "mapped s p struct_fi_deferred_work" and "values_of struct_fi_deferred_work hs_fi_deferred_work vs"
  shows "\<exists>s'. hs_poke struct_fi_deferred_work hs_fi_deferred_work p vs s = Some s' \<and>
    ld s' (addr_of p struct_fi_deferred_work ''op'') 8 = Some (last vs) \<and>
    hs_peek struct_fi_deferred_work hs_fi_deferred_work p s' = Some (take 12 vs @ replicate 7 (last vs))"
proof -
  let ?cs = "record_cells hs_fi_deferred_work struct_fi_deferred_work"
  have p: "p \<noteq> NULL" using assms(1) by (simp add: mapped_def del: leaves.simps)
  have w: "map bytes vs = map snd ?cs" using assms(2) by (simp only: values_of_def)
  then have "length vs = length ?cs" by (metis length_map)
  then have "length vs = 19" by (simp add: work_cells)
  then obtain v0 v1 v2 v3 v4 v5 v6 v7 v8 v9 v10 v11 v12 v13 v14 v15 v16 v17 v18
    where vs: "vs = [v0, v1, v2, v3, v4, v5, v6, v7, v8, v9, v10, v11, v12, v13, v14, v15, v16, v17, v18]"
    by (rule list19)
  have "\<forall>(a, n) \<in> set ?cs. map_option cell_bytes (mem s (p + of_nat a)) = Some n"
    using assms(1) unfolding mapped_def work_leaves work_cells by simp
  from pokes_defined [OF this w] obtain s' where s': "pokes p ?cs vs s = Some s'" by blast
  have "peeks p ?cs s' = Some (map (\<lambda>c. the (map_of (rev (zip (map fst ?cs) vs)) (fst c))) ?cs)"
    by (rule pokes_peeks [OF s']) (simp_all add: work_cells)
  then have peek: "peeks p ?cs s' = Some (take 12 vs @ replicate 7 (last vs))"
    by (simp add: work_cells vs numeral_eq_Suc)
  moreover have "mem s' (p + of_nat 96) = Some (Init v18)"
    using pokes_mem [OF s', of 96] by (simp add: work_cells vs)
  moreover have "bytes v18 = 8" using w by (simp add: work_cells vs)
  ultimately show ?thesis using p s'
    by (simp add: hs_poke_def hs_peek_def ld_def addr_of_def offsetof_def work_members vs)
qed

theorem deferred_work_union_witness:
  "\<exists>s'. hs_poke struct_fi_deferred_work hs_fi_deferred_work 0x1000
       (replicate 11 (V64 0) @ V32 4 # map V64 [1, 2, 3, 4, 5, 6, 7]) (only_struct struct_fi_deferred_work) = Some s' \<and>
     ld s' (addr_of 0x1000 struct_fi_deferred_work ''op'') 8 = Some (V64 7)"
proof -
  have "values_of struct_fi_deferred_work hs_fi_deferred_work
      (replicate 11 (V64 0) @ V32 4 # map V64 [1, 2, 3, 4, 5, 6, 7])"
    unfolding values_of_def work_cells by (simp add: numeral_eq_Suc)
  from deferred_work_union [OF mapped_only_struct [OF work_small] this] show ?thesis by auto
qed

text \<open>C21. \<open>fi_eq_cm_entry\<close> ends in an array of no elements, after 16 bytes; its record takes that for a pointer.
  Reading the record from an entry that ends where the memory of the program ends, as one that fills
  the buffer of an event queue read does, reads past it; so does writing.\<close>

theorem cm_entry_past_end:
  assumes "mem s (p + of_nat (sizeof (Struct struct_fi_eq_cm_entry))) = None"
  shows "hs_peek struct_fi_eq_cm_entry hs_fi_eq_cm_entry p s = None \<and>
    hs_poke struct_fi_eq_cm_entry hs_fi_eq_cm_entry p vs s = None"
proof -
  have size: "sizeof (Struct struct_fi_eq_cm_entry) = 16"
    and cells: "record_cells hs_fi_eq_cm_entry struct_fi_eq_cm_entry = [(0, 8), (8, 8), (16, 8)]"
    by (simp_all add: struct_fi_eq_cm_entry_def hs_fi_eq_cm_entry_def layout_simps)
  from assms have none: "mem s (p + 16) = None" by (simp only: size of_nat_numeral)
  have "pokes p [(0, 8), (8, 8), (16, 8)] vs s = None"
  proof (rule ccontr)
    assume "pokes p [(0, 8), (8, 8), (16, 8)] vs s \<noteq> None"
    then obtain s' where s': "pokes p [(0, 8), (8, 8), (16, 8)] vs s = Some s'" by blast
    then have "mem s' (p + of_nat 16) \<noteq> None"
      using pokes_mem [OF s', of 16] pokes_widths [OF s'] by (auto simp: map_eq_Cons_conv)
    then show False using pokes_domain [OF s'] none by auto
  qed
  then show ?thesis by (simp add: hs_peek_def hs_poke_def cells ld_def none del: One_nat_def split: bind_splits)
qed

theorem cm_entry_past_end_witness:
  "mapped (only_struct struct_fi_eq_cm_entry) 0x1000 struct_fi_eq_cm_entry \<and>
   hs_peek struct_fi_eq_cm_entry hs_fi_eq_cm_entry 0x1000 (only_struct struct_fi_eq_cm_entry) = None"
proof -
  have "small struct_fi_eq_cm_entry" by (simp add: small_def struct_fi_eq_cm_entry_def layout_simps)
  moreover have "mem (only_struct struct_fi_eq_cm_entry) (0x1000 + of_nat (sizeof (Struct struct_fi_eq_cm_entry))) = None"
    by (simp add: only_struct_def frame_def struct_fi_eq_cm_entry_def layout_simps)
  ultimately show ?thesis using cm_entry_past_end mapped_only_struct by blast
qed

end
