(* ===== verification/Ffi_Stubs.thy ===== *)
theory Ffi_Stubs
  imports Fi_Objects
begin

section \<open>The FFI stubs: hsc.helper.c\<close>

text \<open>
  Inline functions have no symbol to link against, so the bindings declare one per function with
  a macro of a build tool: \<open>BC_INLINEn(f, t1, .., tn, r)\<close> stands for a function of \<open>n\<close> parameters of
  the types \<open>t1 .. tn\<close> with result \<open>r\<close> that returns \<open>f\<close> of its parameters. A line of a helper file
  is a \<open>stub\<close>; the prototype of an inline function, with the operation it hands its parameters
  to as they are if it does (the struct of the object, its member that points to the table, the
  table and the slot), a \<open>signature\<close>; the files of the sources list
  of the package are \<open>compiled_stubs\<close>, the others are in the repository only. \<open>const *\<close> is a
  pointer (to the implicit \<open>int\<close> of C89).
\<close>

subsection \<open>Types and calls\<close>

datatype arg_type = T_ptr | T_u8 | T_u32 | T_int | T_enum | T_u64 | T_size | T_ssize | T_addr

fun ctype_of :: "arg_type \<Rightarrow> ctype" where
  "ctype_of T_ptr = Ptr"
| "ctype_of T_u8 = U8"
| "ctype_of T_u32 = U32"
| "ctype_of T_int = CInt"
| "ctype_of T_enum = CEnum"
| "ctype_of T_u64 = U64"
| "ctype_of T_size = SizeT"
| "ctype_of T_ssize = SsizeT"
| "ctype_of T_addr = FiAddrT"

definition width :: "arg_type \<Rightarrow> nat" where
  "width t = sizeof (ctype_of t)"

definition is_signed :: "arg_type \<Rightarrow> bool" where
  "is_signed t \<longleftrightarrow> t = T_int \<or> t = T_ssize"

record signature =
  params :: "arg_type list"
  result :: arg_type
  calls :: "(fields \<times> string \<times> fields \<times> string) option"

record stub =
  arity :: nat
  symbol :: string
  stub_params :: "arg_type list"
  stub_result :: arg_type

text \<open>C converts an argument to the type of the parameter: the value modulo the width.\<close>

fun cval_int :: "bool \<Rightarrow> cval \<Rightarrow> int" where
  "cval_int sg (V8 w) = (if sg then sint w else uint w)"
| "cval_int sg (V16 w) = (if sg then sint w else uint w)"
| "cval_int sg (V32 w) = (if sg then sint w else uint w)"
| "cval_int sg (V64 w) = (if sg then sint w else uint w)"

definition cval_of_int :: "nat \<Rightarrow> int \<Rightarrow> cval" where
  "cval_of_int n i =
     (if n = 1 then V8 (word_of_int i) else if n = 2 then V16 (word_of_int i)
      else if n = 4 then V32 (word_of_int i) else V64 (word_of_int i))"

definition convert :: "arg_type \<Rightarrow> arg_type \<Rightarrow> cval \<Rightarrow> cval" where
  "convert from to v = cval_of_int (width to) (cval_int (is_signed from) v)"

definition accepts :: "arg_type list \<Rightarrow> cval list \<Rightarrow> bool" where
  "accepts ts vs \<longleftrightarrow> list_all2 (\<lambda>t v. bytes v = width t) ts vs"

text \<open>The arguments the inline function is called with; \<open>None\<close> where the line does not compile: the
  macro takes as many types as it says and the function as many parameters.\<close>

definition forwards_args :: "(string \<times> signature) list \<Rightarrow> stub \<Rightarrow> cval list \<Rightarrow> cval list option" where
  "forwards_args api stb vs = do {
     sg \<leftarrow> map_of api (symbol stb);
     if length (stub_params stb) = arity stb \<and> length (params sg) = arity stb
     then Some (map (\<lambda>(f, t, v). convert f t v) (zip (stub_params stb) (zip (params sg) vs)))
     else None }"

subsection \<open>The prototypes of the inline functions\<close>

definition fabric_tclass_signatures :: "(string \<times> signature) list" where
  "fabric_tclass_signatures = [
    (''fi_tc_dscp_set'', \<lparr>params = [T_u8], result = T_u32,
       calls = None\<rparr>),
    (''fi_tc_dscp_get'', \<lparr>params = [T_u32], result = T_u8,
       calls = None\<rparr>)]"

definition fabric_info_signatures :: "(string \<times> signature) list" where
  "fabric_info_signatures = [
    (''fi_allocinfo'', \<lparr>params = [], result = T_ptr,
       calls = None\<rparr>)]"

definition fabric_close_signatures :: "(string \<times> signature) list" where
  "fabric_close_signatures = [
    (''fi_close'', \<lparr>params = [T_ptr], result = T_int,
       calls = Some (struct_fid, ''ops'', struct_fi_ops, ''close'')\<rparr>)]"

definition fabric_fid_signatures :: "(string \<times> signature) list" where
  "fabric_fid_signatures = [
    (''fi_control'', \<lparr>params = [T_ptr, T_int, T_ptr], result = T_int,
       calls = Some (struct_fid, ''ops'', struct_fi_ops, ''control'')\<rparr>),
    (''fi_alias'', \<lparr>params = [T_ptr, T_ptr, T_u64], result = T_int,
       calls = None\<rparr>),
    (''fi_open_ops'', \<lparr>params = [T_ptr, T_ptr, T_u64, T_ptr, T_ptr], result = T_int,
       calls = Some (struct_fid, ''ops'', struct_fi_ops, ''ops_open'')\<rparr>),
    (''fi_set_ops'', \<lparr>params = [T_ptr, T_ptr, T_u64, T_ptr, T_ptr], result = T_int,
       calls = None\<rparr>)]"

definition fi_cm_signatures :: "(string \<times> signature) list" where
  "fi_cm_signatures = [
    (''fi_setname'', \<lparr>params = [T_ptr, T_ptr, T_size], result = T_int,
       calls = None\<rparr>),
    (''fi_getname'', \<lparr>params = [T_ptr, T_ptr, T_ptr], result = T_int,
       calls = None\<rparr>),
    (''fi_getpeer'', \<lparr>params = [T_ptr, T_ptr, T_ptr], result = T_int,
       calls = Some (struct_fid_ep, ''cm'', struct_fi_ops_cm, ''getpeer'')\<rparr>),
    (''fi_listen'', \<lparr>params = [T_ptr], result = T_int,
       calls = Some (struct_fid_pep, ''cm'', struct_fi_ops_cm, ''listen'')\<rparr>),
    (''fi_connect'', \<lparr>params = [T_ptr, T_ptr, T_ptr, T_size], result = T_int,
       calls = Some (struct_fid_ep, ''cm'', struct_fi_ops_cm, ''connect'')\<rparr>),
    (''fi_accept'', \<lparr>params = [T_ptr, T_ptr, T_size], result = T_int,
       calls = Some (struct_fid_ep, ''cm'', struct_fi_ops_cm, ''accept'')\<rparr>),
    (''fi_reject'', \<lparr>params = [T_ptr, T_ptr, T_ptr, T_size], result = T_int,
       calls = Some (struct_fid_pep, ''cm'', struct_fi_ops_cm, ''reject'')\<rparr>),
    (''fi_shutdown'', \<lparr>params = [T_ptr, T_u64], result = T_int,
       calls = Some (struct_fid_ep, ''cm'', struct_fi_ops_cm, ''shutdown'')\<rparr>),
    (''fi_join'', \<lparr>params = [T_ptr, T_ptr, T_u64, T_ptr, T_ptr], result = T_int,
       calls = None\<rparr>),
    (''fi_mc_addr'', \<lparr>params = [T_ptr], result = T_addr,
       calls = None\<rparr>)]"

definition fi_domain_signatures :: "(string \<times> signature) list" where
  "fi_domain_signatures = [
    (''fi_domain'', \<lparr>params = [T_ptr, T_ptr, T_ptr, T_ptr], result = T_int,
       calls = Some (struct_fid_fabric, ''ops'', struct_fi_ops_fabric, ''domain'')\<rparr>),
    (''fi_domain_bind'', \<lparr>params = [T_ptr, T_ptr, T_u64], result = T_int,
       calls = Some (struct_fid, ''ops'', struct_fi_ops, ''bind'')\<rparr>),
    (''fi_cq_open'', \<lparr>params = [T_ptr, T_ptr, T_ptr, T_ptr], result = T_int,
       calls = Some (struct_fid_domain, ''ops'', struct_fi_ops_domain, ''cq_open'')\<rparr>),
    (''fi_cntr_open'', \<lparr>params = [T_ptr, T_ptr, T_ptr, T_ptr], result = T_int,
       calls = Some (struct_fid_domain, ''ops'', struct_fi_ops_domain, ''cntr_open'')\<rparr>),
    (''fi_wait_open'', \<lparr>params = [T_ptr, T_ptr, T_ptr], result = T_int,
       calls = Some (struct_fid_fabric, ''ops'', struct_fi_ops_fabric, ''wait_open'')\<rparr>),
    (''fi_poll_open'', \<lparr>params = [T_ptr, T_ptr, T_ptr], result = T_int,
       calls = Some (struct_fid_domain, ''ops'', struct_fi_ops_domain, ''poll_open'')\<rparr>),
    (''fi_mr_reg'', \<lparr>params = [T_ptr, T_ptr, T_size, T_u64, T_u64, T_u64, T_u64, T_ptr, T_ptr], result = T_int,
       calls = Some (struct_fid_domain, ''mr'', struct_fi_ops_mr, ''reg'')\<rparr>),
    (''fi_mr_regv'', \<lparr>params = [T_ptr, T_ptr, T_size, T_u64, T_u64, T_u64, T_u64, T_ptr, T_ptr], result = T_int,
       calls = Some (struct_fid_domain, ''mr'', struct_fi_ops_mr, ''regv'')\<rparr>),
    (''fi_mr_regattr'', \<lparr>params = [T_ptr, T_ptr, T_u64, T_ptr], result = T_int,
       calls = Some (struct_fid_domain, ''mr'', struct_fi_ops_mr, ''regattr'')\<rparr>),
    (''fi_mr_desc'', \<lparr>params = [T_ptr], result = T_ptr,
       calls = None\<rparr>),
    (''fi_mr_key'', \<lparr>params = [T_ptr], result = T_u64,
       calls = None\<rparr>),
    (''fi_mr_raw_attr'', \<lparr>params = [T_ptr, T_ptr, T_ptr, T_ptr, T_u64], result = T_int,
       calls = None\<rparr>),
    (''fi_mr_map_raw'', \<lparr>params = [T_ptr, T_u64, T_ptr, T_size, T_ptr, T_u64], result = T_int,
       calls = None\<rparr>),
    (''fi_mr_unmap_key'', \<lparr>params = [T_ptr, T_u64], result = T_int,
       calls = None\<rparr>),
    (''fi_mr_bind'', \<lparr>params = [T_ptr, T_ptr, T_u64], result = T_int,
       calls = Some (struct_fid, ''ops'', struct_fi_ops, ''bind'')\<rparr>),
    (''fi_mr_refresh'', \<lparr>params = [T_ptr, T_ptr, T_size, T_u64], result = T_int,
       calls = None\<rparr>),
    (''fi_mr_enable'', \<lparr>params = [T_ptr], result = T_int,
       calls = None\<rparr>),
    (''fi_av_open'', \<lparr>params = [T_ptr, T_ptr, T_ptr, T_ptr], result = T_int,
       calls = Some (struct_fid_domain, ''ops'', struct_fi_ops_domain, ''av_open'')\<rparr>),
    (''fi_av_bind'', \<lparr>params = [T_ptr, T_ptr, T_u64], result = T_int,
       calls = Some (struct_fid, ''ops'', struct_fi_ops, ''bind'')\<rparr>),
    (''fi_av_insert'', \<lparr>params = [T_ptr, T_ptr, T_size, T_ptr, T_u64, T_ptr], result = T_int,
       calls = Some (struct_fid_av, ''ops'', struct_fi_ops_av, ''insert'')\<rparr>),
    (''fi_av_insertsvc'', \<lparr>params = [T_ptr, T_ptr, T_ptr, T_ptr, T_u64, T_ptr], result = T_int,
       calls = Some (struct_fid_av, ''ops'', struct_fi_ops_av, ''insertsvc'')\<rparr>),
    (''fi_av_insertsym'', \<lparr>params = [T_ptr, T_ptr, T_size, T_ptr, T_size, T_ptr, T_u64, T_ptr], result = T_int,
       calls = Some (struct_fid_av, ''ops'', struct_fi_ops_av, ''insertsym'')\<rparr>),
    (''fi_av_remove'', \<lparr>params = [T_ptr, T_ptr, T_size, T_u64], result = T_int,
       calls = Some (struct_fid_av, ''ops'', struct_fi_ops_av, ''remove'')\<rparr>),
    (''fi_av_lookup'', \<lparr>params = [T_ptr, T_addr, T_ptr, T_ptr], result = T_int,
       calls = Some (struct_fid_av, ''ops'', struct_fi_ops_av, ''lookup'')\<rparr>),
    (''fi_av_straddr'', \<lparr>params = [T_ptr, T_ptr, T_ptr, T_ptr], result = T_ptr,
       calls = Some (struct_fid_av, ''ops'', struct_fi_ops_av, ''straddr'')\<rparr>),
    (''fi_rx_addr'', \<lparr>params = [T_addr, T_int, T_int], result = T_addr,
       calls = None\<rparr>)]"

definition fi_endpoint_signatures :: "(string \<times> signature) list" where
  "fi_endpoint_signatures = [
    (''fi_passive_ep'', \<lparr>params = [T_ptr, T_ptr, T_ptr, T_ptr], result = T_int,
       calls = Some (struct_fid_fabric, ''ops'', struct_fi_ops_fabric, ''passive_ep'')\<rparr>),
    (''fi_endpoint'', \<lparr>params = [T_ptr, T_ptr, T_ptr, T_ptr], result = T_int,
       calls = Some (struct_fid_domain, ''ops'', struct_fi_ops_domain, ''endpoint'')\<rparr>),
    (''fi_scalable_ep'', \<lparr>params = [T_ptr, T_ptr, T_ptr, T_ptr], result = T_int,
       calls = Some (struct_fid_domain, ''ops'', struct_fi_ops_domain, ''scalable_ep'')\<rparr>),
    (''fi_ep_bind'', \<lparr>params = [T_ptr, T_ptr, T_u64], result = T_int,
       calls = Some (struct_fid, ''ops'', struct_fi_ops, ''bind'')\<rparr>),
    (''fi_pep_bind'', \<lparr>params = [T_ptr, T_ptr, T_u64], result = T_int,
       calls = Some (struct_fid, ''ops'', struct_fi_ops, ''bind'')\<rparr>),
    (''fi_scalable_ep_bind'', \<lparr>params = [T_ptr, T_ptr, T_u64], result = T_int,
       calls = Some (struct_fid, ''ops'', struct_fi_ops, ''bind'')\<rparr>),
    (''fi_enable'', \<lparr>params = [T_ptr], result = T_int,
       calls = None\<rparr>),
    (''fi_cancel'', \<lparr>params = [T_ptr, T_ptr], result = T_ssize,
       calls = None\<rparr>),
    (''fi_setopt'', \<lparr>params = [T_ptr, T_int, T_int, T_ptr, T_size], result = T_int,
       calls = None\<rparr>),
    (''fi_getopt'', \<lparr>params = [T_ptr, T_int, T_int, T_ptr, T_ptr], result = T_int,
       calls = None\<rparr>),
    (''fi_ep_alias'', \<lparr>params = [T_ptr, T_ptr, T_u64], result = T_int,
       calls = None\<rparr>),
    (''fi_tx_context'', \<lparr>params = [T_ptr, T_int, T_ptr, T_ptr, T_ptr], result = T_int,
       calls = Some (struct_fid_ep, ''ops'', struct_fi_ops_ep, ''tx_ctx'')\<rparr>),
    (''fi_rx_context'', \<lparr>params = [T_ptr, T_int, T_ptr, T_ptr, T_ptr], result = T_int,
       calls = Some (struct_fid_ep, ''ops'', struct_fi_ops_ep, ''rx_ctx'')\<rparr>),
    (''fi_rx_size_left'', \<lparr>params = [T_ptr], result = T_ssize,
       calls = Some (struct_fid_ep, ''ops'', struct_fi_ops_ep, ''rx_size_left'')\<rparr>),
    (''fi_tx_size_left'', \<lparr>params = [T_ptr], result = T_ssize,
       calls = Some (struct_fid_ep, ''ops'', struct_fi_ops_ep, ''tx_size_left'')\<rparr>),
    (''fi_stx_context'', \<lparr>params = [T_ptr, T_ptr, T_ptr, T_ptr], result = T_int,
       calls = Some (struct_fid_domain, ''ops'', struct_fi_ops_domain, ''stx_ctx'')\<rparr>),
    (''fi_srx_context'', \<lparr>params = [T_ptr, T_ptr, T_ptr, T_ptr], result = T_int,
       calls = Some (struct_fid_domain, ''ops'', struct_fi_ops_domain, ''srx_ctx'')\<rparr>),
    (''fi_recv'', \<lparr>params = [T_ptr, T_ptr, T_size, T_ptr, T_addr, T_ptr], result = T_ssize,
       calls = Some (struct_fid_ep, ''msg'', struct_fi_ops_msg, ''recv'')\<rparr>),
    (''fi_recvv'', \<lparr>params = [T_ptr, T_ptr, T_ptr, T_size, T_addr, T_ptr], result = T_ssize,
       calls = Some (struct_fid_ep, ''msg'', struct_fi_ops_msg, ''recvv'')\<rparr>),
    (''fi_recvmsg'', \<lparr>params = [T_ptr, T_ptr, T_u64], result = T_ssize,
       calls = Some (struct_fid_ep, ''msg'', struct_fi_ops_msg, ''recvmsg'')\<rparr>),
    (''fi_send'', \<lparr>params = [T_ptr, T_ptr, T_size, T_ptr, T_addr, T_ptr], result = T_ssize,
       calls = Some (struct_fid_ep, ''msg'', struct_fi_ops_msg, ''send'')\<rparr>),
    (''fi_sendv'', \<lparr>params = [T_ptr, T_ptr, T_ptr, T_size, T_addr, T_ptr], result = T_ssize,
       calls = Some (struct_fid_ep, ''msg'', struct_fi_ops_msg, ''sendv'')\<rparr>),
    (''fi_sendmsg'', \<lparr>params = [T_ptr, T_ptr, T_u64], result = T_ssize,
       calls = Some (struct_fid_ep, ''msg'', struct_fi_ops_msg, ''sendmsg'')\<rparr>),
    (''fi_inject'', \<lparr>params = [T_ptr, T_ptr, T_size, T_addr], result = T_ssize,
       calls = Some (struct_fid_ep, ''msg'', struct_fi_ops_msg, ''inject'')\<rparr>),
    (''fi_senddata'', \<lparr>params = [T_ptr, T_ptr, T_size, T_ptr, T_u64, T_addr, T_ptr], result = T_ssize,
       calls = Some (struct_fid_ep, ''msg'', struct_fi_ops_msg, ''senddata'')\<rparr>),
    (''fi_injectdata'', \<lparr>params = [T_ptr, T_ptr, T_size, T_u64, T_addr], result = T_ssize,
       calls = Some (struct_fid_ep, ''msg'', struct_fi_ops_msg, ''injectdata'')\<rparr>)]"

definition fi_eq_signatures :: "(string \<times> signature) list" where
  "fi_eq_signatures = [
    (''fi_trywait'', \<lparr>params = [T_ptr, T_ptr, T_int], result = T_int,
       calls = Some (struct_fid_fabric, ''ops'', struct_fi_ops_fabric, ''trywait'')\<rparr>),
    (''fi_wait'', \<lparr>params = [T_ptr, T_int], result = T_int,
       calls = Some (struct_fid_wait, ''ops'', struct_fi_ops_wait, ''wait'')\<rparr>),
    (''fi_poll'', \<lparr>params = [T_ptr, T_ptr, T_int], result = T_int,
       calls = Some (struct_fid_poll, ''ops'', struct_fi_ops_poll, ''poll'')\<rparr>),
    (''fi_poll_add'', \<lparr>params = [T_ptr, T_ptr, T_u64], result = T_int,
       calls = Some (struct_fid_poll, ''ops'', struct_fi_ops_poll, ''poll_add'')\<rparr>),
    (''fi_poll_del'', \<lparr>params = [T_ptr, T_ptr, T_u64], result = T_int,
       calls = Some (struct_fid_poll, ''ops'', struct_fi_ops_poll, ''poll_del'')\<rparr>),
    (''fi_eq_open'', \<lparr>params = [T_ptr, T_ptr, T_ptr, T_ptr], result = T_int,
       calls = Some (struct_fid_fabric, ''ops'', struct_fi_ops_fabric, ''eq_open'')\<rparr>),
    (''fi_eq_read'', \<lparr>params = [T_ptr, T_ptr, T_ptr, T_size, T_u64], result = T_ssize,
       calls = Some (struct_fid_eq, ''ops'', struct_fi_ops_eq, ''read'')\<rparr>),
    (''fi_eq_readerr'', \<lparr>params = [T_ptr, T_ptr, T_u64], result = T_ssize,
       calls = Some (struct_fid_eq, ''ops'', struct_fi_ops_eq, ''readerr'')\<rparr>),
    (''fi_eq_write'', \<lparr>params = [T_ptr, T_u32, T_ptr, T_size, T_u64], result = T_ssize,
       calls = Some (struct_fid_eq, ''ops'', struct_fi_ops_eq, ''write'')\<rparr>),
    (''fi_eq_sread'', \<lparr>params = [T_ptr, T_ptr, T_ptr, T_size, T_int, T_u64], result = T_ssize,
       calls = Some (struct_fid_eq, ''ops'', struct_fi_ops_eq, ''sread'')\<rparr>),
    (''fi_eq_strerror'', \<lparr>params = [T_ptr, T_int, T_ptr, T_ptr, T_size], result = T_ptr,
       calls = Some (struct_fid_eq, ''ops'', struct_fi_ops_eq, ''strerror'')\<rparr>),
    (''fi_cq_read'', \<lparr>params = [T_ptr, T_ptr, T_size], result = T_ssize,
       calls = Some (struct_fid_cq, ''ops'', struct_fi_ops_cq, ''read'')\<rparr>),
    (''fi_cq_readfrom'', \<lparr>params = [T_ptr, T_ptr, T_size, T_ptr], result = T_ssize,
       calls = Some (struct_fid_cq, ''ops'', struct_fi_ops_cq, ''readfrom'')\<rparr>),
    (''fi_cq_readerr'', \<lparr>params = [T_ptr, T_ptr, T_u64], result = T_ssize,
       calls = Some (struct_fid_cq, ''ops'', struct_fi_ops_cq, ''readerr'')\<rparr>),
    (''fi_cq_sread'', \<lparr>params = [T_ptr, T_ptr, T_size, T_ptr, T_int], result = T_ssize,
       calls = Some (struct_fid_cq, ''ops'', struct_fi_ops_cq, ''sread'')\<rparr>),
    (''fi_cq_sreadfrom'', \<lparr>params = [T_ptr, T_ptr, T_size, T_ptr, T_ptr, T_int], result = T_ssize,
       calls = Some (struct_fid_cq, ''ops'', struct_fi_ops_cq, ''sreadfrom'')\<rparr>),
    (''fi_cq_signal'', \<lparr>params = [T_ptr], result = T_int,
       calls = Some (struct_fid_cq, ''ops'', struct_fi_ops_cq, ''signal'')\<rparr>),
    (''fi_cq_strerror'', \<lparr>params = [T_ptr, T_int, T_ptr, T_ptr, T_size], result = T_ptr,
       calls = Some (struct_fid_cq, ''ops'', struct_fi_ops_cq, ''strerror'')\<rparr>),
    (''fi_cntr_read'', \<lparr>params = [T_ptr], result = T_u64,
       calls = Some (struct_fid_cntr, ''ops'', struct_fi_ops_cntr, ''read'')\<rparr>),
    (''fi_cntr_readerr'', \<lparr>params = [T_ptr], result = T_u64,
       calls = Some (struct_fid_cntr, ''ops'', struct_fi_ops_cntr, ''readerr'')\<rparr>),
    (''fi_cntr_add'', \<lparr>params = [T_ptr, T_u64], result = T_int,
       calls = Some (struct_fid_cntr, ''ops'', struct_fi_ops_cntr, ''add'')\<rparr>),
    (''fi_cntr_adderr'', \<lparr>params = [T_ptr, T_u64], result = T_int,
       calls = None\<rparr>),
    (''fi_cntr_set'', \<lparr>params = [T_ptr, T_u64], result = T_int,
       calls = Some (struct_fid_cntr, ''ops'', struct_fi_ops_cntr, ''set'')\<rparr>),
    (''fi_cntr_seterr'', \<lparr>params = [T_ptr, T_u64], result = T_int,
       calls = None\<rparr>),
    (''fi_cntr_wait'', \<lparr>params = [T_ptr, T_u64, T_int], result = T_int,
       calls = Some (struct_fid_cntr, ''ops'', struct_fi_ops_cntr, ''wait'')\<rparr>)]"

definition fi_rma_signatures :: "(string \<times> signature) list" where
  "fi_rma_signatures = [
    (''fi_read'', \<lparr>params = [T_ptr, T_ptr, T_size, T_ptr, T_addr, T_u64, T_u64, T_ptr], result = T_ssize,
       calls = Some (struct_fid_ep, ''rma'', struct_fi_ops_rma, ''read'')\<rparr>),
    (''fi_readv'', \<lparr>params = [T_ptr, T_ptr, T_ptr, T_size, T_addr, T_u64, T_u64, T_ptr], result = T_ssize,
       calls = Some (struct_fid_ep, ''rma'', struct_fi_ops_rma, ''readv'')\<rparr>),
    (''fi_readmsg'', \<lparr>params = [T_ptr, T_ptr, T_u64], result = T_ssize,
       calls = Some (struct_fid_ep, ''rma'', struct_fi_ops_rma, ''readmsg'')\<rparr>),
    (''fi_write'', \<lparr>params = [T_ptr, T_ptr, T_size, T_ptr, T_addr, T_u64, T_u64, T_ptr], result = T_ssize,
       calls = Some (struct_fid_ep, ''rma'', struct_fi_ops_rma, ''write'')\<rparr>),
    (''fi_writev'', \<lparr>params = [T_ptr, T_ptr, T_ptr, T_size, T_addr, T_u64, T_u64, T_ptr], result = T_ssize,
       calls = Some (struct_fid_ep, ''rma'', struct_fi_ops_rma, ''writev'')\<rparr>),
    (''fi_writemsg'', \<lparr>params = [T_ptr, T_ptr, T_u64], result = T_ssize,
       calls = Some (struct_fid_ep, ''rma'', struct_fi_ops_rma, ''writemsg'')\<rparr>),
    (''fi_inject_write'', \<lparr>params = [T_ptr, T_ptr, T_size, T_addr, T_u64, T_u64], result = T_ssize,
       calls = Some (struct_fid_ep, ''rma'', struct_fi_ops_rma, ''inject'')\<rparr>),
    (''fi_writedata'', \<lparr>params = [T_ptr, T_ptr, T_size, T_ptr, T_u64, T_addr, T_u64, T_u64, T_ptr], result = T_ssize,
       calls = Some (struct_fid_ep, ''rma'', struct_fi_ops_rma, ''writedata'')\<rparr>),
    (''fi_inject_writedata'', \<lparr>params = [T_ptr, T_ptr, T_size, T_u64, T_addr, T_u64, T_u64], result = T_ssize,
       calls = Some (struct_fid_ep, ''rma'', struct_fi_ops_rma, ''injectdata'')\<rparr>)]"

definition fi_tagged_signatures :: "(string \<times> signature) list" where
  "fi_tagged_signatures = [
    (''fi_trecv'', \<lparr>params = [T_ptr, T_ptr, T_size, T_ptr, T_addr, T_u64, T_u64, T_ptr], result = T_ssize,
       calls = Some (struct_fid_ep, ''tagged'', struct_fi_ops_tagged, ''recv'')\<rparr>),
    (''fi_trecvv'', \<lparr>params = [T_ptr, T_ptr, T_ptr, T_size, T_addr, T_u64, T_u64, T_ptr], result = T_ssize,
       calls = Some (struct_fid_ep, ''tagged'', struct_fi_ops_tagged, ''recvv'')\<rparr>),
    (''fi_trecvmsg'', \<lparr>params = [T_ptr, T_ptr, T_u64], result = T_ssize,
       calls = Some (struct_fid_ep, ''tagged'', struct_fi_ops_tagged, ''recvmsg'')\<rparr>),
    (''fi_tsend'', \<lparr>params = [T_ptr, T_ptr, T_size, T_ptr, T_addr, T_u64, T_ptr], result = T_ssize,
       calls = Some (struct_fid_ep, ''tagged'', struct_fi_ops_tagged, ''send'')\<rparr>),
    (''fi_tsendv'', \<lparr>params = [T_ptr, T_ptr, T_ptr, T_size, T_addr, T_u64, T_ptr], result = T_ssize,
       calls = Some (struct_fid_ep, ''tagged'', struct_fi_ops_tagged, ''sendv'')\<rparr>),
    (''fi_tsendmsg'', \<lparr>params = [T_ptr, T_ptr, T_u64], result = T_ssize,
       calls = Some (struct_fid_ep, ''tagged'', struct_fi_ops_tagged, ''sendmsg'')\<rparr>),
    (''fi_tinject'', \<lparr>params = [T_ptr, T_ptr, T_size, T_addr, T_u64], result = T_ssize,
       calls = Some (struct_fid_ep, ''tagged'', struct_fi_ops_tagged, ''inject'')\<rparr>),
    (''fi_tsenddata'', \<lparr>params = [T_ptr, T_ptr, T_size, T_ptr, T_u64, T_addr, T_u64, T_ptr], result = T_ssize,
       calls = Some (struct_fid_ep, ''tagged'', struct_fi_ops_tagged, ''senddata'')\<rparr>),
    (''fi_tinjectdata'', \<lparr>params = [T_ptr, T_ptr, T_size, T_u64, T_addr, T_u64], result = T_ssize,
       calls = Some (struct_fid_ep, ''tagged'', struct_fi_ops_tagged, ''injectdata'')\<rparr>)]"

definition fi_atomic_signatures :: "(string \<times> signature) list" where
  "fi_atomic_signatures = [
    (''fi_atomic'', \<lparr>params = [T_ptr, T_ptr, T_size, T_ptr, T_addr, T_u64, T_u64, T_enum, T_enum, T_ptr], result = T_ssize,
       calls = Some (struct_fid_ep, ''atomic'', struct_fi_ops_atomic, ''write'')\<rparr>),
    (''fi_atomicv'', \<lparr>params = [T_ptr, T_ptr, T_ptr, T_size, T_addr, T_u64, T_u64, T_enum, T_enum, T_ptr], result = T_ssize,
       calls = Some (struct_fid_ep, ''atomic'', struct_fi_ops_atomic, ''writev'')\<rparr>),
    (''fi_atomicmsg'', \<lparr>params = [T_ptr, T_ptr, T_u64], result = T_ssize,
       calls = Some (struct_fid_ep, ''atomic'', struct_fi_ops_atomic, ''writemsg'')\<rparr>),
    (''fi_inject_atomic'', \<lparr>params = [T_ptr, T_ptr, T_size, T_addr, T_u64, T_u64, T_enum, T_enum], result = T_ssize,
       calls = Some (struct_fid_ep, ''atomic'', struct_fi_ops_atomic, ''inject'')\<rparr>),
    (''fi_fetch_atomic'', \<lparr>params = [T_ptr, T_ptr, T_size, T_ptr, T_ptr, T_ptr, T_addr, T_u64, T_u64, T_enum, T_enum, T_ptr], result = T_ssize,
       calls = Some (struct_fid_ep, ''atomic'', struct_fi_ops_atomic, ''readwrite'')\<rparr>),
    (''fi_fetch_atomicv'', \<lparr>params = [T_ptr, T_ptr, T_ptr, T_size, T_ptr, T_ptr, T_size, T_addr, T_u64, T_u64, T_enum, T_enum, T_ptr], result = T_ssize,
       calls = Some (struct_fid_ep, ''atomic'', struct_fi_ops_atomic, ''readwritev'')\<rparr>),
    (''fi_fetch_atomicmsg'', \<lparr>params = [T_ptr, T_ptr, T_ptr, T_ptr, T_size, T_u64], result = T_ssize,
       calls = Some (struct_fid_ep, ''atomic'', struct_fi_ops_atomic, ''readwritemsg'')\<rparr>),
    (''fi_compare_atomic'', \<lparr>params = [T_ptr, T_ptr, T_size, T_ptr, T_ptr, T_ptr, T_ptr, T_ptr, T_addr, T_u64, T_u64, T_enum, T_enum, T_ptr], result = T_ssize,
       calls = Some (struct_fid_ep, ''atomic'', struct_fi_ops_atomic, ''compwrite'')\<rparr>),
    (''fi_compare_atomicv'', \<lparr>params = [T_ptr, T_ptr, T_ptr, T_size, T_ptr, T_ptr, T_size, T_ptr, T_ptr, T_size, T_addr, T_u64, T_u64, T_enum, T_enum, T_ptr], result = T_ssize,
       calls = Some (struct_fid_ep, ''atomic'', struct_fi_ops_atomic, ''compwritev'')\<rparr>),
    (''fi_compare_atomicmsg'', \<lparr>params = [T_ptr, T_ptr, T_ptr, T_ptr, T_size, T_ptr, T_ptr, T_size, T_u64], result = T_ssize,
       calls = Some (struct_fid_ep, ''atomic'', struct_fi_ops_atomic, ''compwritemsg'')\<rparr>),
    (''fi_atomicvalid'', \<lparr>params = [T_ptr, T_enum, T_enum, T_ptr], result = T_int,
       calls = Some (struct_fid_ep, ''atomic'', struct_fi_ops_atomic, ''writevalid'')\<rparr>),
    (''fi_fetch_atomicvalid'', \<lparr>params = [T_ptr, T_enum, T_enum, T_ptr], result = T_int,
       calls = Some (struct_fid_ep, ''atomic'', struct_fi_ops_atomic, ''readwritevalid'')\<rparr>),
    (''fi_compare_atomicvalid'', \<lparr>params = [T_ptr, T_enum, T_enum, T_ptr], result = T_int,
       calls = Some (struct_fid_ep, ''atomic'', struct_fi_ops_atomic, ''compwritevalid'')\<rparr>),
    (''fi_query_atomic'', \<lparr>params = [T_ptr, T_enum, T_enum, T_ptr, T_u64], result = T_int,
       calls = None\<rparr>)]"

definition fi_collective_signatures :: "(string \<times> signature) list" where
  "fi_collective_signatures = [
    (''fi_av_set'', \<lparr>params = [T_ptr, T_ptr, T_ptr, T_ptr], result = T_int,
       calls = None\<rparr>),
    (''fi_av_set_union'', \<lparr>params = [T_ptr, T_ptr], result = T_int,
       calls = Some (struct_fid_av_set, ''ops'', struct_fi_ops_av_set, ''set_union'')\<rparr>),
    (''fi_av_set_intersect'', \<lparr>params = [T_ptr, T_ptr], result = T_int,
       calls = Some (struct_fid_av_set, ''ops'', struct_fi_ops_av_set, ''intersect'')\<rparr>),
    (''fi_av_set_diff'', \<lparr>params = [T_ptr, T_ptr], result = T_int,
       calls = Some (struct_fid_av_set, ''ops'', struct_fi_ops_av_set, ''diff'')\<rparr>),
    (''fi_av_set_insert'', \<lparr>params = [T_ptr, T_addr], result = T_int,
       calls = Some (struct_fid_av_set, ''ops'', struct_fi_ops_av_set, ''insert'')\<rparr>),
    (''fi_av_set_remove'', \<lparr>params = [T_ptr, T_addr], result = T_int,
       calls = Some (struct_fid_av_set, ''ops'', struct_fi_ops_av_set, ''remove'')\<rparr>),
    (''fi_av_set_addr'', \<lparr>params = [T_ptr, T_ptr], result = T_int,
       calls = Some (struct_fid_av_set, ''ops'', struct_fi_ops_av_set, ''addr'')\<rparr>),
    (''fi_join_collective'', \<lparr>params = [T_ptr, T_addr, T_ptr, T_u64, T_ptr, T_ptr], result = T_int,
       calls = None\<rparr>),
    (''fi_barrier'', \<lparr>params = [T_ptr, T_addr, T_ptr], result = T_ssize,
       calls = Some (struct_fid_ep, ''collective'', struct_fi_ops_collective, ''barrier'')\<rparr>),
    (''fi_broadcast'', \<lparr>params = [T_ptr, T_ptr, T_size, T_ptr, T_addr, T_addr, T_enum, T_u64, T_ptr], result = T_ssize,
       calls = Some (struct_fid_ep, ''collective'', struct_fi_ops_collective, ''broadcast'')\<rparr>),
    (''fi_alltoall'', \<lparr>params = [T_ptr, T_ptr, T_size, T_ptr, T_ptr, T_ptr, T_addr, T_enum, T_u64, T_ptr], result = T_ssize,
       calls = Some (struct_fid_ep, ''collective'', struct_fi_ops_collective, ''alltoall'')\<rparr>),
    (''fi_allreduce'', \<lparr>params = [T_ptr, T_ptr, T_size, T_ptr, T_ptr, T_ptr, T_addr, T_enum, T_enum, T_u64, T_ptr], result = T_ssize,
       calls = Some (struct_fid_ep, ''collective'', struct_fi_ops_collective, ''allreduce'')\<rparr>),
    (''fi_allgather'', \<lparr>params = [T_ptr, T_ptr, T_size, T_ptr, T_ptr, T_ptr, T_addr, T_enum, T_u64, T_ptr], result = T_ssize,
       calls = Some (struct_fid_ep, ''collective'', struct_fi_ops_collective, ''allgather'')\<rparr>),
    (''fi_reduce_scatter'', \<lparr>params = [T_ptr, T_ptr, T_size, T_ptr, T_ptr, T_ptr, T_addr, T_enum, T_enum, T_u64, T_ptr], result = T_ssize,
       calls = Some (struct_fid_ep, ''collective'', struct_fi_ops_collective, ''reduce_scatter'')\<rparr>),
    (''fi_reduce'', \<lparr>params = [T_ptr, T_ptr, T_size, T_ptr, T_ptr, T_ptr, T_addr, T_addr, T_enum, T_enum, T_u64, T_ptr], result = T_ssize,
       calls = Some (struct_fid_ep, ''collective'', struct_fi_ops_collective, ''reduce'')\<rparr>),
    (''fi_scatter'', \<lparr>params = [T_ptr, T_ptr, T_size, T_ptr, T_ptr, T_ptr, T_addr, T_addr, T_enum, T_u64, T_ptr], result = T_ssize,
       calls = Some (struct_fid_ep, ''collective'', struct_fi_ops_collective, ''scatter'')\<rparr>),
    (''fi_gather'', \<lparr>params = [T_ptr, T_ptr, T_size, T_ptr, T_ptr, T_ptr, T_addr, T_addr, T_enum, T_u64, T_ptr], result = T_ssize,
       calls = Some (struct_fid_ep, ''collective'', struct_fi_ops_collective, ''gather'')\<rparr>),
    (''fi_query_collective'', \<lparr>params = [T_ptr, T_enum, T_ptr, T_u64], result = T_int,
       calls = None\<rparr>)]"

definition api_signatures :: "(string \<times> signature) list" where
  "api_signatures =
     fabric_tclass_signatures @ fabric_info_signatures @ fabric_close_signatures @ fabric_fid_signatures @
     fi_cm_signatures @ fi_domain_signatures @ fi_endpoint_signatures @ fi_eq_signatures @ fi_rma_signatures @
     fi_tagged_signatures @ fi_atomic_signatures @ fi_collective_signatures"

subsection \<open>The helper files\<close>

definition fabric_stubs :: "stub list" where
  "fabric_stubs = [
    \<lparr>arity = 1, symbol = ''fi_tc_dscp_set'', stub_params = [T_u8], stub_result = T_u32\<rparr>,
    \<lparr>arity = 1, symbol = ''fi_tc_dscp_get'', stub_params = [T_u32], stub_result = T_u8\<rparr>,
    \<lparr>arity = 0, symbol = ''fi_allocinfo'', stub_params = [], stub_result = T_ptr\<rparr>,
    \<lparr>arity = 1, symbol = ''fi_close'', stub_params = [T_ptr], stub_result = T_int\<rparr>,
    \<lparr>arity = 3, symbol = ''fi_control'', stub_params = [T_ptr, T_int, T_ptr], stub_result = T_int\<rparr>,
    \<lparr>arity = 3, symbol = ''fi_alias'', stub_params = [T_ptr, T_ptr, T_u64], stub_result = T_int\<rparr>,
    \<lparr>arity = 5, symbol = ''fi_open_ops'', stub_params = [T_ptr, T_ptr, T_u64, T_ptr, T_ptr], stub_result = T_int\<rparr>,
    \<lparr>arity = 5, symbol = ''fi_set_ops'', stub_params = [T_ptr, T_ptr, T_u64, T_ptr, T_ptr], stub_result = T_int\<rparr>]"

definition fi_cm_stubs :: "stub list" where
  "fi_cm_stubs = [
    \<lparr>arity = 3, symbol = ''fi_setname'', stub_params = [T_ptr, T_ptr, T_size], stub_result = T_int\<rparr>,
    \<lparr>arity = 3, symbol = ''fi_getname'', stub_params = [T_ptr, T_ptr, T_ptr], stub_result = T_int\<rparr>,
    \<lparr>arity = 3, symbol = ''fi_getpeer'', stub_params = [T_ptr, T_ptr, T_ptr], stub_result = T_int\<rparr>,
    \<lparr>arity = 1, symbol = ''fi_listen'', stub_params = [T_ptr], stub_result = T_int\<rparr>,
    \<lparr>arity = 4, symbol = ''fi_connect'', stub_params = [T_ptr, T_ptr, T_ptr, T_size], stub_result = T_int\<rparr>,
    \<lparr>arity = 3, symbol = ''fi_accept'', stub_params = [T_ptr, T_ptr, T_size], stub_result = T_int\<rparr>,
    \<lparr>arity = 4, symbol = ''fi_reject'', stub_params = [T_ptr, T_ptr, T_ptr, T_size], stub_result = T_int\<rparr>,
    \<lparr>arity = 2, symbol = ''fi_shutdown'', stub_params = [T_ptr, T_u64], stub_result = T_int\<rparr>,
    \<lparr>arity = 5, symbol = ''fi_join'', stub_params = [T_ptr, T_ptr, T_u64, T_ptr, T_ptr], stub_result = T_int\<rparr>,
    \<lparr>arity = 1, symbol = ''fi_mc_addr'', stub_params = [T_ptr], stub_result = T_addr\<rparr>]"

definition fi_domain_stubs :: "stub list" where
  "fi_domain_stubs = [
    \<lparr>arity = 4, symbol = ''fi_domain'', stub_params = [T_ptr, T_ptr, T_ptr, T_ptr], stub_result = T_int\<rparr>,
    \<lparr>arity = 3, symbol = ''fi_domain_bind'', stub_params = [T_ptr, T_ptr, T_u64], stub_result = T_int\<rparr>,
    \<lparr>arity = 4, symbol = ''fi_cq_open'', stub_params = [T_ptr, T_ptr, T_ptr, T_ptr], stub_result = T_int\<rparr>,
    \<lparr>arity = 4, symbol = ''fi_cntr_open'', stub_params = [T_ptr, T_ptr, T_ptr, T_ptr], stub_result = T_int\<rparr>,
    \<lparr>arity = 3, symbol = ''fi_wait_open'', stub_params = [T_ptr, T_ptr, T_ptr], stub_result = T_int\<rparr>,
    \<lparr>arity = 3, symbol = ''fi_poll_open'', stub_params = [T_ptr, T_ptr, T_ptr], stub_result = T_int\<rparr>,
    \<lparr>arity = 9, symbol = ''fi_mr_reg'', stub_params = [T_ptr, T_ptr, T_size, T_u64, T_u64, T_u64, T_u64, T_ptr, T_ptr], stub_result = T_int\<rparr>,
    \<lparr>arity = 9, symbol = ''fi_mr_regv'', stub_params = [T_ptr, T_ptr, T_size, T_u64, T_u64, T_u64, T_u64, T_ptr, T_ptr], stub_result = T_int\<rparr>,
    \<lparr>arity = 4, symbol = ''fi_mr_regattr'', stub_params = [T_ptr, T_ptr, T_u64, T_ptr], stub_result = T_int\<rparr>,
    \<lparr>arity = 1, symbol = ''fi_mr_desc'', stub_params = [T_ptr], stub_result = T_ptr\<rparr>,
    \<lparr>arity = 1, symbol = ''fi_mr_key'', stub_params = [T_ptr], stub_result = T_u64\<rparr>,
    \<lparr>arity = 5, symbol = ''fi_mr_raw_attr'', stub_params = [T_ptr, T_ptr, T_ptr, T_ptr, T_u64], stub_result = T_int\<rparr>,
    \<lparr>arity = 6, symbol = ''fi_mr_map_raw'', stub_params = [T_ptr, T_u64, T_ptr, T_size, T_ptr, T_u64], stub_result = T_int\<rparr>,
    \<lparr>arity = 2, symbol = ''fi_mr_unmap_key'', stub_params = [T_ptr, T_u64], stub_result = T_int\<rparr>,
    \<lparr>arity = 3, symbol = ''fi_mr_bind'', stub_params = [T_ptr, T_ptr, T_u64], stub_result = T_int\<rparr>,
    \<lparr>arity = 4, symbol = ''fi_mr_refresh'', stub_params = [T_ptr, T_ptr, T_size, T_u64], stub_result = T_int\<rparr>,
    \<lparr>arity = 1, symbol = ''fi_mr_enable'', stub_params = [T_ptr], stub_result = T_int\<rparr>,
    \<lparr>arity = 4, symbol = ''fi_av_open'', stub_params = [T_ptr, T_ptr, T_ptr, T_ptr], stub_result = T_int\<rparr>,
    \<lparr>arity = 3, symbol = ''fi_av_bind'', stub_params = [T_ptr, T_ptr, T_u64], stub_result = T_int\<rparr>,
    \<lparr>arity = 6, symbol = ''fi_av_insert'', stub_params = [T_ptr, T_ptr, T_size, T_ptr, T_u64, T_ptr], stub_result = T_int\<rparr>,
    \<lparr>arity = 6, symbol = ''fi_av_insertsvc'', stub_params = [T_ptr, T_ptr, T_ptr, T_ptr, T_u64, T_ptr], stub_result = T_int\<rparr>,
    \<lparr>arity = 8, symbol = ''fi_av_insertsym'', stub_params = [T_ptr, T_ptr, T_size, T_ptr, T_size, T_ptr, T_u64, T_ptr], stub_result = T_int\<rparr>,
    \<lparr>arity = 4, symbol = ''fi_av_remove'', stub_params = [T_ptr, T_ptr, T_size, T_u64], stub_result = T_int\<rparr>,
    \<lparr>arity = 4, symbol = ''fi_av_lookup'', stub_params = [T_ptr, T_addr, T_ptr, T_ptr], stub_result = T_int\<rparr>,
    \<lparr>arity = 4, symbol = ''fi_av_straddr'', stub_params = [T_ptr, T_ptr, T_ptr, T_ptr], stub_result = T_ptr\<rparr>,
    \<lparr>arity = 3, symbol = ''fi_rx_addr'', stub_params = [T_addr, T_int, T_int], stub_result = T_addr\<rparr>]"

definition fi_endpoint_stubs :: "stub list" where
  "fi_endpoint_stubs = [
    \<lparr>arity = 4, symbol = ''fi_passive_ep'', stub_params = [T_ptr, T_ptr, T_ptr, T_ptr], stub_result = T_int\<rparr>,
    \<lparr>arity = 4, symbol = ''fi_endpoint'', stub_params = [T_ptr, T_ptr, T_ptr, T_ptr], stub_result = T_int\<rparr>,
    \<lparr>arity = 4, symbol = ''fi_scalable_ep'', stub_params = [T_ptr, T_ptr, T_ptr, T_ptr], stub_result = T_int\<rparr>,
    \<lparr>arity = 3, symbol = ''fi_ep_bind'', stub_params = [T_ptr, T_ptr, T_u64], stub_result = T_int\<rparr>,
    \<lparr>arity = 3, symbol = ''fi_pep_bind'', stub_params = [T_ptr, T_ptr, T_u64], stub_result = T_int\<rparr>,
    \<lparr>arity = 3, symbol = ''fi_scalable_ep_bind'', stub_params = [T_ptr, T_ptr, T_u64], stub_result = T_int\<rparr>,
    \<lparr>arity = 1, symbol = ''fi_enable'', stub_params = [T_ptr], stub_result = T_int\<rparr>,
    \<lparr>arity = 2, symbol = ''fi_cancel'', stub_params = [T_ptr, T_ptr], stub_result = T_ssize\<rparr>,
    \<lparr>arity = 5, symbol = ''fi_setopt'', stub_params = [T_ptr, T_int, T_int, T_ptr, T_size], stub_result = T_int\<rparr>,
    \<lparr>arity = 5, symbol = ''fi_getopt'', stub_params = [T_ptr, T_int, T_int, T_ptr, T_ptr], stub_result = T_int\<rparr>,
    \<lparr>arity = 3, symbol = ''fi_ep_alias'', stub_params = [T_ptr, T_ptr, T_u64], stub_result = T_int\<rparr>,
    \<lparr>arity = 5, symbol = ''fi_tx_context'', stub_params = [T_ptr, T_int, T_ptr, T_ptr, T_ptr], stub_result = T_int\<rparr>,
    \<lparr>arity = 5, symbol = ''fi_rx_context'', stub_params = [T_ptr, T_int, T_ptr, T_ptr, T_ptr], stub_result = T_int\<rparr>,
    \<lparr>arity = 1, symbol = ''fi_rx_size_left'', stub_params = [T_ptr], stub_result = T_ssize\<rparr>,
    \<lparr>arity = 1, symbol = ''fi_tx_size_left'', stub_params = [T_ptr], stub_result = T_ssize\<rparr>,
    \<lparr>arity = 4, symbol = ''fi_stx_context'', stub_params = [T_ptr, T_ptr, T_ptr, T_ptr], stub_result = T_int\<rparr>,
    \<lparr>arity = 4, symbol = ''fi_srx_context'', stub_params = [T_ptr, T_ptr, T_ptr, T_ptr], stub_result = T_int\<rparr>,
    \<lparr>arity = 6, symbol = ''fi_recv'', stub_params = [T_ptr, T_ptr, T_size, T_ptr, T_addr, T_ptr], stub_result = T_ssize\<rparr>,
    \<lparr>arity = 6, symbol = ''fi_recvv'', stub_params = [T_ptr, T_ptr, T_ptr, T_size, T_addr, T_ptr], stub_result = T_ssize\<rparr>,
    \<lparr>arity = 3, symbol = ''fi_recvmsg'', stub_params = [T_ptr, T_ptr, T_u64], stub_result = T_ssize\<rparr>,
    \<lparr>arity = 6, symbol = ''fi_send'', stub_params = [T_ptr, T_ptr, T_size, T_ptr, T_addr, T_ptr], stub_result = T_ssize\<rparr>,
    \<lparr>arity = 6, symbol = ''fi_sendv'', stub_params = [T_ptr, T_ptr, T_ptr, T_size, T_addr, T_ptr], stub_result = T_ssize\<rparr>,
    \<lparr>arity = 3, symbol = ''fi_sendmsg'', stub_params = [T_ptr, T_ptr, T_u64], stub_result = T_ssize\<rparr>,
    \<lparr>arity = 4, symbol = ''fi_inject'', stub_params = [T_ptr, T_ptr, T_size, T_addr], stub_result = T_ssize\<rparr>,
    \<lparr>arity = 7, symbol = ''fi_senddata'', stub_params = [T_ptr, T_ptr, T_size, T_ptr, T_u64, T_addr, T_ptr], stub_result = T_ssize\<rparr>,
    \<lparr>arity = 5, symbol = ''fi_injectdata'', stub_params = [T_ptr, T_ptr, T_size, T_u64, T_addr], stub_result = T_ssize\<rparr>]"

definition fi_eq_stubs :: "stub list" where
  "fi_eq_stubs = [
    \<lparr>arity = 3, symbol = ''fi_trywait'', stub_params = [T_ptr, T_ptr, T_int], stub_result = T_int\<rparr>,
    \<lparr>arity = 2, symbol = ''fi_wait'', stub_params = [T_ptr, T_int], stub_result = T_int\<rparr>,
    \<lparr>arity = 3, symbol = ''fi_poll'', stub_params = [T_ptr, T_ptr, T_int], stub_result = T_int\<rparr>,
    \<lparr>arity = 3, symbol = ''fi_poll_add'', stub_params = [T_ptr, T_ptr, T_u64], stub_result = T_int\<rparr>,
    \<lparr>arity = 3, symbol = ''fi_poll_del'', stub_params = [T_ptr, T_ptr, T_u64], stub_result = T_int\<rparr>,
    \<lparr>arity = 4, symbol = ''fi_eq_open'', stub_params = [T_ptr, T_ptr, T_ptr, T_ptr], stub_result = T_int\<rparr>,
    \<lparr>arity = 5, symbol = ''fi_eq_read'', stub_params = [T_ptr, T_ptr, T_ptr, T_size, T_u64], stub_result = T_ssize\<rparr>,
    \<lparr>arity = 3, symbol = ''fi_eq_readerr'', stub_params = [T_ptr, T_ptr, T_u64], stub_result = T_ssize\<rparr>,
    \<lparr>arity = 5, symbol = ''fi_eq_write'', stub_params = [T_ptr, T_u32, T_ptr, T_size, T_u64], stub_result = T_ssize\<rparr>,
    \<lparr>arity = 6, symbol = ''fi_eq_sread'', stub_params = [T_ptr, T_ptr, T_ptr, T_size, T_int, T_u64], stub_result = T_ssize\<rparr>,
    \<lparr>arity = 5, symbol = ''fi_eq_strerror'', stub_params = [T_ptr, T_int, T_ptr, T_ptr, T_size], stub_result = T_ptr\<rparr>,
    \<lparr>arity = 3, symbol = ''fi_cq_read'', stub_params = [T_ptr, T_ptr, T_size], stub_result = T_ssize\<rparr>,
    \<lparr>arity = 4, symbol = ''fi_cq_readfrom'', stub_params = [T_ptr, T_ptr, T_size, T_ptr], stub_result = T_ssize\<rparr>,
    \<lparr>arity = 3, symbol = ''fi_cq_readerr'', stub_params = [T_ptr, T_ptr, T_u64], stub_result = T_ssize\<rparr>,
    \<lparr>arity = 5, symbol = ''fi_cq_sread'', stub_params = [T_ptr, T_ptr, T_size, T_ptr, T_int], stub_result = T_ssize\<rparr>,
    \<lparr>arity = 6, symbol = ''fi_cq_sreadfrom'', stub_params = [T_ptr, T_ptr, T_size, T_ptr, T_ptr, T_int], stub_result = T_ssize\<rparr>,
    \<lparr>arity = 1, symbol = ''fi_cq_signal'', stub_params = [T_ptr], stub_result = T_int\<rparr>,
    \<lparr>arity = 5, symbol = ''fi_cq_strerror'', stub_params = [T_ptr, T_int, T_ptr, T_ptr, T_size], stub_result = T_ptr\<rparr>,
    \<lparr>arity = 1, symbol = ''fi_cntr_read'', stub_params = [T_ptr], stub_result = T_u64\<rparr>,
    \<lparr>arity = 1, symbol = ''fi_cntr_readerr'', stub_params = [T_ptr], stub_result = T_u64\<rparr>,
    \<lparr>arity = 2, symbol = ''fi_cntr_add'', stub_params = [T_ptr, T_u64], stub_result = T_int\<rparr>,
    \<lparr>arity = 2, symbol = ''fi_cntr_adderr'', stub_params = [T_ptr, T_u64], stub_result = T_int\<rparr>,
    \<lparr>arity = 2, symbol = ''fi_cntr_set'', stub_params = [T_ptr, T_u64], stub_result = T_int\<rparr>,
    \<lparr>arity = 2, symbol = ''fi_cntr_seterr'', stub_params = [T_ptr, T_u64], stub_result = T_int\<rparr>,
    \<lparr>arity = 3, symbol = ''fi_cntr_wait'', stub_params = [T_ptr, T_u64, T_int], stub_result = T_int\<rparr>]"

definition fi_rma_stubs :: "stub list" where
  "fi_rma_stubs = [
    \<lparr>arity = 8, symbol = ''fi_read'', stub_params = [T_ptr, T_ptr, T_size, T_ptr, T_addr, T_u64, T_u64, T_ptr], stub_result = T_ssize\<rparr>,
    \<lparr>arity = 8, symbol = ''fi_readv'', stub_params = [T_ptr, T_ptr, T_ptr, T_size, T_addr, T_u64, T_u64, T_ptr], stub_result = T_ssize\<rparr>,
    \<lparr>arity = 3, symbol = ''fi_readmsg'', stub_params = [T_ptr, T_ptr, T_u64], stub_result = T_ssize\<rparr>,
    \<lparr>arity = 8, symbol = ''fi_write'', stub_params = [T_ptr, T_ptr, T_size, T_ptr, T_addr, T_u64, T_u64, T_ptr], stub_result = T_ssize\<rparr>,
    \<lparr>arity = 8, symbol = ''fi_writev'', stub_params = [T_ptr, T_ptr, T_ptr, T_size, T_addr, T_u64, T_u64, T_ptr], stub_result = T_ssize\<rparr>,
    \<lparr>arity = 3, symbol = ''fi_writemsg'', stub_params = [T_ptr, T_ptr, T_u64], stub_result = T_ssize\<rparr>,
    \<lparr>arity = 6, symbol = ''fi_inject_write'', stub_params = [T_ptr, T_ptr, T_size, T_addr, T_u64, T_u64], stub_result = T_ssize\<rparr>,
    \<lparr>arity = 9, symbol = ''fi_writedata'', stub_params = [T_ptr, T_ptr, T_size, T_ptr, T_u64, T_addr, T_u64, T_u64, T_ptr], stub_result = T_ssize\<rparr>,
    \<lparr>arity = 7, symbol = ''fi_inject_writedata'', stub_params = [T_ptr, T_ptr, T_size, T_u64, T_addr, T_u64, T_u64], stub_result = T_ssize\<rparr>]"

definition fi_tagged_stubs :: "stub list" where
  "fi_tagged_stubs = [
    \<lparr>arity = 8, symbol = ''fi_trecv'', stub_params = [T_ptr, T_ptr, T_size, T_ptr, T_addr, T_u64, T_u64, T_ptr], stub_result = T_ssize\<rparr>,
    \<lparr>arity = 8, symbol = ''fi_trecvv'', stub_params = [T_ptr, T_ptr, T_ptr, T_size, T_addr, T_u64, T_u64, T_ptr], stub_result = T_ssize\<rparr>,
    \<lparr>arity = 3, symbol = ''fi_trecvmsg'', stub_params = [T_ptr, T_ptr, T_u64], stub_result = T_ssize\<rparr>,
    \<lparr>arity = 7, symbol = ''fi_tsend'', stub_params = [T_ptr, T_ptr, T_size, T_ptr, T_addr, T_u64, T_ptr], stub_result = T_ssize\<rparr>,
    \<lparr>arity = 7, symbol = ''fi_tsendv'', stub_params = [T_ptr, T_ptr, T_ptr, T_size, T_addr, T_u64, T_ptr], stub_result = T_ssize\<rparr>,
    \<lparr>arity = 3, symbol = ''fi_tsendmsg'', stub_params = [T_ptr, T_ptr, T_u64], stub_result = T_ssize\<rparr>,
    \<lparr>arity = 5, symbol = ''fi_tinject'', stub_params = [T_ptr, T_ptr, T_size, T_addr, T_u64], stub_result = T_ssize\<rparr>,
    \<lparr>arity = 8, symbol = ''fi_tsenddata'', stub_params = [T_ptr, T_ptr, T_size, T_ptr, T_u64, T_addr, T_u64, T_ptr], stub_result = T_ssize\<rparr>,
    \<lparr>arity = 6, symbol = ''fi_tinjectdata'', stub_params = [T_ptr, T_ptr, T_size, T_u64, T_addr, T_u64], stub_result = T_ssize\<rparr>]"

definition fi_atomic_stubs :: "stub list" where
  "fi_atomic_stubs = [
    \<lparr>arity = 10, symbol = ''fi_atomic'', stub_params = [T_ptr, T_ptr, T_size, T_ptr, T_addr, T_u64, T_u64, T_ptr], stub_result = T_ssize\<rparr>,
    \<lparr>arity = 10, symbol = ''fi_atomicv'', stub_params = [T_ptr, T_ptr, T_ptr, T_size, T_addr, T_u64, T_u64, T_ptr], stub_result = T_ssize\<rparr>,
    \<lparr>arity = 3, symbol = ''fi_atomicmsg'', stub_params = [T_ptr, T_ptr, T_u64], stub_result = T_ssize\<rparr>,
    \<lparr>arity = 8, symbol = ''fi_inject_atomic'', stub_params = [T_ptr, T_ptr, T_size, T_addr, T_u64, T_u64], stub_result = T_ssize\<rparr>,
    \<lparr>arity = 12, symbol = ''fi_fetch_atomic'', stub_params = [T_ptr, T_ptr, T_size, T_ptr, T_ptr, T_ptr, T_addr, T_u64, T_u64, T_ptr], stub_result = T_ssize\<rparr>,
    \<lparr>arity = 13, symbol = ''fi_fetch_atomicv'', stub_params = [T_ptr, T_ptr, T_ptr, T_size, T_ptr, T_ptr, T_size, T_addr, T_u64, T_u64, T_ptr], stub_result = T_ssize\<rparr>,
    \<lparr>arity = 6, symbol = ''fi_fetch_atomicmsg'', stub_params = [T_ptr, T_ptr, T_ptr, T_ptr, T_size, T_u64], stub_result = T_ssize\<rparr>,
    \<lparr>arity = 14, symbol = ''fi_compare_atomic'', stub_params = [T_ptr, T_ptr, T_size, T_ptr, T_ptr, T_ptr, T_ptr, T_ptr, T_addr, T_u64, T_u64, T_ptr], stub_result = T_ssize\<rparr>,
    \<lparr>arity = 16, symbol = ''fi_compare_atomicv'', stub_params = [T_ptr, T_ptr, T_ptr, T_size, T_ptr, T_ptr, T_size, T_ptr, T_ptr, T_size, T_addr, T_u64, T_u64, T_ptr], stub_result = T_ssize\<rparr>,
    \<lparr>arity = 9, symbol = ''fi_compare_atomicmsg'', stub_params = [T_ptr, T_ptr, T_ptr, T_ptr, T_size, T_ptr, T_ptr, T_size, T_u64], stub_result = T_ssize\<rparr>,
    \<lparr>arity = 4, symbol = ''fi_atomicvalid'', stub_params = [T_ptr, T_ptr], stub_result = T_int\<rparr>,
    \<lparr>arity = 4, symbol = ''fi_fetch_atomicvalid'', stub_params = [T_ptr, T_ptr], stub_result = T_int\<rparr>,
    \<lparr>arity = 4, symbol = ''fi_compare_atomicvalid'', stub_params = [T_ptr, T_ptr], stub_result = T_int\<rparr>,
    \<lparr>arity = 5, symbol = ''fi_query_atomic'', stub_params = [T_ptr, T_ptr, T_u64], stub_result = T_int\<rparr>]"

definition fi_collective_stubs :: "stub list" where
  "fi_collective_stubs = [
    \<lparr>arity = 4, symbol = ''fi_av_set'', stub_params = [T_ptr, T_ptr, T_ptr, T_ptr], stub_result = T_int\<rparr>,
    \<lparr>arity = 2, symbol = ''fi_av_set_union'', stub_params = [T_ptr, T_ptr], stub_result = T_int\<rparr>,
    \<lparr>arity = 2, symbol = ''fi_av_set_intersect'', stub_params = [T_ptr, T_ptr], stub_result = T_int\<rparr>,
    \<lparr>arity = 2, symbol = ''fi_av_set_diff'', stub_params = [T_ptr, T_ptr], stub_result = T_int\<rparr>,
    \<lparr>arity = 2, symbol = ''fi_av_set_insert'', stub_params = [T_ptr, T_addr], stub_result = T_int\<rparr>,
    \<lparr>arity = 2, symbol = ''fi_av_set_remove'', stub_params = [T_ptr, T_addr], stub_result = T_int\<rparr>,
    \<lparr>arity = 2, symbol = ''fi_av_set_addr'', stub_params = [T_ptr, T_ptr], stub_result = T_int\<rparr>,
    \<lparr>arity = 6, symbol = ''fi_join_collective'', stub_params = [T_ptr, T_addr, T_ptr, T_u64, T_ptr, T_ptr], stub_result = T_int\<rparr>,
    \<lparr>arity = 3, symbol = ''fi_barrier'', stub_params = [T_ptr, T_addr, T_ptr], stub_result = T_ssize\<rparr>,
    \<lparr>arity = 9, symbol = ''fi_broadcast'', stub_params = [T_ptr, T_ptr, T_size, T_ptr, T_addr, T_addr, T_u64, T_ptr], stub_result = T_ssize\<rparr>,
    \<lparr>arity = 10, symbol = ''fi_alltoall'', stub_params = [T_ptr, T_ptr, T_size, T_ptr, T_ptr, T_ptr, T_addr, T_u64, T_ptr], stub_result = T_ssize\<rparr>,
    \<lparr>arity = 11, symbol = ''fi_allreduce'', stub_params = [T_ptr, T_ptr, T_size, T_ptr, T_ptr, T_ptr, T_addr, T_u64, T_ptr], stub_result = T_ssize\<rparr>,
    \<lparr>arity = 10, symbol = ''fi_allgather'', stub_params = [T_ptr, T_ptr, T_size, T_ptr, T_ptr, T_ptr, T_addr, T_u64, T_ptr], stub_result = T_ssize\<rparr>,
    \<lparr>arity = 11, symbol = ''fi_reduce_scatter'', stub_params = [T_ptr, T_ptr, T_size, T_ptr, T_ptr, T_ptr, T_addr, T_u64, T_ptr], stub_result = T_ssize\<rparr>,
    \<lparr>arity = 12, symbol = ''fi_reduce'', stub_params = [T_ptr, T_ptr, T_size, T_ptr, T_ptr, T_ptr, T_addr, T_addr, T_u64, T_ptr], stub_result = T_ssize\<rparr>,
    \<lparr>arity = 11, symbol = ''fi_scatter'', stub_params = [T_ptr, T_ptr, T_size, T_ptr, T_ptr, T_ptr, T_addr, T_addr, T_u64, T_ptr], stub_result = T_ssize\<rparr>,
    \<lparr>arity = 11, symbol = ''fi_gather'', stub_params = [T_ptr, T_ptr, T_size, T_ptr, T_ptr, T_ptr, T_addr, T_addr, T_u64, T_ptr], stub_result = T_ssize\<rparr>,
    \<lparr>arity = 4, symbol = ''fi_query_collective'', stub_params = [T_ptr, T_ptr, T_u64], stub_result = T_int\<rparr>]"

definition compiled_stubs :: "stub list" where
  "compiled_stubs = fabric_stubs @ fi_cm_stubs @ fi_domain_stubs @ fi_endpoint_stubs @ fi_eq_stubs"

definition all_stubs :: "stub list" where
  "all_stubs = compiled_stubs @ fi_rma_stubs @ fi_tagged_stubs @ fi_atomic_stubs @ fi_collective_stubs"

lemmas signature_defs = api_signatures_def fabric_tclass_signatures_def fabric_info_signatures_def fabric_close_signatures_def fabric_fid_signatures_def fi_cm_signatures_def fi_domain_signatures_def fi_endpoint_signatures_def fi_eq_signatures_def fi_rma_signatures_def fi_tagged_signatures_def fi_atomic_signatures_def fi_collective_signatures_def

lemmas stub_defs = all_stubs_def compiled_stubs_def fabric_stubs_def fi_cm_stubs_def fi_domain_stubs_def fi_endpoint_stubs_def fi_eq_stubs_def fi_rma_stubs_def fi_tagged_stubs_def fi_atomic_stubs_def fi_collective_stubs_def

subsection \<open>Properties\<close>

lemma convert_same:
  assumes "width from = width to" and "bytes v = width from"
  shows "convert from to v = v"
proof -
  have "width to = bytes v" using assms by simp
  then show ?thesis by (cases v) (simp_all add: convert_def cval_of_int_def)
qed

text \<open>\<open>fits ts sg\<close>: the types agree in width with the parameters of the signature.\<close>

definition fits :: "arg_type list \<Rightarrow> arg_type list \<Rightarrow> bool" where
  "fits ts ps \<longleftrightarrow> list_all2 (\<lambda>t p. width t = width p) ts ps"

lemma fits_args:
  assumes "fits ts ps" and "accepts ts vs"
  shows "map (\<lambda>(f, t, v). convert f t v) (zip ts (zip ps vs)) = vs \<and> accepts ps vs"
  using assms unfolding fits_def accepts_def
proof (induction ts arbitrary: ps vs)
  case Nil
  then show ?case by simp
next
  case (Cons t ts)
  then show ?case by (auto simp: list_all2_Cons1 convert_same)
qed

text \<open>What the lines of the helper files have in common with the prototypes, pair by pair: the files
  follow the order of the headers.\<close>

definition stub_ok :: "stub \<Rightarrow> signature \<Rightarrow> bool" where
  "stub_ok stb sg \<longleftrightarrow> arity stb = length (params sg) \<and> width (stub_result stb) = width (result sg) \<and>
     fits (stub_params stb) (filter (\<lambda>t. t \<noteq> T_enum) (params sg))"

lemma stubs_ok: "list_all2 (\<lambda>stb (f, sg). symbol stb = f \<and> stub_ok stb sg) all_stubs api_signatures"
  unfolding signature_defs stub_defs by (simp add: stub_ok_def fits_def width_def)

lemma no_enum:
  "list_all2 (\<lambda>stb (f, sg). symbol stb = f \<and> T_enum \<notin> set (params sg))
     (compiled_stubs @ fi_rma_stubs @ fi_tagged_stubs) (take 113 api_signatures)"
  unfolding signature_defs stub_defs by simp

lemma symbols: "map symbol all_stubs = map fst api_signatures"
  using stubs_ok by (induction rule: list_all2_induct) auto

lemma symbols_differ: "distinct (map fst api_signatures)"
  unfolding signature_defs by simp

lemma symbol_lookup: "list_all2 (\<lambda>stb (f, sg). symbol stb = f \<and> R stb sg) xs ys \<Longrightarrow> stb \<in> set xs \<Longrightarrow>
    set ys \<subseteq> set api_signatures \<Longrightarrow> \<exists>sg. map_of api_signatures (symbol stb) = Some sg \<and> R stb sg"
proof (induction rule: list_all2_induct)
  case (Cons x xs y ys)
  then show ?case using map_of_is_SomeI [OF symbols_differ, of "fst y" "snd y"] by (cases y) auto
qed simp

lemma no_enumD:
  assumes "stb \<in> set (compiled_stubs @ fi_rma_stubs @ fi_tagged_stubs)" and "map_of api_signatures (symbol stb) = Some sg"
  shows "T_enum \<notin> set (params sg)"
  using symbol_lookup [OF no_enum assms(1) set_take_subset] assms(2) by auto

lemma stub_okE:
  assumes "stb \<in> set all_stubs"
  obtains sg where "map_of api_signatures (symbol stb) = Some sg" and "stub_ok stb sg"
    and "T_enum \<in> set (params sg) \<longrightarrow> stb \<in> set (fi_atomic_stubs @ fi_collective_stubs)"
proof -
  obtain sg where sg: "map_of api_signatures (symbol stb) = Some sg" "stub_ok stb sg"
    using symbol_lookup [OF stubs_ok assms] by auto
  moreover have "stb \<in> set (compiled_stubs @ fi_rma_stubs @ fi_tagged_stubs) \<or> stb \<in> set (fi_atomic_stubs @ fi_collective_stubs)"
    using assms by (auto simp: all_stubs_def)
  ultimately show ?thesis using that no_enumD [OF _ sg(1)] by blast
qed

lemma compiled_okD:
  "stb \<in> set compiled_stubs \<Longrightarrow> map_of api_signatures (symbol stb) = Some sg \<Longrightarrow> T_enum \<notin> set (params sg)"
  by (rule no_enumD) simp_all

lemma length_fits: "fits ts ps \<Longrightarrow> length ts = length ps"
  by (simp add: fits_def list_all2_lengthD)

text \<open>A stub of a function without an enumeration forwards its arguments.\<close>

lemma stub_forwards:
  assumes "stb \<in> set all_stubs" and "map_of api_signatures (symbol stb) = Some sg" and "T_enum \<notin> set (params sg)"
    and "accepts (stub_params stb) vs"
  shows "forwards_args api_signatures stb vs = Some vs \<and> accepts (params sg) vs \<and>
    width (stub_result stb) = width (result sg)"
proof -
  have ok: "stub_ok stb sg" using stub_okE [OF assms(1)] assms(2) by (metis option.inject)
  have "filter (\<lambda>t. t \<noteq> T_enum) (params sg) = params sg" using assms(3) by (auto intro!: filter_True)
  with ok have fits: "fits (stub_params stb) (params sg)" by (simp add: stub_ok_def)
  from fits_args [OF this assms(4)] length_fits [OF fits] ok assms(2) show ?thesis
    by (simp add: forwards_args_def stub_ok_def)
qed

text \<open>The prototype of an operation is that of the function that calls it.\<close>

lemma signature_proto:
  assumes "(f, sg) \<in> set api_signatures" and "calls sg = Some (fs, tab, table, opn)"
  shows "proto table opn = Some (ctype_of (result sg), map ctype_of (params sg))"
proof -
  have "list_all (\<lambda>(f, sg). case calls sg of
      None \<Rightarrow> True
    | Some (fs, tab, table, opn) \<Rightarrow> proto table opn = Some (ctype_of (result sg), map ctype_of (params sg))) api_signatures"
    unfolding signature_defs by (simp add: proto_map_of structs)
  with assms show ?thesis by (fastforce simp: list_all_iff)
qed

text \<open>C17. A compiled stub is the inline function under another name: whatever arguments of its
  declared types it is called with reach the function unchanged, as values of its parameters, and
  its result has the width of the function's.\<close>

theorem stubs_forward:
  assumes "stb \<in> set compiled_stubs" and "accepts (stub_params stb) vs"
  shows "\<exists>sg. map_of api_signatures (symbol stb) = Some sg \<and> forwards_args api_signatures stb vs = Some vs \<and>
    accepts (params sg) vs \<and> width (stub_result stb) = width (result sg)"
proof -
  have stb: "stb \<in> set all_stubs" using assms(1) by (simp add: all_stubs_def)
  then obtain sg where sg: "map_of api_signatures (symbol stb) = Some sg"
    by (rule stub_okE)
  from stub_forwards [OF stb sg compiled_okD [OF assms(1) sg] assms(2)] sg show ?thesis by blast
qed

theorem stubs_forward_witness:
  "\<exists>sg. map_of api_signatures ''fi_rx_addr'' = Some sg \<and>
    forwards_args api_signatures \<lparr>arity = 3, symbol = ''fi_rx_addr'', stub_params = [T_addr, T_int, T_int], stub_result = T_addr\<rparr>
      [V64 5, V32 (- 1), V32 4] = Some [V64 5, V32 (- 1), V32 4] \<and> accepts (params sg) [V64 5, V32 (- 1), V32 4]"
proof -
  let ?stb = "\<lparr>arity = 3, symbol = ''fi_rx_addr'', stub_params = [T_addr, T_int, T_int], stub_result = T_addr\<rparr>"
  have "?stb \<in> set compiled_stubs" by (simp add: compiled_stubs_def fi_domain_stubs_def)
  moreover have "accepts (stub_params ?stb) [V64 5, V32 (- 1), V32 4]" by (simp add: accepts_def width_def)
  ultimately show ?thesis using stubs_forward [of ?stb "[V64 5, V32 (- 1), V32 4]"] by auto
qed

text \<open>The bindings have a stub for every inline function of the API, exactly one, in the order of
  the headers.\<close>

theorem stubs_cover_api:
  "map symbol all_stubs = map fst api_signatures \<and> distinct (map symbol all_stubs)"
  using symbols symbols_differ by simp

text \<open>C18. The stubs leave out enumerations: every line gives the types of the parameters that are
  not enumerations, in order, though the macro counts them all; so the lines of the functions that
  take one, which are in the files of atomics and collectives only, are too short for their macro
  and do not compile, and all others do.\<close>

theorem enum_parameters_missing:
  assumes "stb \<in> set all_stubs"
  shows "\<exists>sg. map_of api_signatures (symbol stb) = Some sg \<and>
    fits (stub_params stb) (filter (\<lambda>t. t \<noteq> T_enum) (params sg)) \<and> arity stb = length (params sg) \<and>
    (forwards_args api_signatures stb vs = None) = (T_enum \<in> set (params sg)) \<and>
    (T_enum \<in> set (params sg) \<longrightarrow> stb \<in> set (fi_atomic_stubs @ fi_collective_stubs))"
proof -
  let ?given = "\<lambda>sg. filter (\<lambda>t. t \<noteq> T_enum) (params sg)"
  obtain sg where sg: "map_of api_signatures (symbol stb) = Some sg" "stub_ok stb sg"
    "T_enum \<in> set (params sg) \<longrightarrow> stb \<in> set (fi_atomic_stubs @ fi_collective_stubs)"
    using stub_okE [OF assms] by metis
  from sg(2) have ok: "fits (stub_params stb) (?given sg)" "arity stb = length (params sg)"
    by (simp_all add: stub_ok_def)
  have none: "(forwards_args api_signatures stb vs = None) = (length (?given sg) \<noteq> length (params sg))"
    using sg(1) ok length_fits [OF ok(1)] by (simp add: forwards_args_def)
  have "length (?given sg) = length (params sg) \<longleftrightarrow> T_enum \<notin> set (params sg)"
  proof (cases "T_enum \<in> set (params sg)")
    case True
    then show ?thesis using length_filter_less [of T_enum "params sg" "\<lambda>t. t \<noteq> T_enum"] by simp
  next
    case False
    then have "?given sg = params sg" by (auto intro!: filter_True)
    with False show ?thesis by simp
  qed
  with none have "(forwards_args api_signatures stb vs = None) = (T_enum \<in> set (params sg))" by simp
  with sg(1,3) ok show ?thesis by (intro exI [of _ sg] conjI)
qed

theorem enum_parameters_missing_witness:
  "\<exists>sg. map_of api_signatures ''fi_query_atomic'' = Some sg \<and> arity (last fi_atomic_stubs) = length (params sg) \<and>
    forwards_args api_signatures (last fi_atomic_stubs) [V64 0, V64 0, V64 0] = None"
proof -
  have stb: "last fi_atomic_stubs \<in> set all_stubs" "symbol (last fi_atomic_stubs) = ''fi_query_atomic''"
    by (simp_all add: all_stubs_def fi_atomic_stubs_def)
  have "\<exists>sg. (''fi_query_atomic'', sg) \<in> set fi_atomic_signatures \<and> T_enum \<in> set (params sg)"
    by (simp add: fi_atomic_signatures_def)
  then obtain sg where sg: "(''fi_query_atomic'', sg) \<in> set api_signatures" "T_enum \<in> set (params sg)"
    by (auto simp: api_signatures_def)
  with map_of_is_SomeI [OF symbols_differ sg(1)] show ?thesis
    using enum_parameters_missing [OF stb(1), of "[V64 0, V64 0, V64 0]"] stb(2) by auto
qed

text \<open>The inline functions convert nothing: the prototype of the operation a function hands its
  parameters to is the prototype of the function.\<close>

theorem prototypes_agree:
  "list_all (\<lambda>(f, sg). case calls sg of
      None \<Rightarrow> True
    | Some (fs, tab, table, opn) \<Rightarrow> proto table opn = Some (ctype_of (result sg), map ctype_of (params sg))) api_signatures"
  unfolding list_all_iff by (clarsimp split: option.split) (rule signature_proto)

end
