(* ===== verification/Ffi_Calls.thy ===== *)
theory Ffi_Calls
  imports Ffi_Stubs
begin

section \<open>Through the bindings to the provider\<close>

text \<open>
  A stub, the inline function it stands for and the table of the object put together: what the
  foreign side gets when it calls a stub. \<open>inline_functions\<close> are the inline functions that hand their
  parameters to an operation, by their names, on the values a compiled call passes; \<open>stub_call\<close>
  is the call of a stub.
\<close>

subsection \<open>Calling an inline function by name\<close>

text \<open>The values of arguments of 8, 4 and 1 bytes.\<close>

fun val64 :: "cval \<Rightarrow> u64" where "val64 (V64 w) = w" | "val64 _ = 0"
fun val32 :: "cval \<Rightarrow> u32" where "val32 (V32 w) = w" | "val32 _ = 0"

definition inline_functions :: "'p provider \<Rightarrow>
    (string \<times> (cval list \<Rightarrow> 'p machine \<Rightarrow> (cval \<times> 'p machine) option)) list" where
  "inline_functions P = [
    (''fi_close'', \<lambda>vs s. fi_close P (val64 (vs ! 0)) s),
    (''fi_control'', \<lambda>vs s. fi_control P (val64 (vs ! 0)) (val32 (vs ! 1)) (val64 (vs ! 2)) s),
    (''fi_open_ops'', \<lambda>vs s. fi_open_ops P (val64 (vs ! 0)) (val64 (vs ! 1)) (val64 (vs ! 2)) (val64 (vs ! 3))
       (val64 (vs ! 4)) s),
    (''fi_getpeer'', \<lambda>vs s. fi_getpeer P (val64 (vs ! 0)) (val64 (vs ! 1)) (val64 (vs ! 2)) s),
    (''fi_listen'', \<lambda>vs s. fi_listen P (val64 (vs ! 0)) s),
    (''fi_connect'', \<lambda>vs s. fi_connect P (val64 (vs ! 0)) (val64 (vs ! 1)) (val64 (vs ! 2))
       (val64 (vs ! 3)) s),
    (''fi_accept'', \<lambda>vs s. fi_accept P (val64 (vs ! 0)) (val64 (vs ! 1)) (val64 (vs ! 2)) s),
    (''fi_reject'', \<lambda>vs s. fi_reject P (val64 (vs ! 0)) (val64 (vs ! 1)) (val64 (vs ! 2)) (val64 (vs ! 3)) s),
    (''fi_shutdown'', \<lambda>vs s. fi_shutdown P (val64 (vs ! 0)) (val64 (vs ! 1)) s),
    (''fi_domain'', \<lambda>vs s. fi_domain P (val64 (vs ! 0)) (val64 (vs ! 1)) (val64 (vs ! 2)) (val64 (vs ! 3)) s),
    (''fi_domain_bind'', \<lambda>vs s. fi_domain_bind P (val64 (vs ! 0)) (val64 (vs ! 1)) (val64 (vs ! 2)) s),
    (''fi_cq_open'', \<lambda>vs s. fi_cq_open P (val64 (vs ! 0)) (val64 (vs ! 1)) (val64 (vs ! 2))
       (val64 (vs ! 3)) s),
    (''fi_cntr_open'', \<lambda>vs s. fi_cntr_open P (val64 (vs ! 0)) (val64 (vs ! 1)) (val64 (vs ! 2))
       (val64 (vs ! 3)) s),
    (''fi_wait_open'', \<lambda>vs s. fi_wait_open P (val64 (vs ! 0)) (val64 (vs ! 1)) (val64 (vs ! 2)) s),
    (''fi_poll_open'', \<lambda>vs s. fi_poll_open P (val64 (vs ! 0)) (val64 (vs ! 1)) (val64 (vs ! 2)) s),
    (''fi_mr_reg'', \<lambda>vs s. fi_mr_reg P (val64 (vs ! 0)) (val64 (vs ! 1)) (val64 (vs ! 2)) (val64 (vs ! 3))
       (val64 (vs ! 4)) (val64 (vs ! 5)) (val64 (vs ! 6)) (val64 (vs ! 7)) (val64 (vs ! 8)) s),
    (''fi_mr_regv'', \<lambda>vs s. fi_mr_regv P (val64 (vs ! 0)) (val64 (vs ! 1)) (val64 (vs ! 2)) (val64 (vs ! 3))
       (val64 (vs ! 4)) (val64 (vs ! 5)) (val64 (vs ! 6)) (val64 (vs ! 7)) (val64 (vs ! 8)) s),
    (''fi_mr_regattr'', \<lambda>vs s. fi_mr_regattr P (val64 (vs ! 0)) (val64 (vs ! 1)) (val64 (vs ! 2))
       (val64 (vs ! 3)) s),
    (''fi_mr_bind'', \<lambda>vs s. fi_mr_bind P (val64 (vs ! 0)) (val64 (vs ! 1)) (val64 (vs ! 2)) s),
    (''fi_av_open'', \<lambda>vs s. fi_av_open P (val64 (vs ! 0)) (val64 (vs ! 1)) (val64 (vs ! 2))
       (val64 (vs ! 3)) s),
    (''fi_av_bind'', \<lambda>vs s. fi_av_bind P (val64 (vs ! 0)) (val64 (vs ! 1)) (val64 (vs ! 2)) s),
    (''fi_av_insert'', \<lambda>vs s. fi_av_insert P (val64 (vs ! 0)) (val64 (vs ! 1)) (val64 (vs ! 2))
       (val64 (vs ! 3)) (val64 (vs ! 4)) (val64 (vs ! 5)) s),
    (''fi_av_insertsvc'', \<lambda>vs s. fi_av_insertsvc P (val64 (vs ! 0)) (val64 (vs ! 1)) (val64 (vs ! 2))
       (val64 (vs ! 3)) (val64 (vs ! 4)) (val64 (vs ! 5)) s),
    (''fi_av_insertsym'', \<lambda>vs s. fi_av_insertsym P (val64 (vs ! 0)) (val64 (vs ! 1)) (val64 (vs ! 2))
       (val64 (vs ! 3)) (val64 (vs ! 4)) (val64 (vs ! 5)) (val64 (vs ! 6)) (val64 (vs ! 7)) s),
    (''fi_av_remove'', \<lambda>vs s. fi_av_remove P (val64 (vs ! 0)) (val64 (vs ! 1)) (val64 (vs ! 2))
       (val64 (vs ! 3)) s),
    (''fi_av_lookup'', \<lambda>vs s. fi_av_lookup P (val64 (vs ! 0)) (val64 (vs ! 1)) (val64 (vs ! 2))
       (val64 (vs ! 3)) s),
    (''fi_av_straddr'', \<lambda>vs s. fi_av_straddr P (val64 (vs ! 0)) (val64 (vs ! 1)) (val64 (vs ! 2))
       (val64 (vs ! 3)) s),
    (''fi_passive_ep'', \<lambda>vs s. fi_passive_ep P (val64 (vs ! 0)) (val64 (vs ! 1)) (val64 (vs ! 2))
       (val64 (vs ! 3)) s),
    (''fi_endpoint'', \<lambda>vs s. fi_endpoint P (val64 (vs ! 0)) (val64 (vs ! 1)) (val64 (vs ! 2))
       (val64 (vs ! 3)) s),
    (''fi_scalable_ep'', \<lambda>vs s. fi_scalable_ep P (val64 (vs ! 0)) (val64 (vs ! 1)) (val64 (vs ! 2))
       (val64 (vs ! 3)) s),
    (''fi_ep_bind'', \<lambda>vs s. fi_ep_bind P (val64 (vs ! 0)) (val64 (vs ! 1)) (val64 (vs ! 2)) s),
    (''fi_pep_bind'', \<lambda>vs s. fi_pep_bind P (val64 (vs ! 0)) (val64 (vs ! 1)) (val64 (vs ! 2)) s),
    (''fi_scalable_ep_bind'', \<lambda>vs s. fi_scalable_ep_bind P (val64 (vs ! 0)) (val64 (vs ! 1))
       (val64 (vs ! 2)) s),
    (''fi_tx_context'', \<lambda>vs s. fi_tx_context P (val64 (vs ! 0)) (val32 (vs ! 1)) (val64 (vs ! 2))
       (val64 (vs ! 3)) (val64 (vs ! 4)) s),
    (''fi_rx_context'', \<lambda>vs s. fi_rx_context P (val64 (vs ! 0)) (val32 (vs ! 1)) (val64 (vs ! 2))
       (val64 (vs ! 3)) (val64 (vs ! 4)) s),
    (''fi_rx_size_left'', \<lambda>vs s. fi_rx_size_left P (val64 (vs ! 0)) s),
    (''fi_tx_size_left'', \<lambda>vs s. fi_tx_size_left P (val64 (vs ! 0)) s),
    (''fi_stx_context'', \<lambda>vs s. fi_stx_context P (val64 (vs ! 0)) (val64 (vs ! 1)) (val64 (vs ! 2))
       (val64 (vs ! 3)) s),
    (''fi_srx_context'', \<lambda>vs s. fi_srx_context P (val64 (vs ! 0)) (val64 (vs ! 1)) (val64 (vs ! 2))
       (val64 (vs ! 3)) s),
    (''fi_recv'', \<lambda>vs s. fi_recv P (val64 (vs ! 0)) (val64 (vs ! 1)) (val64 (vs ! 2)) (val64 (vs ! 3))
       (val64 (vs ! 4)) (val64 (vs ! 5)) s),
    (''fi_recvv'', \<lambda>vs s. fi_recvv P (val64 (vs ! 0)) (val64 (vs ! 1)) (val64 (vs ! 2)) (val64 (vs ! 3))
       (val64 (vs ! 4)) (val64 (vs ! 5)) s),
    (''fi_recvmsg'', \<lambda>vs s. fi_recvmsg P (val64 (vs ! 0)) (val64 (vs ! 1)) (val64 (vs ! 2)) s),
    (''fi_send'', \<lambda>vs s. fi_send P (val64 (vs ! 0)) (val64 (vs ! 1)) (val64 (vs ! 2)) (val64 (vs ! 3))
       (val64 (vs ! 4)) (val64 (vs ! 5)) s),
    (''fi_sendv'', \<lambda>vs s. fi_sendv P (val64 (vs ! 0)) (val64 (vs ! 1)) (val64 (vs ! 2)) (val64 (vs ! 3))
       (val64 (vs ! 4)) (val64 (vs ! 5)) s),
    (''fi_sendmsg'', \<lambda>vs s. fi_sendmsg P (val64 (vs ! 0)) (val64 (vs ! 1)) (val64 (vs ! 2)) s),
    (''fi_inject'', \<lambda>vs s. fi_inject P (val64 (vs ! 0)) (val64 (vs ! 1)) (val64 (vs ! 2)) (val64 (vs ! 3)) s),
    (''fi_senddata'', \<lambda>vs s. fi_senddata P (val64 (vs ! 0)) (val64 (vs ! 1)) (val64 (vs ! 2)) (val64 (vs ! 3))
       (val64 (vs ! 4)) (val64 (vs ! 5)) (val64 (vs ! 6)) s),
    (''fi_injectdata'', \<lambda>vs s. fi_injectdata P (val64 (vs ! 0)) (val64 (vs ! 1)) (val64 (vs ! 2))
       (val64 (vs ! 3)) (val64 (vs ! 4)) s),
    (''fi_trywait'', \<lambda>vs s. fi_trywait P (val64 (vs ! 0)) (val64 (vs ! 1)) (val32 (vs ! 2)) s),
    (''fi_wait'', \<lambda>vs s. fi_wait P (val64 (vs ! 0)) (val32 (vs ! 1)) s),
    (''fi_poll'', \<lambda>vs s. fi_poll P (val64 (vs ! 0)) (val64 (vs ! 1)) (val32 (vs ! 2)) s),
    (''fi_poll_add'', \<lambda>vs s. fi_poll_add P (val64 (vs ! 0)) (val64 (vs ! 1)) (val64 (vs ! 2)) s),
    (''fi_poll_del'', \<lambda>vs s. fi_poll_del P (val64 (vs ! 0)) (val64 (vs ! 1)) (val64 (vs ! 2)) s),
    (''fi_eq_open'', \<lambda>vs s. fi_eq_open P (val64 (vs ! 0)) (val64 (vs ! 1)) (val64 (vs ! 2))
       (val64 (vs ! 3)) s),
    (''fi_eq_read'', \<lambda>vs s. fi_eq_read P (val64 (vs ! 0)) (val64 (vs ! 1)) (val64 (vs ! 2)) (val64 (vs ! 3))
       (val64 (vs ! 4)) s),
    (''fi_eq_readerr'', \<lambda>vs s. fi_eq_readerr P (val64 (vs ! 0)) (val64 (vs ! 1)) (val64 (vs ! 2)) s),
    (''fi_eq_write'', \<lambda>vs s. fi_eq_write P (val64 (vs ! 0)) (val32 (vs ! 1)) (val64 (vs ! 2)) (val64 (vs ! 3))
       (val64 (vs ! 4)) s),
    (''fi_eq_sread'', \<lambda>vs s. fi_eq_sread P (val64 (vs ! 0)) (val64 (vs ! 1)) (val64 (vs ! 2)) (val64 (vs ! 3))
       (val32 (vs ! 4)) (val64 (vs ! 5)) s),
    (''fi_eq_strerror'', \<lambda>vs s. fi_eq_strerror P (val64 (vs ! 0)) (val32 (vs ! 1)) (val64 (vs ! 2))
       (val64 (vs ! 3)) (val64 (vs ! 4)) s),
    (''fi_cq_read'', \<lambda>vs s. fi_cq_read P (val64 (vs ! 0)) (val64 (vs ! 1)) (val64 (vs ! 2)) s),
    (''fi_cq_readfrom'', \<lambda>vs s. fi_cq_readfrom P (val64 (vs ! 0)) (val64 (vs ! 1)) (val64 (vs ! 2))
       (val64 (vs ! 3)) s),
    (''fi_cq_readerr'', \<lambda>vs s. fi_cq_readerr P (val64 (vs ! 0)) (val64 (vs ! 1)) (val64 (vs ! 2)) s),
    (''fi_cq_sread'', \<lambda>vs s. fi_cq_sread P (val64 (vs ! 0)) (val64 (vs ! 1)) (val64 (vs ! 2)) (val64 (vs ! 3))
       (val32 (vs ! 4)) s),
    (''fi_cq_sreadfrom'', \<lambda>vs s. fi_cq_sreadfrom P (val64 (vs ! 0)) (val64 (vs ! 1)) (val64 (vs ! 2))
       (val64 (vs ! 3)) (val64 (vs ! 4)) (val32 (vs ! 5)) s),
    (''fi_cq_signal'', \<lambda>vs s. fi_cq_signal P (val64 (vs ! 0)) s),
    (''fi_cq_strerror'', \<lambda>vs s. fi_cq_strerror P (val64 (vs ! 0)) (val32 (vs ! 1)) (val64 (vs ! 2))
       (val64 (vs ! 3)) (val64 (vs ! 4)) s),
    (''fi_cntr_read'', \<lambda>vs s. fi_cntr_read P (val64 (vs ! 0)) s),
    (''fi_cntr_readerr'', \<lambda>vs s. fi_cntr_readerr P (val64 (vs ! 0)) s),
    (''fi_cntr_add'', \<lambda>vs s. fi_cntr_add P (val64 (vs ! 0)) (val64 (vs ! 1)) s),
    (''fi_cntr_set'', \<lambda>vs s. fi_cntr_set P (val64 (vs ! 0)) (val64 (vs ! 1)) s),
    (''fi_cntr_wait'', \<lambda>vs s. fi_cntr_wait P (val64 (vs ! 0)) (val64 (vs ! 1)) (val32 (vs ! 2)) s),
    (''fi_read'', \<lambda>vs s. fi_read P (val64 (vs ! 0)) (val64 (vs ! 1)) (val64 (vs ! 2)) (val64 (vs ! 3))
       (val64 (vs ! 4)) (val64 (vs ! 5)) (val64 (vs ! 6)) (val64 (vs ! 7)) s),
    (''fi_readv'', \<lambda>vs s. fi_readv P (val64 (vs ! 0)) (val64 (vs ! 1)) (val64 (vs ! 2)) (val64 (vs ! 3))
       (val64 (vs ! 4)) (val64 (vs ! 5)) (val64 (vs ! 6)) (val64 (vs ! 7)) s),
    (''fi_readmsg'', \<lambda>vs s. fi_readmsg P (val64 (vs ! 0)) (val64 (vs ! 1)) (val64 (vs ! 2)) s),
    (''fi_write'', \<lambda>vs s. fi_write P (val64 (vs ! 0)) (val64 (vs ! 1)) (val64 (vs ! 2)) (val64 (vs ! 3))
       (val64 (vs ! 4)) (val64 (vs ! 5)) (val64 (vs ! 6)) (val64 (vs ! 7)) s),
    (''fi_writev'', \<lambda>vs s. fi_writev P (val64 (vs ! 0)) (val64 (vs ! 1)) (val64 (vs ! 2)) (val64 (vs ! 3))
       (val64 (vs ! 4)) (val64 (vs ! 5)) (val64 (vs ! 6)) (val64 (vs ! 7)) s),
    (''fi_writemsg'', \<lambda>vs s. fi_writemsg P (val64 (vs ! 0)) (val64 (vs ! 1)) (val64 (vs ! 2)) s),
    (''fi_inject_write'', \<lambda>vs s. fi_inject_write P (val64 (vs ! 0)) (val64 (vs ! 1)) (val64 (vs ! 2))
       (val64 (vs ! 3)) (val64 (vs ! 4)) (val64 (vs ! 5)) s),
    (''fi_writedata'', \<lambda>vs s. fi_writedata P (val64 (vs ! 0)) (val64 (vs ! 1)) (val64 (vs ! 2))
       (val64 (vs ! 3)) (val64 (vs ! 4)) (val64 (vs ! 5)) (val64 (vs ! 6)) (val64 (vs ! 7)) (val64 (vs ! 8)) s),
    (''fi_inject_writedata'', \<lambda>vs s. fi_inject_writedata P (val64 (vs ! 0)) (val64 (vs ! 1)) (val64 (vs ! 2))
       (val64 (vs ! 3)) (val64 (vs ! 4)) (val64 (vs ! 5)) (val64 (vs ! 6)) s),
    (''fi_trecv'', \<lambda>vs s. fi_trecv P (val64 (vs ! 0)) (val64 (vs ! 1)) (val64 (vs ! 2)) (val64 (vs ! 3))
       (val64 (vs ! 4)) (val64 (vs ! 5)) (val64 (vs ! 6)) (val64 (vs ! 7)) s),
    (''fi_trecvv'', \<lambda>vs s. fi_trecvv P (val64 (vs ! 0)) (val64 (vs ! 1)) (val64 (vs ! 2)) (val64 (vs ! 3))
       (val64 (vs ! 4)) (val64 (vs ! 5)) (val64 (vs ! 6)) (val64 (vs ! 7)) s),
    (''fi_trecvmsg'', \<lambda>vs s. fi_trecvmsg P (val64 (vs ! 0)) (val64 (vs ! 1)) (val64 (vs ! 2)) s),
    (''fi_tsend'', \<lambda>vs s. fi_tsend P (val64 (vs ! 0)) (val64 (vs ! 1)) (val64 (vs ! 2)) (val64 (vs ! 3))
       (val64 (vs ! 4)) (val64 (vs ! 5)) (val64 (vs ! 6)) s),
    (''fi_tsendv'', \<lambda>vs s. fi_tsendv P (val64 (vs ! 0)) (val64 (vs ! 1)) (val64 (vs ! 2)) (val64 (vs ! 3))
       (val64 (vs ! 4)) (val64 (vs ! 5)) (val64 (vs ! 6)) s),
    (''fi_tsendmsg'', \<lambda>vs s. fi_tsendmsg P (val64 (vs ! 0)) (val64 (vs ! 1)) (val64 (vs ! 2)) s),
    (''fi_tinject'', \<lambda>vs s. fi_tinject P (val64 (vs ! 0)) (val64 (vs ! 1)) (val64 (vs ! 2)) (val64 (vs ! 3))
       (val64 (vs ! 4)) s),
    (''fi_tsenddata'', \<lambda>vs s. fi_tsenddata P (val64 (vs ! 0)) (val64 (vs ! 1)) (val64 (vs ! 2))
       (val64 (vs ! 3)) (val64 (vs ! 4)) (val64 (vs ! 5)) (val64 (vs ! 6)) (val64 (vs ! 7)) s),
    (''fi_tinjectdata'', \<lambda>vs s. fi_tinjectdata P (val64 (vs ! 0)) (val64 (vs ! 1)) (val64 (vs ! 2))
       (val64 (vs ! 3)) (val64 (vs ! 4)) (val64 (vs ! 5)) s),
    (''fi_atomicmsg'', \<lambda>vs s. fi_atomicmsg P (val64 (vs ! 0)) (val64 (vs ! 1)) (val64 (vs ! 2)) s),
    (''fi_fetch_atomicmsg'', \<lambda>vs s. fi_fetch_atomicmsg P (val64 (vs ! 0)) (val64 (vs ! 1)) (val64 (vs ! 2))
       (val64 (vs ! 3)) (val64 (vs ! 4)) (val64 (vs ! 5)) s),
    (''fi_compare_atomicmsg'', \<lambda>vs s. fi_compare_atomicmsg P (val64 (vs ! 0)) (val64 (vs ! 1))
       (val64 (vs ! 2)) (val64 (vs ! 3)) (val64 (vs ! 4)) (val64 (vs ! 5)) (val64 (vs ! 6)) (val64 (vs ! 7))
       (val64 (vs ! 8)) s),
    (''fi_av_set_union'', \<lambda>vs s. fi_av_set_union P (val64 (vs ! 0)) (val64 (vs ! 1)) s),
    (''fi_av_set_intersect'', \<lambda>vs s. fi_av_set_intersect P (val64 (vs ! 0)) (val64 (vs ! 1)) s),
    (''fi_av_set_diff'', \<lambda>vs s. fi_av_set_diff P (val64 (vs ! 0)) (val64 (vs ! 1)) s),
    (''fi_av_set_insert'', \<lambda>vs s. fi_av_set_insert P (val64 (vs ! 0)) (val64 (vs ! 1)) s),
    (''fi_av_set_remove'', \<lambda>vs s. fi_av_set_remove P (val64 (vs ! 0)) (val64 (vs ! 1)) s),
    (''fi_av_set_addr'', \<lambda>vs s. fi_av_set_addr P (val64 (vs ! 0)) (val64 (vs ! 1)) s),
    (''fi_barrier'', \<lambda>vs s. fi_barrier P (val64 (vs ! 0)) (val64 (vs ! 1)) (val64 (vs ! 2)) s)]"

definition stub_call :: "'p provider \<Rightarrow> stub \<Rightarrow> cval list \<Rightarrow> 'p machine \<Rightarrow> (cval \<times> 'p machine) option" where
  "stub_call P stb vs s = do {
     args \<leftarrow> forwards_args api_signatures stb vs;
     f \<leftarrow> map_of (inline_functions P) (symbol stb);
     f args s }"

subsection \<open>Every inline function\<close>

text \<open>\<open>hands_on sg F\<close>: called with values of the declared types, \<open>F\<close> calls the operation of \<open>sg\<close> in the
  table of its first argument with the very same values.\<close>

definition hands_on :: "'p provider \<Rightarrow> signature \<Rightarrow> (cval list \<Rightarrow> 'p machine \<Rightarrow> (cval \<times> 'p machine) option) \<Rightarrow> bool" where
  "hands_on P sg F \<longleftrightarrow> (\<exists>fs tab table opn. calls sg = Some (fs, tab, table, opn) \<and>
     (\<forall>vs s. accepts (params sg) vs \<longrightarrow>
        (\<exists>p as. vs = V64 p # as \<and> F vs s = vcall P p fs tab table opn vs s)))"

lemma hands_onI:
  assumes "calls sg = Some (fs, tab, table, opn)"
    and "\<And>vs. accepts (params sg) vs \<Longrightarrow> args vs = vs \<and> (\<exists>as. vs = V64 (obj vs) # as)"
  shows "hands_on P sg (\<lambda>vs s. vcall P (obj vs) fs tab table opn (args vs) s)"
proof -
  have "\<exists>p as. vs = V64 p # as \<and> vcall P (obj vs) fs tab table opn (args vs) s = vcall P p fs tab table opn vs s"
    if "accepts (params sg) vs" for vs s
    using assms(2) [OF that] by (intro exI [of _ "obj vs"]) auto
  with assms(1) show ?thesis unfolding hands_on_def by blast
qed

lemma val_back: "bytes v = 8 \<Longrightarrow> V64 (val64 v) = v" "bytes v = 4 \<Longrightarrow> V32 (val32 v) = v"
  by (cases v; simp)+

lemma accepts_Nil: "accepts [] vs \<longleftrightarrow> vs = []"
  by (simp add: accepts_def)

lemma accepts_Cons: "accepts (t # ts) vs \<longleftrightarrow> (\<exists>v vs'. vs = v # vs' \<and> bytes v = width t \<and> accepts ts vs')"
  by (auto simp: accepts_def list_all2_Cons1)

lemma widths: "width T_ptr = 8" "width T_u32 = 4" "width T_int = 4" "width T_u64 = 8" "width T_size = 8"
  "width T_ssize = 8" "width T_addr = 8"
  by (simp_all add: width_def)

text \<open>The signatures with an operation and no enumeration among the parameters.\<close>

definition handed_on :: "(string \<times> signature) list" where
  "handed_on = filter (\<lambda>(f, sg). calls sg \<noteq> None \<and> T_enum \<notin> set (params sg)) api_signatures"

lemma inline_functions_hand_on:
  "list_all2 (\<lambda>(f, sg) (g, F). f = g \<and> hands_on P sg F) handed_on (inline_functions P)"
  apply (simp only: handed_on_def signature_defs)
  apply (simp add: inline_functions_def)
  apply (simp only: wrappers [abs_def] upcast_simps)
  apply (intro conjI)
  apply (rule hands_onI, simp, clarsimp simp: accepts_Cons accepts_Nil widths val_back)+
  done

lemma hands_on_lookup:
  assumes "(f, sg) \<in> set api_signatures" and "calls sg \<noteq> None" and "T_enum \<notin> set (params sg)"
  obtains F where "map_of (inline_functions P) f = Some F" and "hands_on P sg F"
proof -
  note fs = inline_functions_hand_on [of P]
  have "map fst handed_on = map fst (inline_functions P)"
    using fs by (induction rule: list_all2_induct) auto
  moreover have "distinct (map fst handed_on)"
    unfolding handed_on_def using symbols_differ by (rule distinct_map_filter)
  ultimately have names: "distinct (map fst (inline_functions P))" by simp
  have "(f, sg) \<in> set handed_on" using assms by (auto simp: handed_on_def)
  then obtain F where "(f, F) \<in> set (inline_functions P)" "hands_on P sg F"
    using fs by (fastforce simp: list_all2_conv_all_nth in_set_conv_nth)
  then show ?thesis using that names by (simp add: map_of_is_SomeI)
qed

text \<open>A stub of a function that hands its parameters on calls the slot.\<close>

lemma stub_operation:
  assumes "stb \<in> set all_stubs" and "map_of api_signatures (symbol stb) = Some sg"
    and "calls sg = Some (fs, tab, table, opn)" and "T_enum \<notin> set (params sg)" and "accepts (stub_params stb) vs"
  shows "\<exists>p as. vs = V64 p # as \<and> stub_call P stb vs s = (case meth s p fs tab table opn of
        None \<Rightarrow> None
      | Some f \<Rightarrow> if f = NULL then None else invoke P f (width (stub_result stb)) vs s)"
proof -
  note fw = stub_forwards [OF assms(1,2,4,5)]
  have sg: "(symbol stb, sg) \<in> set api_signatures" using assms(2) by (rule map_of_SomeD)
  obtain F where F: "map_of (inline_functions P) (symbol stb) = Some F" "hands_on P sg F"
    using hands_on_lookup [OF sg _ assms(4)] assms(3) by auto
  then obtain p as where at: "vs = V64 p # as" "F vs s = vcall P p fs tab table opn vs s"
    using fw assms(3) unfolding hands_on_def by fastforce
  have pr: "proto table opn = Some (ctype_of (result sg), map ctype_of (params sg))"
    by (rule signature_proto [OF sg assms(3)])
  have "map bytes vs = map sizeof (map ctype_of (params sg))"
    using fw by (auto simp: accepts_def width_def list_all2_conv_all_nth intro: nth_equalityI)
  then have "vcall P p fs tab table opn vs s = (case meth s p fs tab table opn of
      None \<Rightarrow> None | Some f \<Rightarrow> if f = NULL then None else invoke P f (width (stub_result stb)) vs s)"
    using fw pr by (cases "meth s p fs tab table opn") (simp_all add: vcall_meth call_def invoke_def width_def)
  then have "stub_call P stb vs s = (case meth s p fs tab table opn of
      None \<Rightarrow> None | Some f \<Rightarrow> if f = NULL then None else invoke P f (width (stub_result stb)) vs s)"
    using fw F(1) at(2) by (simp add: stub_call_def)
  with at(1) show ?thesis by blast
qed


text \<open>A completion queue whose \<open>read\<close> is at 0x31, and a provider that has two completions for it.\<close>

definition example_cq :: "unit machine" where
  "example_cq = boot (object 0x1000 struct_fid_cq [(''ops'', V64 0x2000)] @
     object 0x2000 struct_fi_ops_cq [(''read'', V64 0x31)]) 0x9000 ()"

definition cq_provider :: "unit provider" where
  "cq_provider f args s = (if f = 0x31 \<and> args = [V64 0x1000, V64 0x700, V64 4] then Some (V64 2, s) else None)"


end
