(* ===== verification/Hs_Imports.thy ===== *)
theory Hs_Imports
  imports Hs_Types Ffi_Calls
begin

section \<open>The imports of the bindings\<close>

text \<open>
  A line \<open>#cinline f , t1 -> .. -> IO r\<close> of an \<open>.hsc\<close> file imports the stub of the inline function \<open>f\<close> at a
  Haskell type; here it is an \<open>hs_import\<close>, and the numbers (and addresses) of a Haskell call are integers.
  \<open>linked_imports\<close> are the imports of the modules whose helper files the package compiles.
\<close>

record hs_import =
  import_name :: string
  import_args :: "hs_type list"
  import_result :: hs_type

definition hs_fabric_imports_1 :: "hs_import list" where
  "hs_fabric_imports_1 = [
    \<lparr>import_name = ''fi_tc_dscp_set'', import_args = [H_uchar], import_result = H_uint\<rparr>,
    \<lparr>import_name = ''fi_tc_dscp_get'', import_args = [H_uint], import_result = H_uchar\<rparr>]"

definition hs_fabric_imports_2 :: "hs_import list" where
  "hs_fabric_imports_2 = [
    \<lparr>import_name = ''fi_allocinfo'', import_args = [], import_result = H_ptr\<rparr>]"

definition hs_fabric_imports_3 :: "hs_import list" where
  "hs_fabric_imports_3 = [
    \<lparr>import_name = ''fi_close'', import_args = [H_ptr], import_result = H_int\<rparr>]"

definition hs_fabric_imports_4 :: "hs_import list" where
  "hs_fabric_imports_4 = [
    \<lparr>import_name = ''fi_control'', import_args = [H_ptr, H_int, H_ptr], import_result = H_int\<rparr>,
    \<lparr>import_name = ''fi_alias'', import_args = [H_ptr, H_ptr, H_ulong], import_result = H_int\<rparr>,
    \<lparr>import_name = ''fi_open_ops'', import_args = [H_ptr, H_ptr, H_ulong, H_ptr, H_ptr], import_result = H_int\<rparr>,
    \<lparr>import_name = ''fi_set_ops'', import_args = [H_ptr, H_ptr, H_ulong, H_ptr, H_ptr], import_result = H_int\<rparr>]"

definition hs_fi_cm_imports :: "hs_import list" where
  "hs_fi_cm_imports = [
    \<lparr>import_name = ''fi_setname'', import_args = [H_ptr, H_ptr, H_size], import_result = H_int\<rparr>,
    \<lparr>import_name = ''fi_getname'', import_args = [H_ptr, H_ptr, H_ptr], import_result = H_int\<rparr>,
    \<lparr>import_name = ''fi_getpeer'', import_args = [H_ptr, H_ptr, H_ptr], import_result = H_int\<rparr>,
    \<lparr>import_name = ''fi_listen'', import_args = [H_ptr], import_result = H_int\<rparr>,
    \<lparr>import_name = ''fi_connect'', import_args = [H_ptr, H_ptr, H_ptr, H_size], import_result = H_int\<rparr>,
    \<lparr>import_name = ''fi_accept'', import_args = [H_ptr, H_ptr, H_size], import_result = H_int\<rparr>,
    \<lparr>import_name = ''fi_reject'', import_args = [H_ptr, H_ptr, H_ptr, H_size], import_result = H_int\<rparr>,
    \<lparr>import_name = ''fi_shutdown'', import_args = [H_ptr, H_ulong], import_result = H_int\<rparr>,
    \<lparr>import_name = ''fi_join'', import_args = [H_ptr, H_ptr, H_ulong, H_ptr, H_ptr], import_result = H_int\<rparr>,
    \<lparr>import_name = ''fi_mc_addr'', import_args = [H_ptr], import_result = H_ulong\<rparr>]"

definition hs_fi_domain_imports :: "hs_import list" where
  "hs_fi_domain_imports = [
    \<lparr>import_name = ''fi_domain'', import_args = [H_ptr, H_ptr, H_ptr, H_ptr], import_result = H_int\<rparr>,
    \<lparr>import_name = ''fi_domain_bind'', import_args = [H_ptr, H_ptr, H_ulong], import_result = H_int\<rparr>,
    \<lparr>import_name = ''fi_cq_open'', import_args = [H_ptr, H_ptr, H_ptr, H_ptr], import_result = H_int\<rparr>,
    \<lparr>import_name = ''fi_cntr_open'', import_args = [H_ptr, H_ptr, H_ptr, H_ptr], import_result = H_int\<rparr>,
    \<lparr>import_name = ''fi_wait_open'', import_args = [H_ptr, H_ptr, H_ptr], import_result = H_int\<rparr>,
    \<lparr>import_name = ''fi_poll_open'', import_args = [H_ptr, H_ptr, H_ptr], import_result = H_int\<rparr>,
    \<lparr>import_name = ''fi_mr_reg'', import_args = [H_ptr, H_ptr, H_size, H_ulong, H_ulong, H_ulong, H_ulong, H_ptr, H_ptr], import_result = H_int\<rparr>,
    \<lparr>import_name = ''fi_mr_regv'', import_args = [H_ptr, H_ptr, H_size, H_ulong, H_ulong, H_ulong, H_ulong, H_ptr, H_ptr], import_result = H_int\<rparr>,
    \<lparr>import_name = ''fi_mr_regattr'', import_args = [H_ptr, H_ptr, H_ulong, H_ptr], import_result = H_int\<rparr>,
    \<lparr>import_name = ''fi_mr_desc'', import_args = [H_ptr], import_result = H_ptr\<rparr>,
    \<lparr>import_name = ''fi_mr_key'', import_args = [H_ptr], import_result = H_ulong\<rparr>,
    \<lparr>import_name = ''fi_mr_raw_attr'', import_args = [H_ptr, H_ptr, H_ptr, H_ptr, H_ulong], import_result = H_int\<rparr>,
    \<lparr>import_name = ''fi_mr_map_raw'', import_args = [H_ptr, H_ulong, H_ptr, H_size, H_ptr, H_ulong], import_result = H_int\<rparr>,
    \<lparr>import_name = ''fi_mr_unmap_key'', import_args = [H_ptr, H_ulong], import_result = H_int\<rparr>,
    \<lparr>import_name = ''fi_mr_bind'', import_args = [H_ptr, H_ptr, H_ulong], import_result = H_int\<rparr>,
    \<lparr>import_name = ''fi_mr_refresh'', import_args = [H_ptr, H_ptr, H_size, H_ulong], import_result = H_int\<rparr>,
    \<lparr>import_name = ''fi_mr_enable'', import_args = [H_ptr], import_result = H_int\<rparr>,
    \<lparr>import_name = ''fi_av_open'', import_args = [H_ptr, H_ptr, H_ptr, H_ptr], import_result = H_int\<rparr>,
    \<lparr>import_name = ''fi_av_bind'', import_args = [H_ptr, H_ptr, H_ulong], import_result = H_int\<rparr>,
    \<lparr>import_name = ''fi_av_insert'', import_args = [H_ptr, H_ptr, H_size, H_ptr, H_ulong, H_ptr], import_result = H_int\<rparr>,
    \<lparr>import_name = ''fi_av_insertsvc'', import_args = [H_ptr, H_ptr, H_ptr, H_ptr, H_ulong, H_ptr], import_result = H_int\<rparr>,
    \<lparr>import_name = ''fi_av_insertsym'', import_args = [H_ptr, H_ptr, H_size, H_ptr, H_size, H_ptr, H_ulong, H_ptr], import_result = H_int\<rparr>,
    \<lparr>import_name = ''fi_av_remove'', import_args = [H_ptr, H_ptr, H_size, H_ulong], import_result = H_int\<rparr>,
    \<lparr>import_name = ''fi_av_lookup'', import_args = [H_ptr, H_ulong, H_ptr, H_ptr], import_result = H_int\<rparr>,
    \<lparr>import_name = ''fi_av_straddr'', import_args = [H_ptr, H_ptr, H_ptr, H_ptr], import_result = H_ptr\<rparr>,
    \<lparr>import_name = ''fi_rx_addr'', import_args = [H_ulong, H_int, H_int], import_result = H_ulong\<rparr>]"

definition hs_fi_endpoint_imports :: "hs_import list" where
  "hs_fi_endpoint_imports = [
    \<lparr>import_name = ''fi_passive_ep'', import_args = [H_ptr, H_ptr, H_ptr, H_ptr], import_result = H_int\<rparr>,
    \<lparr>import_name = ''fi_endpoint'', import_args = [H_ptr, H_ptr, H_ptr, H_ptr], import_result = H_int\<rparr>,
    \<lparr>import_name = ''fi_scalable_ep'', import_args = [H_ptr, H_ptr, H_ptr, H_ptr], import_result = H_int\<rparr>,
    \<lparr>import_name = ''fi_ep_bind'', import_args = [H_ptr, H_ptr, H_ulong], import_result = H_int\<rparr>,
    \<lparr>import_name = ''fi_pep_bind'', import_args = [H_ptr, H_ptr, H_ulong], import_result = H_int\<rparr>,
    \<lparr>import_name = ''fi_scalable_ep_bind'', import_args = [H_ptr, H_ptr, H_ulong], import_result = H_int\<rparr>,
    \<lparr>import_name = ''fi_enable'', import_args = [H_ptr], import_result = H_int\<rparr>,
    \<lparr>import_name = ''fi_cancel'', import_args = [H_ptr, H_ptr], import_result = H_long\<rparr>,
    \<lparr>import_name = ''fi_setopt'', import_args = [H_ptr, H_int, H_int, H_ptr, H_size], import_result = H_int\<rparr>,
    \<lparr>import_name = ''fi_getopt'', import_args = [H_ptr, H_int, H_int, H_ptr, H_ptr], import_result = H_int\<rparr>,
    \<lparr>import_name = ''fi_ep_alias'', import_args = [H_ptr, H_ptr, H_ulong], import_result = H_int\<rparr>,
    \<lparr>import_name = ''fi_tx_context'', import_args = [H_ptr, H_int, H_ptr, H_ptr, H_ptr], import_result = H_int\<rparr>,
    \<lparr>import_name = ''fi_rx_context'', import_args = [H_ptr, H_int, H_ptr, H_ptr, H_ptr], import_result = H_int\<rparr>,
    \<lparr>import_name = ''fi_rx_size_left'', import_args = [H_ptr], import_result = H_long\<rparr>,
    \<lparr>import_name = ''fi_tx_size_left'', import_args = [H_ptr], import_result = H_long\<rparr>,
    \<lparr>import_name = ''fi_stx_context'', import_args = [H_ptr, H_ptr, H_ptr, H_ptr], import_result = H_int\<rparr>,
    \<lparr>import_name = ''fi_srx_context'', import_args = [H_ptr, H_ptr, H_ptr, H_ptr], import_result = H_int\<rparr>,
    \<lparr>import_name = ''fi_recv'', import_args = [H_ptr, H_ptr, H_size, H_ptr, H_ulong, H_ptr], import_result = H_long\<rparr>,
    \<lparr>import_name = ''fi_recvv'', import_args = [H_ptr, H_ptr, H_ptr, H_size, H_ulong, H_ptr], import_result = H_long\<rparr>,
    \<lparr>import_name = ''fi_recvmsg'', import_args = [H_ptr, H_ptr, H_ulong], import_result = H_long\<rparr>,
    \<lparr>import_name = ''fi_send'', import_args = [H_ptr, H_ptr, H_size, H_ptr, H_ulong, H_ptr], import_result = H_long\<rparr>,
    \<lparr>import_name = ''fi_sendv'', import_args = [H_ptr, H_ptr, H_ptr, H_size, H_ulong, H_ptr], import_result = H_long\<rparr>,
    \<lparr>import_name = ''fi_sendmsg'', import_args = [H_ptr, H_ptr, H_ulong], import_result = H_long\<rparr>,
    \<lparr>import_name = ''fi_inject'', import_args = [H_ptr, H_ptr, H_size, H_ulong], import_result = H_long\<rparr>,
    \<lparr>import_name = ''fi_senddata'', import_args = [H_ptr, H_ptr, H_size, H_ptr, H_ulong, H_ulong, H_ptr], import_result = H_long\<rparr>,
    \<lparr>import_name = ''fi_injectdata'', import_args = [H_ptr, H_ptr, H_size, H_ulong, H_ulong], import_result = H_long\<rparr>]"

definition hs_fi_eq_imports :: "hs_import list" where
  "hs_fi_eq_imports = [
    \<lparr>import_name = ''fi_trywait'', import_args = [H_ptr, H_ptr, H_int], import_result = H_int\<rparr>,
    \<lparr>import_name = ''fi_wait'', import_args = [H_ptr, H_int], import_result = H_int\<rparr>,
    \<lparr>import_name = ''fi_poll'', import_args = [H_ptr, H_ptr, H_int], import_result = H_int\<rparr>,
    \<lparr>import_name = ''fi_poll_add'', import_args = [H_ptr, H_ptr, H_ulong], import_result = H_int\<rparr>,
    \<lparr>import_name = ''fi_poll_del'', import_args = [H_ptr, H_ptr, H_ulong], import_result = H_int\<rparr>,
    \<lparr>import_name = ''fi_eq_open'', import_args = [H_ptr, H_ptr, H_ptr, H_ptr], import_result = H_int\<rparr>,
    \<lparr>import_name = ''fi_eq_read'', import_args = [H_ptr, H_ptr, H_ptr, H_size, H_ulong], import_result = H_long\<rparr>,
    \<lparr>import_name = ''fi_eq_readerr'', import_args = [H_ptr, H_ptr, H_ulong], import_result = H_long\<rparr>,
    \<lparr>import_name = ''fi_eq_write'', import_args = [H_ptr, H_uint, H_ptr, H_size, H_ulong], import_result = H_long\<rparr>,
    \<lparr>import_name = ''fi_eq_sread'', import_args = [H_ptr, H_ptr, H_ptr, H_size, H_int, H_ulong], import_result = H_long\<rparr>,
    \<lparr>import_name = ''fi_eq_strerror'', import_args = [H_ptr, H_int, H_ptr, H_ptr, H_size], import_result = H_ptr\<rparr>,
    \<lparr>import_name = ''fi_cq_read'', import_args = [H_ptr, H_ptr, H_size], import_result = H_long\<rparr>,
    \<lparr>import_name = ''fi_cq_readfrom'', import_args = [H_ptr, H_ptr, H_size, H_ptr], import_result = H_long\<rparr>,
    \<lparr>import_name = ''fi_cq_readerr'', import_args = [H_ptr, H_ptr, H_ulong], import_result = H_long\<rparr>,
    \<lparr>import_name = ''fi_cq_sread'', import_args = [H_ptr, H_ptr, H_size, H_ptr, H_int], import_result = H_long\<rparr>,
    \<lparr>import_name = ''fi_cq_sreadfrom'', import_args = [H_ptr, H_ptr, H_size, H_ptr, H_ptr, H_int], import_result = H_long\<rparr>,
    \<lparr>import_name = ''fi_cq_signal'', import_args = [H_ptr], import_result = H_int\<rparr>,
    \<lparr>import_name = ''fi_cq_strerror'', import_args = [H_ptr, H_int, H_ptr, H_ptr, H_size], import_result = H_ptr\<rparr>,
    \<lparr>import_name = ''fi_cntr_read'', import_args = [H_ptr], import_result = H_ulong\<rparr>,
    \<lparr>import_name = ''fi_cntr_readerr'', import_args = [H_ptr], import_result = H_ulong\<rparr>,
    \<lparr>import_name = ''fi_cntr_add'', import_args = [H_ptr, H_ulong], import_result = H_int\<rparr>,
    \<lparr>import_name = ''fi_cntr_adderr'', import_args = [H_ptr, H_ulong], import_result = H_int\<rparr>,
    \<lparr>import_name = ''fi_cntr_set'', import_args = [H_ptr, H_ulong], import_result = H_int\<rparr>,
    \<lparr>import_name = ''fi_cntr_seterr'', import_args = [H_ptr, H_ulong], import_result = H_int\<rparr>,
    \<lparr>import_name = ''fi_cntr_wait'', import_args = [H_ptr, H_ulong, H_int], import_result = H_int\<rparr>]"

definition hs_fi_rma_imports :: "hs_import list" where
  "hs_fi_rma_imports = [
    \<lparr>import_name = ''fi_read'', import_args = [H_ptr, H_ptr, H_size, H_ptr, H_ulong, H_ulong, H_ulong, H_ptr], import_result = H_long\<rparr>,
    \<lparr>import_name = ''fi_readv'', import_args = [H_ptr, H_ptr, H_ptr, H_size, H_ulong, H_ulong, H_ulong, H_ptr], import_result = H_long\<rparr>,
    \<lparr>import_name = ''fi_readmsg'', import_args = [H_ptr, H_ptr, H_ulong], import_result = H_long\<rparr>,
    \<lparr>import_name = ''fi_write'', import_args = [H_ptr, H_ptr, H_size, H_ptr, H_ulong, H_ulong, H_ulong, H_ptr], import_result = H_long\<rparr>,
    \<lparr>import_name = ''fi_writev'', import_args = [H_ptr, H_ptr, H_ptr, H_size, H_ulong, H_ulong, H_ulong, H_ptr], import_result = H_long\<rparr>,
    \<lparr>import_name = ''fi_writemsg'', import_args = [H_ptr, H_ptr, H_ulong], import_result = H_long\<rparr>,
    \<lparr>import_name = ''fi_inject_write'', import_args = [H_ptr, H_ptr, H_size, H_ulong, H_ulong, H_ulong], import_result = H_long\<rparr>,
    \<lparr>import_name = ''fi_writedata'', import_args = [H_ptr, H_ptr, H_size, H_ptr, H_ulong, H_ulong, H_ulong, H_ulong, H_ptr], import_result = H_long\<rparr>,
    \<lparr>import_name = ''fi_inject_writedata'', import_args = [H_ptr, H_ptr, H_size, H_ulong, H_ulong, H_ulong, H_ulong], import_result = H_long\<rparr>]"

definition hs_fi_tagged_imports :: "hs_import list" where
  "hs_fi_tagged_imports = [
    \<lparr>import_name = ''fi_trecv'', import_args = [H_ptr, H_ptr, H_size, H_ptr, H_ulong, H_ulong, H_ulong, H_ptr], import_result = H_long\<rparr>,
    \<lparr>import_name = ''fi_trecvv'', import_args = [H_ptr, H_ptr, H_ptr, H_size, H_ulong, H_ulong, H_ulong, H_ptr], import_result = H_long\<rparr>,
    \<lparr>import_name = ''fi_trecvmsg'', import_args = [H_ptr, H_ptr, H_ulong], import_result = H_long\<rparr>,
    \<lparr>import_name = ''fi_tsend'', import_args = [H_ptr, H_ptr, H_size, H_ptr, H_ulong, H_ulong, H_ptr], import_result = H_long\<rparr>,
    \<lparr>import_name = ''fi_tsendv'', import_args = [H_ptr, H_ptr, H_ptr, H_size, H_ulong, H_ulong, H_ptr], import_result = H_long\<rparr>,
    \<lparr>import_name = ''fi_tsendmsg'', import_args = [H_ptr, H_ptr, H_ulong], import_result = H_long\<rparr>,
    \<lparr>import_name = ''fi_tinject'', import_args = [H_ptr, H_ptr, H_size, H_ulong, H_ulong], import_result = H_long\<rparr>,
    \<lparr>import_name = ''fi_tsenddata'', import_args = [H_ptr, H_ptr, H_size, H_ptr, H_ulong, H_ulong, H_ulong, H_ptr], import_result = H_long\<rparr>,
    \<lparr>import_name = ''fi_tinjectdata'', import_args = [H_ptr, H_ptr, H_size, H_ulong, H_ulong, H_ulong], import_result = H_long\<rparr>]"

definition hs_fi_atomic_imports :: "hs_import list" where
  "hs_fi_atomic_imports = [
    \<lparr>import_name = ''fi_atomic'', import_args = [H_ptr, H_ptr, H_size, H_ptr, H_ulong, H_ulong, H_ulong, H_enum, H_enum, H_ptr], import_result = H_long\<rparr>,
    \<lparr>import_name = ''fi_atomicv'', import_args = [H_ptr, H_ptr, H_ptr, H_size, H_ulong, H_ulong, H_ulong, H_enum, H_enum, H_ptr], import_result = H_long\<rparr>,
    \<lparr>import_name = ''fi_atomicmsg'', import_args = [H_ptr, H_ptr, H_ulong], import_result = H_long\<rparr>,
    \<lparr>import_name = ''fi_inject_atomic'', import_args = [H_ptr, H_ptr, H_size, H_ulong, H_ulong, H_ulong, H_enum, H_enum], import_result = H_long\<rparr>,
    \<lparr>import_name = ''fi_fetch_atomic'', import_args = [H_ptr, H_ptr, H_size, H_ptr, H_ptr, H_ptr, H_ulong, H_ulong, H_ulong, H_enum, H_enum, H_ptr], import_result = H_long\<rparr>,
    \<lparr>import_name = ''fi_fetch_atomicv'', import_args = [H_ptr, H_ptr, H_ptr, H_size, H_ptr, H_ptr, H_size, H_ulong, H_ulong, H_ulong, H_enum, H_enum, H_ptr], import_result = H_long\<rparr>,
    \<lparr>import_name = ''fi_fetch_atomicmsg'', import_args = [H_ptr, H_ptr, H_ptr, H_ptr, H_size, H_ulong], import_result = H_long\<rparr>,
    \<lparr>import_name = ''fi_compare_atomic'', import_args = [H_ptr, H_ptr, H_size, H_ptr, H_ptr, H_ptr, H_ptr, H_ptr, H_ulong, H_ulong, H_ulong, H_enum, H_enum, H_ptr], import_result = H_long\<rparr>,
    \<lparr>import_name = ''fi_compare_atomicv'', import_args = [H_ptr, H_ptr, H_ptr, H_size, H_ptr, H_ptr, H_size, H_ptr, H_ptr, H_size, H_ulong, H_ulong, H_ulong, H_enum, H_enum, H_ptr], import_result = H_long\<rparr>,
    \<lparr>import_name = ''fi_compare_atomicmsg'', import_args = [H_ptr, H_ptr, H_ptr, H_ptr, H_size, H_ptr, H_ptr, H_size, H_ulong], import_result = H_long\<rparr>,
    \<lparr>import_name = ''fi_atomicvalid'', import_args = [H_ptr, H_enum, H_enum, H_ptr], import_result = H_int\<rparr>,
    \<lparr>import_name = ''fi_fetch_atomicvalid'', import_args = [H_ptr, H_enum, H_enum, H_ptr], import_result = H_int\<rparr>,
    \<lparr>import_name = ''fi_compare_atomicvalid'', import_args = [H_ptr, H_enum, H_enum, H_ptr], import_result = H_int\<rparr>,
    \<lparr>import_name = ''fi_query_atomic'', import_args = [H_ptr, H_enum, H_enum, H_ptr, H_ulong], import_result = H_int\<rparr>]"

definition hs_fi_collective_imports :: "hs_import list" where
  "hs_fi_collective_imports = [
    \<lparr>import_name = ''fi_av_set'', import_args = [H_ptr, H_ptr, H_ptr, H_ptr], import_result = H_int\<rparr>,
    \<lparr>import_name = ''fi_av_set_union'', import_args = [H_ptr, H_ptr], import_result = H_int\<rparr>,
    \<lparr>import_name = ''fi_av_set_intersect'', import_args = [H_ptr, H_ptr], import_result = H_int\<rparr>,
    \<lparr>import_name = ''fi_av_set_diff'', import_args = [H_ptr, H_ptr], import_result = H_int\<rparr>,
    \<lparr>import_name = ''fi_av_set_insert'', import_args = [H_ptr, H_ulong], import_result = H_int\<rparr>,
    \<lparr>import_name = ''fi_av_set_remove'', import_args = [H_ptr, H_ulong], import_result = H_int\<rparr>,
    \<lparr>import_name = ''fi_av_set_addr'', import_args = [H_ptr, H_ptr], import_result = H_int\<rparr>,
    \<lparr>import_name = ''fi_join_collective'', import_args = [H_ptr, H_ulong, H_ptr, H_ulong, H_ptr, H_ptr], import_result = H_int\<rparr>,
    \<lparr>import_name = ''fi_barrier'', import_args = [H_ptr, H_ulong, H_ptr], import_result = H_long\<rparr>,
    \<lparr>import_name = ''fi_broadcast'', import_args = [H_ptr, H_ptr, H_size, H_ptr, H_ulong, H_ulong, H_enum, H_ulong, H_ptr], import_result = H_long\<rparr>,
    \<lparr>import_name = ''fi_alltoall'', import_args = [H_ptr, H_ptr, H_size, H_ptr, H_ptr, H_ptr, H_ulong, H_enum, H_ulong, H_ptr], import_result = H_long\<rparr>,
    \<lparr>import_name = ''fi_allreduce'', import_args = [H_ptr, H_ptr, H_size, H_ptr, H_ptr, H_ptr, H_ulong, H_enum, H_enum, H_ulong, H_ptr], import_result = H_long\<rparr>,
    \<lparr>import_name = ''fi_allgather'', import_args = [H_ptr, H_ptr, H_size, H_ptr, H_ptr, H_ptr, H_ulong, H_enum, H_ulong, H_ptr], import_result = H_long\<rparr>,
    \<lparr>import_name = ''fi_reduce_scatter'', import_args = [H_ptr, H_ptr, H_size, H_ptr, H_ptr, H_ptr, H_ulong, H_enum, H_enum, H_ulong, H_ptr], import_result = H_long\<rparr>,
    \<lparr>import_name = ''fi_reduce'', import_args = [H_ptr, H_ptr, H_size, H_ptr, H_ptr, H_ptr, H_ulong, H_ulong, H_enum, H_enum, H_ulong, H_ptr], import_result = H_long\<rparr>,
    \<lparr>import_name = ''fi_scatter'', import_args = [H_ptr, H_ptr, H_size, H_ptr, H_ptr, H_ptr, H_ulong, H_ulong, H_enum, H_ulong, H_ptr], import_result = H_long\<rparr>,
    \<lparr>import_name = ''fi_gather'', import_args = [H_ptr, H_ptr, H_size, H_ptr, H_ptr, H_ptr, H_ulong, H_ulong, H_enum, H_ulong, H_ptr], import_result = H_long\<rparr>,
    \<lparr>import_name = ''fi_query_collective'', import_args = [H_ptr, H_enum, H_ptr, H_ulong], import_result = H_int\<rparr>]"

definition linked_imports :: "hs_import list" where
  "linked_imports =
     hs_fabric_imports_1 @ hs_fabric_imports_2 @ hs_fabric_imports_3 @ hs_fabric_imports_4 @ hs_fi_cm_imports @
     hs_fi_domain_imports @ hs_fi_endpoint_imports @ hs_fi_eq_imports"

definition hs_imports :: "hs_import list" where
  "hs_imports = linked_imports @ hs_fi_rma_imports @ hs_fi_tagged_imports @ hs_fi_atomic_imports @ hs_fi_collective_imports"

lemmas import_defs = hs_imports_def linked_imports_def hs_fabric_imports_1_def hs_fabric_imports_2_def hs_fabric_imports_3_def hs_fabric_imports_4_def hs_fi_cm_imports_def hs_fi_domain_imports_def hs_fi_endpoint_imports_def hs_fi_eq_imports_def hs_fi_rma_imports_def hs_fi_tagged_imports_def hs_fi_atomic_imports_def hs_fi_collective_imports_def

subsection \<open>A call from Haskell\<close>

text \<open>The numbers of a Haskell type, and how the foreign function interface passes them.\<close>

definition hs_range :: "hs_type \<Rightarrow> int \<Rightarrow> bool" where
  "hs_range h i \<longleftrightarrow> (if hs_signed h then - (2 ^ (8 * hs_width h - 1)) \<le> i \<and> i < 2 ^ (8 * hs_width h - 1)
     else 0 \<le> i \<and> i < 2 ^ (8 * hs_width h))"

definition marshal :: "hs_type \<Rightarrow> int \<Rightarrow> cval" where
  "marshal h i = cval_of_int (hs_width h) i"

definition unmarshal :: "hs_type \<Rightarrow> cval \<Rightarrow> int" where
  "unmarshal h v = cval_int (hs_signed h) v"

text \<open>A call of an imported function, in a program linked with the given stubs.\<close>

definition hs_call :: "'p provider \<Rightarrow> stub list \<Rightarrow> hs_import \<Rightarrow> int list \<Rightarrow> 'p machine \<Rightarrow> (int \<times> 'p machine) option" where
  "hs_call P stubs imp is s = do {
     stb \<leftarrow> find (\<lambda>b. symbol b = import_name imp) stubs;
     (v, s') \<leftarrow> stub_call P stb (map2 marshal (import_args imp) is) s;
     Some (unmarshal (import_result imp) v, s') }"

subsection \<open>Imports and prototypes\<close>

definition passes_as :: "hs_type \<Rightarrow> arg_type \<Rightarrow> bool" where
  "passes_as h t \<longleftrightarrow> hs_width h = width t \<and> hs_signed h = is_signed t"

definition import_ok :: "hs_import \<Rightarrow> signature \<Rightarrow> bool" where
  "import_ok imp sg \<longleftrightarrow> list_all2 passes_as (import_args imp) (params sg) \<and> passes_as (import_result imp) (result sg)"

lemma imports_ok: "list_all2 (\<lambda>imp (f, sg). import_name imp = f \<and> import_ok imp sg) hs_imports api_signatures"
  unfolding signature_defs import_defs by (simp add: import_ok_def passes_as_def width_def hs_signed_def is_signed_def)

lemma linked_names: "map import_name linked_imports = map symbol compiled_stubs"
  unfolding import_defs stub_defs by simp

lemma import_names: "map import_name hs_imports = map symbol all_stubs"
  using imports_ok unfolding symbols by (induction rule: list_all2_induct) auto

lemma import_lookup:
  "list_all2 (\<lambda>imp (f, sg). import_name imp = f \<and> import_ok imp sg) xs ys \<Longrightarrow> imp \<in> set xs \<Longrightarrow>
    set ys \<subseteq> set api_signatures \<Longrightarrow> \<exists>sg. map_of api_signatures (import_name imp) = Some sg \<and> import_ok imp sg"
proof (induction rule: list_all2_induct)
  case (Cons x xs y ys)
  then show ?case using map_of_is_SomeI [OF symbols_differ, of "fst y" "snd y"] by (cases y) auto
qed simp

lemma marshal_number:
  assumes "passes_as h t" and "hs_range h i"
  shows "bytes (marshal h i) = width t \<and> cval_int (is_signed t) (marshal h i) = i"
  using assms by (cases t) (auto simp: passes_as_def hs_range_def marshal_def cval_of_int_def width_def is_signed_def
      int_word_sint uint_word_of_int)

lemma marshal_numbers:
  assumes "list_all2 passes_as hs ts" and "list_all2 hs_range hs is"
  shows "accepts ts (map2 marshal hs is) \<and> map2 (\<lambda>t. cval_int (is_signed t)) ts (map2 marshal hs is) = is"
  using assms
proof (induction hs ts arbitrary: "is" rule: list_all2_induct)
  case (Cons h hs t ts)
  then show ?case by (auto simp: accepts_def list_all2_Cons1 marshal_number)
qed (simp add: accepts_def)

lemma find_symbol:
  assumes "f \<in> symbol ` set stubs"
  obtains stb where "find (\<lambda>b. symbol b = f) stubs = Some stb" and "stb \<in> set stubs" and "symbol stb = f"
proof -
  obtain stb where stb: "find (\<lambda>b. symbol b = f) stubs = Some stb"
    using assms by (cases "find (\<lambda>b. symbol b = f) stubs") (auto simp: find_None_iff)
  then have "stb \<in> set stubs \<and> symbol stb = f" by (auto simp: find_Some_iff)
  with stb that show ?thesis by blast
qed

lemma number64: "bytes v = 8 \<Longrightarrow> cval_int False v = i \<Longrightarrow> v = V64 (word_of_int i)"
  by (cases v) auto

text \<open>A linked import calls its stub with the numbers as values of the parameters.\<close>

lemma linked_call:
  assumes "imp \<in> set linked_imports" and "map_of api_signatures (import_name imp) = Some sg"
    and "list_all2 hs_range (import_args imp) is"
  obtains stb where "stb \<in> set compiled_stubs" and "symbol stb = import_name imp" and "passes_as (import_result imp) (result sg)"
    and "accepts (stub_params stb) (map2 marshal (import_args imp) is)"
    and "map2 (\<lambda>t. cval_int (is_signed t)) (params sg) (map2 marshal (import_args imp) is) = is"
    and "hs_call P compiled_stubs imp is s = do {
       (v, s') \<leftarrow> stub_call P stb (map2 marshal (import_args imp) is) s;
       Some (cval_int (is_signed (result sg)) v, s') }"
proof -
  have "imp \<in> set hs_imports" using assms(1) by (simp add: hs_imports_def)
  from import_lookup [OF imports_ok this] have
    sg: "map_of api_signatures (import_name imp) = Some sg" "import_ok imp sg" using assms(2) by auto
  have "import_name imp \<in> symbol ` set compiled_stubs"
    using assms(1) arg_cong [OF linked_names, of set] by force
  then obtain stb where stb: "find (\<lambda>b. symbol b = import_name imp) compiled_stubs = Some stb"
      "stb \<in> set compiled_stubs" "symbol stb = import_name imp"
    by (rule find_symbol)
  have "stb \<in> set all_stubs" using stb(2) by (simp add: all_stubs_def)
  from stub_okE [OF this] have ok: "stub_ok stb sg" using sg(1) stb(3) by (metis option.inject)
  have "filter (\<lambda>t. t \<noteq> T_enum) (params sg) = params sg"
    using compiled_okD [OF stb(2)] sg(1) stb(3) by (auto intro!: filter_True)
  with ok have "fits (stub_params stb) (params sg)" by (simp add: stub_ok_def)
  moreover have nums: "accepts (params sg) (map2 marshal (import_args imp) is)"
      "map2 (\<lambda>t. cval_int (is_signed t)) (params sg) (map2 marshal (import_args imp) is) = is"
    using marshal_numbers [OF _ assms(3)] sg(2) unfolding import_ok_def by blast+
  ultimately have "accepts (stub_params stb) (map2 marshal (import_args imp) is)"
    unfolding fits_def accepts_def by (auto simp: list_all2_conv_all_nth)
  moreover have "passes_as (import_result imp) (result sg)" using sg(2) by (simp add: import_ok_def)
  moreover from this have "hs_call P compiled_stubs imp is s = do {
       (v, s') \<leftarrow> stub_call P stb (map2 marshal (import_args imp) is) s;
       Some (cval_int (is_signed (result sg)) v, s') }"
    by (simp add: hs_call_def stb(1) unmarshal_def passes_as_def)
  ultimately show ?thesis using that stb(2,3) nums(2) by blast
qed

subsection \<open>Properties\<close>

text \<open>C22. The bindings import every inline function of the API, in the order of the headers, each at a Haskell type
  whose arguments and result have the width and the signedness of the types of its C prototype.\<close>

theorem imports_agree:
  "list_all2 (\<lambda>imp (f, sg). import_name imp = f \<and> list_all2 passes_as (import_args imp) (params sg) \<and>
     passes_as (import_result imp) (result sg)) hs_imports api_signatures"
  using imports_ok by (simp only: import_ok_def)

text \<open>C3. From a Haskell program to the provider and back: a call of an imported function of a compiled module
  that hands its parameters to an operation, with numbers in the range of their Haskell types, reaches the
  function in the documented slot of the table of the object that is its first argument. The C code reads
  every argument as the number the Haskell program gave, and the number the program gets is the one the
  C code returned; without the table or the slot the call is undefined.\<close>

theorem haskell_call_reaches_operation:
  assumes "imp \<in> set linked_imports" and "map_of api_signatures (import_name imp) = Some sg"
    and "calls sg = Some (fs, tab, table, opn)" and "list_all2 hs_range (import_args imp) is"
  shows "\<exists>p as. accepts (params sg) (V64 p # as) \<and>
    map2 (\<lambda>t. cval_int (is_signed t)) (params sg) (V64 p # as) = is \<and>
    hs_call P compiled_stubs imp is s = (case meth s p fs tab table opn of
        None \<Rightarrow> None
      | Some f \<Rightarrow> if f = NULL then None
          else do {
            (v, s') \<leftarrow> invoke P f (hs_width (import_result imp)) (V64 p # as) s;
            Some (cval_int (is_signed (result sg)) v, s') })"
proof -
  define vs where "vs = map2 marshal (import_args imp) is"
  obtain stb where stb: "stb \<in> set compiled_stubs" "symbol stb = import_name imp"
      "passes_as (import_result imp) (result sg)" "accepts (stub_params stb) vs"
      "map2 (\<lambda>t. cval_int (is_signed t)) (params sg) vs = is"
    and call: "hs_call P compiled_stubs imp is s = do {
       (v, s') \<leftarrow> stub_call P stb vs s; Some (cval_int (is_signed (result sg)) v, s') }"
    unfolding vs_def by (rule linked_call [OF assms(1,2,4)])
  have all: "stb \<in> set all_stubs" and sg: "map_of api_signatures (symbol stb) = Some sg"
    using stb(1,2) assms(2) by (simp_all add: all_stubs_def)
  have no_enum: "T_enum \<notin> set (params sg)" by (rule compiled_okD [OF stb(1) sg])
  have acc: "accepts (params sg) vs" and w: "width (stub_result stb) = hs_width (import_result imp)"
    using stub_forwards [OF all sg no_enum stb(4)] stb(3) by (simp_all add: passes_as_def)
  from stub_operation [OF all sg assms(3) no_enum stb(4), of P s, unfolded w] obtain p as where
    "vs = V64 p # as" "stub_call P stb vs s = (case meth s p fs tab table opn of
        None \<Rightarrow> None
      | Some f \<Rightarrow> if f = NULL then None else invoke P f (hs_width (import_result imp)) vs s)" by blast
  note facts = this stb(5) acc
  have "hs_call P compiled_stubs imp is s = (case meth s p fs tab table opn of
        None \<Rightarrow> None
      | Some f \<Rightarrow> if f = NULL then None
          else do {
            (v, s') \<leftarrow> invoke P f (hs_width (import_result imp)) vs s;
            Some (cval_int (is_signed (result sg)) v, s') })"
    unfolding call facts(2) by (simp split: option.split)
  with facts show ?thesis by blast
qed

theorem haskell_call_reaches_operation_witness:
  "hs_call cq_provider compiled_stubs
     \<lparr>import_name = ''fi_cq_read'', import_args = [H_ptr, H_ptr, H_size], import_result = H_long\<rparr>
     [0x1000, 0x700, 4] example_cq = Some (2, example_cq)"
proof -
  let ?imp = "\<lparr>import_name = ''fi_cq_read'', import_args = [H_ptr, H_ptr, H_size], import_result = H_long\<rparr>"
  let ?sg = "\<lparr>params = [T_ptr, T_ptr, T_size], result = T_ssize, calls = Some (struct_fid_cq, ''ops'', struct_fi_ops_cq, ''read'')\<rparr>"
  have imp: "?imp \<in> set linked_imports" by (simp add: linked_imports_def hs_fi_eq_imports_def)
  have "(''fi_cq_read'', ?sg) \<in> set fi_eq_signatures" by (simp add: fi_eq_signatures_def)
  then have "(''fi_cq_read'', ?sg) \<in> set api_signatures" by (simp add: api_signatures_def)
  from map_of_is_SomeI [OF symbols_differ this] have sg: "map_of api_signatures (import_name ?imp) = Some ?sg" by simp
  have range: "list_all2 hs_range (import_args ?imp) [0x1000, 0x700, 4]" by (simp add: hs_range_def hs_signed_def)
  have slot: "meth example_cq 0x1000 struct_fid_cq ''ops'' struct_fi_ops_cq ''read'' = Some 0x31" by code_simp
  obtain p as where args: "accepts (params ?sg) (V64 p # as)"
      "map2 (\<lambda>t. cval_int (is_signed t)) (params ?sg) (V64 p # as) = [0x1000, 0x700, 4]"
    and call: "hs_call cq_provider compiled_stubs ?imp [0x1000, 0x700, 4] example_cq =
      (case meth example_cq p struct_fid_cq ''ops'' struct_fi_ops_cq ''read'' of
        None \<Rightarrow> None
      | Some f \<Rightarrow> if f = NULL then None
          else do {
            (v, s') \<leftarrow> invoke cq_provider f (hs_width (import_result ?imp)) (V64 p # as) example_cq;
            Some (cval_int (is_signed (result ?sg)) v, s') })"
    using haskell_call_reaches_operation [OF imp sg _ range, of struct_fid_cq "''ops''" struct_fi_ops_cq "''read''"
      cq_provider example_cq] by auto
  have "V64 p # as = [V64 0x1000, V64 0x700, V64 4]"
  proof -
    obtain v w where as: "as = [v, w]" "bytes v = 8" "bytes w = 8"
      using args(1) by (auto simp: accepts_Cons accepts_Nil widths)
    from args(2) have p: "uint p = 0x1000" and v: "cval_int False v = 0x700" and w: "cval_int False w = 4"
      by (simp_all add: as(1) is_signed_def)
    from p have "p = 0x1000" by (simp add: word_uint_eq_iff)
    then show ?thesis using number64 [OF as(2) v] number64 [OF as(3) w] by (simp add: as(1))
  qed
  with call slot show ?thesis by (simp add: invoke_def cq_provider_def is_signed_def)
qed

text \<open>C23. The exposed modules of remote memory access, tagged messages, atomics and collectives import functions
  whose stubs are in files the package does not compile: every function of the other modules has its symbol,
  and a call of one of theirs has none to go to.\<close>

theorem unlinked_modules:
  assumes "imp \<in> set hs_imports"
  shows "(imp \<in> set linked_imports \<longrightarrow> import_name imp \<in> symbol ` set compiled_stubs) \<and>
    (imp \<in> set (hs_fi_rma_imports @ hs_fi_tagged_imports @ hs_fi_atomic_imports @ hs_fi_collective_imports) \<longrightarrow>
       import_name imp \<in> symbol ` set all_stubs \<and> hs_call P compiled_stubs imp is s = None)"
proof -
  let ?rest = "hs_fi_rma_imports @ hs_fi_tagged_imports @ hs_fi_atomic_imports @ hs_fi_collective_imports"
  have names: "set (map import_name linked_imports) = symbol ` set compiled_stubs" by (simp only: linked_names set_map)
  have "distinct (map import_name (linked_imports @ ?rest))"
    using import_names symbols symbols_differ by (simp only: hs_imports_def)
  then have "import_name imp \<notin> symbol ` set compiled_stubs" if "imp \<in> set ?rest"
    using that names [symmetric] by auto
  then have "find (\<lambda>b. symbol b = import_name imp) compiled_stubs = None" if "imp \<in> set ?rest"
    using that unfolding find_None_iff by (metis imageI)
  then have "hs_call P compiled_stubs imp is s = None" if "imp \<in> set ?rest"
    using that by (simp add: hs_call_def)
  moreover have "import_name imp \<in> symbol ` set all_stubs"
    using assms arg_cong [OF import_names, of set] by force
  ultimately show ?thesis using names by auto
qed

theorem unlinked_modules_witness:
  "hs_call cq_provider compiled_stubs
     \<lparr>import_name = ''fi_av_set_union'', import_args = [H_ptr, H_ptr], import_result = H_int\<rparr> [1, 2] example_cq = None"
proof -
  let ?imp = "\<lparr>import_name = ''fi_av_set_union'', import_args = [H_ptr, H_ptr], import_result = H_int\<rparr>"
  have "?imp \<in> set hs_fi_collective_imports" by (simp add: hs_fi_collective_imports_def)
  then show ?thesis using unlinked_modules [of ?imp cq_provider "[1, 2]" example_cq] by (simp add: hs_imports_def)
qed

end
