(* ===== verification/Hs_Msg.thy ===== *)
theory Hs_Msg
  imports Msg Hs_Types
begin

section \<open>The Haskell entry to msg: Msg.hs\<close>

text \<open>
  \<open>msg c v\<close> of \<open>Msg.hs\<close> takes an argument count and a list of C strings, allocates a local \<open>Ptr CString\<close> with
  \<open>alloca\<close>, stores the strings with \<open>pokeArray\<close> and calls the C function \<open>msg\<close> with the count and the
  local as \<open>argv\<close>. \<open>alloca\<close> takes its size from the type of the pointer, one \<open>CString\<close> of 8 bytes, and releases
  the memory when the call is over.
\<close>

definition argv_local :: fields where
  "argv_local = [(''ptr'', Ptr)]"

fun poke_array :: "ptr \<Rightarrow> ptr list \<Rightarrow> 'p machine \<Rightarrow> 'p machine option" where
  "poke_array p [] s = Some s"
| "poke_array p (v # vs) s = do { s1 \<leftarrow> st p (V64 v) s; poke_array (p + 8) vs s1 }"

definition hs_msg :: "'p provider \<Rightarrow> linkage \<Rightarrow> u32 \<Rightarrow> ptr list \<Rightarrow> 'p machine \<Rightarrow> (int \<times> 'p machine) option" where
  "hs_msg P L c v s = do {
     (p, s1) \<leftarrow> push argv_local s;
     s2 \<leftarrow> poke_array p v s1;
     (code, s3) \<leftarrow> msg P L c p s2;
     Some (sint code, pop p argv_local s3) }"

lemma argv_leaves: "leaves (Struct argv_local) = [(0, 8)]" "sizeof (Struct argv_local) = 8"
  by (simp_all add: argv_local_def layout_simps)

lemma push_argv:
  assumes "push argv_local s = Some (p, s')"
  shows "p = sp s \<and> mem s' = (mem s)(sp s \<mapsto> Uninit 8) \<and> sp s' = sp s + 16 \<and> env s' = env s"
  using assms by (auto simp: push_def frame_def argv_leaves roundup_def simp del: leaves.simps sizeof.simps split: if_splits)

subsection \<open>Properties\<close>

text \<open>C20. \<open>msg\<close> of \<open>Msg.hs\<close> works for one string, which C then gets as \<open>argv[0]\<close>, and gives the exit code of
  the C function as a number; with two or more, as a program name with an address are, it stores past the
  end of what it allocated: where nothing follows the allocation the call is undefined, whatever the count.\<close>

theorem argv_holds_one_string:
  assumes "room argv_local s" and "mem s (sp s + 8) = None"
  shows "(2 \<le> length v \<longrightarrow> hs_msg P L c v s = None) \<and>
    (v = [a] \<longrightarrow> hs_msg P L c v s = do {
       (code, s') \<leftarrow> msg P L c (sp s) (s\<lparr>mem := (mem s)(sp s \<mapsto> Init (V64 a)), sp := sp s + 16\<rparr>);
       Some (sint code, pop (sp s) argv_local s') })"
proof -
  obtain p s1 where push: "push argv_local s = Some (p, s1)" using assms(1) by (simp add: push_def)
  note f = push_argv [OF push]
  have none: "poke_array p v s1 = None" if len: "2 \<le> length v"
  proof -
    obtain x y vs where "v = x # y # vs" using len by (cases v rule: remdups_adj.cases) auto
    then show ?thesis using f assms(2) by (auto simp: st_def bind_eq_None_conv split: option.splits)
  qed
  have one: "poke_array p [a] s1 = Some (s\<lparr>mem := (mem s)(sp s \<mapsto> Init (V64 a)), sp := sp s + 16\<rparr>)"
    using f by (auto simp: st_def)
  show ?thesis using none one f push by (simp add: hs_msg_def del: poke_array.simps)
qed

theorem argv_holds_one_string_witness:
  "hs_msg (example_program 0xFFFFFFFF) example_syms 1 [0x2200, 0x2300] example_process = None"
proof -
  have "mem example_process 0x9000 = None" "mem example_process 0x9008 = None" by code_simp+
  moreover have sp: "sp example_process = 0x9000" by (simp add: example_process_def boot_def)
  ultimately have "room argv_local example_process" "mem example_process (sp example_process + 8) = None"
    by (simp_all add: room_def frame_def argv_leaves del: leaves.simps sizeof.simps)
  then show ?thesis using argv_holds_one_string [of example_process "[0x2200, 0x2300]"] by simp
qed

end
