(* ===== verification/Osd.thy ===== *)
theory Osd
  imports Fabric_Prelude "HOL-Library.Word"
begin

section \<open>The OS layer: unix/osd.h\<close>

text \<open>
  The complex numbers of the atomic tests. \<open>OFI_COMPLEX_OPS\<close> defines the same five functions for
  \<open>float\<close>, \<open>double\<close> and \<open>long double\<close>; here they take the arithmetic \<open>F\<close> of the component type
  as their argument. A complex value is its real and its imaginary part; addition and comparison
  work by parts, multiplication is the compiler's, a complex value in a condition is compared
  with zero, and the 0 or 1 of a condition is returned as a complex value. The functions compare,
  add and multiply and nothing else, so they need no more of the floating point type.
\<close>

record 'f c_complex =
  re :: 'f
  im :: 'f

record 'f arithmetic =
  fl_add :: "'f \<Rightarrow> 'f \<Rightarrow> 'f"
  fl_eq :: "'f \<Rightarrow> 'f \<Rightarrow> bool"
  fl_int :: "int \<Rightarrow> 'f"
  fl_cmul :: "'f c_complex \<Rightarrow> 'f c_complex \<Rightarrow> 'f c_complex"

definition ft_startup :: "32 word" where
  "ft_startup = 0"

text \<open>A condition \<open>b\<close> as a value of the complex type; a complex value as a condition.\<close>

definition complex_of_bool :: "'f arithmetic \<Rightarrow> bool \<Rightarrow> 'f c_complex" where
  "complex_of_bool F b = \<lparr>re = fl_int F (if b then 1 else 0), im = fl_int F 0\<rparr>"

definition complex_eq :: "'f arithmetic \<Rightarrow> 'f c_complex \<Rightarrow> 'f c_complex \<Rightarrow> bool" where
  "complex_eq F v1 v2 \<longleftrightarrow> fl_eq F (re v1) (re v2) \<and> fl_eq F (im v1) (im v2)"

definition complex_nonzero :: "'f arithmetic \<Rightarrow> 'f c_complex \<Rightarrow> bool" where
  "complex_nonzero F v \<longleftrightarrow> \<not> (fl_eq F (re v) (fl_int F 0) \<and> fl_eq F (im v) (fl_int F 0))"

definition ofi_complex_sum :: "'f arithmetic \<Rightarrow> 'f c_complex \<Rightarrow> 'f c_complex \<Rightarrow> 'f c_complex" where
  "ofi_complex_sum F v1 v2 = \<lparr>re = fl_add F (re v1) (re v2), im = fl_add F (im v1) (im v2)\<rparr>"

definition ofi_complex_mul :: "'f arithmetic \<Rightarrow> 'f c_complex \<Rightarrow> 'f c_complex \<Rightarrow> 'f c_complex" where
  "ofi_complex_mul F v1 v2 = fl_cmul F v1 v2"

definition ofi_complex_equ :: "'f arithmetic \<Rightarrow> 'f c_complex \<Rightarrow> 'f c_complex \<Rightarrow> 32 word" where
  "ofi_complex_equ F v1 v2 = (if complex_eq F v1 v2 then 1 else 0)"

definition ofi_complex_land :: "'f arithmetic \<Rightarrow> 'f c_complex \<Rightarrow> 'f c_complex \<Rightarrow> 'f c_complex" where
  "ofi_complex_land F v1 v2 = complex_of_bool F (complex_nonzero F v1 \<and> complex_nonzero F v2)"

definition ofi_complex_lor :: "'f arithmetic \<Rightarrow> 'f c_complex \<Rightarrow> 'f c_complex \<Rightarrow> 'f c_complex" where
  "ofi_complex_lor F v1 v2 = complex_of_bool F (complex_nonzero F v1 \<or> complex_nonzero F v2)"

subsection \<open>The logical operations\<close>

text \<open>With an arithmetic that tells 0 from 1 the logical operations give truth values that the
  next operation reads back, so that a chain of them is the logical formula it looks like.\<close>

definition tells_01 :: "'f arithmetic \<Rightarrow> bool" where
  "tells_01 F \<longleftrightarrow> fl_eq F (fl_int F 0) (fl_int F 0) \<and> \<not> fl_eq F (fl_int F 1) (fl_int F 0)"

lemma truth_back: "tells_01 F \<Longrightarrow> complex_nonzero F (complex_of_bool F b) = b"
  by (simp add: tells_01_def complex_nonzero_def complex_of_bool_def)

lemma land_lor_truth:
  assumes "tells_01 F"
  shows "complex_nonzero F (ofi_complex_land F v1 v2) = (complex_nonzero F v1 \<and> complex_nonzero F v2)"
    and "complex_nonzero F (ofi_complex_lor F v1 v2) = (complex_nonzero F v1 \<or> complex_nonzero F v2)"
  by (simp_all add: ofi_complex_land_def ofi_complex_lor_def truth_back [OF assms])

lemma land_lor_assoc:
  assumes "tells_01 F"
  shows "ofi_complex_land F (ofi_complex_land F u v) w = ofi_complex_land F u (ofi_complex_land F v w)"
    and "ofi_complex_lor F (ofi_complex_lor F u v) w = ofi_complex_lor F u (ofi_complex_lor F v w)"
    and "ofi_complex_land F u (ofi_complex_lor F v w) =
      ofi_complex_lor F (ofi_complex_land F u v) (ofi_complex_land F u w)"
  by (simp_all add: ofi_complex_land_def ofi_complex_lor_def truth_back [OF assms] conj_assoc disj_assoc conj_disj_distribL)

text \<open>Without a number that differs from itself a value is equal to itself; so a value that is not
  equal to itself has such a part.\<close>

lemma equ_self: "ofi_complex_equ F v v = 0 \<longleftrightarrow> \<not> fl_eq F (re v) (re v) \<or> \<not> fl_eq F (im v) (im v)"
  by (simp add: ofi_complex_equ_def complex_eq_def)

end
