(* ===== verification/Spec2Isabelle.thy ===== *)
theory Spec2Isabelle
  imports Api_Layout Api_Calls Msg_Frame Msg_Types Hs_Storable Hs_Imports Hs_Msg Osd
begin

text \<open>
  A model of the C code of xlibfabric, the Haskell bindings of libfabric 1.11, and of the declarations
  with which the bindings reach it.

  \<^bold>\<open>The program.\<close> The C code has three layers. The API headers under \<open>src/include\<close> (\<open>fabric.h\<close>,
  \<open>fi_errno.h\<close>, \<open>fi_domain.h\<close>, \<open>fi_endpoint.h\<close>, \<open>fi_eq.h\<close>, \<open>fi_cm.h\<close>, \<open>fi_rma.h\<close>, \<open>fi_tagged.h\<close>,
  \<open>fi_atomic.h\<close>, \<open>fi_collective.h\<close>, \<open>fi_trigger.h\<close>) declare structs, enumerations and flags, and 145
  inline functions. An object of the API is a struct that starts with \<open>struct fid\<close> and holds
  pointers to tables of function pointers, which a provider fills in; nearly every inline function
  calls one entry of one table. The stubs \<open>src/XLibfabric/RDMA/*.hsc.helper.c\<close> give the inline
  functions symbols the bindings can link to. \<open>shared.h\<close> and \<open>msg.c\<close> are a test program on top:
  options, macros that close and bind objects and report errors, and a client and server that
  connect, exchange a greeting and shut down. On the other side of the stubs the \<open>.hsc\<close> files declare a
  Haskell record for each struct and an import for each function, and \<open>Msg.hs\<close> calls \<open>msg\<close>.

  \<^bold>\<open>The machine.\<close> \<open>C_Layout\<close> describes a C type by its member list and computes sizes, alignments
  and offsets for LP64. \<open>C_Machine\<close> has the state: memory with one typed cell per scalar object, a
  stack pointer, and the private state of the code outside the repository. \<open>get\<close> and \<open>put\<close> are
  \<open>p->n\<close> and \<open>p->n = v\<close>, \<open>vcall\<close> is a call through a table, \<open>push\<close> and \<open>pop\<close> enter and leave the
  scope of a local struct (\<open>C_Locals\<close>). A step is a function to \<open>option\<close>: \<open>None\<close> is undefined
  behaviour (a null or unmapped pointer, a cell of another width or not initialised, a call through
  null, signed overflow, a shift past the width, a stack without room), and every error the code
  returns is a value. Words have the width of their C type, and \<open>sint\<close> reads the signed ones.
  Memory has no padding bytes, and reading a scalar at another width is undefined.

  \<^bold>\<open>The environment.\<close> A provider \<open>P\<close> is any function from a code address, the arguments and the
  machine to a result and a machine: nothing is assumed of it except by the hypotheses of a
  theorem. \<open>stable P I\<close>: its functions keep \<open>I\<close>. \<open>quiet P\<close>: they leave memory alone. \<open>logged P log\<close>:
  the private state records the addresses called, in order, as the value \<open>log\<close> of it. The linkage
  \<open>L\<close> (\<open>C_Link\<close>) gives the addresses of global variables, string literals and external functions.

  \<^bold>\<open>Theories.\<close>
  \<^item> \<open>Fabric_Prelude\<close>, \<open>C_Layout\<close>, \<open>C_Machine\<close>, \<open>C_Locals\<close>, \<open>C_Link\<close>, \<open>C_Objects\<close>, \<open>C_Enum\<close>: the machine and
    its lemmas: members are aligned, disjoint and inside the struct; what \<open>get\<close> returns after \<open>put\<close>
    at the same member, another one, or an object elsewhere; a local struct leaves memory as it was
    (locale \<open>local_call\<close>); an enumeration decodes (locale \<open>c_enum\<close>, interpreted for every enum).
  \<^item> \<open>Vtable\<close>: tables of operations. \<open>FI_CHECK_OP\<close>; the locale \<open>op_family\<close> states the contract of a
    family of direct calls (each runs the operation of its slot) and \<open>guarded_op\<close> that of a checked
    call; every family of the headers interprets one of them.
  \<^item> \<open>Fi_Errno\<close>, \<open>Fabric\<close>, \<open>Fi_Eq\<close>, \<open>Fi_Domain\<close>, \<open>Fi_Endpoint\<close>, \<open>Fi_Cm\<close>, \<open>Fi_Rma\<close>, \<open>Fi_Tagged\<close>, \<open>Fi_Atomic\<close>,
    \<open>Fi_Collective\<close>, \<open>Fi_Trigger\<close>: the headers of the same names, each with its enumerations (a
    datatype, its C values), flags, structs (\<open>struct_x\<close> is the member list of \<open>struct x\<close>) and inline
    functions under their C names, followed by the interpretation of the contracts.
  \<^item> \<open>Fi_Objects\<close>, \<open>Api_Layout\<close>: every object is its descriptor, entry formats extend one another,
    numbers and flags do not collide, versions, traffic classes, receive addresses and error
    returns go back and forth.
  \<^item> \<open>Api_Calls\<close>: programs of calls against their specification, the checked calls, and the calls
    that pass a struct on the stack.
  \<^item> \<open>Ffi_Stubs\<close>, \<open>Ffi_Calls\<close>: the helper files against the prototypes of the headers, and the call of
    a stub through its inline function to the provider (\<open>stub_call\<close>): the values the foreign side
    passes reach the slot of the object's table unchanged.
  \<^item> \<open>Shared\<close>, \<open>Shared_Variables\<close>: the types, inline functions and macros of \<open>shared.h\<close>; its variables, and
    what it means that the linker has placed them.
  \<^item> \<open>Declarations\<close>: the functions the headers declare without a body, with their prototypes;
    \<open>checked L P\<close> is the provider with the prototypes enforced.
  \<^item> \<open>Msg\<close>, \<open>Msg_Types\<close>, \<open>Msg_Total\<close>, \<open>Msg_Frame\<close>: \<open>msg.c\<close> with its possible sequences of calls as inductive
    relations; that its calls fit the prototypes; that it returns; which memory it writes itself.
  \<^item> \<open>Hs_Types\<close>, \<open>Hs_Records\<close>, \<open>Hs_Storable\<close>: the Haskell types of the bindings, the records of the \<open>.hsc\<close> files
    (\<open>hs_x\<close> is the record of \<open>struct_x\<close>) and what their \<open>peek\<close> and \<open>poke\<close> do to memory. The records of
    \<open>exact_records\<close> make exactly the accesses of their struct, and go back and forth; of the six others,
    those with unions lose members, and \<open>fi_eq_cm_entry\<close> reaches past its struct.
  \<^item> \<open>Hs_Imports\<close>: the imports against the prototypes, which of them have a compiled stub, and the call of
    one (\<open>hs_call\<close>) from numbers in a Haskell program to the slot of the object's table and back.
  \<^item> \<open>Hs_Msg\<close>: \<open>Msg.hs\<close>, whose \<open>argv\<close> has room for one string.
  \<^item> \<open>Osd\<close>: the complex numbers of \<open>unix/osd.h\<close>.

  \<^bold>\<open>Loops and returning.\<close> \<open>FT_CLOSEV_FID\<close> recurses on the distance of its counter to the bound, with a
  termination proof. The \<open>getopt\<close> loop of \<open>msg\<close> may run forever, so it is a \<open>partial_function\<close>; that it
  returns when \<open>getopt\<close> uses up the command line is a theorem of its own. That \<open>msg\<close> as a whole
  returns an exit code rests on \<open>library\<close> (\<open>Msg_Total\<close>): each function of the test library, started where
  the variables and objects of the program exist, returns a value of its type in such a state
  again. No other definition needs fuel.

  \<^bold>\<open>Not modelled.\<close> The functions \<open>shared.h\<close> and the headers only declare, such as \<open>ft_start_server\<close>,
  \<open>fi_getinfo\<close> or \<open>fi_dupinfo\<close>, have no body here: their declarations are in \<open>Declarations\<close>, and they are
  symbols called through \<open>P\<close>. The floating point arithmetic under the complex numbers of \<open>osd.h\<close> is
  an argument of \<open>Osd\<close>. The alternatives for \<open>FABRIC_DIRECT\<close>, a debug build
  and other systems than Linux include files the repository does not have. \<open>count_of\<close>,
  \<open>ARRAY_SIZE\<close>, \<open>TEST_ENUM_SET_N_RETURN\<close>, \<open>FT_PRINT_OPTS_USAGE\<close> and \<open>ft_sa_family\<close> are macros
  without a use in the repository. The precompiled headers are binaries. Of the
  bindings, the macros of \<open>.hsc\<close> and helper files belong to packages outside the repository: the model uses
  their documented meaning (an access has the offset of the C member and the size of the Haskell type; an
  import passes numbers of its types). Their constants (\<open>#num\<close>, \<open>FiErrorNo.chs\<close>) take their values from the
  headers and their imports of libfabric itself (\<open>#ccall\<close>) go to functions without a body here; neither is
  modelled. \<open>Scalable.hs\<close> and \<open>Main.hs\<close> are clients that print; \<open>Common.hs\<close> and the test suite have nothing to
  model.
\<close>

end
